(* ===== verification/Prelude.thy ===== *)
theory Prelude
  imports Main "HOL-Library.Word" "HOL-Library.State_Monad"
begin

text \<open>
  Shared ground of the development: the part of the C standard library the sources under
  \<^verbatim>\<open>src/src/\<close> call (character classes and case mapping of the C locale, \<open>strchr\<close>, \<open>strncmp\<close>,
  \<open>strtol\<close> and \<open>strtoul\<close> in base 10, \<open>snprintf\<close>, \<open>memcpy\<close>), written as executable functions on
  character lists, and the generic lemmas about them.

  Conventions. A \<open>const char *\<close> argument is the list of its characters before the terminating
  NUL, \<open>string option\<close> where the code tests it for \<open>NULL\<close>; so \<open>strlen\<close> is \<^term>\<open>length\<close> and the end
  of a string is the empty list. A pointer into a string is the suffix it points to, so two such
  pointers are equal exactly when the suffixes are. A writable buffer or heap block is the list of
  its bytes; a write outside it is \<^term>\<open>None\<close>. \<open>size_t\<close> and \<open>unsigned long\<close> are 64 bits, \<open>int\<close> is
  32 bits: the target is 64-bit Linux.
\<close>

named_theorems emits_intros "introduction rules of the effect calculus"
named_theorems trace_simps "how the observations on event lists compute"

section \<open>Words\<close>

lemma unat_ucast_mod: "unat (ucast w :: 'b::len word) = unat w mod 2 ^ LENGTH('b)"
  by (simp add: unsigned_ucast_eq take_bit_eq_mod)

lemma unat_bound: "unat (w :: 'a::len word) < 2 ^ LENGTH('a)"
  by (rule unsigned_less)

lemma unat_ucast_32_64 [simp]: "unat (ucast (w :: 32 word) :: 64 word) = unat w"
  using unat_bound [of w] by (simp add: unat_ucast_mod)

section \<open>Characters\<close>

abbreviation code :: "char \<Rightarrow> nat" where
  "code c \<equiv> of_char c"

definition c_isdigit :: "char \<Rightarrow> bool" where
  "c_isdigit c \<longleftrightarrow> 48 \<le> code c \<and> code c \<le> 57"

definition c_isupper :: "char \<Rightarrow> bool" where
  "c_isupper c \<longleftrightarrow> 65 \<le> code c \<and> code c \<le> 90"

definition c_islower :: "char \<Rightarrow> bool" where
  "c_islower c \<longleftrightarrow> 97 \<le> code c \<and> code c \<le> 122"

definition c_isalnum :: "char \<Rightarrow> bool" where
  "c_isalnum c \<longleftrightarrow> c_isdigit c \<or> c_isupper c \<or> c_islower c"

text \<open>Space, tab, newline, vertical tab, form feed, carriage return.\<close>

definition c_isspace :: "char \<Rightarrow> bool" where
  "c_isspace c \<longleftrightarrow> code c = 32 \<or> (9 \<le> code c \<and> code c \<le> 13)"

definition c_tolower :: "char \<Rightarrow> char" where
  "c_tolower c = (if c_isupper c then char_of (code c + 32) else c)"

text \<open>The characters before the first NUL: what a C string function sees of a buffer.\<close>

definition c_str :: "char list \<Rightarrow> string" where
  "c_str buffer = takeWhile (\<lambda>c. c \<noteq> CHR 0x00) buffer"

lemma code_less_256 [simp]: "code c < 256"
  by (metis of_char_of of_char_mod_256 mod_less_divisor zero_less_numeral)

lemma code_eq_iff [simp]: "code c = code d \<longleftrightarrow> c = d"
  by (simp add: of_char_eq_iff)

lemma c_tolower_idem [simp]: "c_tolower (c_tolower c) = c_tolower c"
  by (auto simp: c_tolower_def c_isupper_def)

lemma c_isupper_tolower [simp]: "\<not> c_isupper (c_tolower c)"
  by (auto simp: c_tolower_def c_isupper_def)

lemma code_tolower: "code (c_tolower c) = (if c_isupper c then code c + 32 else code c)"
  by (simp add: c_tolower_def c_isupper_def)

lemma c_tolower_nul_iff [simp]: "c_tolower c = CHR 0x00 \<longleftrightarrow> c = CHR 0x00"
proof
  assume "c_tolower c = CHR 0x00"
  then have "code (c_tolower c) = 0" by simp
  then have "code c = code (CHR 0x00)" by (simp add: code_tolower split: if_splits)
  then show "c = CHR 0x00" by (simp only: code_eq_iff)
qed (simp add: c_tolower_def c_isupper_def)

lemma c_str_no_nul: "CHR 0x00 \<notin> set (c_str s)"
  by (auto simp: c_str_def dest: set_takeWhileD)

lemma c_str_id: "CHR 0x00 \<notin> set s \<Longrightarrow> c_str s = s"
  by (auto simp: c_str_def takeWhile_eq_all_conv)

lemma c_str_append_nul: "CHR 0x00 \<notin> set s \<Longrightarrow> c_str (s @ CHR 0x00 # t) = s"
  unfolding c_str_def by (subst takeWhile_append2) auto

lemma c_str_cut [simp]: "c_str (s @ CHR 0x00 # t) = c_str s"
  by (induction s) (auto simp: c_str_def)

lemma length_c_str_le: "length (c_str s) \<le> length s"
  by (simp add: c_str_def length_takeWhile_le)

section \<open>String functions\<close>

text \<open>\<open>s[i]\<close> for an index up to the length: the terminator is part of the string.\<close>

definition char_at :: "string \<Rightarrow> nat \<Rightarrow> char" where
  "char_at s i = (if i < length s then s ! i else CHR 0x00)"

text \<open>\<open>strchr\<close>: the suffix that starts at the first occurrence.\<close>

definition c_strchr :: "string \<Rightarrow> char \<Rightarrow> string option" where
  "c_strchr s c = (case dropWhile (\<lambda>d. d \<noteq> c) s of [] \<Rightarrow> None | t \<Rightarrow> Some t)"

text \<open>\<open>strncmp(a, b, n) == 0\<close>.\<close>

definition c_strneq :: "string \<Rightarrow> string \<Rightarrow> nat \<Rightarrow> bool" where
  "c_strneq a b n \<longleftrightarrow> take n a = take n b"

lemma c_strchr_None_iff: "c_strchr s c = None \<longleftrightarrow> c \<notin> set s"
proof -
  have "c_strchr s c = None \<longleftrightarrow> dropWhile (\<lambda>d. d \<noteq> c) s = []"
    by (simp only: c_strchr_def split: list.split) simp
  then show ?thesis by (auto simp: dropWhile_eq_Nil_conv)
qed

lemma c_strchr_Some_iff:
  "c_strchr s c = Some t \<longleftrightarrow> (\<exists>l r. s = l @ c # r \<and> c \<notin> set l \<and> t = c # r)"
proof
  assume a: "c_strchr s c = Some t"
  then have d: "dropWhile (\<lambda>d. d \<noteq> c) s = t" and ne: "t \<noteq> []"
    by (auto simp: c_strchr_def split: list.splits)
  have h: "hd t = c"
    using d ne hd_dropWhile [of "\<lambda>d. d \<noteq> c" s] by auto
  have "s = takeWhile (\<lambda>d. d \<noteq> c) s @ c # tl t"
    using takeWhile_dropWhile_id [of "\<lambda>d. d \<noteq> c" s] d ne h by (metis list.collapse)
  moreover have "c \<notin> set (takeWhile (\<lambda>d. d \<noteq> c) s)"
    by (auto dest: set_takeWhileD)
  moreover have "t = c # tl t"
    using ne h by (metis list.collapse)
  ultimately show "\<exists>l r. s = l @ c # r \<and> c \<notin> set l \<and> t = c # r"
    by blast
next
  assume "\<exists>l r. s = l @ c # r \<and> c \<notin> set l \<and> t = c # r"
  then obtain l r where "s = l @ c # r" "c \<notin> set l" "t = c # r" by blast
  moreover from this have "dropWhile (\<lambda>d. d \<noteq> c) s = c # r"
    by (subst \<open>s = l @ c # r\<close>, subst dropWhile_append2) auto
  ultimately show "c_strchr s c = Some t" by (simp add: c_strchr_def)
qed

text \<open>A list has one split at the first occurrence of an element.\<close>

lemma first_split_unique:
  "a @ x # b = c @ x # d \<Longrightarrow> x \<notin> set a \<Longrightarrow> x \<notin> set c \<Longrightarrow> a = c \<and> b = d"
proof (induction a arbitrary: c)
  case Nil
  then show ?case by (cases c) auto
next
  case (Cons y a)
  then show ?case by (cases c) auto
qed

lemma c_strneq_prefix:
  assumes "length p = n"
  shows "c_strneq s p n \<longleftrightarrow> (\<exists>r. s = p @ r)"
proof
  assume "c_strneq s p n"
  with assms have "s = p @ drop n s"
    by (metis c_strneq_def append_take_drop_id order_refl take_all)
  then show "\<exists>r. s = p @ r" ..
qed (use assms in \<open>auto simp: c_strneq_def\<close>)

section \<open>Decimal numbers\<close>

definition digit_char :: "nat \<Rightarrow> char" where
  "digit_char d = char_of (48 + d)"

definition digit_value :: "char \<Rightarrow> nat" where
  "digit_value c = code c - 48"

text \<open>The text of \<open>%u\<close> (and of \<open>%ld\<close> for a value that is not negative).\<close>

fun decimal :: "nat \<Rightarrow> string" where
  "decimal n = (if n < 10 then [digit_char n] else decimal (n div 10) @ [digit_char (n mod 10)])"

declare decimal.simps [simp del]

definition signed_decimal :: "int \<Rightarrow> string" where
  "signed_decimal i = (if i < 0 then CHR ''-'' # decimal (nat (- i)) else decimal (nat i))"

definition digits_value :: "string \<Rightarrow> nat" where
  "digits_value ds = foldl (\<lambda>n c. 10 * n + digit_value c) 0 ds"

lemma digit_char_code [simp]: "d < 10 \<Longrightarrow> code (digit_char d) = 48 + d"
  by (simp add: digit_char_def)

lemma digit_value_digit_char [simp]: "d < 10 \<Longrightarrow> digit_value (digit_char d) = d"
  by (simp add: digit_value_def)

lemma c_isdigit_digit_char [simp]: "d < 10 \<Longrightarrow> c_isdigit (digit_char d)"
  by (simp add: c_isdigit_def)

lemma decimal_nonempty [simp]: "decimal n \<noteq> []"
  by (subst decimal.simps) simp

lemma Nil_not_decimal [simp]: "[] \<noteq> decimal n"
  using decimal_nonempty [of n] by metis

lemma decimal_all_digits: "list_all c_isdigit (decimal n)"
proof (induction n rule: decimal.induct)
  case (1 n)
  show ?case
  proof (cases "n < 10")
    case True
    then show ?thesis by (subst decimal.simps) simp
  next
    case False
    with "1.IH" show ?thesis by (subst decimal.simps) simp
  qed
qed

lemma digits_value_snoc: "digits_value (ds @ [c]) = 10 * digits_value ds + digit_value c"
  by (simp add: digits_value_def)

lemma digits_value_decimal [simp]: "digits_value (decimal n) = n"
proof (induction n rule: decimal.induct)
  case (1 n)
  show ?case
  proof (cases "n < 10")
    case True
    then show ?thesis by (subst decimal.simps) (simp add: digits_value_def)
  next
    case False
    with "1.IH" have "digits_value (decimal (n div 10)) = n div 10" by simp
    with False show ?thesis by (subst decimal.simps) (simp add: digits_value_snoc)
  qed
qed

lemma length_decimal_le: "n < 10 ^ k \<Longrightarrow> 0 < k \<Longrightarrow> length (decimal n) \<le> k"
proof (induction k arbitrary: n)
  case 0
  then show ?case by simp
next
  case (Suc k)
  show ?case
  proof (cases "n < 10")
    case True
    then show ?thesis by (subst decimal.simps) simp
  next
    case False
    with Suc.prems have "n div 10 < 10 ^ k" and "0 < k"
      by (auto intro!: Suc_leI simp: less_mult_imp_div_less mult.commute elim: contrapos_np)
    then have "length (decimal (n div 10)) \<le> k" by (rule Suc.IH)
    with False show ?thesis by (subst decimal.simps) simp
  qed
qed

lemma decimal_no_nul: "CHR 0x00 \<notin> set (decimal n)"
  using decimal_all_digits [of n] by (auto simp: list_all_iff c_isdigit_def)

lemma decimal_inject [simp]: "decimal m = decimal n \<longleftrightarrow> m = n"
  by (metis digits_value_decimal)

subsection \<open>\<open>strtoul\<close> and \<open>strtol\<close>\<close>

text \<open>
  Base 10. White space is skipped, one sign is taken, then the longest run of digits. Without
  digits the end pointer is the start of the string. A value too large is clamped and \<open>errno\<close> is
  set to \<open>ERANGE\<close> (the last component). \<open>strtoul\<close> negates a value that fits in \<open>unsigned long\<close> as an
  unsigned number when the sign is a minus.
\<close>

definition skip_space :: "string \<Rightarrow> string" where
  "skip_space s = dropWhile c_isspace s"

definition take_sign :: "string \<Rightarrow> bool \<times> string" where
  "take_sign s = (case s of
       [] \<Rightarrow> (False, [])
     | c # t \<Rightarrow> if c = CHR ''-'' then (True, t) else if c = CHR ''+'' then (False, t) else (False, s))"

definition c_strtoul :: "string \<Rightarrow> 64 word \<times> string \<times> bool" where
  "c_strtoul s =
     (let (negative, t) = take_sign (skip_space s);
          digits = takeWhile c_isdigit t;
          rest = dropWhile c_isdigit t;
          n = digits_value digits
      in if digits = [] then (0, s, False)
         else if n \<ge> 2 ^ 64 then (- 1, rest, True)
         else (if negative then - of_nat n else of_nat n, rest, False))"

definition c_strtol :: "string \<Rightarrow> int \<times> string \<times> bool" where
  "c_strtol s =
     (let (negative, t) = take_sign (skip_space s);
          digits = takeWhile c_isdigit t;
          rest = dropWhile c_isdigit t;
          i = (if negative then - int (digits_value digits) else int (digits_value digits))
      in if digits = [] then (0, s, False)
         else if i > 2 ^ 63 - 1 then (2 ^ 63 - 1, rest, True)
         else if i < - (2 ^ 63) then (- (2 ^ 63), rest, True)
         else (i, rest, False))"

lemma hd_decimal_digit: "c_isdigit (hd (decimal n))"
  using decimal_all_digits [of n] hd_in_set [OF decimal_nonempty, of n] by (simp add: list_all_iff)

lemma skip_space_decimal [simp]: "skip_space (decimal n) = decimal n"
proof -
  have "\<not> c_isspace (hd (decimal n))"
    using hd_decimal_digit [of n] by (auto simp: c_isdigit_def c_isspace_def)
  then show ?thesis
    unfolding skip_space_def by (cases "decimal n") auto
qed

lemma take_sign_decimal [simp]: "take_sign (decimal n) = (False, decimal n)"
proof -
  have "c_isdigit (hd (decimal n))" by (rule hd_decimal_digit)
  then show ?thesis
    by (cases "decimal n") (auto simp: take_sign_def c_isdigit_def)
qed

lemma takeWhile_decimal [simp]: "takeWhile c_isdigit (decimal n) = decimal n"
  using decimal_all_digits [of n] by (simp add: list_all_iff)

lemma dropWhile_decimal [simp]: "dropWhile c_isdigit (decimal n) = []"
  using decimal_all_digits [of n] by (simp add: list_all_iff)

text \<open>Round trips with the decimal printer.\<close>

lemma c_strtoul_decimal: "n < 2 ^ 64 \<Longrightarrow> c_strtoul (decimal n) = (of_nat n, [], False)"
  by (simp add: c_strtoul_def)

lemma c_strtol_decimal: "n < 2 ^ 63 \<Longrightarrow> c_strtol (decimal n) = (int n, [], False)"
  by (simp add: c_strtol_def)

subsection \<open>\<open>snprintf\<close>\<close>

text \<open>
  The result and the string left in the buffer: the text cut to fit the size with its NUL, and the
  full length as an \<open>int\<close>, negative when the length is not an \<open>int\<close>.
\<close>

definition INT_MAX :: nat where
  "INT_MAX = 2147483647"

definition c_snprintf :: "nat \<Rightarrow> string \<Rightarrow> int \<times> string" where
  "c_snprintf bytes text =
     (if length text \<le> INT_MAX then int (length text) else - 1, take (bytes - 1) text)"

lemma c_snprintf_fits:
  "length text < bytes \<Longrightarrow> length text \<le> INT_MAX \<Longrightarrow> c_snprintf bytes text = (int (length text), text)"
  by (simp add: c_snprintf_def)

lemma snprintf_negative [simp]:
  "(if n \<le> INT_MAX then int n else - 1) < 0 \<longleftrightarrow> INT_MAX < n"
  by simp

section \<open>Buffers\<close>

definition c_memcpy :: "char list \<Rightarrow> nat \<Rightarrow> char list \<Rightarrow> char list option" where
  "c_memcpy target offset source =
     (if offset + length source \<le> length target
      then Some (take offset target @ source @ drop (offset + length source) target) else None)"

definition c_store :: "char list \<Rightarrow> nat \<Rightarrow> char \<Rightarrow> char list option" where
  "c_store target index c = (if index < length target then Some (target[index := c]) else None)"

lemma length_c_memcpy: "c_memcpy t off s = Some t' \<Longrightarrow> length t' = length t"
  by (auto simp: c_memcpy_def split: if_splits)

lemma length_c_store: "c_store t i c = Some t' \<Longrightarrow> length t' = length t"
  by (auto simp: c_store_def split: if_splits)

text \<open>Conversions between \<open>int\<close> and \<open>size_t\<close>.\<close>

definition size_of_int :: "int \<Rightarrow> nat" where
  "size_of_int i = nat (i mod 2 ^ 64)"

definition int_of_size :: "nat \<Rightarrow> int" where
  "int_of_size n = (let m = int n mod 2 ^ 32 in if m < 2 ^ 31 then m else m - 2 ^ 32)"

lemma size_of_int_nonneg [simp]: "0 \<le> i \<Longrightarrow> i < 2 ^ 31 \<Longrightarrow> size_of_int i = nat i"
  by (simp add: size_of_int_def)

lemma int_of_size_small [simp]: "n < 2 ^ 31 \<Longrightarrow> int_of_size n = int n"
  by (simp add: int_of_size_def)

end
