(* ===== verification/Outside.thy ===== *)
theory Outside
  imports Prelude
begin

text \<open>
  The boundary of the program. The code under \<^verbatim>\<open>src/src/\<close> calls libpq, libmicrohttpd, json-c and
  the operating system; none of them is in the repository, so their behaviour is the record \<open>ext\<close>
  of arbitrary functions that every effectful definition takes as its first argument. Whatever they
  keep between calls (the heap, the database server, the network) is one value of an arbitrary type
  \<open>'x\<close>, threaded through a state monad; a json-c value is of an arbitrary type \<open>'j\<close>.

  Next to that state the model keeps the trace of what the program did at the boundary: what it
  acquired and released, each SQL statement with its parameters and its answer, each response, each
  line on the error stream, and undefined behaviour as an event of its own. The statements of the
  development are about traces, so they hold for every behaviour of the libraries.
\<close>

section \<open>The libraries\<close>

datatype mhd_result = MHD_NO | MHD_YES

datatype exec_status = PGRES_COMMAND_OK | PGRES_TUPLES_OK | PGRES_OTHER nat

datatype conn_status = CONNECTION_OK | CONNECTION_OTHER nat

datatype json_type =
  json_type_null | json_type_boolean | json_type_double | json_type_int | json_type_object
  | json_type_array | json_type_string

text \<open>What libpq's accessors say of one \<open>PGresult\<close>; \<open>pq_cell\<close> is \<open>PQgetvalue\<close>.\<close>

record pg_result =
  pq_status :: exec_status
  pq_ntuples :: int
  pq_nfields :: int
  pq_cell :: "int \<Rightarrow> int \<Rightarrow> string option"
  pq_sqlstate :: "string option"
  pq_message :: string

text \<open>
  One field per library function; a function that may fail or change the outside takes and returns
  the outside state. \<open>jc_alloc\<close> says whether json-c finds the memory for its next operation,
  \<open>jc_parse\<close> is \<open>json_tokener_parse_ex\<close> with the error and the end position read after it, and
  \<open>heap_fill\<close> gives the indeterminate contents of fresh memory.
\<close>

record ('x, 'j) ext =
  os_getenv :: "string \<Rightarrow> string option"
  os_sigemptyset :: "'x \<Rightarrow> int \<times> 'x"
  os_sigaddset :: "string \<Rightarrow> 'x \<Rightarrow> int \<times> 'x"
  os_sigprocmask :: "string \<Rightarrow> 'x \<Rightarrow> int \<times> 'x"
  os_sigwait :: "'x \<Rightarrow> int \<times> 'x"
  os_getch :: "'x \<Rightarrow> int \<times> 'x"
  heap_alloc :: "'x \<Rightarrow> bool \<times> 'x"
  heap_fill :: "'x \<Rightarrow> nat \<Rightarrow> char"
  pq_connect :: "string \<Rightarrow> 'x \<Rightarrow> nat option \<times> 'x"
  pq_conn_status :: "nat \<Rightarrow> 'x \<Rightarrow> conn_status"
  pq_conn_message :: "nat \<Rightarrow> 'x \<Rightarrow> string"
  pq_exec :: "nat \<Rightarrow> string \<Rightarrow> string option list \<Rightarrow> 'x \<Rightarrow> pg_result option \<times> 'x"
  mhd_create :: "'x \<Rightarrow> bool \<times> 'x"
  mhd_add_header :: "string \<Rightarrow> string \<Rightarrow> 'x \<Rightarrow> mhd_result \<times> 'x"
  mhd_queue :: "nat \<Rightarrow> (string \<times> string) list \<Rightarrow> string \<Rightarrow> 'x \<Rightarrow> mhd_result \<times> 'x"
  mhd_start :: "16 word \<Rightarrow> 'x \<Rightarrow> bool \<times> 'x"
  mhd_stop :: "'x \<Rightarrow> 'x"
  jc_alloc :: "'x \<Rightarrow> bool \<times> 'x"
  jc_parse :: "char list \<Rightarrow> 'x \<Rightarrow> ('j option \<times> bool \<times> nat) \<times> 'x"
  jc_object :: "'j"
  jc_array :: "'j"
  jc_string :: "string \<Rightarrow> 'j"
  jc_int :: "int \<Rightarrow> 'j"
  jc_add :: "'j \<Rightarrow> string \<Rightarrow> 'j option \<Rightarrow> 'j"
  jc_append :: "'j \<Rightarrow> 'j option \<Rightarrow> 'j"
  jc_field :: "'j \<Rightarrow> string \<Rightarrow> 'j option option"
  jc_type :: "'j \<Rightarrow> json_type"
  jc_text :: "'j \<Rightarrow> char list"
  jc_print :: "'j \<Rightarrow> string"

text \<open>What \<open>MHD_lookup_connection_value\<close> answers for one request.\<close>

record mhd_connection =
  conn_header :: "string \<Rightarrow> string option"
  conn_argument :: "string \<Rightarrow> string option"

definition lookup_header :: "mhd_connection option \<Rightarrow> string \<Rightarrow> string option" where
  "lookup_header connection key = Option.bind connection (\<lambda>c. conn_header c key)"

definition lookup_argument :: "mhd_connection option \<Rightarrow> string \<Rightarrow> string option" where
  "lookup_argument connection key = Option.bind connection (\<lambda>c. conn_argument c key)"

text \<open>A response under construction: the bytes and the headers given to libmicrohttpd so far.\<close>

record mhd_response =
  response_body :: "char list"
  response_headers :: "(string \<times> string) list"

section \<open>Traces\<close>

datatype resource =
  Heap_Block | Pg_Connection | Pg_Result | Mhd_Response | Mhd_Daemon | Json_Reference | Json_Tokener

datatype event =
  Acquired resource
  | Released resource
  | Sql string "string option list" "pg_result option"
  | Response nat "(string \<times> string) list" string mhd_result
  | Json_Add_Failed bool
  | Stderr string
  | Undefined_Behaviour
  | Endless_Loop

record 'x world =
  outside :: 'x
  trace :: "event list"

type_synonym ('x, 'a) prog = "('x world, 'a) state"

abbreviation return :: "'a \<Rightarrow> ('s, 'a) state" where
  "return \<equiv> State_Monad.return"

text \<open>
  The observations: how many of a resource are held, the SQL conversation, the responses, how many
  json-c references were dropped by a failed insertion, and whether the run stayed defined.
\<close>

fun event_weight :: "resource \<Rightarrow> event \<Rightarrow> int" where
  "event_weight r (Acquired s) = (if r = s then 1 else 0)"
| "event_weight r (Released s) = (if r = s then - 1 else 0)"
| "event_weight r _ = 0"

definition held :: "resource \<Rightarrow> event list \<Rightarrow> int" where
  "held r es = sum_list (map (event_weight r) es)"

fun sqls :: "event list \<Rightarrow> (string \<times> string option list \<times> pg_result option) list" where
  "sqls [] = []"
| "sqls (Sql q ps a # es) = (q, ps, a) # sqls es"
| "sqls (_ # es) = sqls es"

fun responses :: "event list \<Rightarrow> (nat \<times> string \<times> mhd_result) list" where
  "responses [] = []"
| "responses (Response st hs b r # es) = (st, b, r) # responses es"
| "responses (_ # es) = responses es"

fun dropped_references :: "event list \<Rightarrow> nat" where
  "dropped_references [] = 0"
| "dropped_references (Json_Add_Failed True # es) = Suc (dropped_references es)"
| "dropped_references (_ # es) = dropped_references es"

definition stays_defined :: "event list \<Rightarrow> bool" where
  "stays_defined es \<longleftrightarrow> Undefined_Behaviour \<notin> set es \<and> Endless_Loop \<notin> set es"

text \<open>After these events the program owns exactly the listed resources more than before.\<close>

definition owns :: "event list \<Rightarrow> resource list \<Rightarrow> bool" where
  "owns es rs \<longleftrightarrow> (\<forall>r. held r es = int (count_list rs r))"

text \<open>No SQL, no response, nothing undefined, no reference dropped.\<close>

definition quiet :: "event list \<Rightarrow> bool" where
  "quiet es \<longleftrightarrow> sqls es = [] \<and> responses es = [] \<and> stays_defined es \<and> dropped_references es = 0"

text \<open>Nothing is owned any more, but for the references json-c refused to take over.\<close>

definition released :: "event list \<Rightarrow> bool" where
  "released es \<longleftrightarrow> (\<forall>r. held r es = (if r = Json_Reference then int (dropped_references es) else 0))"

text \<open>Moreover nothing was undefined.\<close>

definition settled :: "event list \<Rightarrow> bool" where
  "settled es \<longleftrightarrow> stays_defined es \<and> released es"

lemma held_Nil [simp]: "held r [] = 0"
  by (simp add: held_def)

lemma held_Cons [simp]: "held r (e # es) = event_weight r e + held r es"
  by (simp add: held_def)

lemma held_append [simp]: "held r (es @ fs) = held r es + held r fs"
  by (simp add: held_def)

lemma sqls_append [simp]: "sqls (es @ fs) = sqls es @ sqls fs"
  by (induction es rule: sqls.induct) auto

lemma responses_append [simp]: "responses (es @ fs) = responses es @ responses fs"
  by (induction es rule: responses.induct) auto

lemma dropped_append [simp]:
  "dropped_references (es @ fs) = dropped_references es + dropped_references fs"
  by (induction es rule: dropped_references.induct) auto

lemma stays_defined_Nil [simp]: "stays_defined []"
  by (simp add: stays_defined_def)

lemma stays_defined_Cons [simp]:
  "stays_defined (e # es) \<longleftrightarrow> e \<noteq> Undefined_Behaviour \<and> e \<noteq> Endless_Loop \<and> stays_defined es"
  by (auto simp: stays_defined_def)

lemma stays_defined_append [simp]:
  "stays_defined (es @ fs) \<longleftrightarrow> stays_defined es \<and> stays_defined fs"
  by (auto simp: stays_defined_def)

lemma released_Nil [simp]: "released []"
  by (simp add: released_def)

lemma released_append: "released es \<Longrightarrow> released fs \<Longrightarrow> released (es @ fs)"
  by (auto simp: released_def)

lemmas trace_defs = quiet_def owns_def released_def settled_def

lemma settled_Nil [simp]: "settled []"
  by (simp add: settled_def)

lemma settled_append: "settled es \<Longrightarrow> settled fs \<Longrightarrow> settled (es @ fs)"
  by (auto simp: settled_def released_append)

section \<open>The effect calculus\<close>

text \<open>
  \<open>emits m K\<close>: from every state, running \<open>m\<close> only adds events at the end of the trace, and its
  result and these events satisfy \<open>K\<close>. The rules walk backwards through a program.
\<close>

definition emits :: "('x, 'a) prog \<Rightarrow> ('a \<Rightarrow> event list \<Rightarrow> bool) \<Rightarrow> bool" where
  "emits m K \<longleftrightarrow>
     (\<forall>w. \<exists>es. trace (snd (run_state m w)) = trace w @ es \<and> K (fst (run_state m w)) es)"

definition emit :: "event \<Rightarrow> ('x, unit) prog" where
  "emit e = State (\<lambda>w. ((), w\<lparr>trace := trace w @ [e]\<rparr>))"

definition ask :: "('x \<Rightarrow> 'a \<times> 'x) \<Rightarrow> ('x, 'a) prog" where
  "ask f = State (\<lambda>w. case f (outside w) of (a, x) \<Rightarrow> (a, w\<lparr>outside := x\<rparr>))"

lemma emits_return [emits_intros]: "K a [] \<Longrightarrow> emits (return a) K"
  by (simp add: emits_def)

lemma emits_emit [emits_intros]: "K () [e] \<Longrightarrow> emits (emit e) K"
  by (simp add: emits_def emit_def)

lemma emits_ask: "(\<And>x a x'. f x = (a, x') \<Longrightarrow> K a []) \<Longrightarrow> emits (ask f) K"
  by (auto simp: emits_def ask_def split: prod.splits)

lemma emits_bind [emits_intros]:
  assumes "emits m (\<lambda>a es. emits (f a) (\<lambda>b fs. K b (es @ fs)))"
  shows "emits (m \<bind> f) K"
  unfolding emits_def
proof
  fix w
  obtain a w' where m: "run_state m w = (a, w')" by fastforce
  with assms obtain es where es: "trace w' = trace w @ es"
    and f: "emits (f a) (\<lambda>b fs. K b (es @ fs))"
    unfolding emits_def by (metis fst_conv snd_conv)
  obtain b w'' where fw: "run_state (f a) w' = (b, w'')" by fastforce
  with f obtain fs where "trace w'' = trace w' @ fs" and "K b (es @ fs)"
    unfolding emits_def by (metis fst_conv snd_conv)
  with m es fw show "\<exists>es. trace (snd (run_state (m \<bind> f) w)) = trace w @ es \<and>
      K (fst (run_state (m \<bind> f) w)) es"
    by (intro exI [of _ "es @ fs"]) simp
qed

lemma emits_mono:
  assumes "emits m C" and "\<And>a es. C a es \<Longrightarrow> K a es"
  shows "emits m K"
  using assms unfolding emits_def by blast

lemma emits_conj: "emits m C \<Longrightarrow> emits m D \<Longrightarrow> emits m (\<lambda>a es. C a es \<and> D a es)"
  unfolding emits_def by (metis same_append_eq)

lemma emits_if [emits_intros]:
  "(b \<Longrightarrow> emits m K) \<Longrightarrow> (\<not> b \<Longrightarrow> emits n K) \<Longrightarrow> emits (if b then m else n) K"
  by simp

lemma emits_option [emits_intros]:
  "(p = None \<Longrightarrow> emits m K) \<Longrightarrow> (\<And>a. p = Some a \<Longrightarrow> emits (f a) K) \<Longrightarrow>
   emits (case p of None \<Rightarrow> m | Some a \<Rightarrow> f a) K"
  by (cases p) auto

lemma emits_prod [emits_intros]:
  "(\<And>a b. p = (a, b) \<Longrightarrow> emits (f a b) K) \<Longrightarrow> emits (case p of (a, b) \<Rightarrow> f a b) K"
  by (cases p) auto

lemma emits_let [emits_intros]: "emits (f a) K \<Longrightarrow> emits (let x = a in f x) K"
  by simp

text \<open>What the calculus says of one run.\<close>

lemma emits_run:
  assumes "emits m K" and "run_state m w = (a, w')"
  obtains es where "trace w' = trace w @ es" and "K a es"
  using assms unfolding emits_def by (metis fst_conv snd_conv)

section \<open>The calls\<close>

definition undefined_behaviour :: "'a \<Rightarrow> ('x, 'a) prog" where
  "undefined_behaviour a = do { emit Undefined_Behaviour; return a }"

text \<open>Reading through a pointer; the value after a null dereference is of no consequence.\<close>

definition deref :: "'a option \<Rightarrow> 'a \<Rightarrow> ('x, 'a) prog" where
  "deref p a = (case p of None \<Rightarrow> undefined_behaviour a | Some b \<Rightarrow> return b)"

subsection \<open>Heap\<close>

definition c_calloc :: "('x, 'j) ext \<Rightarrow> ('x, bool) prog" where
  "c_calloc E = do {
     ok \<leftarrow> ask (heap_alloc E);
     if ok then do { emit (Acquired Heap_Block); return True } else return False }"

definition c_free :: "('x, unit) prog" where
  "c_free = emit (Released Heap_Block)"

definition fresh_bytes :: "('x, 'j) ext \<Rightarrow> nat \<Rightarrow> nat \<Rightarrow> ('x, char list) prog" where
  "fresh_bytes E first limit = ask (\<lambda>x. (map (heap_fill E x) [first..<limit], x))"

definition c_malloc :: "('x, 'j) ext \<Rightarrow> nat \<Rightarrow> ('x, char list option) prog" where
  "c_malloc E n = do {
     ok \<leftarrow> ask (heap_alloc E);
     if ok then do {
       emit (Acquired Heap_Block);
       block \<leftarrow> fresh_bytes E 0 n;
       return (Some block) }
     else return None }"

definition c_realloc ::
  "('x, 'j) ext \<Rightarrow> char list option \<Rightarrow> nat \<Rightarrow> ('x, char list option) prog" where
  "c_realloc E old n = do {
     ok \<leftarrow> ask (heap_alloc E);
     if ok then do {
       (case old of None \<Rightarrow> return () | Some _ \<Rightarrow> emit (Released Heap_Block));
       emit (Acquired Heap_Block);
       let kept = (case old of None \<Rightarrow> [] | Some block \<Rightarrow> take n block);
       rest \<leftarrow> fresh_bytes E (length kept) n;
       return (Some (kept @ rest)) }
     else return None }"

text \<open>\<open>free\<close> of a pointer that may be null.\<close>

definition c_free_ptr :: "'a option \<Rightarrow> ('x, unit) prog" where
  "c_free_ptr p = (case p of None \<Rightarrow> return () | Some _ \<Rightarrow> c_free)"

subsection \<open>libpq\<close>

definition PQconnectdb :: "('x, 'j) ext \<Rightarrow> string \<Rightarrow> ('x, nat option) prog" where
  "PQconnectdb E conninfo = do {
     c \<leftarrow> ask (pq_connect E conninfo);
     (case c of None \<Rightarrow> return () | Some _ \<Rightarrow> emit (Acquired Pg_Connection));
     return c }"

definition PQfinish :: "nat \<Rightarrow> ('x, unit) prog" where
  "PQfinish c = emit (Released Pg_Connection)"

definition PQstatus :: "('x, 'j) ext \<Rightarrow> nat \<Rightarrow> ('x, conn_status) prog" where
  "PQstatus E c = ask (\<lambda>x. (pq_conn_status E c x, x))"

definition PQerrorMessage :: "('x, 'j) ext \<Rightarrow> nat \<Rightarrow> ('x, string) prog" where
  "PQerrorMessage E c = ask (\<lambda>x. (pq_conn_message E c x, x))"

text \<open>The parameter array is read up to the given count.\<close>

definition PQexecParams ::
  "('x, 'j) ext \<Rightarrow> nat \<Rightarrow> string \<Rightarrow> nat \<Rightarrow> string option list \<Rightarrow> ('x, pg_result option) prog" where
  "PQexecParams E c command n values = do {
     (if length values < n then emit Undefined_Behaviour else return ());
     r \<leftarrow> ask (pq_exec E c command (take n values));
     emit (Sql command (take n values) r);
     (case r of None \<Rightarrow> return () | Some _ \<Rightarrow> emit (Acquired Pg_Result));
     return r }"

definition PQclear :: "('x, unit) prog" where
  "PQclear = emit (Released Pg_Result)"

subsection \<open>libmicrohttpd\<close>

definition MHD_create_response_from_buffer ::
  "('x, 'j) ext \<Rightarrow> nat \<Rightarrow> char list \<Rightarrow> ('x, mhd_response option) prog" where
  "MHD_create_response_from_buffer E n buffer = do {
     (if length buffer < n then emit Undefined_Behaviour else return ());
     ok \<leftarrow> ask (mhd_create E);
     if ok then do {
       emit (Acquired Mhd_Response);
       return (Some \<lparr>response_body = take n buffer, response_headers = []\<rparr>) }
     else return None }"

definition MHD_add_response_header ::
  "('x, 'j) ext \<Rightarrow> mhd_response \<Rightarrow> string \<Rightarrow> string \<Rightarrow> ('x, mhd_result \<times> mhd_response) prog" where
  "MHD_add_response_header E response header content = do {
     result \<leftarrow> ask (mhd_add_header E header content);
     return (result, if result = MHD_NO then response
                     else response\<lparr>response_headers := response_headers response @ [(header, content)]\<rparr>) }"

definition MHD_queue_response ::
  "('x, 'j) ext \<Rightarrow> nat \<Rightarrow> mhd_response \<Rightarrow> ('x, mhd_result) prog" where
  "MHD_queue_response E status response = do {
     result \<leftarrow> ask (mhd_queue E status (response_headers response) (response_body response));
     emit (Response status (response_headers response) (response_body response) result);
     return result }"

definition MHD_destroy_response :: "('x, unit) prog" where
  "MHD_destroy_response = emit (Released Mhd_Response)"

definition MHD_start_daemon :: "('x, 'j) ext \<Rightarrow> 16 word \<Rightarrow> ('x, bool) prog" where
  "MHD_start_daemon E p = do {
     ok \<leftarrow> ask (mhd_start E p);
     if ok then do { emit (Acquired Mhd_Daemon); return True } else return False }"

definition MHD_stop_daemon :: "('x, 'j) ext \<Rightarrow> ('x, unit) prog" where
  "MHD_stop_daemon E = do {
     ask (\<lambda>x. ((), mhd_stop E x));
     emit (Released Mhd_Daemon) }"

subsection \<open>json-c\<close>

text \<open>
  A constructor gives one owned reference. Inserting a value hands its reference to the container;
  when the insertion fails the caller still owns it. \<open>json_object_put\<close> gives one reference back.
\<close>

definition json_new :: "('x, 'j) ext \<Rightarrow> 'j \<Rightarrow> ('x, 'j option) prog" where
  "json_new E j = do {
     ok \<leftarrow> ask (jc_alloc E);
     if ok then do { emit (Acquired Json_Reference); return (Some j) } else return None }"

definition json_object_new_object :: "('x, 'j) ext \<Rightarrow> ('x, 'j option) prog" where
  "json_object_new_object E = json_new E (jc_object E)"

definition json_object_new_array :: "('x, 'j) ext \<Rightarrow> ('x, 'j option) prog" where
  "json_object_new_array E = json_new E (jc_array E)"

definition json_object_new_string :: "('x, 'j) ext \<Rightarrow> string option \<Rightarrow> ('x, 'j option) prog" where
  "json_object_new_string E s = do { t \<leftarrow> deref s []; json_new E (jc_string E t) }"

definition json_object_new_int64 :: "('x, 'j) ext \<Rightarrow> int \<Rightarrow> ('x, 'j option) prog" where
  "json_object_new_int64 E i = json_new E (jc_int E i)"

definition json_insert :: "('x, 'j) ext \<Rightarrow> 'j \<Rightarrow> 'j option \<Rightarrow> 'j \<Rightarrow> ('x, 'j) prog" where
  "json_insert E container child updated = do {
     ok \<leftarrow> ask (jc_alloc E);
     if ok then do {
       (case child of None \<Rightarrow> return () | Some _ \<Rightarrow> emit (Released Json_Reference));
       return updated }
     else do { emit (Json_Add_Failed (child \<noteq> None)); return container } }"

definition json_object_object_add ::
  "('x, 'j) ext \<Rightarrow> 'j \<Rightarrow> string \<Rightarrow> 'j option \<Rightarrow> ('x, 'j) prog" where
  "json_object_object_add E obj key child = json_insert E obj child (jc_add E obj key child)"

definition json_object_array_add :: "('x, 'j) ext \<Rightarrow> 'j \<Rightarrow> 'j option \<Rightarrow> ('x, 'j) prog" where
  "json_object_array_add E arr child = json_insert E arr child (jc_append E arr child)"

definition json_object_put :: "('x, unit) prog" where
  "json_object_put = emit (Released Json_Reference)"

text \<open>A null pointer is JSON's null.\<close>

definition json_object_is_type :: "('x, 'j) ext \<Rightarrow> 'j option \<Rightarrow> json_type \<Rightarrow> bool" where
  "json_object_is_type E p t = ((case p of None \<Rightarrow> json_type_null | Some j \<Rightarrow> jc_type E j) = t)"

definition json_tokener_new :: "('x, 'j) ext \<Rightarrow> ('x, bool) prog" where
  "json_tokener_new E = do {
     ok \<leftarrow> ask (jc_alloc E);
     if ok then do { emit (Acquired Json_Tokener); return True } else return False }"

definition json_tokener_parse_ex ::
  "('x, 'j) ext \<Rightarrow> char list \<Rightarrow> ('x, 'j option \<times> bool \<times> nat) prog" where
  "json_tokener_parse_ex E buffer = do {
     r \<leftarrow> ask (jc_parse E buffer);
     (case fst r of None \<Rightarrow> return () | Some _ \<Rightarrow> emit (Acquired Json_Reference));
     return r }"

definition json_tokener_free :: "('x, unit) prog" where
  "json_tokener_free = emit (Released Json_Tokener)"

subsection \<open>Rules for the calls\<close>

text \<open>
  An outside with memory to spare: no allocation fails and libmicrohttpd takes every header and
  every response. Nothing is assumed of the database or of the request.
\<close>

definition generous :: "('x, 'j) ext \<Rightarrow> bool" where
  "generous E \<longleftrightarrow> (\<forall>x. fst (heap_alloc E x) \<and> fst (jc_alloc E x) \<and> fst (mhd_create E x) \<and>
     (\<forall>h v. fst (mhd_add_header E h v x) = MHD_YES) \<and>
     (\<forall>st hs b. fst (mhd_queue E st hs b x) = MHD_YES))"

lemma generousD:
  assumes "generous E"
  shows "heap_alloc E x = (a, x') \<Longrightarrow> a" "jc_alloc E x = (a, x') \<Longrightarrow> a" "mhd_create E x = (a, x') \<Longrightarrow> a"
    "mhd_add_header E h v x = (r, x') \<Longrightarrow> r = MHD_YES"
    "mhd_queue E st hs b x = (r, x') \<Longrightarrow> r = MHD_YES"
  using assms unfolding generous_def by (metis fst_conv)+

lemma emits_undefined_behaviour [emits_intros]:
  "K a [Undefined_Behaviour] \<Longrightarrow> emits (undefined_behaviour a) K"
  unfolding undefined_behaviour_def by (intro emits_intros) simp

lemma emits_deref:
  "(p = None \<Longrightarrow> K a [Undefined_Behaviour]) \<Longrightarrow> (\<And>b. p = Some b \<Longrightarrow> K b []) \<Longrightarrow> emits (deref p a) K"
  unfolding deref_def by (intro emits_intros) auto

text \<open>The text behind a pointer; the empty text stands for a null pointer.\<close>

definition text_of :: "string option \<Rightarrow> string" where
  "text_of p = (case p of None \<Rightarrow> [] | Some t \<Rightarrow> t)"

lemma text_of_simps [simp]: "text_of None = []" "text_of (Some t) = t"
  by (simp_all add: text_of_def)

lemma emits_deref_text [emits_intros]:
  assumes "\<And>es. sqls es = [] \<Longrightarrow> responses es = [] \<Longrightarrow> dropped_references es = 0 \<Longrightarrow> released es \<Longrightarrow>
      stays_defined es \<longleftrightarrow> p \<noteq> None \<Longrightarrow> K (text_of p) es"
  shows "emits (deref p []) K"
  by (rule emits_deref) (use assms in \<open>auto simp: trace_defs\<close>)

lemma emits_calloc [emits_intros]:
  "K True [Acquired Heap_Block] \<Longrightarrow> (\<not> generous E \<Longrightarrow> K False []) \<Longrightarrow> emits (c_calloc E) K"
  unfolding c_calloc_def by (intro emits_intros emits_ask) (auto dest: generousD)

lemma emits_free [emits_intros]: "K () [Released Heap_Block] \<Longrightarrow> emits c_free K"
  unfolding c_free_def by (intro emits_intros)

lemma emits_free_ptr [emits_intros]:
  "(p = None \<Longrightarrow> K () []) \<Longrightarrow> (\<And>a. p = Some a \<Longrightarrow> K () [Released Heap_Block]) \<Longrightarrow>
   emits (c_free_ptr p) K"
  unfolding c_free_ptr_def by (intro emits_intros)

lemma emits_fresh_bytes [emits_intros]:
  "(\<And>b. length b = limit - first \<Longrightarrow> K b []) \<Longrightarrow> emits (fresh_bytes E first limit) K"
  unfolding fresh_bytes_def by (intro emits_ask) auto

lemma emits_malloc [emits_intros]:
  "(\<And>b. length b = n \<Longrightarrow> K (Some b) [Acquired Heap_Block]) \<Longrightarrow> (\<not> generous E \<Longrightarrow> K None []) \<Longrightarrow> emits (c_malloc E n) K"
  unfolding c_malloc_def by (intro emits_intros emits_ask) (auto dest: generousD)

lemma emits_realloc [emits_intros]:
  assumes "\<And>rest. length (take n (case old of None \<Rightarrow> [] | Some b \<Rightarrow> b) @ rest) = n \<Longrightarrow>
      K (Some (take n (case old of None \<Rightarrow> [] | Some b \<Rightarrow> b) @ rest))
        ((case old of None \<Rightarrow> [] | Some _ \<Rightarrow> [Released Heap_Block]) @ [Acquired Heap_Block])"
    and "\<not> generous E \<Longrightarrow> K None []"
  shows "emits (c_realloc E old n) K"
  unfolding c_realloc_def using assms
  by (intro emits_intros emits_ask) (auto simp: min_def dest: generousD split: option.splits)

lemma emits_PQconnectdb [emits_intros]:
  "(\<And>c. K (Some c) [Acquired Pg_Connection]) \<Longrightarrow> K None [] \<Longrightarrow> emits (PQconnectdb E s) K"
  unfolding PQconnectdb_def by (intro emits_intros emits_ask) (auto dest: generousD)

lemma emits_PQfinish [emits_intros]: "K () [Released Pg_Connection] \<Longrightarrow> emits (PQfinish c) K"
  unfolding PQfinish_def by (intro emits_intros)

lemma emits_PQstatus [emits_intros]: "(\<And>s. K s []) \<Longrightarrow> emits (PQstatus E c) K"
  unfolding PQstatus_def by (intro emits_ask) auto

lemma emits_PQerrorMessage [emits_intros]: "(\<And>s. K s []) \<Longrightarrow> emits (PQerrorMessage E c) K"
  unfolding PQerrorMessage_def by (intro emits_ask) auto

text \<open>An answer of the server that some state of the outside can give.\<close>

definition may_answer ::
  "('x, 'j) ext \<Rightarrow> nat \<Rightarrow> string \<Rightarrow> string option list \<Rightarrow> pg_result option \<Rightarrow> bool" where
  "may_answer E c command values r \<longleftrightarrow> (\<exists>x x'. pq_exec E c command values x = (r, x'))"

lemma emits_PQexecParams [emits_intros]:
  assumes "n \<le> length values"
    and "may_answer E c command (take n values) None \<Longrightarrow> K None [Sql command (take n values) None]"
    and "\<And>r. may_answer E c command (take n values) (Some r) \<Longrightarrow>
           K (Some r) [Sql command (take n values) (Some r), Acquired Pg_Result]"
  shows "emits (PQexecParams E c command n values) K"
  unfolding PQexecParams_def using assms
  by (intro emits_intros emits_ask) (fastforce simp: may_answer_def)+

lemma emits_PQclear [emits_intros]: "K () [Released Pg_Result] \<Longrightarrow> emits PQclear K"
  unfolding PQclear_def by (intro emits_intros)

lemma emits_create_response [emits_intros]:
  assumes "n \<le> length buffer"
    and "\<not> generous E \<Longrightarrow> K None []"
    and "K (Some \<lparr>response_body = take n buffer, response_headers = []\<rparr>) [Acquired Mhd_Response]"
  shows "emits (MHD_create_response_from_buffer E n buffer) K"
  unfolding MHD_create_response_from_buffer_def using assms
  by (intro emits_intros emits_ask) (auto dest: generousD)

lemma emits_add_header [emits_intros]:
  assumes "\<not> generous E \<Longrightarrow> K (MHD_NO, r) []"
    and "K (MHD_YES, r\<lparr>response_headers := response_headers r @ [(h, v)]\<rparr>) []"
  shows "emits (MHD_add_response_header E r h v) K"
  unfolding MHD_add_response_header_def
proof (intro emits_intros emits_ask)
  fix x a x'
  assume "mhd_add_header E h v x = (a, x')"
  then have "\<not> generous E" if "a = MHD_NO"
    using that by (auto dest: generousD)
  then show "K (a, if a = MHD_NO then r
           else r\<lparr>response_headers := response_headers r @ [(h, v)]\<rparr>) ([] @ [])"
    using assms by (cases a) auto
qed

lemma emits_queue [emits_intros]:
  "(\<And>res. (generous E \<Longrightarrow> res = MHD_YES) \<Longrightarrow> K res [Response st (response_headers r) (response_body r) res]) \<Longrightarrow>
   emits (MHD_queue_response E st r) K"
  unfolding MHD_queue_response_def by (intro emits_intros emits_ask) (auto dest: generousD)

lemma emits_destroy_response [emits_intros]:
  "K () [Released Mhd_Response] \<Longrightarrow> emits MHD_destroy_response K"
  unfolding MHD_destroy_response_def by (intro emits_intros)

lemma emits_start_daemon [emits_intros]:
  "K True [Acquired Mhd_Daemon] \<Longrightarrow> K False [] \<Longrightarrow> emits (MHD_start_daemon E p) K"
  unfolding MHD_start_daemon_def by (intro emits_intros emits_ask) (auto dest: generousD)

lemma emits_stop_daemon [emits_intros]: "K () [Released Mhd_Daemon] \<Longrightarrow> emits (MHD_stop_daemon E) K"
  unfolding MHD_stop_daemon_def by (intro emits_intros emits_ask) (auto dest: generousD)

lemma emits_json_new [emits_intros]:
  "K (Some j) [Acquired Json_Reference] \<Longrightarrow> (\<not> generous E \<Longrightarrow> K None []) \<Longrightarrow> emits (json_new E j) K"
  unfolding json_new_def by (intro emits_intros emits_ask) (auto dest: generousD)

lemma emits_new_object [emits_intros]:
  "K (Some (jc_object E)) [Acquired Json_Reference] \<Longrightarrow> (\<not> generous E \<Longrightarrow> K None []) \<Longrightarrow>
   emits (json_object_new_object E) K"
  unfolding json_object_new_object_def by (rule emits_json_new)

lemma emits_new_array [emits_intros]:
  "K (Some (jc_array E)) [Acquired Json_Reference] \<Longrightarrow> (\<not> generous E \<Longrightarrow> K None []) \<Longrightarrow>
   emits (json_object_new_array E) K"
  unfolding json_object_new_array_def by (rule emits_json_new)

lemma emits_new_int [emits_intros]:
  "K (Some (jc_int E i)) [Acquired Json_Reference] \<Longrightarrow> (\<not> generous E \<Longrightarrow> K None []) \<Longrightarrow>
   emits (json_object_new_int64 E i) K"
  unfolding json_object_new_int64_def by (rule emits_json_new)

text \<open>Inserting: done, or refused for want of memory.\<close>

lemma emits_insert:
  assumes "\<not> generous E \<Longrightarrow> K container [Json_Add_Failed (child \<noteq> None)]"
    and "K updated (case child of None \<Rightarrow> [] | Some _ \<Rightarrow> [Released Json_Reference])"
  shows "emits (json_insert E container child updated) K"
  unfolding json_insert_def using assms
  by (intro emits_intros emits_ask) (auto dest: generousD)

lemma emits_put [emits_intros]: "K () [Released Json_Reference] \<Longrightarrow> emits json_object_put K"
  unfolding json_object_put_def by (intro emits_intros)

lemma emits_tokener_new [emits_intros]:
  "K True [Acquired Json_Tokener] \<Longrightarrow> (\<not> generous E \<Longrightarrow> K False []) \<Longrightarrow> emits (json_tokener_new E) K"
  unfolding json_tokener_new_def by (intro emits_intros emits_ask) (auto dest: generousD)

text \<open>A result of the json-c parser on these bytes: the value, whether it reported success, the end.\<close>

definition may_parse :: "('x, 'j) ext \<Rightarrow> char list \<Rightarrow> 'j option \<Rightarrow> bool \<Rightarrow> nat \<Rightarrow> bool" where
  "may_parse E buffer j ok n \<longleftrightarrow> (\<exists>x x'. jc_parse E buffer x = ((j, ok, n), x'))"

lemma emits_parse_ex [emits_intros]:
  assumes "\<And>ok n. may_parse E buffer None ok n \<Longrightarrow> K (None, ok, n) []"
    and "\<And>j ok n. may_parse E buffer (Some j) ok n \<Longrightarrow> K (Some j, ok, n) [Acquired Json_Reference]"
  shows "emits (json_tokener_parse_ex E buffer) K"
  unfolding json_tokener_parse_ex_def using assms
  by (intro emits_intros emits_ask) (fastforce simp: may_parse_def)+

lemma emits_tokener_free [emits_intros]: "K () [Released Json_Tokener] \<Longrightarrow> emits json_tokener_free K"
  unfolding json_tokener_free_def by (intro emits_intros)

end
