(* ===== verification/Config.thy ===== *)
theory Config
  imports Outside
begin

text \<open>
  \<^verbatim>\<open>src/src/config/config.c\<close>: the settings read from the environment. Heap blocks are counted in
  the trace; a \<open>PortalConfig *\<close> is \<^typ>\<open>'a option\<close>, and the functions that take the address of a
  pointer return the pointer's new value. The lemmas bound every setting whatever the environment
  holds, and account for every block on every path.
\<close>

record portal_config =
  database_url :: "char list option"
  port :: "16 word"
  token_ttl_hours :: "32 word"
  confirmation_ttl_hours :: "32 word"
  expose_confirmation_token :: bool

section \<open>The functions\<close>

definition config_copy_string :: "('x, 'j) ext \<Rightarrow> string option \<Rightarrow> ('x, char list option) prog" where
  "config_copy_string E source =
     (case source of
        None \<Rightarrow> return None
      | Some text \<Rightarrow> do {
          copy \<leftarrow> c_malloc E (length text + 1);
          (case copy of
             None \<Rightarrow> return None
           | Some block \<Rightarrow>
               (case c_memcpy block 0 (text @ [CHR 0x00]) of
                  None \<Rightarrow> undefined_behaviour (Some block)
                | Some filled \<Rightarrow> return (Some filled))) })"

definition config_parse_integer ::
  "('x, 'j) ext \<Rightarrow> string \<Rightarrow> 32 word \<Rightarrow> 32 word \<Rightarrow> 32 word \<Rightarrow> ('x, 32 word) prog" where
  "config_parse_integer E name fallback minimum maximum =
     (case os_getenv E name of
        None \<Rightarrow> return fallback
      | Some value \<Rightarrow>
          if value = [] then return fallback
          else let (parsed, rest, range_error) = c_strtoul value in
            if range_error \<or> rest = value \<or> rest \<noteq> [] \<or> parsed < ucast minimum \<or>
               parsed > ucast maximum
            then do {
              emit (Stderr (''Ignoring invalid '' @ name @ ''; using '' @ decimal (unat fallback) @
                [CHR 0x0A]));
              return fallback }
            else return (ucast parsed))"

fun ascii_equals_loop :: "string \<Rightarrow> string \<Rightarrow> bool" where
  "ascii_equals_loop (l # left) (r # right) =
     (if c_tolower l \<noteq> c_tolower r then False else ascii_equals_loop left right)"
| "ascii_equals_loop left right = (char_at left 0 = char_at right 0)"

definition config_ascii_equals_ignore_case :: "string option \<Rightarrow> string option \<Rightarrow> bool" where
  "config_ascii_equals_ignore_case left right =
     (case (left, right) of (Some l, Some r) \<Rightarrow> ascii_equals_loop l r | _ \<Rightarrow> False)"

definition config_parse_boolean :: "('x, 'j) ext \<Rightarrow> string \<Rightarrow> bool \<Rightarrow> bool" where
  "config_parse_boolean E name fallback =
     (case os_getenv E name of
        None \<Rightarrow> fallback
      | Some value \<Rightarrow>
          if value = [] then fallback
          else value = ''1'' \<or> config_ascii_equals_ignore_case (Some value) (Some ''true'') \<or>
            config_ascii_equals_ignore_case (Some value) (Some ''yes''))"

definition portal_config_destroy ::
  "portal_config option \<Rightarrow> ('x, portal_config option) prog" where
  "portal_config_destroy config =
     (case config of
        None \<Rightarrow> return None
      | Some c \<Rightarrow> do { c_free_ptr (database_url c); c_free; return None })"

definition portal_config_create_from_environment ::
  "('x, 'j) ext \<Rightarrow> ('x, portal_config option) prog" where
  "portal_config_create_from_environment E =
     (let url = os_getenv E ''DATABASE_URL'' in
      if url = None \<or> url = Some [] then do {
        emit (Stderr (''DATABASE_URL is required.'' @ [CHR 0x0A]));
        return None }
      else do {
        ok \<leftarrow> c_calloc E;
        if \<not> ok then return None
        else do {
          copy \<leftarrow> config_copy_string E url;
          let config = \<lparr>database_url = copy, port = 0, token_ttl_hours = 0,
            confirmation_ttl_hours = 0, expose_confirmation_token = False\<rparr>;
          if copy = None then do {
            _ \<leftarrow> portal_config_destroy (Some config);
            return None }
          else do {
            p \<leftarrow> config_parse_integer E ''PORT'' 8080 1 65535;
            token_ttl \<leftarrow> config_parse_integer E ''TOKEN_TTL_HOURS'' 168 1 2160;
            confirmation_ttl \<leftarrow> config_parse_integer E ''CONFIRMATION_TTL_HOURS'' 24 1 720;
            return (Some (config\<lparr>port := ucast p, token_ttl_hours := token_ttl,
              confirmation_ttl_hours := confirmation_ttl,
              expose_confirmation_token :=
                config_parse_boolean E ''EXPOSE_CONFIRMATION_TOKEN'' False\<rparr>)) } } })"

definition portal_config_database_url :: "portal_config option \<Rightarrow> string option" where
  "portal_config_database_url config =
     (case config of None \<Rightarrow> None | Some c \<Rightarrow> map_option c_str (database_url c))"

definition portal_config_port :: "portal_config option \<Rightarrow> 16 word" where
  "portal_config_port config = (case config of None \<Rightarrow> 0 | Some c \<Rightarrow> port c)"

definition portal_config_token_ttl_hours :: "portal_config option \<Rightarrow> 32 word" where
  "portal_config_token_ttl_hours config = (case config of None \<Rightarrow> 0 | Some c \<Rightarrow> token_ttl_hours c)"

definition portal_config_confirmation_ttl_hours :: "portal_config option \<Rightarrow> 32 word" where
  "portal_config_confirmation_ttl_hours config =
     (case config of None \<Rightarrow> 0 | Some c \<Rightarrow> confirmation_ttl_hours c)"

definition portal_config_exposes_confirmation_token :: "portal_config option \<Rightarrow> bool" where
  "portal_config_exposes_confirmation_token config =
     (case config of None \<Rightarrow> False | Some c \<Rightarrow> expose_confirmation_token c)"

section \<open>Case-insensitive comparison\<close>

lemma ascii_equals_loop_iff:
  assumes "CHR 0x00 \<notin> set l" and "CHR 0x00 \<notin> set r"
  shows "ascii_equals_loop l r \<longleftrightarrow> map c_tolower l = map c_tolower r"
  using assms
proof (induction l arbitrary: r)
  case Nil
  then show ?case by (cases r) (auto simp: char_at_def)
next
  case (Cons c l)
  then show ?case by (cases r) (auto simp: char_at_def)
qed

section \<open>Integers\<close>

text \<open>An integer setting is the fallback or a number in the range, whatever the environment says.\<close>

definition in_range :: "32 word \<Rightarrow> 32 word \<Rightarrow> 32 word \<Rightarrow> bool" where
  "in_range minimum maximum v \<longleftrightarrow> minimum \<le> v \<and> v \<le> maximum"

lemma ucast_in_range:
  fixes parsed :: "64 word" and minimum maximum :: "32 word"
  assumes "ucast minimum \<le> parsed" and "parsed \<le> ucast maximum"
  shows "in_range minimum maximum (ucast parsed)"
proof -
  have "unat parsed \<le> unat maximum" and "unat minimum \<le> unat parsed"
    using assms by (simp_all add: word_le_nat_alt)
  moreover have "unat (ucast parsed :: 32 word) = unat parsed"
    using \<open>unat parsed \<le> unat maximum\<close> unat_bound [of maximum]
    by (simp add: unat_ucast_mod)
  ultimately show ?thesis by (simp add: in_range_def word_le_nat_alt)
qed

lemma emits_parse_integer [emits_intros]:
  assumes "\<And>v es. v = fallback \<or> in_range minimum maximum v \<Longrightarrow> owns es [] \<Longrightarrow> quiet es \<Longrightarrow> K v es"
  shows "emits (config_parse_integer E name fallback minimum maximum) K"
  unfolding config_parse_integer_def
  by (intro emits_intros assms) (auto simp: owns_def quiet_def not_less intro: ucast_in_range)

text \<open>A number in range, written in decimal, is read back.\<close>

lemma parse_integer_decimal:
  assumes "os_getenv E name = Some (decimal n)"
    and "unat minimum \<le> n" and "n \<le> unat maximum"
  shows "run_state (config_parse_integer E name fallback minimum maximum) w = (of_nat n, w)"
proof -
  have n: "n < 2 ^ 32" using assms(3) unat_bound [of maximum] by simp
  then have "unat (of_nat n :: 64 word) = n" by (simp add: unat_of_nat)
  then have "\<not> (of_nat n :: 64 word) < ucast minimum" "\<not> (of_nat n :: 64 word) > ucast maximum"
    using assms(2,3) by (simp_all add: word_less_nat_alt)
  moreover have "(ucast (of_nat n :: 64 word) :: 32 word) = of_nat n"
    using n by (simp add: word_eq_iff_unsigned unsigned_of_nat unsigned_ucast_eq take_bit_nat_eq_self)
  moreover have "c_strtoul (decimal n) = (of_nat n, [], False)"
    using n by (intro c_strtoul_decimal) simp
  ultimately show ?thesis
    using assms(1) by (simp add: config_parse_integer_def)
qed

section \<open>Creation\<close>

text \<open>What every successfully created configuration satisfies.\<close>

definition config_ok :: "('x, 'j) ext \<Rightarrow> portal_config \<Rightarrow> bool" where
  "config_ok E c \<longleftrightarrow>
     (\<exists>url. os_getenv E ''DATABASE_URL'' = Some url \<and> url \<noteq> [] \<and>
        database_url c = Some (url @ [CHR 0x00])) \<and>
     1 \<le> port c \<and>
     in_range 1 2160 (token_ttl_hours c) \<and>
     in_range 1 720 (confirmation_ttl_hours c) \<and>
     expose_confirmation_token c = config_parse_boolean E ''EXPOSE_CONFIRMATION_TOKEN'' False"

lemma port_in_range: "v = 8080 \<or> in_range 1 65535 v \<Longrightarrow> (1 :: 16 word) \<le> ucast v"
proof -
  assume "v = 8080 \<or> in_range 1 65535 v"
  then have r: "1 \<le> unat v" "unat v \<le> 65535"
    by (auto simp: in_range_def word_le_nat_alt)
  then have "unat (ucast v :: 16 word) = unat v"
    by (simp add: unat_ucast_mod)
  with r show "(1 :: 16 word) \<le> ucast v" by (simp add: word_le_nat_alt)
qed

lemma emits_copy_string [emits_intros]:
  assumes "source = None \<or> \<not> generous E \<Longrightarrow> K None []"
    and "\<And>text. source = Some text \<Longrightarrow> K (Some (text @ [CHR 0x00])) [Acquired Heap_Block]"
  shows "emits (config_copy_string E source) K"
  unfolding config_copy_string_def using assms
  by (intro emits_intros) (auto simp: c_memcpy_def)

lemma emits_config_destroy [emits_intros]:
  assumes "config = None \<Longrightarrow> K None []"
    and "\<And>c. config = Some c \<Longrightarrow>
      K None ((case database_url c of None \<Rightarrow> [] | Some _ \<Rightarrow> [Released Heap_Block]) @ [Released Heap_Block])"
  shows "emits (portal_config_destroy config) K"
  unfolding portal_config_destroy_def using assms
  by (intro emits_intros) auto

lemma emits_config_create [emits_intros]:
  assumes "\<And>es. os_getenv E ''DATABASE_URL'' \<in> {None, Some []} \<or> \<not> generous E \<Longrightarrow> owns es [] \<Longrightarrow>
      quiet es \<Longrightarrow> K None es"
    and "\<And>c es. config_ok E c \<Longrightarrow> owns es [Heap_Block, Heap_Block] \<Longrightarrow> quiet es \<Longrightarrow> K (Some c) es"
  shows "emits (portal_config_create_from_environment E) K"
  unfolding portal_config_create_from_environment_def
  by (intro emits_intros assms)
    (auto simp: owns_def quiet_def config_ok_def in_range_def intro!: port_in_range)

end
