(* ===== verification/Database.thy ===== *)
theory Database
  imports Outside
begin

text \<open>
  \<^verbatim>\<open>src/src/database/database.c\<close>: the handles around libpq's connection and results. A pointer to
  a handle is \<^typ>\<open>'a option\<close>; functions that take the address of a pointer return its new value.
  The lemmas give the contract every route relies on: a statement's result is owned by the caller
  until it is destroyed once, and reading a value never leaves the result's table.
\<close>

record portal_database =
  db_connection :: "nat option"

record database_result =
  db_result :: "pg_result option"

datatype database_result_status =
  PORTAL_DATABASE_RESULT_ERROR | PORTAL_DATABASE_RESULT_COMMAND | PORTAL_DATABASE_RESULT_TUPLES

section \<open>The connection\<close>

definition portal_database_destroy ::
  "portal_database option \<Rightarrow> ('x, portal_database option) prog" where
  "portal_database_destroy database =
     (case database of
        None \<Rightarrow> return None
      | Some d \<Rightarrow> do {
          (case db_connection d of None \<Rightarrow> return () | Some c \<Rightarrow> PQfinish c);
          c_free;
          return None })"

definition portal_database_create ::
  "('x, 'j) ext \<Rightarrow> string option \<Rightarrow> ('x, portal_database option) prog" where
  "portal_database_create E connection_string =
     (case connection_string of
        None \<Rightarrow> return None
      | Some conninfo \<Rightarrow> do {
          ok \<leftarrow> c_calloc E;
          if \<not> ok then return None
          else do {
            c \<leftarrow> PQconnectdb E conninfo;
            failed \<leftarrow> (case c of
                None \<Rightarrow> return True
              | Some h \<Rightarrow> do { status \<leftarrow> PQstatus E h; return (status \<noteq> CONNECTION_OK) });
            let database = \<lparr>db_connection = c\<rparr>;
            if failed then do {
              (case c of
                 None \<Rightarrow> return ()
               | Some h \<Rightarrow> do {
                   message \<leftarrow> PQerrorMessage E h;
                   emit (Stderr (''Unable to connect to PostgreSQL: '' @ message)) });
              portal_database_destroy (Some database) }
            else return (Some database) } })"

definition portal_database_is_connected ::
  "('x, 'j) ext \<Rightarrow> portal_database option \<Rightarrow> ('x, bool) prog" where
  "portal_database_is_connected E database =
     (case database of
        None \<Rightarrow> return False
      | Some d \<Rightarrow>
          (case db_connection d of
             None \<Rightarrow> return False
           | Some c \<Rightarrow> do { status \<leftarrow> PQstatus E c; return (status = CONNECTION_OK) }))"

section \<open>Results\<close>

definition portal_database_result_destroy ::
  "database_result option \<Rightarrow> ('x, database_result option) prog" where
  "portal_database_result_destroy result =
     (case result of
        None \<Rightarrow> return None
      | Some r \<Rightarrow> do {
          (case db_result r of None \<Rightarrow> return () | Some _ \<Rightarrow> PQclear);
          c_free;
          return None })"

definition portal_database_result_status ::
  "database_result option \<Rightarrow> database_result_status" where
  "portal_database_result_status result =
     (case Option.bind result db_result of
        None \<Rightarrow> PORTAL_DATABASE_RESULT_ERROR
      | Some r \<Rightarrow>
          if pq_status r = PGRES_COMMAND_OK then PORTAL_DATABASE_RESULT_COMMAND
          else if pq_status r = PGRES_TUPLES_OK then PORTAL_DATABASE_RESULT_TUPLES
          else PORTAL_DATABASE_RESULT_ERROR)"

definition portal_database_result_row_count :: "database_result option \<Rightarrow> nat" where
  "portal_database_result_row_count result =
     (case Option.bind result db_result of
        None \<Rightarrow> 0
      | Some r \<Rightarrow> if pq_ntuples r < 0 then 0 else size_of_int (pq_ntuples r))"

definition portal_database_result_value ::
  "database_result option \<Rightarrow> nat \<Rightarrow> nat \<Rightarrow> string option" where
  "portal_database_result_value result row column =
     (case Option.bind result db_result of
        None \<Rightarrow> None
      | Some r \<Rightarrow>
          if row \<ge> portal_database_result_row_count result \<or> column \<ge> size_of_int (pq_nfields r)
          then None
          else pq_cell r (int_of_size row) (int_of_size column))"

definition portal_database_result_error :: "database_result option \<Rightarrow> string" where
  "portal_database_result_error result =
     (case Option.bind result db_result of
        None \<Rightarrow> ''No PostgreSQL result available.'' @ [CHR 0x0A]
      | Some r \<Rightarrow> pq_message r)"

definition portal_database_result_is_unique_violation :: "database_result option \<Rightarrow> bool" where
  "portal_database_result_is_unique_violation result =
     (case Option.bind result db_result of
        None \<Rightarrow> False
      | Some r \<Rightarrow>
          (case pq_sqlstate r of None \<Rightarrow> False | Some sqlstate \<Rightarrow> sqlstate = ''23505''))"

definition portal_database_query ::
  "('x, 'j) ext \<Rightarrow> portal_database option \<Rightarrow> string option \<Rightarrow> nat \<Rightarrow> string option list \<Rightarrow>
   ('x, database_result option) prog" where
  "portal_database_query E database query parameter_count parameters =
     (case (Option.bind database db_connection, query) of
        (Some c, Some command) \<Rightarrow>
          if parameter_count > INT_MAX then return None
          else do {
            ok \<leftarrow> c_calloc E;
            if \<not> ok then return None
            else do {
              r \<leftarrow> PQexecParams E c command parameter_count parameters;
              let result = Some \<lparr>db_result = r\<rparr>;
              if r = None then do {
                message \<leftarrow> PQerrorMessage E c;
                emit (Stderr (''PostgreSQL query returned no result: '' @ message @ [CHR 0x0A]));
                portal_database_result_destroy result }
              else do {
                (if portal_database_result_status result = PORTAL_DATABASE_RESULT_ERROR
                 then emit (Stderr (''PostgreSQL error: '' @ portal_database_result_error result))
                 else return ());
                return result } } }
      | _ \<Rightarrow> return None)"

section \<open>Reading a result\<close>

text \<open>
  A result whose row and column counts are what an \<open>int\<close> can hold, and whose cells are there: what
  libpq documents of \<open>PQntuples\<close>, \<open>PQnfields\<close> and \<open>PQgetvalue\<close> for every result.
\<close>

definition result_table_ok :: "pg_result \<Rightarrow> bool" where
  "result_table_ok r \<longleftrightarrow>
     0 \<le> pq_ntuples r \<and> pq_ntuples r < 2 ^ 31 \<and> 0 \<le> pq_nfields r \<and> pq_nfields r < 2 ^ 31 \<and>
     (\<forall>i j. 0 \<le> i \<and> i < pq_ntuples r \<and> 0 \<le> j \<and> j < pq_nfields r \<longrightarrow> pq_cell r i j \<noteq> None)"

lemma row_count_int:
  "result_table_ok r \<Longrightarrow>
   int (portal_database_result_row_count (Some \<lparr>db_result = Some r\<rparr>)) = pq_ntuples r"
  by (simp add: portal_database_result_row_count_def result_table_ok_def)

lemma result_value_cell:
  assumes "result_table_ok r"
  shows "portal_database_result_value (Some \<lparr>db_result = Some r\<rparr>) row column =
    (if int row < pq_ntuples r \<and> int column < pq_nfields r then pq_cell r (int row) (int column)
     else None)"
proof -
  have "size_of_int (pq_nfields r) = nat (pq_nfields r)"
    using assms by (simp add: result_table_ok_def)
  moreover have "row \<ge> portal_database_result_row_count (Some \<lparr>db_result = Some r\<rparr>) \<longleftrightarrow>
      int row \<ge> pq_ntuples r"
    using row_count_int [OF assms] by linarith
  ultimately show ?thesis
    using assms by (auto simp: portal_database_result_value_def result_table_ok_def)
qed

lemma result_value_present:
  assumes "result_table_ok r" and "int row < pq_ntuples r" and "int column < pq_nfields r"
  shows "portal_database_result_value (Some \<lparr>db_result = Some r\<rparr>) row column \<noteq> None"
  using assms by (simp add: result_value_cell) (simp add: result_table_ok_def)

lemma null_result [simp]:
  "portal_database_result_status None = PORTAL_DATABASE_RESULT_ERROR"
  "portal_database_result_row_count None = 0"
  "portal_database_result_value None row column = None"
  "\<not> portal_database_result_is_unique_violation None"
  by (simp_all add: portal_database_result_status_def portal_database_result_row_count_def
      portal_database_result_value_def portal_database_result_is_unique_violation_def)

lemma status_tuples_iff [simp]:
  "portal_database_result_status (Some \<lparr>db_result = Some r\<rparr>) = PORTAL_DATABASE_RESULT_TUPLES \<longleftrightarrow>
   pq_status r = PGRES_TUPLES_OK"
  by (simp add: portal_database_result_status_def)

lemma status_command_iff [simp]:
  "portal_database_result_status (Some \<lparr>db_result = Some r\<rparr>) = PORTAL_DATABASE_RESULT_COMMAND \<longleftrightarrow>
   pq_status r = PGRES_COMMAND_OK"
  by (simp add: portal_database_result_status_def)

section \<open>The contract of a statement\<close>

text \<open>Nothing stands between a caller and the server: there is a connection and memory.\<close>

definition database_available :: "('x, 'j) ext \<Rightarrow> portal_database option \<Rightarrow> bool" where
  "database_available E database \<longleftrightarrow> generous E \<and> Option.bind database db_connection \<noteq> None"

text \<open>
  What a caller sees of one statement: no result (refused before the server, or no answer), or a
  result it owns, with exactly one SQL event for the text and the parameters given. The statement
  is refused only when the database is not available.
\<close>

definition statement_outcome ::
  "bool \<Rightarrow> (pg_result \<Rightarrow> bool) \<Rightarrow> string \<Rightarrow> string option list \<Rightarrow> pg_result option \<Rightarrow> event list \<Rightarrow> bool" where
  "statement_outcome available possible command values answer es \<longleftrightarrow>
     responses es = [] \<and> stays_defined es \<and> dropped_references es = 0 \<and>
     (case answer of
        None \<Rightarrow> owns es [] \<and> (sqls es = [] \<and> \<not> available \<or> sqls es = [(command, values, None)])
      | Some r \<Rightarrow> possible r \<and> owns es [Heap_Block, Pg_Result] \<and> sqls es = [(command, values, Some r)])"

locale statement_runner =
  fixes run_query :: "string option \<Rightarrow> nat \<Rightarrow> string option list \<Rightarrow> ('x, 'r option) prog"
    and destroy :: "'r option \<Rightarrow> ('x, 'r option) prog"
    and answer_of :: "'r \<Rightarrow> pg_result option"
    and possible :: "string \<Rightarrow> string option list \<Rightarrow> pg_result \<Rightarrow> bool"
    and available :: bool
  assumes run_query_contract: "n \<le> length values \<Longrightarrow> n \<le> INT_MAX \<Longrightarrow>
      emits (run_query (Some command) n values) (\<lambda>r es.
        (r = None \<or> Option.bind r answer_of \<noteq> None) \<and>
        statement_outcome available (possible command (take n values)) command (take n values)
          (Option.bind r answer_of) es)"
    and destroy_contract: "r = None \<or> Option.bind r answer_of \<noteq> None \<Longrightarrow>
      emits (destroy r) (\<lambda>r' es. r' = None \<and> quiet es \<and>
        (\<forall>k. held k es = - int (count_list (if r = None then [] else [Heap_Block, Pg_Result]) k)))"
begin

text \<open>The rules a caller uses.\<close>

lemma run_query_rule:
  assumes "n \<le> length values" and "n \<le> INT_MAX"
    and "\<And>es. owns es [] \<Longrightarrow> sqls es = [] \<and> \<not> available \<or> sqls es = [(command, take n values, None)] \<Longrightarrow>
      responses es = [] \<Longrightarrow> stays_defined es \<Longrightarrow> dropped_references es = 0 \<Longrightarrow> K None es"
    and "\<And>h r es. answer_of h = Some r \<Longrightarrow> possible command (take n values) r \<Longrightarrow>
      owns es [Heap_Block, Pg_Result] \<Longrightarrow> sqls es = [(command, take n values, Some r)] \<Longrightarrow>
      responses es = [] \<Longrightarrow> stays_defined es \<Longrightarrow> dropped_references es = 0 \<Longrightarrow> K (Some h) es"
  shows "emits (run_query (Some command) n values) K"
proof (rule emits_mono [OF run_query_contract [OF assms(1,2)]])
  fix r es
  assume "(r = None \<or> Option.bind r answer_of \<noteq> None) \<and>
      statement_outcome available (possible command (take n values)) command (take n values)
        (Option.bind r answer_of) es"
  then show "K r es"
    using assms(3,4) by (cases r) (auto simp: statement_outcome_def)
qed

lemma destroy_rule:
  assumes "r = None \<or> Option.bind r answer_of \<noteq> None"
    and "\<And>es. quiet es \<Longrightarrow>
      (\<And>k. held k es = - int (count_list (if r = None then [] else [Heap_Block, Pg_Result]) k)) \<Longrightarrow>
      K None es"
  shows "emits (destroy r) K"
  by (rule emits_mono [OF destroy_contract [OF assms(1)]]) (auto intro: assms(2))

text \<open>A statement whose result is destroyed leaves nothing behind.\<close>

lemma run_and_destroy:
  assumes "n \<le> length values" and "n \<le> INT_MAX"
  shows "emits (do { r \<leftarrow> run_query (Some command) n values; destroy r })
    (\<lambda>r es. r = None \<and> owns es [] \<and> stays_defined es \<and> responses es = [] \<and> length (sqls es) \<le> 1)"
  by (intro emits_bind run_query_rule destroy_rule assms) (auto simp: owns_def quiet_def)

end

subsection \<open>The database provides it\<close>

lemma emits_result_destroy:
  assumes "r = None \<Longrightarrow> K None []"
    and "\<And>a. r = Some a \<Longrightarrow>
      K None ((case db_result a of None \<Rightarrow> [] | Some _ \<Rightarrow> [Released Pg_Result]) @ [Released Heap_Block])"
  shows "emits (portal_database_result_destroy r) K"
  unfolding portal_database_result_destroy_def using assms
  by (intro emits_intros) auto

lemma emits_database_query:
  assumes "n \<le> length values" and "n \<le> INT_MAX"
    and none: "\<And>es. owns es [] \<Longrightarrow> sqls es = [] \<and> \<not> database_available E database \<or> sqls es = [(command, take n values, None)] \<Longrightarrow>
      responses es = [] \<Longrightarrow> stays_defined es \<Longrightarrow> dropped_references es = 0 \<Longrightarrow> K None es"
    and some: "\<And>c r es. Option.bind database db_connection = Some c \<Longrightarrow>
      may_answer E c command (take n values) (Some r) \<Longrightarrow>
      owns es [Heap_Block, Pg_Result] \<Longrightarrow> sqls es = [(command, take n values, Some r)] \<Longrightarrow>
      responses es = [] \<Longrightarrow> stays_defined es \<Longrightarrow> dropped_references es = 0 \<Longrightarrow>
      K (Some \<lparr>db_result = Some r\<rparr>) es"
  shows "emits (portal_database_query E database (Some command) n values) K"
proof (cases "Option.bind database db_connection")
  case None
  then show ?thesis
    by (simp add: portal_database_query_def) (intro emits_intros none; simp add: owns_def database_available_def)
next
  case (Some c)
  show ?thesis
    unfolding portal_database_query_def Some prod.case option.case
    by (intro emits_intros emits_result_destroy)
      (use assms(1,2) in \<open>auto simp: owns_def database_available_def intro!: none some [OF Some]\<close>)
qed

definition database_may_answer ::
  "('x, 'j) ext \<Rightarrow> portal_database option \<Rightarrow> string \<Rightarrow> string option list \<Rightarrow> pg_result \<Rightarrow> bool" where
  "database_may_answer E database command values r \<longleftrightarrow>
     (\<exists>c. Option.bind database db_connection = Some c \<and> may_answer E c command values (Some r))"

interpretation db: statement_runner "portal_database_query E database"
    portal_database_result_destroy db_result "database_may_answer E database" "database_available E database"
  for E database
proof
  fix n command and "values" :: "string option list"
  assume "n \<le> length values" and "n \<le> INT_MAX"
  then show "emits (portal_database_query E database (Some command) n values) (\<lambda>r es.
      (r = None \<or> Option.bind r db_result \<noteq> None) \<and>
      statement_outcome (database_available E database) (database_may_answer E database command (take n values)) command (take n values)
        (Option.bind r db_result) es)"
    by (intro emits_database_query)
      (auto simp: statement_outcome_def database_may_answer_def)
next
  fix r :: "database_result option"
  assume "r = None \<or> Option.bind r db_result \<noteq> None"
  then show "emits (portal_database_result_destroy r) (\<lambda>r' es. r' = None \<and> quiet es \<and>
      (\<forall>k. held k es = - int (count_list (if r = None then [] else [Heap_Block, Pg_Result]) k)))"
    by (intro emits_result_destroy) (auto simp: quiet_def)
qed

end
