(* ===== verification/Statements.thy ===== *)
theory Statements
  imports Database
begin

text \<open>
  The SQL text of the program: one constant per string literal of \<^verbatim>\<open>src/src/http/\<close>, character for
  character, and the table of the statements with the number of parameters the route passes. What
  the statements do inside PostgreSQL is outside the model; \<open>server_contract\<close> states the shape of
  their answers, which the routes read without checking it again.
\<close>

definition quote_char :: string where
  "quote_char = [CHR 0x27]"

definition auth_query :: string where
  "auth_query =
     ''SELECT u.id::text, u.email FROM auth_sessions s JOIN users u ON '' @
     ''u.id=s.user_id WHERE s.token=$1::uuid AND s.revoked_at IS NULL AND '' @
     ''s.expires_at > now() AND u.confirmed_at IS NOT NULL''"

definition register_query :: string where
  "register_query =
     ''WITH new_user AS ( INSERT INTO users (email, display_name, '' @
     ''password_hash)  VALUES ($1, $3, crypt($2, gen_salt('' @ quote_char @ ''bf'' @ quote_char @
     '', 12))) RETURNING id), new_token AS ( INSERT INTO confirmation_tokens '' @
     ''(user_id, expires_at)  SELECT id, now() + ($4::int * interval '' @ quote_char @
     ''1 hour'' @ quote_char @
     '') FROM new_user  RETURNING token, expires_at) SELECT token::text, '' @
     ''expires_at::text FROM new_token''"

definition confirm_query :: string where
  "confirm_query =
     ''WITH consumed AS ( UPDATE confirmation_tokens SET consumed_at=now()  '' @
     ''WHERE token=$1::uuid AND consumed_at IS NULL AND expires_at > now()  '' @
     ''RETURNING user_id) UPDATE users u SET '' @
     ''confirmed_at=COALESCE(u.confirmed_at, now()), updated_at=now() FROM '' @
     ''consumed c WHERE u.id=c.user_id RETURNING u.id''"

definition login_query :: string where
  "login_query =
     ''WITH candidate AS ( SELECT id FROM users WHERE email=$1 AND '' @
     ''confirmed_at IS NOT NULL  AND password_hash=crypt($2, '' @
     ''password_hash)), session AS ( INSERT INTO auth_sessions (user_id, '' @
     ''expires_at)  SELECT id, now() + ($3::int * interval '' @ quote_char @ ''1 hour'' @
     quote_char @ '') FROM candidate  RETURNING token, expires_at) SELECT token::text, '' @
     ''expires_at::text FROM session''"

definition logout_query :: string where
  "logout_query =
     ''UPDATE auth_sessions SET revoked_at=now() WHERE token=$1::uuid AND '' @
     ''revoked_at IS NULL''"

definition tag_list_query :: string where
  "tag_list_query =
     ''SELECT tag_key FROM favorite_tags WHERE user_id=$1::uuid ORDER BY '' @ ''tag_key''"

definition section_list_query :: string where
  "section_list_query =
     ''SELECT section_key FROM favorite_sections WHERE user_id=$1::uuid '' @
     ''ORDER BY section_key''"

definition tag_insert_query :: string where
  "tag_insert_query =
     ''INSERT INTO favorite_tags (user_id, tag_key) VALUES ($1::uuid, $2) ON '' @
     ''CONFLICT DO NOTHING''"

definition tag_delete_query :: string where
  "tag_delete_query =
     ''DELETE FROM favorite_tags WHERE user_id=$1::uuid AND tag_key=$2''"

definition section_insert_query :: string where
  "section_insert_query =
     ''INSERT INTO favorite_sections (user_id, section_key) VALUES '' @
     ''($1::uuid, $2) ON CONFLICT DO NOTHING''"

definition section_delete_query :: string where
  "section_delete_query =
     ''DELETE FROM favorite_sections WHERE user_id=$1::uuid AND '' @ ''section_key=$2''"

definition activity_query :: string where
  "activity_query =
     ''INSERT INTO activity_events (user_id, anonymous_id, portal_key, '' @
     ''event_type, content_id, component_id, page_url, event_data) VALUES '' @ ''(NULLIF($1, '' @
     quote_char @ quote_char @ '')::uuid, NULLIF($2, '' @ quote_char @ quote_char @
     ''), $3, $4, NULLIF($5, '' @ quote_char @ quote_char @ ''), NULLIF($6, '' @ quote_char @
     quote_char @ ''), NULLIF($7, '' @ quote_char @ quote_char @ ''), $8::jsonb) RETURNING id''"

definition like_insert_query :: string where
  "like_insert_query =
     ''WITH added AS ( INSERT INTO content_likes (content_id, user_id, '' @
     ''anonymous_id, actor_key)  VALUES ($1, NULLIF($2, '' @ quote_char @ quote_char @
     '')::uuid, NULLIF($3, '' @ quote_char @ quote_char @
     ''), $4)  ON CONFLICT DO NOTHING RETURNING 1) INSERT INTO '' @
     ''activity_events (user_id, anonymous_id, portal_key, event_type, '' @
     ''content_id) SELECT NULLIF($2, '' @ quote_char @ quote_char @ '')::uuid, NULLIF($3, '' @
     quote_char @ quote_char @ ''), $5, '' @ quote_char @ ''like'' @ quote_char @
     '', $1 FROM added RETURNING id''"

definition like_delete_query :: string where
  "like_delete_query =
     ''DELETE FROM content_likes WHERE content_id=$1 AND actor_key=$2''"

definition comment_query :: string where
  "comment_query =
     ''WITH created_comment AS ( INSERT INTO comments (content_id, user_id, '' @
     ''anonymous_id, author_name, body)  VALUES ($1, NULLIF($2, '' @ quote_char @ quote_char @
     '')::uuid, NULLIF($3, '' @ quote_char @ quote_char @ ''), NULLIF($4, '' @ quote_char @
     quote_char @ ''), $5)  RETURNING id, created_at), created_event AS ( INSERT INTO '' @
     ''activity_events  (user_id, anonymous_id, portal_key, event_type, '' @
     ''content_id)  SELECT NULLIF($2, '' @ quote_char @ quote_char @ '')::uuid, NULLIF($3, '' @
     quote_char @ quote_char @ ''), $6, '' @ quote_char @ ''comment'' @ quote_char @
     '', $1  FROM created_comment) SELECT id::text, created_at::text FROM '' @
     ''created_comment''"

definition top_content_query :: string where
  "top_content_query =
     ''SELECT content_id, count(*)::text FROM activity_events WHERE '' @
     ''portal_key=$1 AND content_id IS NOT NULL AND event_type IN ('' @ quote_char @
     ''content_view'' @ quote_char @ '', '' @ quote_char @ ''page_view'' @ quote_char @
     '') AND occurred_at >= now() - ($2::int * interval '' @ quote_char @ ''1 day'' @
     quote_char @ '') GROUP BY content_id ORDER BY count(*) DESC, content_id ASC LIMIT '' @
     ''$3::int''"

text \<open>Each statement with its number of parameters and the number of columns of its answer.\<close>

definition sql_table :: "(string \<times> nat \<times> nat) list" where
  "sql_table =
     [(auth_query, 1, 2),
      (register_query, 4, 2),
      (confirm_query, 1, 1),
      (login_query, 3, 2),
      (logout_query, 1, 0),
      (tag_list_query, 1, 1),
      (section_list_query, 1, 1),
      (tag_insert_query, 2, 0),
      (tag_delete_query, 2, 0),
      (section_insert_query, 2, 0),
      (section_delete_query, 2, 0),
      (activity_query, 8, 1),
      (like_insert_query, 5, 1),
      (like_delete_query, 2, 0),
      (comment_query, 6, 2),
      (top_content_query, 3, 2)]"

lemma sql_table_distinct: "distinct (map fst sql_table)"
  by code_simp

text \<open>A statement of the table with as many parameters as it has placeholders, none of them null.\<close>

definition known_statement :: "string \<times> string option list \<times> pg_result option \<Rightarrow> bool" where
  "known_statement s = (case s of (command, values, _) \<Rightarrow>
     list_ex (\<lambda>(q, n, _). command = q \<and> length values = n) sql_table \<and>
     list_all (\<lambda>v. v \<noteq> None) values)"

text \<open>
  What PostgreSQL and libpq document of the answers: the columns of the statement's output list,
  cells for every row and column, and one row for the two insertions the program reads without
  looking at the row count (an \<open>INSERT ... VALUES ... RETURNING\<close> that succeeds returns its row).
\<close>

definition answer_ok :: "string \<Rightarrow> pg_result \<Rightarrow> bool" where
  "answer_ok command r \<longleftrightarrow>
     (pq_status r = PGRES_TUPLES_OK \<longrightarrow>
        result_table_ok r \<and>
        list_all (\<lambda>(q, _, columns). command = q \<longrightarrow> pq_nfields r = int columns) sql_table \<and>
        (command = register_query \<or> command = activity_query \<longrightarrow> pq_ntuples r = 1))"

definition server_contract :: "('x, 'j) ext \<Rightarrow> bool" where
  "server_contract E \<longleftrightarrow>
     (\<forall>c command values r. may_answer E c command values (Some r) \<longrightarrow> answer_ok command r)"

lemma server_contractD:
  "server_contract E \<Longrightarrow> database_may_answer E database command values r \<Longrightarrow> answer_ok command r"
  by (auto simp: server_contract_def database_may_answer_def)

text \<open>The cell of a result as the program reads it; the empty text stands for a null pointer.\<close>

definition cell_text :: "pg_result \<Rightarrow> nat \<Rightarrow> nat \<Rightarrow> string" where
  "cell_text r row column =
     text_of (portal_database_result_value (Some \<lparr>db_result = Some r\<rparr>) row column)"

definition cell_present :: "pg_result \<Rightarrow> nat \<Rightarrow> nat \<Rightarrow> bool" where
  "cell_present r row column \<longleftrightarrow>
     portal_database_result_value (Some \<lparr>db_result = Some r\<rparr>) row column \<noteq> None"

definition row_count :: "pg_result \<Rightarrow> nat" where
  "row_count r = portal_database_result_row_count (Some \<lparr>db_result = Some r\<rparr>)"

definition answered_tuples :: "pg_result option \<Rightarrow> bool" where
  "answered_tuples answer = (case answer of None \<Rightarrow> False | Some r \<Rightarrow> pq_status r = PGRES_TUPLES_OK)"

definition answered_command :: "pg_result option \<Rightarrow> bool" where
  "answered_command answer = (case answer of None \<Rightarrow> False | Some r \<Rightarrow> pq_status r = PGRES_COMMAND_OK)"

lemma answered_simps [simp]:
  "\<not> answered_tuples None" "answered_tuples (Some r) \<longleftrightarrow> pq_status r = PGRES_TUPLES_OK"
  "\<not> answered_command None" "answered_command (Some r) \<longleftrightarrow> pq_status r = PGRES_COMMAND_OK"
  by (simp_all add: answered_tuples_def answered_command_def)

lemma reading [simp]:
  "text_of (portal_database_result_value (Some \<lparr>db_result = Some r\<rparr>) i j) = cell_text r i j"
  "portal_database_result_value (Some \<lparr>db_result = Some r\<rparr>) i j = None \<longleftrightarrow> \<not> cell_present r i j"
  "portal_database_result_row_count (Some \<lparr>db_result = Some r\<rparr>) = row_count r"
  by (simp_all add: cell_text_def cell_present_def row_count_def)

lemma answer_cell_present:
  assumes "answer_ok command r" and "pq_status r = PGRES_TUPLES_OK"
    and "(command, n, columns) \<in> set sql_table"
    and "row < row_count r" and "column < columns"
  shows "cell_present r row column"
  unfolding cell_present_def
proof (rule result_value_present)
  show ok: "result_table_ok r"
    using assms(1,2) by (simp add: answer_ok_def)
  show "int row < pq_ntuples r"
    using row_count_int [OF ok] assms(4) by simp
  have "pq_nfields r = int columns"
    using assms(1,2,3) by (auto simp: answer_ok_def list_all_iff)
  with assms(5) show "int column < pq_nfields r" by simp
qed

text \<open>A cell the server's contract promises; the condition is what the routes check.\<close>

lemma promised_cell:
  assumes "server_contract E" and "database_may_answer E database command values r"
    and "pq_status r = PGRES_TUPLES_OK" and "(command, n, columns) \<in> set sql_table"
    and "row < row_count r" and "column < columns"
  shows "cell_present r row column"
  using answer_cell_present [OF server_contractD [OF assms(1,2)] assms(3,4,5,6)] .

text \<open>What a handle to a result keeps, and the rules of the database with the handle written out.\<close>

definition handle_held :: "resource \<Rightarrow> int" where
  "handle_held k = int (count_list [Heap_Block, Pg_Result] k)"

lemma emits_query [emits_intros]:
  assumes "n \<le> length values" and "n \<le> 8"
    and "\<And>es. (\<And>k. held k es = 0) \<Longrightarrow> sqls es = [] \<and> \<not> database_available E database \<or> sqls es = [(command, take n values, None)] \<Longrightarrow>
      responses es = [] \<Longrightarrow> stays_defined es \<Longrightarrow> dropped_references es = 0 \<Longrightarrow> K None es"
    and "\<And>r es. database_may_answer E database command (take n values) r \<Longrightarrow>
      (\<And>k. held k es = handle_held k) \<Longrightarrow> sqls es = [(command, take n values, Some r)] \<Longrightarrow>
      responses es = [] \<Longrightarrow> stays_defined es \<Longrightarrow> dropped_references es = 0 \<Longrightarrow>
      K (Some \<lparr>db_result = Some r\<rparr>) es"
  shows "emits (portal_database_query E database (Some command) n values) K"
proof (rule db.run_query_rule [OF assms(1)])
  show "n \<le> INT_MAX" using assms(2) by (simp add: INT_MAX_def)
next
  fix es
  assume "owns es []" "sqls es = [] \<and> \<not> database_available E database \<or> sqls es = [(command, take n values, None)]"
    "responses es = []" "stays_defined es" "dropped_references es = 0"
  then show "K None es" by (intro assms(3)) (simp_all add: owns_def)
next
  fix h :: database_result and r es
  assume h: "db_result h = Some r" and "database_may_answer E database command (take n values) r"
    "owns es [Heap_Block, Pg_Result]" "sqls es = [(command, take n values, Some r)]"
    "responses es = []" "stays_defined es" "dropped_references es = 0"
  moreover have "h = \<lparr>db_result = Some r\<rparr>" using h by (cases h) simp
  ultimately show "K (Some h) es" by (auto intro!: assms(4) simp: owns_def handle_held_def)
qed

lemma emits_destroy [emits_intros]:
  assumes "r = None \<Longrightarrow> K None []"
    and "\<And>a es. r = Some \<lparr>db_result = Some a\<rparr> \<Longrightarrow> quiet es \<Longrightarrow> (\<And>k. held k es = - handle_held k) \<Longrightarrow> K None es"
    and "r = None \<or> Option.bind r db_result \<noteq> None"
  shows "emits (portal_database_result_destroy r) K"
proof (cases r)
  case None
  with assms(1) show ?thesis
    by (simp add: portal_database_result_destroy_def emits_return)
next
  case (Some h)
  with assms(3) obtain a where "db_result h = Some a" by auto
  then have "h = \<lparr>db_result = Some a\<rparr>" by (cases h) simp
  with Some have r: "r = Some \<lparr>db_result = Some a\<rparr>" by simp
  show ?thesis
    using assms(2) [OF r] by (intro db.destroy_rule assms(3)) (simp add: r handle_held_def)
qed

end
