(* ===== verification/Response.thy ===== *)
theory Response
  imports Outside
begin

text \<open>
  \<^verbatim>\<open>src/src/http/response.c\<close>: every response the program sends. All five functions share one
  contract, the locale \<open>responder\<close>: they queue at most one response, with the given status and
  body, they fail only for want of memory or of libmicrohttpd's consent, and they leave nothing
  behind.
\<close>

section \<open>JSON objects built entry by entry\<close>

text \<open>\<open>json_object_object_add(obj, key, json_object_new_string(text))\<close> and its integer variant.\<close>

definition json_add_string ::
  "('x, 'j) ext \<Rightarrow> 'j \<Rightarrow> string \<Rightarrow> string option \<Rightarrow> ('x, 'j) prog" where
  "json_add_string E obj key text = do {
     child \<leftarrow> json_object_new_string E text;
     json_object_object_add E obj key child }"

definition json_add_int64 :: "('x, 'j) ext \<Rightarrow> 'j \<Rightarrow> string \<Rightarrow> int \<Rightarrow> ('x, 'j) prog" where
  "json_add_int64 E obj key i = do {
     child \<leftarrow> json_object_new_int64 E i;
     json_object_object_add E obj key child }"

text \<open>\<open>json_object_array_add(arr, json_object_new_string(text))\<close>.\<close>

definition json_append_string ::
  "('x, 'j) ext \<Rightarrow> 'j \<Rightarrow> string option \<Rightarrow> ('x, 'j) prog" where
  "json_append_string E arr text = do {
     child \<leftarrow> json_object_new_string E text;
     json_object_array_add E arr child }"

text \<open>\<open>if (json != NULL) json_object_put(json)\<close>, the clean-up of a reference.\<close>

definition json_cleanup :: "'j option \<Rightarrow> ('x, unit) prog" where
  "json_cleanup json = (case json of None \<Rightarrow> return () | Some _ \<Rightarrow> json_object_put)"

text \<open>
  The possible values after one insertion: refused, a null in place of a value that could not be
  allocated, or the value; with memory to spare, the value.
\<close>

definition inserted :: "('x, 'j) ext \<Rightarrow> 'j \<Rightarrow> ('j option \<Rightarrow> 'j) \<Rightarrow> 'j \<Rightarrow> 'j \<Rightarrow> bool" where
  "inserted E container put child result \<longleftrightarrow>
     (result = container \<or> result = put None \<or> result = put (Some child)) \<and>
     (generous E \<longrightarrow> result = put (Some child))"

fun built_from :: "('x, 'j) ext \<Rightarrow> 'j \<Rightarrow> (string \<times> 'j) list \<Rightarrow> 'j \<Rightarrow> bool" where
  "built_from E obj [] result = (result = obj)"
| "built_from E obj ((key, child) # entries) result =
     (\<exists>obj'. inserted E obj (jc_add E obj key) child obj' \<and> built_from E obj' entries result)"

lemma built_from_append:
  "built_from E obj (fs @ gs) result \<longleftrightarrow> (\<exists>mid. built_from E obj fs mid \<and> built_from E mid gs result)"
  by (induction E obj fs result rule: built_from.induct) auto

fun appended_from :: "('x, 'j) ext \<Rightarrow> 'j \<Rightarrow> 'j list \<Rightarrow> 'j \<Rightarrow> bool" where
  "appended_from E arr [] result = (result = arr)"
| "appended_from E arr (child # children) result =
     (\<exists>arr'. inserted E arr (jc_append E arr) child arr' \<and> appended_from E arr' children result)"

lemma appended_from_generous:
  "generous E \<Longrightarrow> appended_from E arr children result \<longleftrightarrow>
   result = foldl (\<lambda>a child. jc_append E a (Some child)) arr children"
  by (induction E arr children result rule: appended_from.induct) (auto simp: inserted_def)

definition full_object :: "('x, 'j) ext \<Rightarrow> (string \<times> 'j) list \<Rightarrow> 'j" where
  "full_object E entries = foldl (\<lambda>obj (key, child). jc_add E obj key (Some child)) (jc_object E) entries"

lemma built_from_generous:
  "generous E \<Longrightarrow> built_from E obj entries result \<longleftrightarrow>
   result = foldl (\<lambda>obj (key, child). jc_add E obj key (Some child)) obj entries"
  by (induction E obj entries result rule: built_from.induct) (auto simp: inserted_def)

text \<open>A body that is the print of an object built from these entries.\<close>

definition prints_entries :: "('x, 'j) ext \<Rightarrow> (string \<times> 'j) list \<Rightarrow> string \<Rightarrow> bool" where
  "prints_entries E entries body \<longleftrightarrow> (\<exists>j. built_from E (jc_object E) entries j \<and> body = jc_print E j)"

lemma prints_entriesI: "built_from E (jc_object E) entries j \<Longrightarrow> prints_entries E entries (jc_print E j)"
  by (auto simp: prints_entries_def)

lemma prints_entries_generous:
  "generous E \<Longrightarrow> prints_entries E entries body \<longleftrightarrow> body = jc_print E (full_object E entries)"
  by (auto simp: prints_entries_def built_from_generous full_object_def)

text \<open>The shapes that occur: one, two and three entries.\<close>

lemma prints_one:
  "inserted E (jc_object E) (jc_add E (jc_object E) k) c j \<Longrightarrow> prints_entries E [(k, c)] (jc_print E j)"
  by (intro prints_entriesI) auto

lemma prints_two:
  "inserted E (jc_object E) (jc_add E (jc_object E) k) c i \<Longrightarrow> inserted E i (jc_add E i k') c' j \<Longrightarrow>
   prints_entries E [(k, c), (k', c')] (jc_print E j)"
  by (intro prints_entriesI) auto

lemma prints_three:
  "inserted E (jc_object E) (jc_add E (jc_object E) k) c h \<Longrightarrow> inserted E h (jc_add E h k') c' i \<Longrightarrow>
   inserted E i (jc_add E i k'') c'' j \<Longrightarrow>
   prints_entries E [(k, c), (k', c'), (k'', c'')] (jc_print E j)"
  by (intro prints_entriesI) auto

lemmas prints_intros = prints_one prints_two prints_three

lemma emits_insert_new:
  assumes "\<And>result es. inserted E container put child result \<Longrightarrow> settled es \<Longrightarrow> sqls es = [] \<Longrightarrow>
      responses es = [] \<Longrightarrow> (generous E \<Longrightarrow> dropped_references es = 0) \<Longrightarrow> K result es"
  shows "emits (do { c \<leftarrow> json_new E child; json_insert E container c (put c) }) K"
  by (intro emits_intros emits_insert assms)
    (auto simp: inserted_def settled_def released_def)

lemma emits_add_string [emits_intros]:
  assumes "\<And>result es.
      inserted E obj (jc_add E obj key) (jc_string E (text_of content)) result \<Longrightarrow>
      released es \<Longrightarrow> sqls es = [] \<Longrightarrow> responses es = [] \<Longrightarrow>
      (generous E \<Longrightarrow> dropped_references es = 0) \<Longrightarrow> stays_defined es \<longleftrightarrow> content \<noteq> None \<Longrightarrow> K result es"
  shows "emits (json_add_string E obj key content) K"
proof -
  have "emits (do { t \<leftarrow> deref content [];
        do { c \<leftarrow> json_new E (jc_string E t); json_insert E obj c (jc_add E obj key c) } }) K"
    by (rule emits_bind, rule emits_deref; rule emits_insert_new; rule assms)
      (auto simp: settled_def released_def)
  then show ?thesis
    by (simp add: json_add_string_def json_object_new_string_def json_object_object_add_def)
qed

lemma emits_append_string [emits_intros]:
  assumes "\<And>result es. inserted E arr (jc_append E arr) (jc_string E (text_of content)) result \<Longrightarrow>
      released es \<Longrightarrow> sqls es = [] \<Longrightarrow> responses es = [] \<Longrightarrow>
      (generous E \<Longrightarrow> dropped_references es = 0) \<Longrightarrow> stays_defined es \<longleftrightarrow> content \<noteq> None \<Longrightarrow> K result es"
  shows "emits (json_append_string E arr content) K"
proof -
  have "emits (do { t \<leftarrow> deref content [];
        do { c \<leftarrow> json_new E (jc_string E t); json_insert E arr c (jc_append E arr c) } }) K"
    by (rule emits_bind, rule emits_deref; rule emits_insert_new; rule assms)
      (auto simp: settled_def released_def)
  then show ?thesis
    by (simp add: json_append_string_def json_object_new_string_def json_object_array_add_def)
qed

lemma emits_cleanup [emits_intros]:
  "(json = None \<Longrightarrow> K () []) \<Longrightarrow> (\<And>j. json = Some j \<Longrightarrow> K () [Released Json_Reference]) \<Longrightarrow>
   emits (json_cleanup json) K"
  unfolding json_cleanup_def by (intro emits_intros) auto

lemma emits_add_child:
  assumes "\<And>result es. inserted E obj (jc_add E obj key) child result \<Longrightarrow>
      (\<And>r. held r es = (if r = Json_Reference then int (dropped_references es) - 1 else 0)) \<Longrightarrow>
      sqls es = [] \<Longrightarrow> responses es = [] \<Longrightarrow> stays_defined es \<Longrightarrow>
      (generous E \<Longrightarrow> dropped_references es = 0) \<Longrightarrow> K result es"
  shows "emits (json_object_object_add E obj key (Some child)) K"
  unfolding json_object_object_add_def
  by (rule emits_insert; rule assms) (auto simp: inserted_def)

lemma emits_append_child:
  assumes "\<And>result es. inserted E arr (jc_append E arr) child result \<Longrightarrow>
      (\<And>r. held r es = (if r = Json_Reference then int (dropped_references es) - 1 else 0)) \<Longrightarrow>
      sqls es = [] \<Longrightarrow> responses es = [] \<Longrightarrow> stays_defined es \<Longrightarrow>
      (generous E \<Longrightarrow> dropped_references es = 0) \<Longrightarrow> K result es"
  shows "emits (json_object_array_add E arr (Some child)) K"
  unfolding json_object_array_add_def
  by (rule emits_insert; rule assms) (auto simp: inserted_def)

lemma emits_add_int64 [emits_intros]:
  assumes "\<And>result es. inserted E obj (jc_add E obj key) (jc_int E i) result \<Longrightarrow>
      settled es \<Longrightarrow> sqls es = [] \<Longrightarrow> responses es = [] \<Longrightarrow>
      (generous E \<Longrightarrow> dropped_references es = 0) \<Longrightarrow> K result es"
  shows "emits (json_add_int64 E obj key i) K"
  unfolding json_add_int64_def json_object_new_int64_def json_object_object_add_def
  by (intro emits_insert_new assms)

section \<open>The functions\<close>

text \<open>The chain of header additions stops at the first refusal.\<close>

fun add_headers ::
  "('x, 'j) ext \<Rightarrow> mhd_response \<Rightarrow> (string \<times> string) list \<Rightarrow> ('x, bool \<times> mhd_response) prog" where
  "add_headers E response [] = return (True, response)"
| "add_headers E response ((header, content) # rest) = do {
     (result, response') \<leftarrow> MHD_add_response_header E response header content;
     if result = MHD_NO then return (False, response') else add_headers E response' rest }"

definition portal_http_response_bytes ::
  "('x, 'j) ext \<Rightarrow> mhd_connection option \<Rightarrow> nat \<Rightarrow> string option \<Rightarrow> nat \<Rightarrow> string option \<Rightarrow>
   ('x, mhd_result) prog" where
  "portal_http_response_bytes E connection status data n content_type =
     (case (connection, data, content_type) of
        (Some _, Some bytes, Some ctype) \<Rightarrow> do {
          created \<leftarrow> MHD_create_response_from_buffer E n bytes;
          (case created of
             None \<Rightarrow> return MHD_NO
           | Some response \<Rightarrow> do {
               (ok, response') \<leftarrow> add_headers E response
                 [(''Content-Type'', ctype), (''X-Content-Type-Options'', ''nosniff''),
                  (''Cache-Control'', ''no-store''), (''Access-Control-Allow-Origin'', ''*'')];
               result \<leftarrow> (if ok then MHD_queue_response E status response' else return MHD_NO);
               MHD_destroy_response;
               return result }) }
      | _ \<Rightarrow> return MHD_NO)"

definition portal_http_response_json ::
  "('x, 'j) ext \<Rightarrow> mhd_connection option \<Rightarrow> nat \<Rightarrow> 'j option \<Rightarrow> ('x, mhd_result) prog" where
  "portal_http_response_json E connection status json =
     (case json of
        None \<Rightarrow> return MHD_NO
      | Some j \<Rightarrow>
          let text = jc_print E j in
          portal_http_response_bytes E connection status (Some text) (length text)
            (Some ''application/json; charset=utf-8''))"

definition portal_http_response_empty ::
  "('x, 'j) ext \<Rightarrow> mhd_connection option \<Rightarrow> nat \<Rightarrow> ('x, mhd_result) prog" where
  "portal_http_response_empty E connection status =
     portal_http_response_bytes E connection status (Some []) 0
       (Some ''application/json; charset=utf-8'')"

definition portal_http_response_error ::
  "('x, 'j) ext \<Rightarrow> mhd_connection option \<Rightarrow> nat \<Rightarrow> string option \<Rightarrow> string option \<Rightarrow>
   ('x, mhd_result) prog" where
  "portal_http_response_error E connection status ecode message =
     (if ecode = None \<or> message = None then return MHD_NO
      else do {
        created \<leftarrow> json_object_new_object E;
        (case created of
           None \<Rightarrow> return MHD_NO
         | Some json \<Rightarrow> do {
             json \<leftarrow> json_add_string E json ''error'' ecode;
             json \<leftarrow> json_add_string E json ''message'' message;
             result \<leftarrow> portal_http_response_json E connection status (Some json);
             json_object_put;
             return result }) })"

definition portal_http_response_options ::
  "('x, 'j) ext \<Rightarrow> mhd_connection option \<Rightarrow> ('x, mhd_result) prog" where
  "portal_http_response_options E connection = do {
     created \<leftarrow> MHD_create_response_from_buffer E 0 [];
     (case created of
        None \<Rightarrow> return MHD_NO
      | Some response \<Rightarrow> do {
          (ok, response') \<leftarrow> add_headers E response
            [(''Access-Control-Allow-Origin'', ''*''),
             (''Access-Control-Allow-Headers'', ''Authorization, Content-Type''),
             (''Access-Control-Allow-Methods'', ''GET, POST, PUT, DELETE, OPTIONS'')];
          result \<leftarrow> (if ok then MHD_queue_response E 204 response' else return MHD_NO);
          MHD_destroy_response;
          return result }) }"

section \<open>The contract of a response\<close>

text \<open>
  One response with this status and a body in \<open>P\<close>, and its outcome is the result; or none, and the
  result makes libmicrohttpd close the connection. With memory to spare it is queued.
\<close>

definition replies ::
  "('x, 'j) ext \<Rightarrow> mhd_connection option \<Rightarrow> nat \<Rightarrow> (string \<Rightarrow> bool) \<Rightarrow> mhd_result \<Rightarrow>
   event list \<Rightarrow> bool" where
  "replies E connection status P result es \<longleftrightarrow>
     (responses es = [] \<and> result = MHD_NO \<and> \<not> (generous E \<and> connection \<noteq> None) \<or>
      (\<exists>body. responses es = [(status, body, result)] \<and> P body \<and> (generous E \<longrightarrow> result = MHD_YES)))"

lemma replies_weaken: "replies E connection status P result es \<Longrightarrow> (\<And>b. P b \<Longrightarrow> Q b) \<Longrightarrow>
    replies E connection status Q result es"
  by (auto simp: replies_def)

lemma replies_append [simp]:
  "responses es = [] \<Longrightarrow> replies E connection status P result (es @ fs) = replies E connection status P result fs"
  "responses fs = [] \<Longrightarrow> replies E connection status P result (es @ fs) = replies E connection status P result es"
  by (simp_all add: replies_def)

lemma replies_Cons [simp]:
  "replies E connection status P result (Acquired r # es) = replies E connection status P result es"
  "replies E connection status P result (Released r # es) = replies E connection status P result es"
  by (simp_all add: replies_def)

lemma replies_no_memory:
  "responses es = [] \<Longrightarrow> \<not> generous E \<Longrightarrow> replies E connection status P MHD_NO es"
  by (simp add: replies_def)

locale responder =
  fixes E :: "('x, 'j) ext"
    and connection :: "mhd_connection option"
    and reply :: "('x, mhd_result) prog"
    and status :: nat
    and body_ok :: "string \<Rightarrow> bool"
  assumes contract: "emits reply (\<lambda>result es. settled es \<and> sqls es = [] \<and> (generous E \<longrightarrow> dropped_references es = 0) \<and>
      replies E connection status body_ok result es)"
begin

lemma reply_rule:
  assumes "\<And>result es. settled es \<Longrightarrow> sqls es = [] \<Longrightarrow>
      (generous E \<Longrightarrow> dropped_references es = 0) \<Longrightarrow> replies E connection status body_ok result es \<Longrightarrow> K result es"
  shows "emits reply K"
  by (rule emits_mono [OF contract]) (auto intro: assms)

lemma at_most_one: "emits reply (\<lambda>result es. length (responses es) \<le> 1)"
  by (rule reply_rule) (auto simp: replies_def)

lemma exactly_one:
  "generous E \<Longrightarrow> connection \<noteq> None \<Longrightarrow>
   emits reply (\<lambda>result es. result = MHD_YES \<and> length (responses es) = 1)"
  by (rule reply_rule) (auto simp: replies_def)

end

lemma emits_add_headers:
  assumes "\<And>r'. \<not> generous E \<Longrightarrow> response_body r' = response_body r \<Longrightarrow> K (False, r') []"
    and "K (True, r\<lparr>response_headers := response_headers r @ hs\<rparr>) []"
  shows "emits (add_headers E r hs) K"
  using assms
proof (induction hs arbitrary: r)
  case Nil
  then show ?case by (auto intro: emits_return)
next
  case (Cons h hs)
  obtain a b where h: "h = (a, b)" by fastforce
  show ?case
    unfolding h add_headers.simps
    by (intro emits_intros) (use Cons.prems h in \<open>auto intro!: Cons.IH\<close>)
qed

lemma emits_response_bytes:
  assumes "n \<le> length bytes"
  shows "emits (portal_http_response_bytes E connection status (Some bytes) n (Some ctype))
    (\<lambda>result es. settled es \<and> sqls es = [] \<and> (generous E \<longrightarrow> dropped_references es = 0) \<and>
      replies E connection status (\<lambda>b. b = take n bytes) result es)"
proof (cases connection)
  case None
  then show ?thesis
    by (auto simp: portal_http_response_bytes_def replies_def intro: emits_return)
next
  case (Some c)
  show ?thesis
    unfolding portal_http_response_bytes_def Some prod.case option.case
    by (intro emits_intros emits_add_headers)
      (use assms in \<open>auto simp: replies_def settled_def released_def\<close>)
qed

interpretation bytes: responder E connection
    "portal_http_response_bytes E connection status (Some bytes) (length bytes) (Some ctype)" status
    "\<lambda>b. b = bytes" for E connection status bytes ctype
  using emits_response_bytes [of "length bytes" bytes] by unfold_locales simp

interpretation empty: responder E connection "portal_http_response_empty E connection status" status
    "\<lambda>b. b = []" for E connection status
  unfolding portal_http_response_empty_def
  using emits_response_bytes [of 0 "[]"] by unfold_locales simp

interpretation json: responder E connection
    "portal_http_response_json E connection status (Some j)" status "\<lambda>b. b = jc_print E j"
  for E connection status j
  unfolding portal_http_response_json_def option.case Let_def
  by unfold_locales (rule bytes.contract)

text \<open>The body of an error response.\<close>

definition error_body :: "('x, 'j) ext \<Rightarrow> string \<Rightarrow> string \<Rightarrow> string \<Rightarrow> bool" where
  "error_body E ecode message body \<longleftrightarrow>
     prints_entries E [(''error'', jc_string E ecode), (''message'', jc_string E message)] body"

interpretation error: responder E connection
    "portal_http_response_error E connection status (Some ecode) (Some message)" status
    "error_body E ecode message" for E connection status ecode message
proof
  show "emits (portal_http_response_error E connection status (Some ecode) (Some message))
      (\<lambda>result es. settled es \<and> sqls es = [] \<and> (generous E \<longrightarrow> dropped_references es = 0) \<and>
        replies E connection status (error_body E ecode message) result es)"
    unfolding portal_http_response_error_def
    by (simp del: bind_assoc, intro emits_intros json.reply_rule)
      (auto simp: error_body_def replies_def settled_def released_def intro: prints_intros)
qed

interpretation options: responder E connection "portal_http_response_options E connection" 204
    "\<lambda>b. b = []" for E connection
proof
  show "emits (portal_http_response_options E connection) (\<lambda>result es. settled es \<and> sqls es = [] \<and> (generous E \<longrightarrow> dropped_references es = 0) \<and>
      replies E connection 204 (\<lambda>b. b = []) result es)"
    unfolding portal_http_response_options_def
    by (intro emits_intros emits_add_headers)
      (auto simp: replies_def settled_def released_def)
qed

text \<open>The rules of the five senders, for the routes.\<close>

lemmas reply_rules = bytes.reply_rule empty.reply_rule json.reply_rule error.reply_rule options.reply_rule

end
