(* ===== verification/Authentication.thy ===== *)
theory Authentication
  imports Config Statements Response
begin

text \<open>
  \<^verbatim>\<open>src/src/http/authentication.c\<close> and the request context of \<^verbatim>\<open>http_internal.h\<close>. The lemmas give the
  decision of the function in every case: which headers are anonymous, which are refused without
  asking the database, and what the answer of the one session query means.
\<close>

record http_context =
  ctx_config :: "portal_config option"
  ctx_database :: "portal_database option"

text \<open>A request that finds the database available.\<close>

abbreviation live :: "('x, 'j) ext \<Rightarrow> http_context \<Rightarrow> bool" where
  "live E ctx \<equiv> database_available E (ctx_database ctx)"

record authenticated_user =
  user_id :: string
  user_email :: string

datatype auth_status = PORTAL_AUTH_INVALID | PORTAL_AUTH_ANONYMOUS | PORTAL_AUTH_AUTHENTICATED

definition PORTAL_HTTP_UUID_TEXT_LENGTH :: nat where
  "PORTAL_HTTP_UUID_TEXT_LENGTH = 36"

definition no_user :: authenticated_user where
  "no_user = \<lparr>user_id = [], user_email = []\<rparr>"

text \<open>The status and the user record after the call; the cleanup block is the last part.\<close>

definition portal_http_authenticate ::
  "('x, 'j) ext \<Rightarrow> http_context option \<Rightarrow> mhd_connection option \<Rightarrow> authenticated_user option \<Rightarrow>
   ('x, auth_status \<times> authenticated_user option) prog" where
  "portal_http_authenticate E context connection user =
     (case (context, connection, user) of
        (Some ctx, Some _, Some u) \<Rightarrow>
          (case lookup_header connection ''Authorization'' of
             None \<Rightarrow> return (PORTAL_AUTH_ANONYMOUS, user)
           | Some authorization \<Rightarrow>
               if authorization = [] then return (PORTAL_AUTH_ANONYMOUS, user)
               else if \<not> c_strneq authorization ''Bearer '' 7 \<or>
                 length (drop 7 authorization) \<noteq> PORTAL_HTTP_UUID_TEXT_LENGTH
               then return (PORTAL_AUTH_INVALID, user)
               else do {
                 result \<leftarrow> portal_database_query E (ctx_database ctx) (Some auth_query) 1
                   [Some (drop 7 authorization)];
                 (status, u') \<leftarrow>
                   (if portal_database_result_status result \<noteq> PORTAL_DATABASE_RESULT_TUPLES \<or>
                       portal_database_result_row_count result \<noteq> 1
                    then return (PORTAL_AUTH_INVALID, u)
                    else do {
                      id_text \<leftarrow> deref (portal_database_result_value result 0 0) [];
                      let (written, stored) =
                        c_snprintf (PORTAL_HTTP_UUID_TEXT_LENGTH + 1) id_text;
                      let u1 = u\<lparr>user_id := stored\<rparr>;
                      if written < 0 then return (PORTAL_AUTH_INVALID, u1)
                      else do {
                        email_text \<leftarrow> deref (portal_database_result_value result 0 1) [];
                        let (written, stored) = c_snprintf 256 email_text;
                        let u2 = u1\<lparr>user_email := stored\<rparr>;
                        if written < 0 then return (PORTAL_AUTH_INVALID, u2)
                        else return (PORTAL_AUTH_AUTHENTICATED, u2) } });
                 _ \<leftarrow> portal_database_result_destroy result;
                 return (status, Some u') })
      | _ \<Rightarrow> return (PORTAL_AUTH_INVALID, user))"

section \<open>The decision\<close>

text \<open>The token of a well-formed header.\<close>

definition bearer_token :: "mhd_connection option \<Rightarrow> string option" where
  "bearer_token connection =
     (case lookup_header connection ''Authorization'' of
        None \<Rightarrow> None
      | Some a \<Rightarrow>
          if take 7 a = ''Bearer '' \<and> length a = 43 then Some (drop 7 a) else None)"

definition no_credentials :: "mhd_connection option \<Rightarrow> bool" where
  "no_credentials connection \<longleftrightarrow> lookup_header connection ''Authorization'' \<in> {None, Some []}"

text \<open>The user id an answer to the session query names: one row, with texts an \<open>int\<close> can count.\<close>

definition session_user :: "pg_result option \<Rightarrow> string option" where
  "session_user answer =
     (case answer of
        None \<Rightarrow> None
      | Some r \<Rightarrow>
          if pq_status r = PGRES_TUPLES_OK \<and> row_count r = 1 \<and>
             length (cell_text r 0 0) \<le> INT_MAX \<and> length (cell_text r 0 1) \<le> INT_MAX
          then Some (take 36 (cell_text r 0 0)) else None)"

text \<open>
  What a call decides and what it asks of the server, from the header and the answer alone. With
  no header there is no statement; a malformed header is refused without one; a token is checked by
  exactly one statement, which is left out only when the database is not available, and the user
  is the one its answer names.
\<close>

definition auth_decision ::
  "bool \<Rightarrow> mhd_connection option \<Rightarrow> auth_status \<Rightarrow> string \<Rightarrow>
   (string \<times> string option list \<times> pg_result option) list \<Rightarrow> bool" where
  "auth_decision available connection status uid statements \<longleftrightarrow>
     (if no_credentials connection then status = PORTAL_AUTH_ANONYMOUS \<and> statements = []
      else case bearer_token connection of
          None \<Rightarrow> status = PORTAL_AUTH_INVALID \<and> statements = []
        | Some token \<Rightarrow>
            (statements = [] \<and> \<not> available \<and> status = PORTAL_AUTH_INVALID) \<or>
            (\<exists>answer. statements = [(auth_query, [Some token], answer)] \<and>
               (case session_user answer of
                  None \<Rightarrow> status = PORTAL_AUTH_INVALID
                | Some i \<Rightarrow> status = PORTAL_AUTH_AUTHENTICATED \<and> uid = i)))"

lemma bearer_token_eq:
  "lookup_header connection ''Authorization'' = Some a \<Longrightarrow> a \<noteq> [] \<Longrightarrow>
   bearer_token connection =
     (if \<not> c_strneq a ''Bearer '' 7 \<or> length (drop 7 a) \<noteq> PORTAL_HTTP_UUID_TEXT_LENGTH then None
      else Some (drop 7 a))"
  by (auto simp: bearer_token_def c_strneq_def PORTAL_HTTP_UUID_TEXT_LENGTH_def)

lemma emits_authenticate [emits_intros]:
  assumes "\<And>status u es. auth_decision (live E ctx) connection status (user_id u) (sqls es) \<Longrightarrow> released es \<Longrightarrow>
      dropped_references es = 0 \<Longrightarrow> responses es = [] \<Longrightarrow>
      (server_contract E \<Longrightarrow> stays_defined es) \<Longrightarrow> K (status, Some u) es"
    and "connection \<noteq> None"
  shows "emits (portal_http_authenticate E (Some ctx) connection (Some user)) K"
proof -
  obtain conn where conn: "connection = Some conn" using assms(2) by auto
  let ?header = "lookup_header connection ''Authorization''"
  have run: "emits (portal_http_authenticate E (Some ctx) connection (Some user)) K"
    if "?header = Some a" "a \<noteq> []" "c_strneq a ''Bearer '' 7"
      "length (drop 7 a) = PORTAL_HTTP_UUID_TEXT_LENGTH" for a
  proof -
    have token: "bearer_token connection = Some (drop 7 a)" "\<not> no_credentials connection"
      using that by (simp_all add: bearer_token_eq no_credentials_def)
    have cells: "cell_present r 0 j"
      if "server_contract E" "database_may_answer E (ctx_database ctx) auth_query vs r"
        "pq_status r = PGRES_TUPLES_OK" "row_count r = Suc 0" "j < 2" for r vs j
      using promised_cell [OF that(1-3), of 1 2 0 j] that(4,5) by (simp add: sql_table_def)
    show ?thesis
      using that unfolding portal_http_authenticate_def conn
      by (simp del: bind_assoc, intro emits_intros assms(1))
        (auto intro: cells simp: trace_defs auth_decision_def token session_user_def
          c_snprintf_def PORTAL_HTTP_UUID_TEXT_LENGTH_def)
  qed
  show ?thesis
  proof (cases "?header")
    case None
    then have "no_credentials connection" by (simp add: no_credentials_def)
    with None show ?thesis
      unfolding portal_http_authenticate_def conn
      by (auto simp: auth_decision_def conn intro!: emits_return assms(1))
  next
    case (Some a)
    show ?thesis
    proof (cases "a = [] \<or> \<not> c_strneq a ''Bearer '' 7 \<or>
        length (drop 7 a) \<noteq> PORTAL_HTTP_UUID_TEXT_LENGTH")
      case True
      with Some have "auth_decision (live E ctx) connection
          (if a = [] then PORTAL_AUTH_ANONYMOUS else PORTAL_AUTH_INVALID) (user_id user) []"
        by (auto simp: auth_decision_def no_credentials_def bearer_token_eq)
      with True Some show ?thesis
        unfolding portal_http_authenticate_def conn
        by (auto simp: conn intro!: emits_return assms(1) split: if_splits)
    next
      case False
      with Some run show ?thesis by blast
    qed
  qed
qed

end
