(* ===== verification/Request.thy ===== *)
theory Request
  imports Outside
begin

text \<open>
  \<^verbatim>\<open>src/src/http/request.c\<close>: the body of a request, collected chunk by chunk in a heap block that
  doubles, its parse, and the two readers of string members. The sizes are 64-bit words and the
  doubling loop is a partial function, so wrap-around and an endless loop are outcomes of the
  model; the invariant \<open>body_ok\<close> excludes both. The locale \<open>chunk_buffer\<close> is what the server needs
  of the buffer.
\<close>

record request_body =
  body_data :: "char list option"
  body_length :: "64 word"
  body_capacity :: "64 word"
  response_queued :: bool

definition PORTAL_HTTP_MAX_BODY_SIZE :: "64 word" where
  "PORTAL_HTTP_MAX_BODY_SIZE = 1048576"

definition new_body :: request_body where
  "new_body = \<lparr>body_data = None, body_length = 0, body_capacity = 0, response_queued = False\<rparr>"

section \<open>Collecting the body\<close>

partial_function (option) grow_capacity :: "64 word \<Rightarrow> 64 word \<Rightarrow> 64 word option" where
  "grow_capacity capacity required =
     (if capacity < required then grow_capacity (capacity * 2) required else Some capacity)"

declare grow_capacity.simps [code]

text \<open>The copy and the terminator; reading or writing outside a block is \<^term>\<open>None\<close>.\<close>

definition fill_body :: "char list option \<Rightarrow> nat \<Rightarrow> char list \<Rightarrow> nat \<Rightarrow> char list option" where
  "fill_body block offset bytes n =
     (case block of
        None \<Rightarrow> None
      | Some target \<Rightarrow>
          if length bytes < n then None
          else (case c_memcpy target offset (take n bytes) of
              None \<Rightarrow> None
            | Some copied \<Rightarrow> c_store copied (offset + n) (CHR 0x00)))"

definition portal_http_request_body_append ::
  "('x, 'j) ext \<Rightarrow> request_body option \<Rightarrow> char list option \<Rightarrow> 64 word \<Rightarrow>
   ('x, bool \<times> request_body option) prog" where
  "portal_http_request_body_append E body data n =
     (case (body, data) of
        (Some b, Some bytes) \<Rightarrow>
          if n > PORTAL_HTTP_MAX_BODY_SIZE - body_length b then return (False, body)
          else
            let required = body_length b + n + 1 in
            do {
              enough \<leftarrow>
                (if required > body_capacity b then
                   (case grow_capacity (if body_capacity b = 0 then 4096 else body_capacity b)
                           required of
                      None \<Rightarrow> do { emit Endless_Loop; return None }
                    | Some capacity \<Rightarrow> do {
                        resized \<leftarrow> c_realloc E (body_data b) (unat capacity);
                        (case resized of
                           None \<Rightarrow> return None
                         | Some block \<Rightarrow>
                             return (Some (b\<lparr>body_data := Some block, body_capacity := capacity\<rparr>))) })
                 else return (Some b));
              (case enough of
                 None \<Rightarrow> return (False, body)
               | Some b' \<Rightarrow>
                   (case fill_body (body_data b') (unat (body_length b')) bytes (unat n) of
                      None \<Rightarrow> undefined_behaviour (True, Some b')
                    | Some filled \<Rightarrow>
                        return (True, Some (b'\<lparr>body_data := Some filled,
                          body_length := body_length b' + n\<rparr>)))) }
      | _ \<Rightarrow> return (False, body))"

definition portal_http_request_body_destroy ::
  "request_body option \<Rightarrow> ('x, request_body option) prog" where
  "portal_http_request_body_destroy body =
     (case body of
        None \<Rightarrow> return None
      | Some b \<Rightarrow> do { c_free_ptr (body_data b); c_free; return None })"

section \<open>Reading the body\<close>

definition json_space :: "char \<Rightarrow> bool" where
  "json_space c \<longleftrightarrow> c = CHR 0x20 \<or> c = CHR 0x09 \<or> c = CHR 0x0D \<or> c = CHR 0x0A"

function skip_json_space :: "char list \<Rightarrow> nat \<Rightarrow> nat \<Rightarrow> nat" where
  "skip_json_space block n parse_end =
     (if parse_end < n \<and> json_space (block ! parse_end)
      then skip_json_space block n (Suc parse_end) else parse_end)"
  by pat_completeness auto
termination by (relation "measure (\<lambda>(_, n, parse_end). n - parse_end)") auto

declare skip_json_space.simps [simp del]

definition portal_http_request_parse_json ::
  "('x, 'j) ext \<Rightarrow> request_body option \<Rightarrow> ('x, 'j option) prog" where
  "portal_http_request_parse_json E body =
     (case body of
        None \<Rightarrow> return None
      | Some b \<Rightarrow>
          let n = unat (body_length b) in
          if n = 0 \<or> n > INT_MAX then return None
          else do {
            ok \<leftarrow> json_tokener_new E;
            if \<not> ok then return None
            else do {
              block \<leftarrow> deref (body_data b) [];
              (if length block < n then emit Undefined_Behaviour else return ());
              (json, success, parse_end) \<leftarrow> json_tokener_parse_ex E (take n block);
              let parse_end = skip_json_space block n parse_end;
              json_tokener_free;
              (if \<not> success \<or> parse_end \<noteq> n \<or> json = None \<or>
                  \<not> json_object_is_type E json json_type_object
               then do {
                 (case json of None \<Rightarrow> return () | Some _ \<Rightarrow> json_object_put);
                 return None }
               else return json) } })"

definition portal_http_json_string ::
  "('x, 'j) ext \<Rightarrow> 'j option \<Rightarrow> string option \<Rightarrow> nat \<Rightarrow> nat \<Rightarrow> string option" where
  "portal_http_json_string E json key minimum_length maximum_length =
     (case (json, key) of
        (Some obj, Some k) \<Rightarrow>
          (case jc_field E obj k of
             Some (Some value) \<Rightarrow>
               if \<not> json_object_is_type E (Some value) json_type_string then None
               else
                 let text = c_str (jc_text E value); n = length text
                 in if n \<ge> minimum_length \<and> n \<le> maximum_length then Some text else None
           | _ \<Rightarrow> None)
      | _ \<Rightarrow> None)"

definition portal_http_json_optional_string ::
  "('x, 'j) ext \<Rightarrow> 'j option \<Rightarrow> string option \<Rightarrow> nat \<Rightarrow> string option" where
  "portal_http_json_optional_string E json key maximum_length =
     (case (json, key) of
        (Some obj, Some k) \<Rightarrow>
          (case jc_field E obj k of
             Some (Some value) \<Rightarrow>
               if \<not> json_object_is_type E (Some value) json_type_string then None
               else
                 let text = c_str (jc_text E value)
                 in if length text \<le> maximum_length then Some text else None
           | _ \<Rightarrow> None)
      | _ \<Rightarrow> None)"

section \<open>The buffer\<close>

text \<open>
  The invariant: nothing is allocated yet, or the block has a power of two between 4 KiB and 2 MiB
  as its size and room for the content, at most 1 MiB, with its terminator.
\<close>

definition body_ok :: "request_body \<Rightarrow> bool" where
  "body_ok b \<longleftrightarrow>
     (case body_data b of
        None \<Rightarrow> body_length b = 0 \<and> body_capacity b = 0
      | Some block \<Rightarrow>
          (\<exists>k. 12 \<le> k \<and> k \<le> 21 \<and> body_capacity b = 2 ^ k) \<and>
          length block = unat (body_capacity b) \<and>
          body_length b \<le> PORTAL_HTTP_MAX_BODY_SIZE \<and> body_length b < body_capacity b \<and>
          block ! unat (body_length b) = CHR 0x00)"

definition body_content :: "request_body \<Rightarrow> char list" where
  "body_content b = (case body_data b of None \<Rightarrow> [] | Some block \<Rightarrow> take (unat (body_length b)) block)"

definition body_blocks :: "request_body \<Rightarrow> int" where
  "body_blocks b = (if body_data b = None then 0 else 1)"

lemma unat_pow2:
  assumes "k < 64"
  shows "unat (2 ^ k :: 64 word) = 2 ^ k"
proof -
  from assms have "(2 :: nat) ^ k < 2 ^ 64" by (intro power_strict_increasing) auto
  moreover have "(2 ^ k :: 64 word) = of_nat (2 ^ k)" by simp
  ultimately show ?thesis
    by (simp only: unsigned_of_nat) (simp add: take_bit_nat_eq_self assms)
qed

lemma body_ok_new [simp]: "body_ok new_body"
  by (simp add: body_ok_def new_body_def)

lemma body_content_new [simp]: "body_content new_body = []"
  by (simp add: body_content_def new_body_def)

text \<open>The doubling loop ends, at the first power of two that is large enough.\<close>

lemma grow_capacity_step: "grow_capacity capacity required =
    (if capacity < required then grow_capacity (capacity * 2) required else Some capacity)"
  by (rule grow_capacity.simps)

lemma grow_capacity_returns:
  assumes "k \<le> m" and "m < 64" and "required \<le> (2 :: 64 word) ^ m"
    and "\<And>i. k \<le> i \<Longrightarrow> i < m \<Longrightarrow> (2 :: 64 word) ^ i < required"
  shows "grow_capacity (2 ^ k) required = Some (2 ^ m)"
  using assms(1) assms(4)
proof (induction "m - k" arbitrary: k)
  case 0
  then have "k = m" by simp
  moreover have "\<not> (2 :: 64 word) ^ m < required" using assms(3) by (rule leD)
  ultimately show ?case by (simp add: grow_capacity_step [of "2 ^ m"])
next
  case (Suc d)
  then have "k < m" and "d = m - Suc k" by simp_all
  then have "grow_capacity (2 ^ Suc k) required = Some (2 ^ m)"
    using Suc.prems by (intro Suc.hyps) auto
  moreover have "(2 :: 64 word) ^ k < required" using Suc.prems \<open>k < m\<close> by simp
  ultimately show ?case by (simp add: grow_capacity_step [of "2 ^ k"] mult.commute)
qed

lemma grow_capacity_bounded:
  assumes "12 \<le> k" and "k \<le> 21" and "required \<le> (2 :: 64 word) ^ 21"
  obtains m where "grow_capacity (2 ^ k) required = Some (2 ^ m)" "k \<le> m" "m \<le> 21"
    "required \<le> (2 :: 64 word) ^ m"
proof -
  define m where "m = (LEAST i. k \<le> i \<and> required \<le> (2 :: 64 word) ^ i)"
  have ex: "k \<le> 21 \<and> required \<le> (2 :: 64 word) ^ 21" using assms by simp
  have m: "k \<le> m \<and> required \<le> (2 :: 64 word) ^ m"
    unfolding m_def by (rule LeastI [of _ 21]) (rule ex)
  have "m \<le> 21" unfolding m_def by (rule Least_le) (rule ex)
  moreover have "(2 :: 64 word) ^ i < required" if "k \<le> i" "i < m" for i
    using not_less_Least [of i "\<lambda>i. k \<le> i \<and> required \<le> (2 :: 64 word) ^ i"] that
    by (auto simp: m_def)
  ultimately have "grow_capacity (2 ^ k) required = Some (2 ^ m)"
    using m by (intro grow_capacity_returns) auto
  with m \<open>m \<le> 21\<close> show thesis by (intro that) auto
qed

lemma fill_body_ok:
  assumes "offset + n < length block" and "n \<le> length bytes"
  shows "\<exists>filled. fill_body (Some block) offset bytes n = Some filled \<and>
    length filled = length block \<and> take (offset + n) filled = take offset block @ take n bytes \<and>
    filled ! (offset + n) = CHR 0x00"
  using assms
  by (auto simp: fill_body_def c_memcpy_def c_store_def nth_list_update min_def)

lemma body_length_le:
  assumes "body_ok b"
  shows "unat (body_length b) \<le> 1048576"
  using assms
  by (auto simp: body_ok_def PORTAL_HTTP_MAX_BODY_SIZE_def word_le_nat_alt split: option.splits)

lemma length_body_content: "body_ok b \<Longrightarrow> length (body_content b) = unat (body_length b)"
  by (auto simp: body_ok_def body_content_def word_less_nat_alt split: option.splits)

text \<open>The sizes of the code do not wrap.\<close>

lemma append_sizes:
  assumes "body_ok b" and "\<not> n > PORTAL_HTTP_MAX_BODY_SIZE - body_length b"
  shows "unat (body_length b) + unat n \<le> 1048576"
    and "unat (body_length b + n) = unat (body_length b) + unat n"
    and "unat (body_length b + n + 1) = unat (body_length b) + unat n + 1"
proof -
  let ?l = "body_length b"
  have l: "unat ?l \<le> 1048576" by (rule body_length_le [OF assms(1)])
  then have "unat (PORTAL_HTTP_MAX_BODY_SIZE - ?l) = 1048576 - unat ?l"
    by (simp add: PORTAL_HTTP_MAX_BODY_SIZE_def unat_sub word_le_nat_alt)
  with assms(2) have n: "unat n \<le> 1048576 - unat ?l" by (simp add: word_le_nat_alt not_less)
  with l show sum: "unat ?l + unat n \<le> 1048576" by simp
  then show 1: "unat (?l + n) = unat ?l + unat n" by (simp add: unat_word_ariths)
  with sum show "unat (?l + n + 1) = unat ?l + unat n + 1"
    by (simp add: unat_word_ariths)
qed

text \<open>The body after the capacity is settled.\<close>

definition roomy :: "request_body \<Rightarrow> 64 word \<Rightarrow> request_body \<Rightarrow> bool" where
  "roomy b n b' \<longleftrightarrow>
     body_length b' = body_length b \<and> response_queued b' = response_queued b \<and>
     (\<exists>block k. body_data b' = Some block \<and> 12 \<le> k \<and> k \<le> 21 \<and> body_capacity b' = 2 ^ k \<and>
        length block = unat (body_capacity b') \<and> take (unat (body_length b)) block = body_content b \<and>
        body_length b + n < body_capacity b')"

lemma roomy_filled:
  assumes ok: "body_ok b" and size: "\<not> n > PORTAL_HTTP_MAX_BODY_SIZE - body_length b"
    and room: "roomy b n b'" and len: "length bytes = unat n"
  obtains filled where
    "fill_body (body_data b') (unat (body_length b')) bytes (unat n) = Some filled"
    "body_ok (b'\<lparr>body_data := Some filled, body_length := body_length b' + n\<rparr>)"
    "body_content (b'\<lparr>body_data := Some filled, body_length := body_length b' + n\<rparr>) =
       body_content b @ bytes"
    "filled ! unat (body_length b' + n) = CHR 0x00"
proof -
  obtain block k where block: "body_data b' = Some block" and k: "12 \<le> k" "k \<le> 21"
      "body_capacity b' = 2 ^ k" and "length block = unat (body_capacity b')"
    and content: "take (unat (body_length b)) block = body_content b"
    and less: "body_length b + n < body_capacity b'"
    and l: "body_length b' = body_length b"
    using room by (auto simp: roomy_def)
  note sizes = append_sizes [OF ok size]
  have "unat (body_length b) + unat n < length block"
    using less sizes(2) \<open>length block = _\<close> by (simp add: word_less_nat_alt)
  from fill_body_ok [OF this, of bytes] len obtain filled where
    f: "fill_body (Some block) (unat (body_length b)) bytes (unat n) = Some filled"
    "length filled = length block"
    "take (unat (body_length b) + unat n) filled = take (unat (body_length b)) block @ bytes"
    "filled ! (unat (body_length b) + unat n) = CHR 0x00"
    by auto
  show thesis
  proof
    show "fill_body (body_data b') (unat (body_length b')) bytes (unat n) = Some filled"
      using f(1) block l by simp
    show "body_content (b'\<lparr>body_data := Some filled, body_length := body_length b' + n\<rparr>) =
        body_content b @ bytes"
      using f(3) content l sizes(2) by (simp add: body_content_def)
    show nul: "filled ! unat (body_length b' + n) = CHR 0x00"
      using f(4) l sizes(2) by simp
    have "body_length b + n \<le> PORTAL_HTTP_MAX_BODY_SIZE"
      using sizes by (simp add: word_le_nat_alt PORTAL_HTTP_MAX_BODY_SIZE_def)
    with k less l f(2) nul \<open>length block = _\<close>
    show "body_ok (b'\<lparr>body_data := Some filled, body_length := body_length b' + n\<rparr>)"
      by (auto simp: body_ok_def)
  qed
qed

lemma grow_body:
  assumes ok: "body_ok b" and size: "\<not> n > PORTAL_HTTP_MAX_BODY_SIZE - body_length b"
  obtains m where
    "grow_capacity (if body_capacity b = 0 then 4096 else body_capacity b) (body_length b + n + 1) =
       Some (2 ^ m)" "12 \<le> m" "m \<le> 21" "body_length b + n < 2 ^ m"
    "body_data b = None \<or> body_capacity b \<le> 2 ^ m"
proof -
  obtain k where k: "12 \<le> k" "k \<le> 21"
      "(if body_capacity b = 0 then 4096 else body_capacity b) = 2 ^ k"
  proof (cases "body_data b")
    case None
    then show ?thesis using ok that [of 12] by (simp add: body_ok_def)
  next
    case (Some block)
    then obtain k where k: "12 \<le> k" "k \<le> 21" "body_capacity b = 2 ^ k"
      using ok by (auto simp: body_ok_def)
    moreover from this have "unat (2 ^ k :: 64 word) \<noteq> 0" by (subst unat_pow2) simp_all
    ultimately show ?thesis using that [of k] by (auto simp: unat_eq_0)
  qed
  have "body_length b + n + 1 \<le> 2 ^ 21"
    using append_sizes [OF ok size] by (simp add: word_le_nat_alt)
  from grow_capacity_bounded [OF k(1,2) this] obtain m where m:
    "grow_capacity (2 ^ k) (body_length b + n + 1) = Some (2 ^ m)" "k \<le> m" "m \<le> 21"
    "body_length b + n + 1 \<le> 2 ^ m" .
  have "body_length b + n < 2 ^ m"
    using m(4) append_sizes [OF ok size] by (simp add: word_le_nat_alt word_less_nat_alt)
  moreover have "body_capacity b \<le> 2 ^ m"
  proof -
    have "(2 :: nat) ^ k \<le> 2 ^ m" using m(2) by (intro power_increasing) auto
    then have "(2 :: 64 word) ^ k \<le> 2 ^ m"
      using m(2,3) by (simp only: word_le_nat_alt) (subst (1 2) unat_pow2; simp)
    moreover have "body_capacity b \<le> 2 ^ k" using k(3) by (auto split: if_splits)
    ultimately show ?thesis by simp
  qed
  ultimately show thesis using that [of m] m k by simp
qed

lemma emits_body_append:
  assumes ok: "body_ok b" and len: "length bytes = unat n"
    and rejected: "1048576 < length (body_content b) + length bytes \<or> \<not> generous E \<Longrightarrow> K (False, Some b) []"
    and appended: "\<And>b' es. length (body_content b) + length bytes \<le> 1048576 \<Longrightarrow> body_ok b' \<Longrightarrow>
      body_content b' = body_content b @ bytes \<Longrightarrow> response_queued b' = response_queued b \<Longrightarrow>
      quiet es \<Longrightarrow> (\<And>k. held k es = (if k = Heap_Block then body_blocks b' - body_blocks b else 0)) \<Longrightarrow>
      K (True, Some b') es"
  shows "emits (portal_http_request_body_append E (Some b) (Some bytes) n) K"
proof (cases "n > PORTAL_HTTP_MAX_BODY_SIZE - body_length b")
  case True
  have "unat (PORTAL_HTTP_MAX_BODY_SIZE - body_length b) = 1048576 - unat (body_length b)"
    using body_length_le [OF ok]
    by (simp add: PORTAL_HTTP_MAX_BODY_SIZE_def unat_sub word_le_nat_alt)
  with True have "1048576 < length (body_content b) + length bytes"
    using body_length_le [OF ok] len length_body_content [OF ok] by (simp add: word_less_nat_alt)
  with True show ?thesis
    unfolding portal_http_request_body_append_def by (auto intro!: emits_return rejected)
next
  case False
  note sizes = append_sizes [OF ok False]
  have small: "length (body_content b) + length bytes \<le> 1048576"
    using sizes(1) len length_body_content [OF ok] by simp
  have fill: "emits (case fill_body (body_data b') (unat (body_length b')) bytes (unat n) of
        None \<Rightarrow> undefined_behaviour (True, Some b')
      | Some filled \<Rightarrow> return (True, Some (b'\<lparr>body_data := Some filled,
          body_length := body_length b' + n\<rparr>))) (\<lambda>r fs. K r (es @ fs))"
    if room: "roomy b n b'" and "quiet es"
      and "\<And>k. held k es = (if k = Heap_Block then 1 - body_blocks b else 0)" for b' es
  proof -
    obtain filled where f:
      "fill_body (body_data b') (unat (body_length b')) bytes (unat n) = Some filled"
      "body_ok (b'\<lparr>body_data := Some filled, body_length := body_length b' + n\<rparr>)"
      "body_content (b'\<lparr>body_data := Some filled, body_length := body_length b' + n\<rparr>) =
         body_content b @ bytes"
      using roomy_filled [OF ok False room len] .
    show ?thesis
      using that room f small
      by (auto intro!: emits_return appended simp: body_blocks_def roomy_def)
  qed
  obtain m where m:
    "grow_capacity (if body_capacity b = 0 then 4096 else body_capacity b) (body_length b + n + 1) =
       Some (2 ^ m)" "12 \<le> m" "m \<le> 21" "body_length b + n < 2 ^ m"
    "body_data b = None \<or> body_capacity b \<le> 2 ^ m"
    using grow_body [OF ok False] .
  show ?thesis
  proof (cases "body_length b + n + 1 > body_capacity b")
    case grow: True
    let ?kept = "case body_data b of None \<Rightarrow> [] | Some block \<Rightarrow> block"
    have kept: "take (unat (body_length b)) (take (unat (2 ^ m :: 64 word)) ?kept @ rest) = body_content b"
      for rest
      using ok m(5) by (auto simp: body_ok_def body_content_def word_le_nat_alt word_less_nat_alt
          split: option.splits)
    have "emits (c_realloc E (body_data b) (unat (2 ^ m :: 64 word))) (\<lambda>resized es.
        emits (case resized of None \<Rightarrow> return None
           | Some block \<Rightarrow> return (Some (b\<lparr>body_data := Some block, body_capacity := 2 ^ m\<rparr>)))
        (\<lambda>enough fs. emits (case enough of None \<Rightarrow> return (False, Some b)
           | Some b' \<Rightarrow> (case fill_body (body_data b') (unat (body_length b')) bytes (unat n) of
               None \<Rightarrow> undefined_behaviour (True, Some b')
             | Some filled \<Rightarrow> return (True, Some (b'\<lparr>body_data := Some filled,
                 body_length := body_length b' + n\<rparr>)))) (\<lambda>r gs. K r ((es @ fs) @ gs))))"
      (is "emits _ ?then")
    proof (rule emits_realloc)
      fix rest
      let ?block = "take (unat (2 ^ m :: 64 word)) ?kept @ rest"
      let ?es = "(case body_data b of None \<Rightarrow> [] | Some _ \<Rightarrow> [Released Heap_Block]) @ [Acquired Heap_Block]"
      assume "length ?block = unat (2 ^ m :: 64 word)"
      then have room: "roomy b n (b\<lparr>body_data := Some ?block, body_capacity := 2 ^ m\<rparr>)"
        unfolding roomy_def using m(2-4) kept [of rest] by (auto simp del: take_append)
      have "quiet ?es" "held k ?es = (if k = Heap_Block then 1 - body_blocks b else 0)" for k
        by (auto simp: quiet_def body_blocks_def split: option.splits)
      from fill [OF room this]
      show "?then (Some ?block) ?es"
        unfolding option.case by (intro emits_return) (simp only: option.case append_Nil2)
    qed (auto intro!: emits_return rejected)
    then show ?thesis
      using False grow m(1)
      unfolding portal_http_request_body_append_def prod.case option.case Let_def
      by (auto intro!: emits_bind simp del: bind_assoc)
  next
    case enough: False
    have block: "body_data b \<noteq> None"
      using enough ok sizes(3)
      by (cases "body_data b") (auto simp: body_ok_def word_less_nat_alt)
    have room: "roomy b n b"
      using block ok enough sizes
      by (auto simp: roomy_def body_ok_def body_content_def word_less_nat_alt)
    have "quiet []" "held k [] = (if k = Heap_Block then 1 - body_blocks b else 0)" for k
      using block by (auto simp: quiet_def body_blocks_def)
    from fill [OF room this] show ?thesis
      using False enough
      unfolding portal_http_request_body_append_def prod.case option.case Let_def
      by simp
  qed
qed

section \<open>The contract of a chunk buffer\<close>

text \<open>
  What a server needs of the place where it collects an upload: each chunk is either appended
  whole or refused with the buffer as it was, and only for its size or for want of memory.
\<close>

fun feed :: "('b \<Rightarrow> char list \<Rightarrow> ('x, bool \<times> 'b) prog) \<Rightarrow> 'b \<Rightarrow> char list list \<Rightarrow> ('x, bool \<times> 'b) prog" where
  "feed app b [] = return (True, b)"
| "feed app b (chunk # chunks) = do {
     (ok, b') \<leftarrow> app b chunk;
     if ok then feed app b' chunks else return (False, b') }"

locale chunk_buffer =
  fixes app :: "'b \<Rightarrow> char list \<Rightarrow> ('x, bool \<times> 'b) prog"
    and invar :: "'b \<Rightarrow> bool"
    and content :: "'b \<Rightarrow> char list"
    and blocks :: "'b \<Rightarrow> int"
    and limit :: nat
    and plentiful :: bool
  assumes append_contract: "invar b \<Longrightarrow> length chunk < 2 ^ 64 \<Longrightarrow>
      emits (app b chunk) (\<lambda>(ok, b') es.
        invar b' \<and> quiet es \<and>
        (\<forall>k. held k es = (if k = Heap_Block then blocks b' - blocks b else 0)) \<and>
        (if ok then content b' = content b @ chunk \<and> length (content b) + length chunk \<le> limit
         else b' = b \<and> (limit < length (content b) + length chunk \<or> \<not> plentiful)))"
begin

text \<open>A whole upload: the content is the concatenation, however it is cut.\<close>

lemma feed_contract:
  assumes "invar b" and "list_all (\<lambda>chunk. length chunk < 2 ^ 64) chunks"
  shows "emits (feed app b chunks) (\<lambda>(ok, b') es.
      invar b' \<and> quiet es \<and>
      (\<forall>k. held k es = (if k = Heap_Block then blocks b' - blocks b else 0)) \<and>
      (if ok then content b' = content b @ concat chunks
       else limit < length (content b) + length (concat chunks) \<or> \<not> plentiful))"
  using assms
proof (induction chunks arbitrary: b)
  case Nil
  then show ?case by (auto simp: quiet_def intro: emits_return)
next
  case (Cons chunk chunks)
  have first: "length chunk < 2 ^ 64" and rest: "list_all (\<lambda>chunk. length chunk < 2 ^ 64) chunks"
    using Cons.prems(2) by simp_all
  show ?case
    unfolding feed.simps
    by (intro emits_bind emits_mono [OF append_contract [OF Cons.prems(1) first]])
      (auto intro!: emits_return emits_mono [OF Cons.IH [OF _ rest]] simp: quiet_def)
qed

end

definition append_chunk ::
  "('x, 'j) ext \<Rightarrow> request_body option \<Rightarrow> char list \<Rightarrow> ('x, bool \<times> request_body option) prog" where
  "append_chunk E body chunk =
     portal_http_request_body_append E body (Some chunk) (of_nat (length chunk))"

interpretation buffer: chunk_buffer "append_chunk E" "\<lambda>p. \<exists>b. p = Some b \<and> body_ok b"
    "\<lambda>p. body_content (the p)" "\<lambda>p. body_blocks (the p)" 1048576 "generous E"
  for E
proof
  fix p :: "request_body option" and chunk :: "char list"
  assume "\<exists>b. p = Some b \<and> body_ok b" and len: "length chunk < 2 ^ 64"
  then obtain b where b: "p = Some b" "body_ok b" by blast
  have "length chunk = unat (of_nat (length chunk) :: 64 word)"
    using len by (simp add: unsigned_of_nat take_bit_nat_eq_self)
  note rule = emits_body_append [OF b(2) this]
  show "emits (append_chunk E p chunk) (\<lambda>(ok, b') es.
      (\<exists>b. b' = Some b \<and> body_ok b) \<and> quiet es \<and>
      (\<forall>k. held k es = (if k = Heap_Block then body_blocks (the b') - body_blocks (the p) else 0)) \<and>
      (if ok then body_content (the b') = body_content (the p) @ chunk \<and>
            length (body_content (the p)) + length chunk \<le> 1048576
       else b' = p \<and> (1048576 < length (body_content (the p)) + length chunk \<or> \<not> generous E)))"
    unfolding append_chunk_def b(1) by (rule rule) (use b(2) in \<open>simp_all add: quiet_def\<close>)
qed

lemma emits_body_destroy [emits_intros]:
  assumes "body = None \<Longrightarrow> K None []"
    and "\<And>b es. body = Some b \<Longrightarrow> quiet es \<Longrightarrow>
      (\<And>k. held k es = (if k = Heap_Block then - 1 - body_blocks b else 0)) \<Longrightarrow> K None es"
  shows "emits (portal_http_request_body_destroy body) K"
  unfolding portal_http_request_body_destroy_def
  by (intro emits_intros assms) (auto simp: quiet_def body_blocks_def)

section \<open>The parse\<close>

lemma skip_json_space_end:
  assumes "n \<le> length block"
  shows "skip_json_space block n i = n \<longleftrightarrow> i \<le> n \<and> list_all json_space (drop i (take n block))"
  using assms
proof (induction block n i rule: skip_json_space.induct)
  case (1 block n i)
  show ?case
  proof (cases "i < n")
    case True
    then have "drop i (take n block) = block ! i # drop (Suc i) (take n block)"
      using "1.prems" by (simp add: Cons_nth_drop_Suc [symmetric])
    with True 1 show ?thesis by (auto simp: skip_json_space.simps [of block n i])
  next
    case False
    with "1.prems" show ?thesis by (auto simp: skip_json_space.simps [of block n i])
  qed
qed

text \<open>A parse the code accepts: an object that covers the body up to white space.\<close>

definition json_body_ok :: "('x, 'j) ext \<Rightarrow> char list \<Rightarrow> 'j option \<Rightarrow> bool \<Rightarrow> nat \<Rightarrow> bool" where
  "json_body_ok E content json success parse_end \<longleftrightarrow>
     success \<and> parse_end \<le> length content \<and> list_all json_space (drop parse_end content) \<and>
     (\<exists>j. json = Some j \<and> jc_type E j = json_type_object)"

definition unacceptable :: "('x, 'j) ext \<Rightarrow> char list \<Rightarrow> bool" where
  "unacceptable E content \<longleftrightarrow> (\<exists>json success parse_end.
     may_parse E content json success parse_end \<and> \<not> json_body_ok E content json success parse_end)"

lemma unacceptableI:
  "may_parse E content json success parse_end \<Longrightarrow>
   \<not> json_body_ok E content json success parse_end \<Longrightarrow> unacceptable E content"
  by (auto simp: unacceptable_def)

lemma emits_parse_json:
  assumes ok: "body_ok b"
    and none: "\<And>es. body_content b = [] \<or> \<not> generous E \<or>
        unacceptable E (body_content b) \<Longrightarrow> quiet es \<Longrightarrow> released es \<Longrightarrow> K None es"
    and some: "\<And>j es. \<exists>parse_end. may_parse E (body_content b) (Some j) True parse_end \<and>
        json_body_ok E (body_content b) (Some j) True parse_end \<Longrightarrow> quiet es \<Longrightarrow>
      owns es [Json_Reference] \<Longrightarrow> K (Some j) es"
  shows "emits (portal_http_request_parse_json E (Some b)) K"
proof (cases "body_length b = 0")
  case True
  with length_body_content [OF ok] show ?thesis
    by (auto simp: portal_http_request_parse_json_def quiet_def intro!: emits_return none)
next
  case False
  then obtain block where block: "body_data b = Some block"
    using ok by (auto simp: body_ok_def split: option.splits)
  let ?n = "unat (body_length b)"
  have n: "?n \<noteq> 0" "\<not> ?n > INT_MAX" "?n \<le> length block"
    using False body_length_le [OF ok] ok block
    by (auto simp: INT_MAX_def unat_eq_0 body_ok_def word_less_nat_alt)
  have content: "body_content b = take ?n block" using block by (simp add: body_content_def)
  then have len: "length (body_content b) = ?n" using n by simp
  have skip: "skip_json_space block ?n i = ?n \<longleftrightarrow>
      i \<le> ?n \<and> list_all json_space (drop i (take ?n block))" for i
    by (rule skip_json_space_end [OF n(3)])
  show ?thesis
    unfolding portal_http_request_parse_json_def option.case Let_def block
    using n
    by (simp del: bind_assoc add: deref_def, intro emits_intros)
      (auto simp: quiet_def released_def owns_def json_body_ok_def json_object_is_type_def content skip
        intro!: none some intro: unacceptableI)
qed

section \<open>The readers\<close>

lemma json_string_iff:
  "portal_http_json_string E (Some obj) (Some key) lo hi = Some t \<longleftrightarrow>
   (\<exists>v. jc_field E obj key = Some (Some v) \<and> jc_type E v = json_type_string \<and>
      t = c_str (jc_text E v) \<and> lo \<le> length t \<and> length t \<le> hi)"
  by (auto simp: portal_http_json_string_def json_object_is_type_def Let_def
      split: option.splits if_splits)

lemma json_string_None [simp]: "portal_http_json_string E None key lo hi = None"
  by (simp add: portal_http_json_string_def)

lemma json_optional_None [simp]: "portal_http_json_optional_string E None key hi = None"
  by (simp add: portal_http_json_optional_string_def)

lemma json_optional_eq:
  "portal_http_json_optional_string E json key hi = portal_http_json_string E json key 0 hi"
  by (simp only: portal_http_json_optional_string_def portal_http_json_string_def Let_def le0 simp_thms)

lemma json_string_bounds:
  assumes "portal_http_json_string E json key lo hi = Some t"
  shows "lo \<le> length t" "length t \<le> hi" "CHR 0x00 \<notin> set t"
  using assms
  by (auto simp: portal_http_json_string_def Let_def c_str_no_nul split: option.splits if_splits)

end
