(* ===== verification/Validation.thy ===== *)
theory Validation
  imports Prelude
begin

text \<open>
  \<^verbatim>\<open>src/src/validation/validation.c\<close>: the pure checks on keys, anonymous ids, emails and event types,
  and the copy of a string in lower case into a caller's buffer. Each loop of the source is a
  recursion over the same index or the same remaining characters; the lemmas give each check its
  set of accepted strings, and show that the copy never writes outside its buffer.
\<close>

section \<open>Keys and anonymous ids\<close>

definition key_char :: "char \<Rightarrow> bool" where
  "key_char character \<longleftrightarrow>
     c_isalnum character \<or> character = CHR ''-'' \<or> character = CHR ''_'' \<or> character = CHR ''.'' \<or>
     character = CHR '':''"

fun key_loop :: "string \<Rightarrow> bool" where
  "key_loop [] = True"
| "key_loop (character # rest) = (if \<not> key_char character then False else key_loop rest)"

definition portal_validation_key :: "string option \<Rightarrow> nat \<Rightarrow> bool" where
  "portal_validation_key value maximum_length =
     (let n = (case value of None \<Rightarrow> 0 | Some v \<Rightarrow> length v)
      in if n = 0 \<or> n > maximum_length then False
         else (case value of None \<Rightarrow> False | Some v \<Rightarrow> key_loop v))"

definition anonymous_id_char :: "char \<Rightarrow> bool" where
  "anonymous_id_char character \<longleftrightarrow>
     c_isalnum character \<or> character = CHR ''-'' \<or> character = CHR ''_''"

fun anonymous_id_loop :: "string \<Rightarrow> bool" where
  "anonymous_id_loop [] = True"
| "anonymous_id_loop (character # rest) =
     (if \<not> anonymous_id_char character then False else anonymous_id_loop rest)"

definition portal_validation_anonymous_id :: "string option \<Rightarrow> bool" where
  "portal_validation_anonymous_id value =
     (let n = (case value of None \<Rightarrow> 0 | Some v \<Rightarrow> length v)
      in if n < 8 \<or> n > 200 then False
         else (case value of None \<Rightarrow> False | Some v \<Rightarrow> anonymous_id_loop v))"

lemma key_loop_iff: "key_loop s \<longleftrightarrow> list_all key_char s"
  by (induction s) auto

lemma anonymous_id_loop_iff: "anonymous_id_loop s \<longleftrightarrow> list_all anonymous_id_char s"
  by (induction s) auto

text \<open>
  The contract the two checks share: a length range and a set of characters, all of them printable
  ASCII that needs no escaping in a URL path, in JSON or in SQL.
\<close>

definition plain_char :: "char \<Rightarrow> bool" where
  "plain_char c \<longleftrightarrow> 45 \<le> code c \<and> code c \<le> 122 \<and>
     c \<noteq> CHR ''/'' \<and> c \<noteq> CHR 0x5C \<and> c \<noteq> CHR ''?'' \<and> c \<noteq> CHR '';''"

lemma not_plain_nul: "\<not> plain_char (CHR 0x00)"
  by (simp add: plain_char_def)

lemma not_plain_slash: "\<not> plain_char (CHR ''/'')"
  by (simp add: plain_char_def)

locale charset_validator =
  fixes valid :: "string option \<Rightarrow> bool"
    and allowed :: "char \<Rightarrow> bool"
    and shortest longest :: nat
  assumes valid_iff:
      "valid p \<longleftrightarrow> (\<exists>s. p = Some s \<and> shortest \<le> length s \<and> length s \<le> longest \<and> list_all allowed s)"
    and allowed_plain: "allowed c \<Longrightarrow> plain_char c"
begin

lemma valid_SomeD: "valid p \<Longrightarrow> \<exists>s. p = Some s"
  by (auto simp: valid_iff)

lemma not_valid_None [simp]: "\<not> valid None"
  by (simp add: valid_iff)

lemma valid_length: "valid (Some s) \<Longrightarrow> shortest \<le> length s \<and> length s \<le> longest"
  by (simp add: valid_iff)

lemma valid_plain: "valid (Some s) \<Longrightarrow> list_all plain_char s"
  by (auto simp: valid_iff list_all_iff allowed_plain)

lemma valid_no_nul: "valid (Some s) \<Longrightarrow> CHR 0x00 \<notin> set s"
  using valid_plain [of s] not_plain_nul by (auto simp: list_all_iff)

lemma valid_no_slash: "valid (Some s) \<Longrightarrow> CHR ''/'' \<notin> set s"
  using valid_plain [of s] not_plain_slash by (auto simp: list_all_iff)

lemma valid_c_str: "valid (Some s) \<Longrightarrow> c_str s = s"
  by (simp add: valid_no_nul c_str_id)

lemma valid_nonempty: "valid (Some s) \<Longrightarrow> 0 < shortest \<Longrightarrow> s \<noteq> []"
  using valid_length [of s] by auto

end

lemma alnum_plain: "c_isalnum c \<Longrightarrow> plain_char c"
  by (auto simp: c_isalnum_def c_isdigit_def c_isupper_def c_islower_def plain_char_def)

lemma key_char_plain: "key_char c \<Longrightarrow> plain_char c"
  using alnum_plain [of c] by (auto simp: key_char_def plain_char_def)

lemma anonymous_id_char_plain: "anonymous_id_char c \<Longrightarrow> plain_char c"
  using alnum_plain [of c] by (auto simp: anonymous_id_char_def plain_char_def)

interpretation key: charset_validator "\<lambda>v. portal_validation_key v m" key_char 1 m
  for m
  by unfold_locales
    (auto simp: portal_validation_key_def key_loop_iff key_char_plain Suc_le_eq Let_def
      split: option.splits)

interpretation anonymous_id: charset_validator portal_validation_anonymous_id anonymous_id_char 8 200
  by unfold_locales
    (auto simp: portal_validation_anonymous_id_def anonymous_id_loop_iff anonymous_id_char_plain
      Let_def split: option.splits)

section \<open>Emails\<close>

definition portal_validation_email :: "string option \<Rightarrow> bool" where
  "portal_validation_email email =
     (case email of
        None \<Rightarrow> False
      | Some text \<Rightarrow>
          if length text < 5 \<or> length text > 254 \<or> c_strchr text (CHR '' '') \<noteq> None then False
          else (case c_strchr text (CHR ''@'') of
              None \<Rightarrow> False
            | Some at \<Rightarrow> at \<noteq> text \<and> char_at at 1 \<noteq> CHR 0x00 \<and> c_strchr (tl at) (CHR ''.'') \<noteq> None))"

text \<open>The addresses accepted: something, the first \<open>@\<close>, and a rest with a dot; no space anywhere.\<close>

definition email_shape :: "string \<Rightarrow> bool" where
  "email_shape s \<longleftrightarrow> (\<exists>user host. s = user @ CHR ''@'' # host \<and> CHR ''@'' \<notin> set user \<and> user \<noteq> [] \<and>
     CHR ''.'' \<in> set host \<and> CHR '' '' \<notin> set s)"

lemma email_iff:
  assumes "CHR 0x00 \<notin> set s"
  shows "portal_validation_email (Some s) \<longleftrightarrow> 5 \<le> length s \<and> length s \<le> 254 \<and> email_shape s"
proof (cases "c_strchr s (CHR ''@'')")
  case None
  then have "CHR ''@'' \<notin> set s" by (simp add: c_strchr_None_iff)
  then have "\<not> email_shape s" by (auto simp: email_shape_def)
  with None show ?thesis by (simp add: portal_validation_email_def)
next
  case (Some at)
  then obtain l r where s: "s = l @ CHR ''@'' # r" "CHR ''@'' \<notin> set l" and at: "at = CHR ''@'' # r"
    by (auto simp: c_strchr_Some_iff)
  have "char_at at 1 \<noteq> CHR 0x00 \<longleftrightarrow> r \<noteq> []"
    using assms s at by (cases r) (auto simp: char_at_def)
  moreover have "email_shape s \<longleftrightarrow> l \<noteq> [] \<and> CHR ''.'' \<in> set r \<and> CHR '' '' \<notin> set s"
  proof
    assume "email_shape s"
    then obtain user host where u: "s = user @ CHR ''@'' # host" "CHR ''@'' \<notin> set user"
      and rest: "user \<noteq> []" "CHR ''.'' \<in> set host" "CHR '' '' \<notin> set s"
      by (auto simp: email_shape_def)
    from u s have "user = l \<and> host = r"
      by (metis first_split_unique)
    with rest show "l \<noteq> [] \<and> CHR ''.'' \<in> set r \<and> CHR '' '' \<notin> set s" by simp
  next
    assume "l \<noteq> [] \<and> CHR ''.'' \<in> set r \<and> CHR '' '' \<notin> set s"
    with s show "email_shape s" by (auto simp: email_shape_def)
  qed
  moreover have "at \<noteq> s \<longleftrightarrow> l \<noteq> []" using s at by auto
  ultimately show ?thesis
    using Some at by (auto simp: portal_validation_email_def c_strchr_None_iff)
qed

section \<open>Event types\<close>

definition portal_validation_event_type :: "string option \<Rightarrow> bool" where
  "portal_validation_event_type event_type =
     (case event_type of
        None \<Rightarrow> False
      | Some t \<Rightarrow> t = ''page_view'' \<or> t = ''content_view'' \<or> t = ''component_click'' \<or> t = ''like'' \<or>
          t = ''comment'')"

section \<open>Copy in lower case\<close>

function lowercase_loop :: "char list \<Rightarrow> string \<Rightarrow> nat \<Rightarrow> nat \<Rightarrow> char list option" where
  "lowercase_loop target source n index =
     (if index < n then
        (case c_store target index (c_tolower (source ! index)) of
           None \<Rightarrow> None
         | Some t \<Rightarrow> lowercase_loop t source n (Suc index))
      else Some target)"
  by pat_completeness auto
termination by (relation "measure (\<lambda>(_, _, n, index). n - index)") auto

declare lowercase_loop.simps [simp del]

text \<open>The result and the buffer after the call; \<^term>\<open>None\<close> is a write outside the buffer.\<close>

definition portal_validation_lowercase_copy ::
  "char list option \<Rightarrow> nat \<Rightarrow> string option \<Rightarrow> (bool \<times> char list option) option" where
  "portal_validation_lowercase_copy target target_bytes source =
     (let n = (case source of None \<Rightarrow> 0 | Some s \<Rightarrow> length s)
      in (case (target, source) of
            (Some t, Some s) \<Rightarrow>
              if target_bytes \<le> n then Some (False, target)
              else (case lowercase_loop t s n 0 of
                  None \<Rightarrow> None
                | Some t' \<Rightarrow>
                    (case c_store t' n (CHR 0x00) of
                       None \<Rightarrow> None
                     | Some t'' \<Rightarrow> Some (True, Some t'')))
          | _ \<Rightarrow> Some (False, target)))"

lemma lowercase_loop_result:
  assumes "index \<le> length source" and "length source \<le> length target"
    and "take index target = map c_tolower (take index source)"
  shows "lowercase_loop target source (length source) index =
    Some (map c_tolower source @ drop (length source) target)"
  using assms
proof (induction target source "length source" index rule: lowercase_loop.induct)
  case (1 target source index)
  show ?case
  proof (cases "index < length source")
    case False
    with "1.prems" have "index = length source" by simp
    with "1.prems" have "target = map c_tolower source @ drop (length source) target"
      by (metis append_take_drop_id order_refl take_all)
    with False show ?thesis by (simp add: lowercase_loop.simps [of target])
  next
    case True
    let ?t = "target[index := c_tolower (source ! index)]"
    have store: "c_store target index (c_tolower (source ! index)) = Some ?t"
      using True "1.prems" by (simp add: c_store_def)
    have "take (Suc index) ?t = map c_tolower (take (Suc index) source)"
      using True "1.prems" by (simp add: take_Suc_conv_app_nth)
    with "1.hyps" [OF True store] True "1.prems"
    have "lowercase_loop ?t source (length source) (Suc index) =
        Some (map c_tolower source @ drop (length source) ?t)" by simp
    with True store show ?thesis
      by (simp add: lowercase_loop.simps [of target])
  qed
qed

lemma lowercase_copy_fits:
  assumes "length target = target_bytes" and "length source < target_bytes"
  shows "portal_validation_lowercase_copy (Some target) target_bytes (Some source) =
    Some (True, Some (map c_tolower source @ CHR 0x00 # drop (Suc (length source)) target))"
proof -
  have "(map c_tolower source @ drop (length source) target)[length source := CHR 0x00] =
      map c_tolower source @ CHR 0x00 # drop (Suc (length source)) target"
    using assms by (simp add: list_update_append Cons_nth_drop_Suc [symmetric])
  then show ?thesis
    using assms lowercase_loop_result [of 0 source target]
    by (simp add: portal_validation_lowercase_copy_def c_store_def)
qed

lemma lowercase_copy_too_long:
  "target_bytes \<le> length source \<Longrightarrow>
   portal_validation_lowercase_copy (Some target) target_bytes (Some source) = Some (False, Some target)"
  by (simp add: portal_validation_lowercase_copy_def)

lemma lowercase_copy_c_str:
  assumes "CHR 0x00 \<notin> set source"
  shows "c_str (map c_tolower source @ CHR 0x00 # rest) = map c_tolower source"
  using assms by (intro c_str_append_nul) (force dest: c_tolower_nul_iff [THEN iffD1, OF sym])

end
