(* ===== verification/Contracts.thy ===== *)
theory Contracts
  imports Authentication Request Validation
begin

text \<open>
  What every route of \<^verbatim>\<open>src/src/http/routes/\<close> keeps, as a predicate on one call and as the locale
  \<open>handler\<close>: one response at most, sent when nothing fails; only statements of the program's table
  with their number of parameters; nothing left allocated; nothing undefined while the server
  answers as documented. The routes' theories interpret the locale on each of them.
\<close>

definition safe ::
  "('x, 'j) ext \<Rightarrow> mhd_connection option \<Rightarrow> mhd_result \<Rightarrow> event list \<Rightarrow> bool" where
  "safe E connection result es \<longleftrightarrow>
     (\<exists>status. replies E connection status (\<lambda>_. True) result es) \<and>
     list_all known_statement (sqls es) \<and>
     released es \<and> (generous E \<longrightarrow> dropped_references es = 0) \<and>
     (server_contract E \<longrightarrow> stays_defined es)"

text \<open>
  One statement with these values, and what holds of its answer; no answer when the statement was
  sent and got none, or could not be sent because the database is not available.
\<close>

definition asked ::
  "bool \<Rightarrow> string \<Rightarrow> string list \<Rightarrow> (string \<times> string option list \<times> pg_result option) list \<Rightarrow>
   (pg_result option \<Rightarrow> bool) \<Rightarrow> bool" where
  "asked available command values statements post \<longleftrightarrow>
     (\<exists>answer. (statements = [(command, map Some values, answer)] \<or> statements = [] \<and> \<not> available \<and> answer = None) \<and>
        post answer)"

lemma asked_simps [simp]:
  "asked available command values [] post \<longleftrightarrow> \<not> available \<and> post None"
  "asked available command values [(command, texts, answer)] post \<longleftrightarrow> texts = map Some values \<and> post answer"
  by (auto simp: asked_def)

definition unique_violation :: "pg_result option \<Rightarrow> bool" where
  "unique_violation answer =
     (case answer of None \<Rightarrow> False | Some r \<Rightarrow> pq_sqlstate r = Some ''23505'')"

lemma unique_violation_simps [simp]:
  "\<not> unique_violation None"
  "unique_violation (Some r) \<longleftrightarrow> pq_sqlstate r = Some ''23505''"
  "portal_database_result_is_unique_violation (Some \<lparr>db_result = Some r\<rparr>) \<longleftrightarrow>
   pq_sqlstate r = Some ''23505''"
  by (auto simp: unique_violation_def portal_database_result_is_unique_violation_def
      split: option.splits)

definition answered_rows :: "pg_result option \<Rightarrow> nat" where
  "answered_rows answer = (case answer of None \<Rightarrow> 0 | Some r \<Rightarrow> row_count r)"

definition answered_cell :: "pg_result option \<Rightarrow> nat \<Rightarrow> nat \<Rightarrow> string" where
  "answered_cell answer i j = (case answer of None \<Rightarrow> [] | Some r \<Rightarrow> cell_text r i j)"

lemma answered_some [simp]:
  "answered_rows None = 0"
  "answered_rows (Some r) = row_count r"
  "answered_cell (Some r) i j = cell_text r i j"
  by (simp_all add: answered_rows_def answered_cell_def)

lemma replies_any: "replies E connection status P result es \<Longrightarrow>
    replies E connection status (\<lambda>_. True) result es"
  by (erule replies_weaken) simp

lemma replies_cong: "responses es = responses fs \<Longrightarrow>
    replies E connection status P result es = replies E connection status P result fs"
  by (simp add: replies_def)

lemma safe_status:
  "safe E connection result es \<Longrightarrow> \<exists>status. replies E connection status (\<lambda>_. True) result es"
  by (simp add: safe_def)

lemma safe_reply:
  "settled es \<Longrightarrow> sqls es = [] \<Longrightarrow> (generous E \<Longrightarrow> dropped_references es = 0) \<Longrightarrow>
   replies E connection status P result es \<Longrightarrow> safe E connection result es"
  by (auto simp: safe_def settled_def dest: replies_any)

locale handler =
  fixes E :: "('x, 'j) ext"
    and connection :: "mhd_connection option"
    and run :: "('x, mhd_result) prog"
  assumes run_safe: "connection \<noteq> None \<Longrightarrow> emits run (safe E connection)"
begin

lemma safe_rule:
  assumes "connection \<noteq> None" and "\<And>result es. safe E connection result es \<Longrightarrow> K result es"
  shows "emits run K"
  by (rule emits_mono [OF run_safe [OF assms(1)]]) (rule assms(2))

lemma one_response_at_most:
  "connection \<noteq> None \<Longrightarrow> emits run (\<lambda>result es. length (responses es) \<le> 1)"
  by (rule safe_rule) (auto simp: safe_def replies_def)

lemma one_response_exactly:
  "generous E \<Longrightarrow> connection \<noteq> None \<Longrightarrow>
   emits run (\<lambda>result es. result = MHD_YES \<and> length (responses es) = 1)"
  by (rule safe_rule) (auto simp: safe_def replies_def)

lemma no_leak: "connection \<noteq> None \<Longrightarrow> generous E \<Longrightarrow> emits run (\<lambda>result es. owns es [])"
  by (rule safe_rule) (auto simp: safe_def released_def owns_def)

lemma defined: "connection \<noteq> None \<Longrightarrow> server_contract E \<Longrightarrow> emits run (\<lambda>result es. stays_defined es)"
  by (rule safe_rule) (auto simp: safe_def)

lemma only_known_statements:
  "connection \<noteq> None \<Longrightarrow> emits run (\<lambda>result es. list_all known_statement (sqls es))"
  by (rule safe_rule) (auto simp: safe_def)

end

section \<open>Shared steps of the routes\<close>

lemmas route_defs = safe_def settled_def quiet_def released_def known_statement_def sql_table_def

text \<open>
  A route for signed-in users: the session check first, then the rest with the user's id, or the
  refusal. \<open>granted\<close> says what the rest does.
\<close>

definition protected ::
  "('x, 'j) ext \<Rightarrow> http_context \<Rightarrow> mhd_connection option \<Rightarrow> (string \<Rightarrow> mhd_result \<Rightarrow> event list \<Rightarrow> bool) \<Rightarrow>
   mhd_result \<Rightarrow> event list \<Rightarrow> bool" where
  "protected E ctx connection granted result es \<longleftrightarrow>
     (\<exists>status uid es1 es2. es = es1 @ es2 \<and> auth_decision (live E ctx) connection status uid (sqls es1) \<and>
        responses es1 = [] \<and>
        (if status = PORTAL_AUTH_AUTHENTICATED then granted uid result es2
         else sqls es2 = [] \<and> replies E connection 401
           (error_body E ''unauthorized'' ''A valid Bearer token is required.'') result es2))"

lemma auth_decision_known:
  "auth_decision available connection status uid statements \<Longrightarrow> list_all known_statement statements"
  by (auto simp: auth_decision_def known_statement_def sql_table_def split: if_splits option.splits)

lemma safe_append:
  assumes "safe E connection result fs" and "responses es = []" and "released es"
    and "list_all known_statement (sqls es)" and "dropped_references es = 0"
    and "server_contract E \<Longrightarrow> stays_defined es"
  shows "safe E connection result (es @ fs)"
  using assms by (auto simp: safe_def released_def)

lemma bearer_token_header:
  "bearer_token connection = Some token \<Longrightarrow>
   map_option (drop 7) (lookup_header connection ''Authorization'') = Some token"
  by (auto simp: bearer_token_def split: option.splits if_splits)

lemma emits_protected:
  assumes connection: "connection \<noteq> None"
    and rest: "\<And>u token. bearer_token connection = Some token \<Longrightarrow> emits (rest (Some u)) (\<lambda>result es.
      granted (user_id u) result es \<and> safe E connection result es)"
    and K: "\<And>result es. protected E ctx connection granted result es \<Longrightarrow> safe E connection result es \<Longrightarrow>
      K result es"
  shows "emits (do {
      (status, user) \<leftarrow> portal_http_authenticate E (Some ctx) connection (Some u);
      if status \<noteq> PORTAL_AUTH_AUTHENTICATED
      then portal_http_response_error E connection 401 (Some ''unauthorized'')
        (Some ''A valid Bearer token is required.'')
      else rest user }) K"
proof (rule emits_bind, rule emits_authenticate [OF _ connection], unfold prod.case)
  fix status and u :: authenticated_user and es
  assume es: "auth_decision (live E ctx) connection status (user_id u) (sqls es)" "released es"
    "dropped_references es = 0" "responses es = []" "server_contract E \<Longrightarrow> stays_defined es"
  note known = auth_decision_known [OF es(1)]
  show "emits (if status \<noteq> PORTAL_AUTH_AUTHENTICATED
      then portal_http_response_error E connection 401 (Some ''unauthorized'')
        (Some ''A valid Bearer token is required.'')
      else rest (Some u)) (\<lambda>result fs. K result (es @ fs))"
  proof (cases "status = PORTAL_AUTH_AUTHENTICATED")
    case True
    obtain token where token: "bearer_token connection = Some token"
      using es(1) True by (auto simp: auth_decision_def split: if_splits option.splits)
    have "emits (rest (Some u)) (\<lambda>result fs. K result (es @ fs))"
    proof (rule emits_mono [OF rest [OF token]], elim conjE)
      fix result fs
      assume "granted (user_id u) result fs" "safe E connection result fs"
      with es known True show "K result (es @ fs)"
        by (intro K safe_append) (auto simp: protected_def)
    qed
    with True show ?thesis by simp
  next
    case False
    have "emits (portal_http_response_error E connection 401 (Some ''unauthorized'')
        (Some ''A valid Bearer token is required.'')) (\<lambda>result fs. K result (es @ fs))"
    proof (rule error.reply_rule)
      fix result fs
      assume "settled fs" "sqls fs = []" "generous E \<Longrightarrow> dropped_references fs = 0"
        and reply: "replies E connection 401
          (error_body E ''unauthorized'' ''A valid Bearer token is required.'') result fs"
      then have "safe E connection result fs" by (rule safe_reply)
      moreover have "protected E ctx connection granted result (es @ fs)"
        using es False reply \<open>sqls fs = []\<close> unfolding protected_def
        by (intro exI [of _ status] exI [of _ "user_id u"] exI [of _ es] exI [of _ fs]) simp
      ultimately show "K result (es @ fs)"
        using es known by (intro K safe_append) auto
    qed
    with False show ?thesis by simp
  qed
qed

text \<open>The text of a lifetime fits its buffer of 12 bytes.\<close>

lemma lifetime_fits:
  fixes w :: "32 word"
  shows "c_snprintf 12 (decimal (unat w)) = (int (length (decimal (unat w))), decimal (unat w))"
    and "\<not> 12 \<le> size_of_int (int (length (decimal (unat w))))"
    and "\<not> int (length (decimal (unat w))) < 0"
proof -
  have "unat w < 10 ^ 10" using unat_bound [of w] by simp
  then have l: "length (decimal (unat w)) \<le> 10" by (rule length_decimal_le) simp
  then show "c_snprintf 12 (decimal (unat w)) = (int (length (decimal (unat w))), decimal (unat w))"
    by (intro c_snprintf_fits) (simp_all add: INT_MAX_def)
  show "\<not> 12 \<le> size_of_int (int (length (decimal (unat w))))"
    using l by (subst size_of_int_nonneg) simp_all
qed simp

text \<open>A valid email fits the 255 bytes of its copy.\<close>

lemma email_copy:
  assumes "portal_validation_email (Some e)" and "CHR 0x00 \<notin> set e"
  shows "\<exists>copy. portal_validation_lowercase_copy (Some (replicate 255 (CHR 0x00))) 255 (Some e) =
      Some (True, Some copy) \<and> c_str copy = map c_tolower e"
proof -
  have "length e < 255"
    using assms(1) by (auto simp: portal_validation_email_def split: if_splits)
  then show ?thesis
    using lowercase_copy_fits [of "replicate 255 (CHR 0x00)" 255 e] lowercase_copy_c_str [OF assms(2)]
    by simp
qed

end
