(* ===== verification/Auth_Routes.thy ===== *)
theory Auth_Routes
  imports Contracts
begin

text \<open>
  \<^verbatim>\<open>src/src/http/routes/auth.c\<close>: registration, confirmation, login and logout. Each route is a program
  that ends in its cleanup block; its lemma gives, for every request and every answer of the server,
  the statement it sends and the response it queues.
\<close>

definition auth_database_error ::
  "('x, 'j) ext \<Rightarrow> mhd_connection option \<Rightarrow> string \<Rightarrow> ('x, mhd_result) prog" where
  "auth_database_error E connection message =
     portal_http_response_error E connection 500 (Some ''database_error'') (Some message)"

section \<open>Registration\<close>

definition portal_http_route_register ::
  "('x, 'j) ext \<Rightarrow> http_context \<Rightarrow> mhd_connection option \<Rightarrow> 'j option \<Rightarrow> ('x, mhd_result) prog" where
  "portal_http_route_register E context connection json =
     (let email = portal_http_json_string E json (Some ''email'') 5 254;
          password = portal_http_json_string E json (Some ''password'') 12 256;
          display_name = portal_http_json_string E json (Some ''display_name'') 1 100
      in if email = None \<or> password = None \<or> display_name = None \<or> \<not> portal_validation_email email
      then portal_http_response_error E connection 400 (Some ''validation_error'')
        (Some ''email, display_name and a password of at least 12 characters are required.'')
      else (case portal_validation_lowercase_copy (Some (replicate 255 (CHR 0x00))) 255 email of
          None \<Rightarrow> undefined_behaviour MHD_NO
        | Some (copied, normalized_email) \<Rightarrow>
            if \<not> copied
            then portal_http_response_error E connection 400 (Some ''validation_error'')
              (Some ''Invalid email.'')
            else let (written, ttl) = c_snprintf 12
                (decimal (unat (portal_config_confirmation_ttl_hours (ctx_config context))))
              in if written < 0 \<or> size_of_int written \<ge> 12
              then portal_http_response_error E connection 500 (Some ''configuration_error'')
                (Some ''Invalid token lifetime.'')
              else do {
                database_result \<leftarrow> portal_database_query E (ctx_database context) (Some register_query) 4
                  [map_option c_str normalized_email, password, display_name, Some ttl];
                result \<leftarrow>
                  (if portal_database_result_status database_result \<noteq> PORTAL_DATABASE_RESULT_TUPLES
                   then let duplicate = portal_database_result_is_unique_violation database_result in
                     portal_http_response_error E connection (if duplicate then 409 else 500)
                       (Some (if duplicate then ''email_already_registered'' else ''database_error''))
                       (Some (if duplicate then ''An account with this email already exists.''
                              else ''Could not create the account.''))
                   else do {
                     created \<leftarrow> json_object_new_object E;
                     (case created of
                        None \<Rightarrow> return MHD_NO
                      | Some response \<Rightarrow> do {
                          response \<leftarrow> json_add_string E response ''message''
                            (Some ''Account created. Confirm it before signing in.'');
                          response \<leftarrow> json_add_string E response ''confirmation_expires_at''
                            (portal_database_result_value database_result 0 1);
                          response \<leftarrow>
                            (if portal_config_exposes_confirmation_token (ctx_config context)
                             then json_add_string E response ''confirmation_token''
                               (portal_database_result_value database_result 0 0)
                             else return response);
                          result \<leftarrow> portal_http_response_json E connection 201 (Some response);
                          json_object_put;
                          return result }) });
                _ \<leftarrow> portal_database_result_destroy database_result;
                return result }))"

text \<open>The members a registration needs, in the order of the statement's parameters.\<close>

definition registration :: "('x, 'j) ext \<Rightarrow> 'j option \<Rightarrow> (string \<times> string \<times> string) option" where
  "registration E json =
     (case (portal_http_json_string E json (Some ''email'') 5 254,
            portal_http_json_string E json (Some ''password'') 12 256,
            portal_http_json_string E json (Some ''display_name'') 1 100) of
        (Some e, Some p, Some d) \<Rightarrow> if portal_validation_email (Some e) then Some (e, p, d) else None
      | _ \<Rightarrow> None)"

definition register_outcome ::
  "('x, 'j) ext \<Rightarrow> http_context \<Rightarrow> mhd_connection option \<Rightarrow> 'j option \<Rightarrow> mhd_result \<Rightarrow>
   event list \<Rightarrow> bool" where
  "register_outcome E context connection json result es \<longleftrightarrow>
     (case registration E json of
        None \<Rightarrow> sqls es = [] \<and> replies E connection 400 (error_body E ''validation_error''
          ''email, display_name and a password of at least 12 characters are required.'') result es
      | Some (e, p, d) \<Rightarrow>
          asked (live E context) register_query [map c_tolower e, p, d,
              decimal (unat (portal_config_confirmation_ttl_hours (ctx_config context)))] (sqls es)
            (\<lambda>answer. if answered_tuples answer then
               replies E connection 201 (prints_entries E
                 ([(''message'', jc_string E ''Account created. Confirm it before signing in.''),
                   (''confirmation_expires_at'', jc_string E (answered_cell answer 0 1))] @
                  (if portal_config_exposes_confirmation_token (ctx_config context)
                   then [(''confirmation_token'', jc_string E (answered_cell answer 0 0))] else [])))
                 result es
             else if unique_violation answer then
               replies E connection 409 (error_body E ''email_already_registered''
                 ''An account with this email already exists.'') result es
             else replies E connection 500 (error_body E ''database_error''
                 ''Could not create the account.'') result es))"

lemma register_cells:
  assumes "server_contract E" "database_may_answer E database register_query values r"
    and "pq_status r = PGRES_TUPLES_OK" "j < 2"
  shows "cell_present r 0 j"
proof -
  have ok: "answer_ok register_query r" by (rule server_contractD [OF assms(1,2)])
  with assms(3) have t: "result_table_ok r" "pq_ntuples r = 1" by (simp_all add: answer_ok_def)
  from row_count_int [OF t(1)] t(2) have "0 < row_count r" by simp
  then show ?thesis
    using answer_cell_present [OF ok assms(3), of 4 2 0 j] assms(4) by (simp add: sql_table_def)
qed

lemma emits_register:
  assumes "\<And>result es. register_outcome E context connection json result es \<Longrightarrow>
      safe E connection result es \<Longrightarrow> K result es"
  shows "emits (portal_http_route_register E context connection json) K"
proof (cases "registration E json")
  case None
  then have invalid: "(portal_http_json_string E json (Some ''email'') 5 254 = None \<or>
      portal_http_json_string E json (Some ''password'') 12 256 = None \<or>
      portal_http_json_string E json (Some ''display_name'') 1 100 = None \<or>
      \<not> portal_validation_email (portal_http_json_string E json (Some ''email'') 5 254)) = True"
    by (auto simp: registration_def split: option.splits if_splits)
  show ?thesis
    unfolding portal_http_route_register_def Let_def invalid if_True
    by (rule error.reply_rule) (auto intro!: assms safe_reply simp: register_outcome_def None)
next
  case (Some epd)
  obtain e p d where epd: "epd = (e, p, d)" by (cases epd)
  from Some epd have strings:
    "portal_http_json_string E json (Some ''email'') 5 254 = Some e"
    "portal_http_json_string E json (Some ''password'') 12 256 = Some p"
    "portal_http_json_string E json (Some ''display_name'') 1 100 = Some d"
    "portal_validation_email (Some e)"
    by (auto simp: registration_def split: option.splits if_splits)
  obtain copy where copy:
    "portal_validation_lowercase_copy (Some (replicate 255 (CHR 0x00))) 255 (Some e) =
       Some (True, Some copy)" "c_str copy = map c_tolower e"
    using email_copy [OF strings(4)] json_string_bounds(3) [OF strings(1)] by blast
  show ?thesis
    unfolding portal_http_route_register_def Let_def strings copy(1)
      lifetime_fits prod.case option.case
    using strings(4) copy(2)
    by (simp del: bind_assoc add: lifetime_fits, intro emits_intros reply_rules assms)
      (auto simp: register_outcome_def Some epd route_defs
        elim!: replies_weaken intro: replies_no_memory prints_intros register_cells)
qed

interpretation register: handler E connection "portal_http_route_register E ctx connection json"
  for E connection ctx json
  by unfold_locales (rule emits_register)

section \<open>Confirmation\<close>

definition confirm_success :: string where
  "confirm_success =
     [CHR 0x7B, CHR 0x22] @ ''message'' @ [CHR 0x22, CHR 0x3A, CHR 0x22] @
     ''Account confirmed. You can now sign in.'' @ [CHR 0x22, CHR 0x7D]"

definition portal_http_route_confirm ::
  "('x, 'j) ext \<Rightarrow> http_context \<Rightarrow> mhd_connection option \<Rightarrow> 'j option \<Rightarrow> ('x, mhd_result) prog" where
  "portal_http_route_confirm E context connection json =
     (let token = portal_http_json_string E json (Some ''token'')
        PORTAL_HTTP_UUID_TEXT_LENGTH PORTAL_HTTP_UUID_TEXT_LENGTH
      in if token = None
      then portal_http_response_error E connection 400 (Some ''validation_error'')
        (Some ''A confirmation token is required.'')
      else do {
        database_result \<leftarrow> portal_database_query E (ctx_database context) (Some confirm_query) 1 [token];
        result \<leftarrow>
          (if portal_database_result_status database_result \<noteq> PORTAL_DATABASE_RESULT_TUPLES \<or>
              portal_database_result_row_count database_result \<noteq> 1
           then portal_http_response_error E connection 400 (Some ''invalid_confirmation_token'')
             (Some ''The confirmation token is invalid or expired.'')
           else portal_http_response_bytes E connection 200 (Some confirm_success)
             (length confirm_success) (Some ''application/json; charset=utf-8''));
        _ \<leftarrow> portal_database_result_destroy database_result;
        return result })"

definition confirm_outcome ::
  "('x, 'j) ext \<Rightarrow> http_context \<Rightarrow> mhd_connection option \<Rightarrow> 'j option \<Rightarrow> mhd_result \<Rightarrow> event list \<Rightarrow> bool" where
  "confirm_outcome E context connection json result es \<longleftrightarrow>
     (case portal_http_json_string E json (Some ''token'') 36 36 of
        None \<Rightarrow> sqls es = [] \<and> replies E connection 400 (error_body E ''validation_error''
          ''A confirmation token is required.'') result es
      | Some token \<Rightarrow>
          asked (live E context) confirm_query [token] (sqls es) (\<lambda>answer.
             if answered_tuples answer \<and> answered_rows answer = 1
             then replies E connection 200 (\<lambda>b. b = confirm_success) result es
             else replies E connection 400 (error_body E ''invalid_confirmation_token''
               ''The confirmation token is invalid or expired.'') result es))"

lemma emits_confirm:
  assumes "\<And>result es. confirm_outcome E context connection json result es \<Longrightarrow>
      safe E connection result es \<Longrightarrow> K result es"
  shows "emits (portal_http_route_confirm E context connection json) K"
  unfolding portal_http_route_confirm_def Let_def
  by (intro emits_intros reply_rules assms)
    (auto simp: confirm_outcome_def route_defs PORTAL_HTTP_UUID_TEXT_LENGTH_def elim!: replies_weaken)

interpretation confirm: handler E connection "portal_http_route_confirm E ctx connection json"
  for E connection ctx json
  by unfold_locales (rule emits_confirm)

section \<open>Login\<close>

definition portal_http_route_login ::
  "('x, 'j) ext \<Rightarrow> http_context \<Rightarrow> mhd_connection option \<Rightarrow> 'j option \<Rightarrow> ('x, mhd_result) prog" where
  "portal_http_route_login E context connection json =
     (let email = portal_http_json_string E json (Some ''email'') 5 254;
          password = portal_http_json_string E json (Some ''password'') 1 256
      in if email = None \<or> password = None \<or> \<not> portal_validation_email email
      then portal_http_response_error E connection 400 (Some ''validation_error'')
        (Some ''email and password are required.'')
      else (case portal_validation_lowercase_copy (Some (replicate 255 (CHR 0x00))) 255 email of
          None \<Rightarrow> undefined_behaviour MHD_NO
        | Some (copied, normalized_email) \<Rightarrow>
            if \<not> copied
            then portal_http_response_error E connection 400 (Some ''validation_error'')
              (Some ''Invalid email.'')
            else let (written, ttl) = c_snprintf 12
                (decimal (unat (portal_config_token_ttl_hours (ctx_config context))))
              in if written < 0 \<or> size_of_int written \<ge> 12
              then portal_http_response_error E connection 500 (Some ''configuration_error'')
                (Some ''Invalid token lifetime.'')
              else do {
                database_result \<leftarrow> portal_database_query E (ctx_database context) (Some login_query) 3
                  [map_option c_str normalized_email, password, Some ttl];
                result \<leftarrow>
                  (if portal_database_result_status database_result \<noteq> PORTAL_DATABASE_RESULT_TUPLES
                   then auth_database_error E connection ''Could not sign in.''
                   else if portal_database_result_row_count database_result \<noteq> 1
                   then portal_http_response_error E connection 401 (Some ''invalid_credentials'')
                     (Some ''Invalid credentials or unconfirmed account.'')
                   else do {
                     created \<leftarrow> json_object_new_object E;
                     (case created of
                        None \<Rightarrow> return MHD_NO
                      | Some response \<Rightarrow> do {
                          response \<leftarrow> json_add_string E response ''access_token''
                            (portal_database_result_value database_result 0 0);
                          response \<leftarrow> json_add_string E response ''token_type'' (Some ''Bearer'');
                          response \<leftarrow> json_add_string E response ''expires_at''
                            (portal_database_result_value database_result 0 1);
                          result \<leftarrow> portal_http_response_json E connection 200 (Some response);
                          json_object_put;
                          return result }) });
                _ \<leftarrow> portal_database_result_destroy database_result;
                return result }))"

definition credentials :: "('x, 'j) ext \<Rightarrow> 'j option \<Rightarrow> (string \<times> string) option" where
  "credentials E json =
     (case (portal_http_json_string E json (Some ''email'') 5 254,
            portal_http_json_string E json (Some ''password'') 1 256) of
        (Some e, Some p) \<Rightarrow> if portal_validation_email (Some e) then Some (e, p) else None
      | _ \<Rightarrow> None)"

definition login_outcome ::
  "('x, 'j) ext \<Rightarrow> http_context \<Rightarrow> mhd_connection option \<Rightarrow> 'j option \<Rightarrow> mhd_result \<Rightarrow>
   event list \<Rightarrow> bool" where
  "login_outcome E context connection json result es \<longleftrightarrow>
     (case credentials E json of
        None \<Rightarrow> sqls es = [] \<and> replies E connection 400 (error_body E ''validation_error''
          ''email and password are required.'') result es
      | Some (e, p) \<Rightarrow>
          asked (live E context) login_query [map c_tolower e, p,
              decimal (unat (portal_config_token_ttl_hours (ctx_config context)))] (sqls es)
            (\<lambda>answer. if \<not> answered_tuples answer then
               replies E connection 500 (error_body E ''database_error'' ''Could not sign in.'') result es
             else if answered_rows answer \<noteq> 1 then
               replies E connection 401 (error_body E ''invalid_credentials''
                 ''Invalid credentials or unconfirmed account.'') result es
             else replies E connection 200 (prints_entries E
               [(''access_token'', jc_string E (answered_cell answer 0 0)),
                (''token_type'', jc_string E ''Bearer''),
                (''expires_at'', jc_string E (answered_cell answer 0 1))]) result es))"

lemma login_cells:
  assumes "server_contract E" "database_may_answer E database login_query values r"
    and "pq_status r = PGRES_TUPLES_OK" "row_count r = Suc 0" "j < 2"
  shows "cell_present r 0 j"
  using promised_cell [OF assms(1-3), of 3 2 0 j] assms(4,5) by (simp add: sql_table_def)

lemma emits_login:
  assumes "\<And>result es. login_outcome E context connection json result es \<Longrightarrow>
      safe E connection result es \<Longrightarrow> K result es"
  shows "emits (portal_http_route_login E context connection json) K"
proof (cases "credentials E json")
  case None
  then have invalid: "(portal_http_json_string E json (Some ''email'') 5 254 = None \<or>
      portal_http_json_string E json (Some ''password'') 1 256 = None \<or>
      \<not> portal_validation_email (portal_http_json_string E json (Some ''email'') 5 254)) = True"
    by (auto simp: credentials_def split: option.splits if_splits)
  show ?thesis
    unfolding portal_http_route_login_def Let_def invalid if_True
    by (rule error.reply_rule) (auto intro!: assms safe_reply simp: login_outcome_def None)
next
  case (Some ep)
  obtain e p where ep: "ep = (e, p)" by (cases ep)
  from Some ep have strings:
    "portal_http_json_string E json (Some ''email'') 5 254 = Some e"
    "portal_http_json_string E json (Some ''password'') 1 256 = Some p"
    "portal_validation_email (Some e)"
    by (auto simp: credentials_def split: option.splits if_splits)
  obtain copy where copy:
    "portal_validation_lowercase_copy (Some (replicate 255 (CHR 0x00))) 255 (Some e) =
       Some (True, Some copy)" "c_str copy = map c_tolower e"
    using email_copy [OF strings(3)] json_string_bounds(3) [OF strings(1)] by blast
  show ?thesis
    unfolding portal_http_route_login_def Let_def strings copy(1) auth_database_error_def
      lifetime_fits prod.case option.case
    using strings(3) copy(2)
    by (simp del: bind_assoc add: lifetime_fits, intro emits_intros reply_rules assms)
      (auto simp: login_outcome_def Some ep route_defs
        elim!: replies_weaken intro: replies_no_memory prints_intros login_cells)
qed

interpretation login: handler E connection "portal_http_route_login E ctx connection json"
  for E connection ctx json
  by unfold_locales (rule emits_login)

section \<open>Logout\<close>

definition portal_http_route_logout ::
  "('x, 'j) ext \<Rightarrow> http_context \<Rightarrow> mhd_connection option \<Rightarrow> ('x, mhd_result) prog" where
  "portal_http_route_logout E context connection = do {
     (status, user) \<leftarrow> portal_http_authenticate E (Some context) connection (Some no_user);
     if status \<noteq> PORTAL_AUTH_AUTHENTICATED
     then portal_http_response_error E connection 401 (Some ''unauthorized'')
       (Some ''A valid Bearer token is required.'')
     else do {
       let authorization = lookup_header connection ''Authorization'';
       database_result \<leftarrow> portal_database_query E (ctx_database context) (Some logout_query) 1
         [map_option (drop 7) authorization];
       result \<leftarrow>
         (if portal_database_result_status database_result \<noteq> PORTAL_DATABASE_RESULT_COMMAND
          then auth_database_error E connection ''Could not close the session.''
          else portal_http_response_empty E connection 204);
       _ \<leftarrow> portal_database_result_destroy database_result;
       return result } }"

definition logout_outcome ::
  "('x, 'j) ext \<Rightarrow> http_context \<Rightarrow> mhd_connection option \<Rightarrow> mhd_result \<Rightarrow> event list \<Rightarrow> bool" where
  "logout_outcome E context connection result es \<longleftrightarrow>
     (\<exists>token. bearer_token connection = Some token \<and>
        asked (live E context) logout_query [token] (sqls es) (\<lambda>answer.
          if answered_command answer then replies E connection 204 (\<lambda>b. b = []) result es
          else replies E connection 500 (error_body E ''database_error''
            ''Could not close the session.'') result es))"

lemma emits_logout:
  assumes connection: "connection \<noteq> None"
    and K: "\<And>result es. protected E context connection (\<lambda>_. logout_outcome E context connection) result es \<Longrightarrow>
      safe E connection result es \<Longrightarrow> K result es"
  shows "emits (portal_http_route_logout E context connection) K"
  unfolding portal_http_route_logout_def
proof (rule emits_protected [OF connection _ K])
  fix u :: authenticated_user and token
  assume "bearer_token connection = Some token"
  then show "emits (let authorization = lookup_header connection ''Authorization'' in do {
       database_result \<leftarrow> portal_database_query E (ctx_database context) (Some logout_query) 1
         [map_option (drop 7) authorization];
       result \<leftarrow>
         (if portal_database_result_status database_result \<noteq> PORTAL_DATABASE_RESULT_COMMAND
          then auth_database_error E connection ''Could not close the session.''
          else portal_http_response_empty E connection 204);
       _ \<leftarrow> portal_database_result_destroy database_result;
       return result })
     (\<lambda>result es. logout_outcome E context connection result es \<and> safe E connection result es)"
    unfolding Let_def auth_database_error_def
    by (simp only: bearer_token_header, intro emits_intros reply_rules conjI)
      (auto simp: logout_outcome_def route_defs elim!: replies_weaken)
qed

interpretation logout: handler E connection "portal_http_route_logout E ctx connection"
  for E connection ctx
  by unfold_locales (rule emits_logout)

end
