(* ===== verification/Favorites.thy ===== *)
theory Favorites
  imports Contracts
begin

text \<open>
  \<^verbatim>\<open>src/src/http/routes/favorites.c\<close>: the favourite sections and tags of the signed-in user. The lemmas
  show that both routes act for that user only, and that the list is the first column of the
  answer, in its order.
\<close>

datatype favorite_kind = PORTAL_FAVORITE_SECTION | PORTAL_FAVORITE_TAG

definition favorite_has_authenticated_user ::
  "('x, 'j) ext \<Rightarrow> http_context \<Rightarrow> mhd_connection option \<Rightarrow> authenticated_user option \<Rightarrow>
   ('x, bool \<times> authenticated_user option) prog" where
  "favorite_has_authenticated_user E context connection user = do {
     (status, user) \<leftarrow> portal_http_authenticate E (Some context) connection user;
     return (status = PORTAL_AUTH_AUTHENTICATED, user) }"

text \<open>The loop over the rows.\<close>

function favorite_items ::
  "('x, 'j) ext \<Rightarrow> database_result option \<Rightarrow> 'j \<Rightarrow> nat \<Rightarrow> ('x, 'j) prog" where
  "favorite_items E database_result items index =
     (if index < portal_database_result_row_count database_result then do {
        items \<leftarrow> json_append_string E items (portal_database_result_value database_result index 0);
        favorite_items E database_result items (Suc index) }
      else return items)"
  by pat_completeness auto
termination
  by (relation "measure (\<lambda>(_, result, _, index). portal_database_result_row_count result - index)") auto

declare favorite_items.simps [simp del]

definition favorite_list_query :: "favorite_kind \<Rightarrow> string" where
  "favorite_list_query kind =
     (if kind = PORTAL_FAVORITE_TAG then tag_list_query else section_list_query)"

definition portal_http_route_favorite_list ::
  "('x, 'j) ext \<Rightarrow> http_context \<Rightarrow> mhd_connection option \<Rightarrow> favorite_kind \<Rightarrow> ('x, mhd_result) prog" where
  "portal_http_route_favorite_list E context connection kind = do {
     (ok, user) \<leftarrow> favorite_has_authenticated_user E context connection (Some no_user);
     if \<not> ok
     then portal_http_response_error E connection 401 (Some ''unauthorized'')
       (Some ''A valid Bearer token is required.'')
     else do {
       database_result \<leftarrow> portal_database_query E (ctx_database context)
         (Some (favorite_list_query kind)) 1 [map_option user_id user];
       result \<leftarrow>
         (if portal_database_result_status database_result \<noteq> PORTAL_DATABASE_RESULT_TUPLES
          then portal_http_response_error E connection 500 (Some ''database_error'')
            (Some ''Could not load favorites.'')
          else do {
            response \<leftarrow> json_object_new_object E;
            items \<leftarrow> json_object_new_array E;
            (result, response, items) \<leftarrow>
              (case (response, items) of
                 (Some obj, Some arr) \<Rightarrow> do {
                   arr \<leftarrow> favorite_items E database_result arr 0;
                   obj \<leftarrow> json_object_object_add E obj ''items'' (Some arr);
                   result \<leftarrow> portal_http_response_json E connection 200 (Some obj);
                   return (result, Some obj, None) }
               | _ \<Rightarrow> return (MHD_NO, response, items));
            json_cleanup items;
            json_cleanup response;
            return result });
       _ \<leftarrow> portal_database_result_destroy database_result;
       return result } }"

definition favorite_change_query :: "favorite_kind \<Rightarrow> bool \<Rightarrow> string" where
  "favorite_change_query kind is_put =
     (if kind = PORTAL_FAVORITE_TAG
      then (if is_put then tag_insert_query else tag_delete_query)
      else (if is_put then section_insert_query else section_delete_query))"

definition portal_http_route_favorite_change ::
  "('x, 'j) ext \<Rightarrow> http_context \<Rightarrow> mhd_connection option \<Rightarrow> string \<Rightarrow> favorite_kind \<Rightarrow> string \<Rightarrow>
   ('x, mhd_result) prog" where
  "portal_http_route_favorite_change E context connection meth kind key = do {
     let is_put = (meth = ''PUT'');
     (ok, user) \<leftarrow> favorite_has_authenticated_user E context connection (Some no_user);
     if \<not> ok
     then portal_http_response_error E connection 401 (Some ''unauthorized'')
       (Some ''A valid Bearer token is required.'')
     else if \<not> portal_validation_key (Some key) 160
     then portal_http_response_error E connection 400 (Some ''validation_error'')
       (Some ''The favorite key contains unsupported characters.'')
     else do {
       database_result \<leftarrow> portal_database_query E (ctx_database context)
         (Some (favorite_change_query kind is_put)) 2 [map_option user_id user, Some key];
       result \<leftarrow>
         (if portal_database_result_status database_result \<noteq> PORTAL_DATABASE_RESULT_COMMAND
          then portal_http_response_error E connection 500 (Some ''database_error'')
            (Some (if is_put then ''Could not save the favorite.''
                   else ''Could not remove the favorite.''))
          else portal_http_response_empty E connection 204);
       _ \<leftarrow> portal_database_result_destroy database_result;
       return result } }"

section \<open>What they do\<close>

lemma favorite_check:
  "favorite_has_authenticated_user E ctx connection user \<bind>
     (\<lambda>(ok, user). if \<not> ok then refused else rest user) =
   portal_http_authenticate E (Some ctx) connection user \<bind>
     (\<lambda>(status, user). if status \<noteq> PORTAL_AUTH_AUTHENTICATED then refused else rest user)"
  by (simp add: favorite_has_authenticated_user_def)
    (intro arg_cong [where f = "\<lambda>f. portal_http_authenticate E (Some ctx) connection user \<bind> f"] ext,
      simp split: prod.splits)

lemma emits_favorite_items:
  assumes "\<And>arr es.
      appended_from E items (map (\<lambda>i. jc_string E (cell_text r i 0)) [index..<row_count r]) arr \<Longrightarrow>
      released es \<Longrightarrow> sqls es = [] \<Longrightarrow> responses es = [] \<Longrightarrow>
      (generous E \<Longrightarrow> dropped_references es = 0) \<Longrightarrow>
      stays_defined es \<longleftrightarrow> (\<forall>i. index \<le> i \<and> i < row_count r \<longrightarrow> cell_present r i 0) \<Longrightarrow> K arr es"
  shows "emits (favorite_items E (Some \<lparr>db_result = Some r\<rparr>) items index) K"
  using assms
proof (induction "row_count r - index" arbitrary: items index K)
  case 0
  then have "K items []" by (intro "0.prems") auto
  with 0 show ?case
    by (subst favorite_items.simps) (auto intro: emits_return)
next
  case (Suc d)
  then have less: "index < row_count r" and d: "d = row_count r - Suc index" by simp_all
  then have first: "[index..<row_count r] = index # [Suc index..<row_count r]"
    by (simp add: upt_conv_Cons)
  have all: "(\<forall>i. index \<le> i \<and> i < row_count r \<longrightarrow> P i) \<longleftrightarrow>
      P index \<and> (\<forall>i. Suc index \<le> i \<and> i < row_count r \<longrightarrow> P i)" for P
    using less by (metis Suc_le_eq le_eq_less_or_eq)
  show ?case
    by (subst favorite_items.simps, simp only: reading less if_True,
        intro emits_bind emits_append_string Suc.hyps(1) [OF d] Suc.prems)
      (use less in \<open>auto simp: first all released_def\<close>)
qed

definition favorite_list_outcome ::
  "('x, 'j) ext \<Rightarrow> http_context \<Rightarrow> mhd_connection option \<Rightarrow> favorite_kind \<Rightarrow> string \<Rightarrow> mhd_result \<Rightarrow> event list \<Rightarrow>
   bool" where
  "favorite_list_outcome E ctx connection kind uid result es \<longleftrightarrow>
     asked (live E ctx) (favorite_list_query kind) [uid] (sqls es) (\<lambda>answer.
       if answered_tuples answer then
         replies E connection 200 (\<lambda>b. \<exists>arr.
           appended_from E (jc_array E)
             (map (\<lambda>i. jc_string E (answered_cell answer i 0)) [0..<answered_rows answer]) arr \<and>
           prints_entries E [(''items'', arr)] b) result es
       else replies E connection 500 (error_body E ''database_error''
         ''Could not load favorites.'') result es)"

lemma favorite_cells:
  assumes "server_contract E" "database_may_answer E database (favorite_list_query kind) values r"
    and "pq_status r = PGRES_TUPLES_OK" "i < row_count r"
  shows "cell_present r i 0"
proof -
  have "(favorite_list_query kind, 1, 1) \<in> set sql_table"
    by (simp add: favorite_list_query_def sql_table_def)
  from promised_cell [OF assms(1-3) this assms(4)] show ?thesis by simp
qed

lemma favorite_list_known: "known_statement (favorite_list_query kind, [Some uid], answer)"
  by (simp add: known_statement_def favorite_list_query_def sql_table_def)

lemma emits_favorite_list:
  assumes connection: "connection \<noteq> None"
    and K: "\<And>result es. protected E ctx connection (favorite_list_outcome E ctx connection kind) result es \<Longrightarrow>
      safe E connection result es \<Longrightarrow> K result es"
  shows "emits (portal_http_route_favorite_list E ctx connection kind) K"
  unfolding portal_http_route_favorite_list_def favorite_check
  by (rule emits_protected [OF connection _ K], simp only: option.map,
      intro emits_intros reply_rules emits_favorite_items emits_add_child conjI)
    (auto simp: favorite_list_outcome_def safe_def settled_def quiet_def released_def favorite_list_known
      elim!: replies_weaken intro: replies_no_memory prints_intros favorite_cells)

interpretation favorite_list: handler E connection "portal_http_route_favorite_list E ctx connection kind"
  for E connection ctx kind
  by unfold_locales (rule emits_favorite_list)

definition favorite_change_outcome ::
  "('x, 'j) ext \<Rightarrow> http_context \<Rightarrow> mhd_connection option \<Rightarrow> favorite_kind \<Rightarrow> bool \<Rightarrow> string \<Rightarrow> string \<Rightarrow>
   mhd_result \<Rightarrow> event list \<Rightarrow> bool" where
  "favorite_change_outcome E ctx connection kind is_put key uid result es \<longleftrightarrow>
     (if portal_validation_key (Some key) 160 then
        asked (live E ctx) (favorite_change_query kind is_put) [uid, key] (sqls es) (\<lambda>answer.
          if answered_command answer then replies E connection 204 (\<lambda>b. b = []) result es
          else replies E connection 500 (error_body E ''database_error''
            (if is_put then ''Could not save the favorite.'' else ''Could not remove the favorite.''))
            result es)
      else sqls es = [] \<and> replies E connection 400 (error_body E ''validation_error''
        ''The favorite key contains unsupported characters.'') result es)"

lemma favorite_change_known:
  "known_statement (favorite_change_query kind is_put, [Some uid, Some key], answer)"
  by (cases kind; cases is_put; simp only: favorite_change_query_def if_True if_False refl
      favorite_kind.distinct; simp add: known_statement_def sql_table_def)

lemma emits_favorite_change:
  assumes connection: "connection \<noteq> None"
    and K: "\<And>result es.
      protected E ctx connection (favorite_change_outcome E ctx connection kind (meth = ''PUT'') key) result es \<Longrightarrow>
      safe E connection result es \<Longrightarrow> K result es"
  shows "emits (portal_http_route_favorite_change E ctx connection meth kind key) K"
  unfolding portal_http_route_favorite_change_def Let_def favorite_check
  by (rule emits_protected [OF connection _ K], simp only: option.map,
      intro emits_intros reply_rules conjI)
    (auto simp: favorite_change_outcome_def safe_def settled_def quiet_def released_def
      favorite_change_known elim!: replies_weaken)

interpretation favorite_change: handler E connection
    "portal_http_route_favorite_change E ctx connection meth kind key"
  for E connection ctx meth kind key
  by unfold_locales (rule emits_favorite_change)

end
