(* ===== verification/Activity.thy ===== *)
theory Activity
  imports Contracts
begin

text \<open>
  \<^verbatim>\<open>src/src/http/routes/activity.c\<close>: events, likes and comments, by a signed-in user or by an
  anonymous visitor. The lemmas show that every record names exactly one actor, that the actor keys
  of users and visitors never coincide, and what each route stores.
\<close>

record activity_actor =
  actor_status :: auth_status
  actor_user :: "authenticated_user option"
  actor_anonymous_id :: "string option"
  actor_key :: string

definition no_actor :: activity_actor where
  "no_actor = \<lparr>actor_status = PORTAL_AUTH_INVALID, actor_user = Some no_user,
     actor_anonymous_id = None, actor_key = []\<rparr>"

definition activity_load_actor ::
  "('x, 'j) ext \<Rightarrow> http_context \<Rightarrow> mhd_connection option \<Rightarrow> 'j option \<Rightarrow> activity_actor \<Rightarrow>
   ('x, auth_status \<times> activity_actor) prog" where
  "activity_load_actor E context connection json actor = do {
     (status, user) \<leftarrow> portal_http_authenticate E (Some context) connection (actor_user actor);
     let actor = actor\<lparr>actor_status := status, actor_user := user,
       actor_anonymous_id := portal_http_json_optional_string E json (Some ''anonymous_id'') 200\<rparr>;
     if status = PORTAL_AUTH_INVALID then return (PORTAL_AUTH_INVALID, actor)
     else if status \<noteq> PORTAL_AUTH_AUTHENTICATED \<and>
       \<not> portal_validation_anonymous_id (actor_anonymous_id actor)
     then return (PORTAL_AUTH_INVALID, actor)
     else
       let (written, key) = c_snprintf 205
         (if status = PORTAL_AUTH_AUTHENTICATED
          then ''u:'' @ text_of (map_option user_id user)
          else ''a:'' @ text_of (actor_anonymous_id actor));
         actor = actor\<lparr>actor_key := key\<rparr>
       in if written < 0 \<or> size_of_int written \<ge> 205 then return (PORTAL_AUTH_INVALID, actor)
       else return (actor_status actor, actor) }"

definition activity_actor_error ::
  "('x, 'j) ext \<Rightarrow> mhd_connection option \<Rightarrow> auth_status \<Rightarrow> ('x, mhd_result) prog" where
  "activity_actor_error E connection authentication =
     (let authorization = lookup_header connection ''Authorization''
      in if authentication = PORTAL_AUTH_INVALID \<and> authorization \<noteq> None \<and> authorization \<noteq> Some []
      then portal_http_response_error E connection 401 (Some ''invalid_token'')
        (Some ''The supplied Bearer token is invalid.'')
      else portal_http_response_error E connection 400 (Some ''anonymous_id_required'')
        (Some ''Anonymous actions need an opaque anonymous_id.''))"

text \<open>The two columns that name the actor: \<open>NULLIF(..., '')\<close> turns the empty text into a null.\<close>

definition actor_user_id :: "auth_status \<Rightarrow> activity_actor \<Rightarrow> string option" where
  "actor_user_id authentication actor =
     (if authentication = PORTAL_AUTH_AUTHENTICATED then map_option user_id (actor_user actor) else Some [])"

definition actor_anonymous :: "auth_status \<Rightarrow> activity_actor \<Rightarrow> string option" where
  "actor_anonymous authentication actor =
     (if authentication = PORTAL_AUTH_AUTHENTICATED then Some [] else actor_anonymous_id actor)"

definition text_or_empty :: "string option \<Rightarrow> string option" where
  "text_or_empty text = (case text of None \<Rightarrow> Some [] | Some t \<Rightarrow> Some t)"

section \<open>The routes\<close>

definition portal_http_route_activity ::
  "('x, 'j) ext \<Rightarrow> http_context \<Rightarrow> mhd_connection option \<Rightarrow> 'j option \<Rightarrow> ('x, mhd_result) prog" where
  "portal_http_route_activity E context connection json =
     (let portal = portal_http_json_string E json (Some ''portal_key'') 1 120;
          event_type = portal_http_json_string E json (Some ''event_type'') 1 40;
          content_id = portal_http_json_optional_string E json (Some ''content_id'') 300;
          component_id = portal_http_json_optional_string E json (Some ''component_id'') 300;
          page_url = portal_http_json_optional_string E json (Some ''page_url'') 2000
      in if portal = None \<or> event_type = None \<or> \<not> portal_validation_key portal 120 \<or>
        \<not> portal_validation_event_type event_type
      then portal_http_response_error E connection 400 (Some ''validation_error'')
        (Some ''portal_key and a supported event_type are required.'')
      else do {
        (authentication, actor) \<leftarrow> activity_load_actor E context connection json no_actor;
        if authentication = PORTAL_AUTH_INVALID
        then activity_actor_error E connection authentication
        else
          let event_data = Option.bind json (\<lambda>obj. jc_field E obj ''event_data'')
          in if event_data \<noteq> None \<and> \<not> json_object_is_type E (Option.bind event_data id) json_type_object
          then portal_http_response_error E connection 400 (Some ''validation_error'')
            (Some ''event_data must be a JSON object.'')
          else do {
            let data_text = (case Option.bind event_data id of
                None \<Rightarrow> [CHR 0x7B, CHR 0x7D] | Some j \<Rightarrow> jc_print E j);
            database_result \<leftarrow> portal_database_query E (ctx_database context) (Some activity_query) 8
              [actor_user_id authentication actor, actor_anonymous authentication actor, portal,
               event_type, text_or_empty content_id, text_or_empty component_id,
               text_or_empty page_url, Some data_text];
            result \<leftarrow>
              (if portal_database_result_status database_result \<noteq> PORTAL_DATABASE_RESULT_TUPLES
               then portal_http_response_error E connection 500 (Some ''database_error'')
                 (Some ''Could not record activity.'')
               else do {
                 created \<leftarrow> json_object_new_object E;
                 (case created of
                    None \<Rightarrow> return MHD_NO
                  | Some response \<Rightarrow> do {
                      id_text \<leftarrow> deref (portal_database_result_value database_result 0 0) [];
                      response \<leftarrow> json_add_int64 E response ''event_id'' (fst (c_strtol id_text));
                      result \<leftarrow> portal_http_response_json E connection 201 (Some response);
                      json_object_put;
                      return result }) });
            _ \<leftarrow> portal_database_result_destroy database_result;
            return result } })"

definition portal_http_route_like ::
  "('x, 'j) ext \<Rightarrow> http_context \<Rightarrow> mhd_connection option \<Rightarrow> string \<Rightarrow> string \<Rightarrow> 'j option \<Rightarrow>
   ('x, mhd_result) prog" where
  "portal_http_route_like E context connection meth content_id json =
     (let portal = portal_http_json_string E json (Some ''portal_key'') 1 120;
          is_put = (meth = ''PUT'')
      in if \<not> portal_validation_key (Some content_id) 300
      then portal_http_response_error E connection 400 (Some ''validation_error'')
        (Some ''The content id contains unsupported characters.'')
      else do {
        (authentication, actor) \<leftarrow> activity_load_actor E context connection json no_actor;
        if authentication = PORTAL_AUTH_INVALID
        then activity_actor_error E connection authentication
        else if is_put \<and> (portal = None \<or> \<not> portal_validation_key portal 120)
        then portal_http_response_error E connection 400 (Some ''validation_error'')
          (Some ''portal_key is required for a like.'')
        else do {
          database_result \<leftarrow>
            (if is_put
             then portal_database_query E (ctx_database context) (Some like_insert_query) 5
               [Some content_id, actor_user_id authentication actor,
                actor_anonymous authentication actor, Some (actor_key actor), text_or_empty portal]
             else portal_database_query E (ctx_database context) (Some like_delete_query) 2
               [Some content_id, Some (actor_key actor)]);
          result \<leftarrow>
            (if is_put \<and>
                portal_database_result_status database_result \<noteq> PORTAL_DATABASE_RESULT_TUPLES \<or>
                \<not> is_put \<and>
                portal_database_result_status database_result \<noteq> PORTAL_DATABASE_RESULT_COMMAND
             then portal_http_response_error E connection 500 (Some ''database_error'')
               (Some (if is_put then ''Could not store the like.'' else ''Could not remove the like.''))
             else portal_http_response_empty E connection 204);
          _ \<leftarrow> portal_database_result_destroy database_result;
          return result } })"

definition portal_http_route_comment ::
  "('x, 'j) ext \<Rightarrow> http_context \<Rightarrow> mhd_connection option \<Rightarrow> string \<Rightarrow> 'j option \<Rightarrow>
   ('x, mhd_result) prog" where
  "portal_http_route_comment E context connection content_id json =
     (let body = portal_http_json_string E json (Some ''body'') 1 5000;
          author_name = portal_http_json_optional_string E json (Some ''author_name'') 100;
          portal = portal_http_json_string E json (Some ''portal_key'') 1 120
      in if \<not> portal_validation_key (Some content_id) 300 \<or> portal = None \<or>
        \<not> portal_validation_key portal 120 \<or> body = None
      then portal_http_response_error E connection 400 (Some ''validation_error'')
        (Some ''content id, portal_key and comment body are required.'')
      else do {
        (authentication, actor) \<leftarrow> activity_load_actor E context connection json no_actor;
        if authentication = PORTAL_AUTH_INVALID
        then activity_actor_error E connection authentication
        else do {
          database_result \<leftarrow> portal_database_query E (ctx_database context) (Some comment_query) 6
            [Some content_id, actor_user_id authentication actor,
             actor_anonymous authentication actor, text_or_empty author_name, body, portal];
          result \<leftarrow>
            (if portal_database_result_status database_result \<noteq> PORTAL_DATABASE_RESULT_TUPLES \<or>
                portal_database_result_row_count database_result \<noteq> 1
             then portal_http_response_error E connection 500 (Some ''database_error'')
               (Some ''Could not store the comment.'')
             else do {
               created \<leftarrow> json_object_new_object E;
               (case created of
                  None \<Rightarrow> return MHD_NO
                | Some response \<Rightarrow> do {
                    response \<leftarrow> json_add_string E response ''id''
                      (portal_database_result_value database_result 0 0);
                    response \<leftarrow> json_add_string E response ''created_at''
                      (portal_database_result_value database_result 0 1);
                    result \<leftarrow> portal_http_response_json E connection 201 (Some response);
                    json_object_put;
                    return result }) });
          _ \<leftarrow> portal_database_result_destroy database_result;
          return result } })"

section \<open>Actors\<close>

text \<open>Who acts: a user, or a visitor with the identifier its client chose.\<close>

datatype actor = User string | Visitor string

fun actor_key_of :: "actor \<Rightarrow> string" where
  "actor_key_of (User u) = ''u:'' @ u"
| "actor_key_of (Visitor a) = ''a:'' @ a"

fun user_column :: "actor \<Rightarrow> string" where
  "user_column (User u) = u"
| "user_column (Visitor a) = []"

fun visitor_column :: "actor \<Rightarrow> string" where
  "visitor_column (User u) = []"
| "visitor_column (Visitor a) = a"

definition resolved :: "('x, 'j) ext \<Rightarrow> 'j option \<Rightarrow> auth_status \<Rightarrow> string \<Rightarrow> actor option" where
  "resolved E json status uid =
     (case status of
        PORTAL_AUTH_INVALID \<Rightarrow> None
      | PORTAL_AUTH_AUTHENTICATED \<Rightarrow> Some (User uid)
      | PORTAL_AUTH_ANONYMOUS \<Rightarrow>
          (case portal_http_json_optional_string E json (Some ''anonymous_id'') 200 of
             None \<Rightarrow> None
           | Some a \<Rightarrow> if portal_validation_anonymous_id (Some a) then Some (Visitor a) else None))"

lemma actor_key_inject: "actor_key_of x = actor_key_of y \<longleftrightarrow> x = y"
  by (cases x; cases y) auto

lemma auth_decision_uid:
  "auth_decision available connection PORTAL_AUTH_AUTHENTICATED uid statements \<Longrightarrow> length uid \<le> 36"
  by (auto simp: auth_decision_def session_user_def split: if_splits option.splits)

text \<open>Every actor's key fits the buffer of 205 bytes.\<close>

lemma resolved_key_length:
  assumes "resolved E json status uid = Some a" and "auth_decision available connection status uid statements"
  shows "length (actor_key_of a) \<le> 202"
proof (cases status)
  case PORTAL_AUTH_AUTHENTICATED
  with assms auth_decision_uid [of available connection uid statements] show ?thesis
    by (auto simp: resolved_def)
next
  case PORTAL_AUTH_ANONYMOUS
  with assms(1) anonymous_id.valid_length show ?thesis
    by (auto simp: resolved_def split: option.splits if_splits)
qed (use assms(1) in \<open>simp add: resolved_def\<close>)

lemma key_fits:
  assumes "length key \<le> 202"
  shows "c_snprintf 205 key = (int (length key), key)"
    and "\<not> 205 \<le> size_of_int (int (length key))"
proof -
  show "c_snprintf 205 key = (int (length key), key)"
    using assms by (intro c_snprintf_fits) (simp_all add: INT_MAX_def)
  show "\<not> 205 \<le> size_of_int (int (length key))"
    using assms by (subst size_of_int_nonneg) simp_all
qed

text \<open>What the loaded record says of an actor.\<close>

definition represents :: "auth_status \<Rightarrow> activity_actor \<Rightarrow> actor \<Rightarrow> bool" where
  "represents status actor a \<longleftrightarrow>
     status \<noteq> PORTAL_AUTH_INVALID \<and>
     actor_user_id status actor = Some (user_column a) \<and>
     actor_anonymous status actor = Some (visitor_column a) \<and>
     actor_key actor = actor_key_of a"

lemma no_actor_user: "actor_user no_actor = Some no_user"
  by (simp add: no_actor_def)

lemma emits_load_actor:
  assumes connection: "connection \<noteq> None"
    and none: "\<And>status uid actor es. auth_decision (live E ctx) connection status uid (sqls es) \<Longrightarrow>
      resolved E json status uid = None \<Longrightarrow> released es \<Longrightarrow> dropped_references es = 0 \<Longrightarrow>
      responses es = [] \<Longrightarrow> (server_contract E \<Longrightarrow> stays_defined es) \<Longrightarrow>
      K (PORTAL_AUTH_INVALID, actor) es"
    and some: "\<And>status uid actor a es. auth_decision (live E ctx) connection status uid (sqls es) \<Longrightarrow>
      resolved E json status uid = Some a \<Longrightarrow> represents status actor a \<Longrightarrow> released es \<Longrightarrow>
      dropped_references es = 0 \<Longrightarrow> responses es = [] \<Longrightarrow>
      (server_contract E \<Longrightarrow> stays_defined es) \<Longrightarrow> K (status, actor) es"
  shows "emits (activity_load_actor E ctx connection json no_actor) K"
  unfolding activity_load_actor_def no_actor_user
proof (rule emits_bind, rule emits_authenticate [OF _ connection], unfold prod.case)
  fix status and u :: authenticated_user and es
  assume es: "auth_decision (live E ctx) connection status (user_id u) (sqls es)" "released es"
    "dropped_references es = 0" "responses es = []" "server_contract E \<Longrightarrow> stays_defined es"
  let ?anonymous = "portal_http_json_optional_string E json (Some ''anonymous_id'') 200"
  consider (invalid) "status = PORTAL_AUTH_INVALID"
    | (user) "status = PORTAL_AUTH_AUTHENTICATED" "resolved E json status (user_id u) = Some (User (user_id u))"
    | (visitor) v where "status = PORTAL_AUTH_ANONYMOUS" "?anonymous = Some v"
        "portal_validation_anonymous_id (Some v)" "resolved E json status (user_id u) = Some (Visitor v)"
    | (refused) "status = PORTAL_AUTH_ANONYMOUS" "\<not> portal_validation_anonymous_id ?anonymous"
        "resolved E json status (user_id u) = None"
    by (cases status; cases ?anonymous) (auto simp: resolved_def)
  then show "emits (let actor = no_actor\<lparr>actor_status := status, actor_user := Some u, actor_anonymous_id := ?anonymous\<rparr> in
      if status = PORTAL_AUTH_INVALID then return (PORTAL_AUTH_INVALID, actor)
      else if status \<noteq> PORTAL_AUTH_AUTHENTICATED \<and>
        \<not> portal_validation_anonymous_id (actor_anonymous_id actor)
      then return (PORTAL_AUTH_INVALID, actor)
      else let (written, key) = c_snprintf 205
          (if status = PORTAL_AUTH_AUTHENTICATED
           then ''u:'' @ text_of (map_option user_id (Some u))
           else ''a:'' @ text_of (actor_anonymous_id actor));
          actor = actor\<lparr>actor_key := key\<rparr>
        in if written < 0 \<or> size_of_int written \<ge> 205 then return (PORTAL_AUTH_INVALID, actor)
        else return (actor_status actor, actor)) (\<lambda>r fs. K r (es @ fs))"
  proof cases
    case invalid
    with es none show ?thesis by (auto intro!: emits_return simp: resolved_def)
  next
    case user
    from resolved_key_length [OF user(2) es(1)] have "length (''u:'' @ user_id u) \<le> 202" by simp
    note fits = key_fits [OF this]
    from user es some show ?thesis
      using fits by (auto intro!: emits_return simp: represents_def actor_user_id_def actor_anonymous_def)
  next
    case (visitor v)
    from resolved_key_length [OF visitor(4) es(1)] have "length (''a:'' @ v) \<le> 202" by simp
    note fits = key_fits [OF this]
    from visitor es some show ?thesis
      using fits by (auto intro!: emits_return simp: represents_def actor_user_id_def actor_anonymous_def)
  next
    case refused
    with es none show ?thesis by (auto intro!: emits_return)
  qed
qed

text \<open>A route on behalf of an actor.\<close>

definition attributed ::
  "('x, 'j) ext \<Rightarrow> http_context \<Rightarrow> mhd_connection option \<Rightarrow> 'j option \<Rightarrow>
   (actor \<Rightarrow> mhd_result \<Rightarrow> event list \<Rightarrow> bool) \<Rightarrow> mhd_result \<Rightarrow> event list \<Rightarrow> bool" where
  "attributed E ctx connection json granted result es \<longleftrightarrow>
     (\<exists>status uid es1 es2. es = es1 @ es2 \<and> auth_decision (live E ctx) connection status uid (sqls es1) \<and>
        responses es1 = [] \<and>
        (case resolved E json status uid of
           Some a \<Rightarrow> granted a result es2
         | None \<Rightarrow> sqls es2 = [] \<and>
             (if no_credentials connection
              then replies E connection 400 (error_body E ''anonymous_id_required''
                ''Anonymous actions need an opaque anonymous_id.'') result es2
              else replies E connection 401 (error_body E ''invalid_token''
                ''The supplied Bearer token is invalid.'') result es2)))"

lemma emits_actor_error:
  assumes "\<And>result es. settled es \<Longrightarrow> sqls es = [] \<Longrightarrow> (generous E \<Longrightarrow> dropped_references es = 0) \<Longrightarrow>
      (if no_credentials connection
       then replies E connection 400 (error_body E ''anonymous_id_required''
         ''Anonymous actions need an opaque anonymous_id.'') result es
       else replies E connection 401 (error_body E ''invalid_token''
         ''The supplied Bearer token is invalid.'') result es) \<Longrightarrow> K result es"
  shows "emits (activity_actor_error E connection PORTAL_AUTH_INVALID) K"
  unfolding activity_actor_error_def Let_def
  by (intro emits_if error.reply_rule assms) (auto simp: no_credentials_def)

lemma emits_attributed:
  assumes connection: "connection \<noteq> None"
    and rest: "\<And>a status actor. represents status actor a \<Longrightarrow>
      emits (rest status actor) (\<lambda>result es. granted a result es \<and> safe E connection result es)"
    and K: "\<And>result es. attributed E ctx connection json granted result es \<Longrightarrow>
      safe E connection result es \<Longrightarrow> K result es"
  shows "emits (do {
      (authentication, actor) \<leftarrow> activity_load_actor E ctx connection json no_actor;
      if authentication = PORTAL_AUTH_INVALID then activity_actor_error E connection authentication
      else rest authentication actor }) K"
proof (rule emits_bind, rule emits_load_actor [OF connection], unfold prod.case)
  fix status uid and actor :: activity_actor and es
  assume es: "auth_decision (live E ctx) connection status uid (sqls es)" "resolved E json status uid = None"
    "released es" "dropped_references es = 0" "responses es = []" "server_contract E \<Longrightarrow> stays_defined es"
  have "emits (activity_actor_error E connection PORTAL_AUTH_INVALID) (\<lambda>result fs. K result (es @ fs))"
  proof (rule emits_actor_error)
    fix result fs
    assume fs: "settled fs" "sqls fs = []" "generous E \<Longrightarrow> dropped_references fs = 0"
      and reply: "if no_credentials connection
       then replies E connection 400 (error_body E ''anonymous_id_required''
         ''Anonymous actions need an opaque anonymous_id.'') result fs
       else replies E connection 401 (error_body E ''invalid_token''
         ''The supplied Bearer token is invalid.'') result fs"
    have "attributed E ctx connection json granted result (es @ fs)"
      using es reply fs(2) unfolding attributed_def
      by (intro exI [of _ status] exI [of _ uid] exI [of _ es] exI [of _ fs]) simp
    moreover have "safe E connection result fs"
      using fs reply by (auto intro: safe_reply split: if_splits)
    ultimately show "K result (es @ fs)"
      using es auth_decision_known [OF es(1)] by (intro K safe_append) auto
  qed
  then show "emits (if PORTAL_AUTH_INVALID = PORTAL_AUTH_INVALID
      then activity_actor_error E connection PORTAL_AUTH_INVALID
      else rest PORTAL_AUTH_INVALID actor) (\<lambda>result fs. K result (es @ fs))" by simp
next
  fix status uid and actor :: activity_actor and a es
  assume es: "auth_decision (live E ctx) connection status uid (sqls es)" "resolved E json status uid = Some a"
    "represents status actor a"
    "released es" "dropped_references es = 0" "responses es = []" "server_contract E \<Longrightarrow> stays_defined es"
  have "emits (rest status actor) (\<lambda>result fs. K result (es @ fs))"
  proof (rule emits_mono [OF rest [OF es(3)]], elim conjE)
    fix result fs
    assume fs: "granted a result fs" "safe E connection result fs"
    have "attributed E ctx connection json granted result (es @ fs)"
      using es fs unfolding attributed_def
      by (intro exI [of _ status] exI [of _ uid] exI [of _ es] exI [of _ fs]) simp
    then show "K result (es @ fs)"
      using es fs auth_decision_known [OF es(1)] by (intro K safe_append) auto
  qed
  then show "emits (if status = PORTAL_AUTH_INVALID
      then activity_actor_error E connection status
      else rest status actor) (\<lambda>result fs. K result (es @ fs))"
    using es(3) by (simp add: represents_def)
qed

section \<open>What the routes do\<close>

lemma text_or_empty_eq [simp]: "text_or_empty text = Some (text_of text)"
  by (simp add: text_or_empty_def text_of_def split: option.splits)

text \<open>The JSON text stored with an event: an empty object, or the object given.\<close>

definition event_data_text :: "('x, 'j) ext \<Rightarrow> 'j option \<Rightarrow> string option" where
  "event_data_text E json =
     (case Option.bind json (\<lambda>obj. jc_field E obj ''event_data'') of
        None \<Rightarrow> Some [CHR 0x7B, CHR 0x7D]
      | Some None \<Rightarrow> None
      | Some (Some j) \<Rightarrow> if jc_type E j = json_type_object then Some (jc_print E j) else None)"

definition activity_valid :: "string option \<Rightarrow> string option \<Rightarrow> bool" where
  "activity_valid portal event_type \<longleftrightarrow>
     portal \<noteq> None \<and> event_type \<noteq> None \<and> portal_validation_key portal 120 \<and>
     portal_validation_event_type event_type"

definition activity_stored ::
  "('x, 'j) ext \<Rightarrow> http_context \<Rightarrow> mhd_connection option \<Rightarrow> 'j option \<Rightarrow> actor \<Rightarrow> mhd_result \<Rightarrow> event list \<Rightarrow> bool" where
  "activity_stored E ctx connection json a result es \<longleftrightarrow>
     (case event_data_text E json of
        None \<Rightarrow> sqls es = [] \<and> replies E connection 400 (error_body E ''validation_error''
          ''event_data must be a JSON object.'') result es
      | Some data \<Rightarrow>
          asked (live E ctx) activity_query
            [user_column a, visitor_column a,
             text_of (portal_http_json_string E json (Some ''portal_key'') 1 120),
             text_of (portal_http_json_string E json (Some ''event_type'') 1 40),
             text_of (portal_http_json_optional_string E json (Some ''content_id'') 300),
             text_of (portal_http_json_optional_string E json (Some ''component_id'') 300),
             text_of (portal_http_json_optional_string E json (Some ''page_url'') 2000), data]
            (sqls es) (\<lambda>answer.
              if answered_tuples answer then
                replies E connection 201 (prints_entries E
                  [(''event_id'', jc_int E (fst (c_strtol (answered_cell answer 0 0))))]) result es
              else replies E connection 500 (error_body E ''database_error''
                ''Could not record activity.'') result es))"

definition activity_outcome ::
  "('x, 'j) ext \<Rightarrow> http_context \<Rightarrow> mhd_connection option \<Rightarrow> 'j option \<Rightarrow> mhd_result \<Rightarrow> event list \<Rightarrow> bool" where
  "activity_outcome E ctx connection json result es \<longleftrightarrow>
     (if activity_valid (portal_http_json_string E json (Some ''portal_key'') 1 120)
           (portal_http_json_string E json (Some ''event_type'') 1 40)
      then attributed E ctx connection json (activity_stored E ctx connection json) result es
      else sqls es = [] \<and> replies E connection 400 (error_body E ''validation_error''
        ''portal_key and a supported event_type are required.'') result es)"

lemma activity_cell:
  assumes "server_contract E" "database_may_answer E database activity_query values r"
    and "pq_status r = PGRES_TUPLES_OK"
  shows "cell_present r 0 0"
proof -
  have ok: "answer_ok activity_query r" by (rule server_contractD [OF assms(1,2)])
  with assms(3) have t: "result_table_ok r" "pq_ntuples r = 1" by (simp_all add: answer_ok_def)
  from row_count_int [OF t(1)] t(2) have "0 < row_count r" by simp
  then show ?thesis
    using answer_cell_present [OF ok assms(3), of 8 1 0 0] by (simp add: sql_table_def)
qed

text \<open>The test of the code on \<open>event_data\<close>, and the text it goes on with.\<close>

lemma event_data_cases:
  fixes E :: "('x, 'j) ext" and json :: "'j option"
  defines "event_data \<equiv> Option.bind json (\<lambda>obj. jc_field E obj ''event_data'')"
  shows "(event_data \<noteq> None \<and> \<not> json_object_is_type E (Option.bind event_data id) json_type_object) \<longleftrightarrow>
      event_data_text E json = None"
    and "event_data_text E json \<noteq> None \<Longrightarrow>
      Some (case Option.bind event_data id of None \<Rightarrow> [CHR 0x7B, CHR 0x7D] | Some j \<Rightarrow> jc_print E j) =
      event_data_text E json"
  unfolding event_data_def event_data_text_def
  by (cases json; cases "jc_field E (the json) ''event_data''";
      auto simp: json_object_is_type_def split: option.splits if_splits)+

lemma emits_activity:
  assumes connection: "connection \<noteq> None"
    and K: "\<And>result es. activity_outcome E ctx connection json result es \<Longrightarrow>
      safe E connection result es \<Longrightarrow> K result es"
  shows "emits (portal_http_route_activity E ctx connection json) K"
proof (cases "activity_valid (portal_http_json_string E json (Some ''portal_key'') 1 120)
    (portal_http_json_string E json (Some ''event_type'') 1 40)")
  case False
  then have invalid: "(portal_http_json_string E json (Some ''portal_key'') 1 120 = None \<or>
      portal_http_json_string E json (Some ''event_type'') 1 40 = None \<or>
      \<not> portal_validation_key (portal_http_json_string E json (Some ''portal_key'') 1 120) 120 \<or>
      \<not> portal_validation_event_type (portal_http_json_string E json (Some ''event_type'') 1 40)) = True"
    by (auto simp: activity_valid_def)
  from False show ?thesis
    unfolding portal_http_route_activity_def Let_def invalid if_True
    by (intro error.reply_rule K) (auto simp: activity_outcome_def intro: safe_reply)
next
  case True
  then obtain portal event_type where strings:
    "portal_http_json_string E json (Some ''portal_key'') 1 120 = Some portal"
    "portal_http_json_string E json (Some ''event_type'') 1 40 = Some event_type"
    "portal_validation_key (Some portal) 120" "portal_validation_event_type (Some event_type)"
    by (auto simp: activity_valid_def)
  have valid: "(Some portal = None \<or> Some event_type = None \<or> \<not> portal_validation_key (Some portal) 120 \<or>
      \<not> portal_validation_event_type (Some event_type)) = False"
    using strings by simp
  show ?thesis
    unfolding portal_http_route_activity_def Let_def strings(1,2) valid if_False event_data_cases(1)
  proof (rule emits_attributed [OF connection])
    fix result es
    assume "attributed E ctx connection json (activity_stored E ctx connection json) result es"
      "safe E connection result es"
    with True show "K result es" by (intro K) (simp_all add: activity_outcome_def)
  next
    fix a status and actor :: activity_actor
    assume "represents status actor a"
    then have columns: "actor_user_id status actor = Some (user_column a)"
        "actor_anonymous status actor = Some (visitor_column a)"
      by (simp_all add: represents_def)
    show "emits (if event_data_text E json = None
        then portal_http_response_error E connection 400 (Some ''validation_error'')
          (Some ''event_data must be a JSON object.'')
        else do {
          database_result \<leftarrow> portal_database_query E (ctx_database ctx) (Some activity_query) 8
            [actor_user_id status actor, actor_anonymous status actor, Some portal, Some event_type,
             text_or_empty (portal_http_json_optional_string E json (Some ''content_id'') 300),
             text_or_empty (portal_http_json_optional_string E json (Some ''component_id'') 300),
             text_or_empty (portal_http_json_optional_string E json (Some ''page_url'') 2000),
             Some (case Option.bind (Option.bind json (\<lambda>obj. jc_field E obj ''event_data'')) id of
                 None \<Rightarrow> [CHR 0x7B, CHR 0x7D] | Some j \<Rightarrow> jc_print E j)];
          result \<leftarrow>
            (if portal_database_result_status database_result \<noteq> PORTAL_DATABASE_RESULT_TUPLES
             then portal_http_response_error E connection 500 (Some ''database_error'')
               (Some ''Could not record activity.'')
             else do {
               created \<leftarrow> json_object_new_object E;
               (case created of
                  None \<Rightarrow> return MHD_NO
                | Some response \<Rightarrow> do {
                    id_text \<leftarrow> deref (portal_database_result_value database_result 0 0) [];
                    response \<leftarrow> json_add_int64 E response ''event_id'' (fst (c_strtol id_text));
                    result \<leftarrow> portal_http_response_json E connection 201 (Some response);
                    json_object_put;
                    return result }) });
          _ \<leftarrow> portal_database_result_destroy database_result;
          return result })
      (\<lambda>result es. activity_stored E ctx connection json a result es \<and> safe E connection result es)"
    proof (cases "event_data_text E json")
      case None
      then show ?thesis
        by simp (intro error.reply_rule; auto simp: activity_stored_def intro: safe_reply)
    next
      case (Some data)
      note data = event_data_cases(2) [of E json, unfolded Some, OF option.simps(3)]
      show ?thesis
        unfolding Some data columns text_or_empty_eq
        by (simp del: bind_assoc, intro emits_intros reply_rules conjI)
          (auto simp: activity_stored_def Some strings [unfolded One_nat_def] route_defs
            elim!: replies_weaken intro: replies_no_memory prints_intros activity_cell)
    qed
  qed
qed

interpretation activity: handler E connection "portal_http_route_activity E ctx connection json"
  for E connection ctx json
  by unfold_locales (rule emits_activity)

subsection \<open>Likes\<close>

definition like_stored ::
  "('x, 'j) ext \<Rightarrow> http_context \<Rightarrow> mhd_connection option \<Rightarrow> bool \<Rightarrow> string \<Rightarrow> 'j option \<Rightarrow> actor \<Rightarrow> mhd_result \<Rightarrow>
   event list \<Rightarrow> bool" where
  "like_stored E ctx connection is_put content_id json a result es \<longleftrightarrow>
     (let portal = portal_http_json_string E json (Some ''portal_key'') 1 120 in
      if is_put then
        (if portal_validation_key portal 120 then
           asked (live E ctx) like_insert_query
             [content_id, user_column a, visitor_column a, actor_key_of a, text_of portal] (sqls es)
             (\<lambda>answer.
               if answered_tuples answer then replies E connection 204 (\<lambda>b. b = []) result es
               else replies E connection 500 (error_body E ''database_error''
                 ''Could not store the like.'') result es)
         else sqls es = [] \<and> replies E connection 400 (error_body E ''validation_error''
           ''portal_key is required for a like.'') result es)
      else
        asked (live E ctx) like_delete_query [content_id, actor_key_of a] (sqls es) (\<lambda>answer.
          if answered_command answer then replies E connection 204 (\<lambda>b. b = []) result es
          else replies E connection 500 (error_body E ''database_error''
            ''Could not remove the like.'') result es))"

definition like_outcome ::
  "('x, 'j) ext \<Rightarrow> http_context \<Rightarrow> mhd_connection option \<Rightarrow> bool \<Rightarrow> string \<Rightarrow> 'j option \<Rightarrow> mhd_result \<Rightarrow>
   event list \<Rightarrow> bool" where
  "like_outcome E ctx connection is_put content_id json result es \<longleftrightarrow>
     (if portal_validation_key (Some content_id) 300
      then attributed E ctx connection json (like_stored E ctx connection is_put content_id json) result es
      else sqls es = [] \<and> replies E connection 400 (error_body E ''validation_error''
        ''The content id contains unsupported characters.'') result es)"

lemma emits_like:
  assumes connection: "connection \<noteq> None"
    and K: "\<And>result es. like_outcome E ctx connection (meth = ''PUT'') content_id json result es \<Longrightarrow>
      safe E connection result es \<Longrightarrow> K result es"
  shows "emits (portal_http_route_like E ctx connection meth content_id json) K"
proof (cases "portal_validation_key (Some content_id) 300")
  case False
  then show ?thesis
    unfolding portal_http_route_like_def Let_def
    by simp (intro error.reply_rule K; auto simp: like_outcome_def intro: safe_reply)
next
  case True
  let ?portal = "portal_http_json_string E json (Some ''portal_key'') 1 120"
  have portal: "(\<exists>p. ?portal = Some p \<and> portal_validation_key (Some p) 120) \<or>
      \<not> portal_validation_key ?portal 120"
    by (cases ?portal) auto
  have test: "(?portal = None \<or> \<not> portal_validation_key ?portal 120) = (\<not> portal_validation_key ?portal 120)"
    by auto
  have "\<not> \<not> portal_validation_key (Some content_id) 300" using True by simp
  then show ?thesis
    unfolding portal_http_route_like_def Let_def test
    apply (simp only: if_False)
  proof (rule emits_attributed [OF connection])
    fix result es
    assume "attributed E ctx connection json (like_stored E ctx connection (meth = ''PUT'') content_id json) result es"
      "safe E connection result es"
    with True show "K result es" by (intro K) (simp_all add: like_outcome_def)
  next
    fix a status and actor :: activity_actor
    assume "represents status actor a"
    then have columns: "actor_user_id status actor = Some (user_column a)"
        "actor_anonymous status actor = Some (visitor_column a)" "actor_key actor = actor_key_of a"
      by (simp_all add: represents_def)
    show "emits (if meth = ''PUT'' \<and> \<not> portal_validation_key ?portal 120
        then portal_http_response_error E connection 400 (Some ''validation_error'')
          (Some ''portal_key is required for a like.'')
        else do {
          database_result \<leftarrow>
            (if meth = ''PUT''
             then portal_database_query E (ctx_database ctx) (Some like_insert_query) 5
               [Some content_id, actor_user_id status actor,
                actor_anonymous status actor, Some (actor_key actor), text_or_empty ?portal]
             else portal_database_query E (ctx_database ctx) (Some like_delete_query) 2
               [Some content_id, Some (actor_key actor)]);
          result \<leftarrow>
            (if meth = ''PUT'' \<and>
                portal_database_result_status database_result \<noteq> PORTAL_DATABASE_RESULT_TUPLES \<or>
                meth \<noteq> ''PUT'' \<and>
                portal_database_result_status database_result \<noteq> PORTAL_DATABASE_RESULT_COMMAND
             then portal_http_response_error E connection 500 (Some ''database_error'')
               (Some (if meth = ''PUT'' then ''Could not store the like.'' else ''Could not remove the like.''))
             else portal_http_response_empty E connection 204);
          _ \<leftarrow> portal_database_result_destroy database_result;
          return result })
      (\<lambda>result es. like_stored E ctx connection (meth = ''PUT'') content_id json a result es \<and>
        safe E connection result es)"
      by (cases "meth = ''PUT''"; simp only: columns text_or_empty_eq; intro emits_intros reply_rules conjI)
        (auto simp: like_stored_def route_defs elim!: replies_weaken)
  qed
qed

interpretation like: handler E connection "portal_http_route_like E ctx connection meth content_id json"
  for E connection ctx meth content_id json
  by unfold_locales (rule emits_like)

subsection \<open>Comments\<close>

definition comment_stored ::
  "('x, 'j) ext \<Rightarrow> http_context \<Rightarrow> mhd_connection option \<Rightarrow> string \<Rightarrow> 'j option \<Rightarrow> actor \<Rightarrow> mhd_result \<Rightarrow>
   event list \<Rightarrow> bool" where
  "comment_stored E ctx connection content_id json a result es \<longleftrightarrow>
     asked (live E ctx) comment_query
       [content_id, user_column a, visitor_column a,
        text_of (portal_http_json_optional_string E json (Some ''author_name'') 100),
        text_of (portal_http_json_string E json (Some ''body'') 1 5000),
        text_of (portal_http_json_string E json (Some ''portal_key'') 1 120)] (sqls es) (\<lambda>answer.
       if answered_tuples answer \<and> answered_rows answer = 1 then
         replies E connection 201 (prints_entries E
           [(''id'', jc_string E (answered_cell answer 0 0)),
            (''created_at'', jc_string E (answered_cell answer 0 1))]) result es
       else replies E connection 500 (error_body E ''database_error''
         ''Could not store the comment.'') result es)"

definition comment_valid :: "('x, 'j) ext \<Rightarrow> string \<Rightarrow> 'j option \<Rightarrow> bool" where
  "comment_valid E content_id json \<longleftrightarrow>
     portal_validation_key (Some content_id) 300 \<and>
     portal_validation_key (portal_http_json_string E json (Some ''portal_key'') 1 120) 120 \<and>
     portal_http_json_string E json (Some ''body'') 1 5000 \<noteq> None"

definition comment_outcome ::
  "('x, 'j) ext \<Rightarrow> http_context \<Rightarrow> mhd_connection option \<Rightarrow> string \<Rightarrow> 'j option \<Rightarrow> mhd_result \<Rightarrow> event list \<Rightarrow> bool" where
  "comment_outcome E ctx connection content_id json result es \<longleftrightarrow>
     (if comment_valid E content_id json
      then attributed E ctx connection json (comment_stored E ctx connection content_id json) result es
      else sqls es = [] \<and> replies E connection 400 (error_body E ''validation_error''
        ''content id, portal_key and comment body are required.'') result es)"

lemma comment_cells:
  assumes "server_contract E" "database_may_answer E database comment_query values r"
    and "pq_status r = PGRES_TUPLES_OK" "row_count r = Suc 0" "j < 2"
  shows "cell_present r 0 j"
  using promised_cell [OF assms(1-3), of 6 2 0 j] assms(4,5) by (simp add: sql_table_def)

lemma emits_comment:
  assumes connection: "connection \<noteq> None"
    and K: "\<And>result es. comment_outcome E ctx connection content_id json result es \<Longrightarrow>
      safe E connection result es \<Longrightarrow> K result es"
  shows "emits (portal_http_route_comment E ctx connection content_id json) K"
proof -
  let ?portal = "portal_http_json_string E json (Some ''portal_key'') 1 120"
  let ?body = "portal_http_json_string E json (Some ''body'') 1 5000"
  have test: "(\<not> portal_validation_key (Some content_id) 300 \<or> ?portal = None \<or>
      \<not> portal_validation_key ?portal 120 \<or> ?body = None) = (\<not> comment_valid E content_id json)"
    by (auto simp: comment_valid_def)
  show ?thesis
  proof (cases "comment_valid E content_id json")
    case False
    then show ?thesis
      unfolding portal_http_route_comment_def Let_def test
      by simp (intro error.reply_rule K; auto simp: comment_outcome_def intro: safe_reply)
  next
    case True
    then obtain body portal where strings: "?body = Some body" "?portal = Some portal"
      by (cases ?portal) (auto simp: comment_valid_def)
    from True have refused: "(\<not> comment_valid E content_id json) = False" by simp
    show ?thesis
      unfolding portal_http_route_comment_def Let_def test refused if_False unfolding strings
    proof (rule emits_attributed [OF connection, where granted = "comment_stored E ctx connection content_id json"],
        unfold represents_def, elim conjE, simp only: text_or_empty_eq, intro emits_intros reply_rules conjI)
      fix result es
      assume "attributed E ctx connection json (comment_stored E ctx connection content_id json) result es"
        "safe E connection result es"
      with True show "K result es" by (intro K) (simp_all add: comment_outcome_def)
    qed (auto simp: comment_stored_def strings [unfolded One_nat_def] route_defs
        elim!: replies_weaken intro: replies_no_memory prints_intros comment_cells)
  qed
qed

interpretation comment: handler E connection "portal_http_route_comment E ctx connection content_id json"
  for E connection ctx content_id json
  by unfold_locales (rule emits_comment)

end
