(* ===== verification/Analytics.thy ===== *)
theory Analytics
  imports Contracts
begin

text \<open>
  \<^verbatim>\<open>src/src/http/routes/analytics.c\<close>: the most viewed content of a portal, for signed-in users. The
  lemmas bound what reaches the statement and give the list of the response row by row.
\<close>

text \<open>The result and the pointer's target after the call.\<close>

definition analytics_parse_range ::
  "string option \<Rightarrow> int \<Rightarrow> int \<Rightarrow> int \<Rightarrow> int option \<Rightarrow> bool \<times> int option" where
  "analytics_parse_range text fallback minimum maximum output =
     (if output = None then (False, output)
      else (case text of
          None \<Rightarrow> (True, Some fallback)
        | Some t \<Rightarrow>
            let (number, rest, range_error) = c_strtol t
            in if range_error \<or> rest = t \<or> rest \<noteq> [] \<or> number < minimum \<or> number > maximum
            then (False, output) else (True, Some number)))"

text \<open>The loop over the rows; \<^term>\<open>False\<close> when an item could not be allocated.\<close>

function top_items ::
  "('x, 'j) ext \<Rightarrow> database_result option \<Rightarrow> 'j \<Rightarrow> nat \<Rightarrow> ('x, bool \<times> 'j) prog" where
  "top_items E database_result items index =
     (if index < portal_database_result_row_count database_result then do {
        created \<leftarrow> json_object_new_object E;
        (case created of
           None \<Rightarrow> return (False, items)
         | Some item \<Rightarrow> do {
             item \<leftarrow> json_add_string E item ''content_id''
               (portal_database_result_value database_result index 0);
             views \<leftarrow> deref (portal_database_result_value database_result index 1) [];
             item \<leftarrow> json_add_int64 E item ''views'' (fst (c_strtol views));
             items \<leftarrow> json_object_array_add E items (Some item);
             top_items E database_result items (Suc index) }) }
      else return (True, items))"
  by pat_completeness auto
termination
  by (relation "measure (\<lambda>(_, result, _, index). portal_database_result_row_count result - index)") auto

declare top_items.simps [simp del]

definition portal_http_route_top_content ::
  "('x, 'j) ext \<Rightarrow> http_context \<Rightarrow> mhd_connection option \<Rightarrow> ('x, mhd_result) prog" where
  "portal_http_route_top_content E context connection = do {
     let portal = lookup_argument connection ''portal_key'';
     let days_text = lookup_argument connection ''days'';
     let limit_text = lookup_argument connection ''limit'';
     (status, user) \<leftarrow> portal_http_authenticate E (Some context) connection (Some no_user);
     if status \<noteq> PORTAL_AUTH_AUTHENTICATED
     then portal_http_response_error E connection 401 (Some ''unauthorized'')
       (Some ''A valid Bearer token is required.'')
     else if portal = None \<or> \<not> portal_validation_key portal 120
     then portal_http_response_error E connection 400 (Some ''validation_error'')
       (Some ''portal_key is required.'')
     else
       let (days_ok, days) = analytics_parse_range days_text 7 1 365 (Some 7);
           (limit_ok, limit) = analytics_parse_range limit_text 10 1 100 (Some 10)
       in if \<not> days_ok \<or> \<not> limit_ok
       then portal_http_response_error E connection 400 (Some ''validation_error'')
         (Some ''days must be 1..365 and limit must be 1..100.'')
       else
         let (days_written, days_buffer) = c_snprintf 12 (signed_decimal (the days));
             (limit_written, limit_buffer) = c_snprintf 12 (signed_decimal (the limit))
         in if days_written < 0 \<or> limit_written < 0
         then portal_http_response_error E connection 500 (Some ''serialization_error'')
           (Some ''Could not prepare analytics query.'')
         else do {
           database_result \<leftarrow> portal_database_query E (ctx_database context) (Some top_content_query) 3
             [portal, Some days_buffer, Some limit_buffer];
           result \<leftarrow>
             (if portal_database_result_status database_result \<noteq> PORTAL_DATABASE_RESULT_TUPLES
              then portal_http_response_error E connection 500 (Some ''database_error'')
                (Some ''Could not load analytics.'')
              else do {
                response \<leftarrow> json_object_new_object E;
                items \<leftarrow> json_object_new_array E;
                (result, response, items) \<leftarrow>
                  (case (response, items) of
                     (Some obj, Some arr) \<Rightarrow> do {
                       (complete, arr) \<leftarrow> top_items E database_result arr 0;
                       if \<not> complete then return (MHD_NO, Some obj, Some arr)
                       else do {
                         obj \<leftarrow> json_add_string E obj ''portal_key'' portal;
                         obj \<leftarrow> json_add_int64 E obj ''days'' (the days);
                         obj \<leftarrow> json_object_object_add E obj ''items'' (Some arr);
                         result \<leftarrow> portal_http_response_json E connection 200 (Some obj);
                         return (result, Some obj, None) } }
                   | _ \<Rightarrow> return (MHD_NO, response, items));
                json_cleanup items;
                json_cleanup response;
                return result });
           _ \<leftarrow> portal_database_result_destroy database_result;
           return result } }"

section \<open>The range\<close>

definition range_of :: "string option \<Rightarrow> int \<Rightarrow> int \<Rightarrow> int \<Rightarrow> int option" where
  "range_of text fallback minimum maximum =
     (case analytics_parse_range text fallback minimum maximum (Some fallback) of
        (ok, number) \<Rightarrow> if ok then number else None)"

lemma parse_range_cases:
  "analytics_parse_range text fallback minimum maximum (Some fallback) =
     (case range_of text fallback minimum maximum of
        None \<Rightarrow> (False, Some fallback) | Some number \<Rightarrow> (True, Some number))"
  by (auto simp: range_of_def analytics_parse_range_def split: option.splits prod.splits)

lemma range_of_bounds:
  "range_of text fallback minimum maximum = Some number \<Longrightarrow> minimum \<le> fallback \<Longrightarrow> fallback \<le> maximum \<Longrightarrow>
   minimum \<le> number \<and> number \<le> maximum"
  by (auto simp: range_of_def analytics_parse_range_def split: option.splits prod.splits if_splits)

lemma range_of_decimal:
  assumes "minimum \<le> int n" and "int n \<le> maximum" and "n < 2 ^ 63"
  shows "range_of (Some (decimal n)) fallback minimum maximum = Some (int n)"
  using assms by (simp add: range_of_def analytics_parse_range_def c_strtol_decimal)

lemma small_number_text:
  assumes "1 \<le> number" and "number \<le> 365"
  shows "c_snprintf 12 (signed_decimal number) = (int (length (decimal (nat number))), decimal (nat number))"
proof -
  have "nat number < 10 ^ 3" using assms by simp
  then have "length (decimal (nat number)) \<le> 3" by (rule length_decimal_le) simp
  with assms show ?thesis
    by (simp add: signed_decimal_def) (intro c_snprintf_fits; simp add: INT_MAX_def)
qed

section \<open>The rows\<close>

definition row_entries :: "('x, 'j) ext \<Rightarrow> pg_result \<Rightarrow> nat \<Rightarrow> (string \<times> 'j) list" where
  "row_entries E r i =
     [(''content_id'', jc_string E (cell_text r i 0)),
      (''views'', jc_int E (fst (c_strtol (cell_text r i 1))))]"

text \<open>The array of the rows from an index on.\<close>

definition rows_appended :: "('x, 'j) ext \<Rightarrow> pg_result \<Rightarrow> 'j \<Rightarrow> nat \<Rightarrow> 'j \<Rightarrow> bool" where
  "rows_appended E r arr index result \<longleftrightarrow>
     (\<exists>items. list_all2 (\<lambda>i item. built_from E (jc_object E) (row_entries E r i) item)
          [index..<row_count r] items \<and> appended_from E arr items result)"

lemma rows_appended_end: "row_count r \<le> index \<Longrightarrow> rows_appended E r arr index arr"
  by (simp add: rows_appended_def)

lemma rows_appended_step:
  assumes "index < row_count r" and "built_from E (jc_object E) (row_entries E r index) item"
    and "inserted E arr (jc_append E arr) item arr'" and "rows_appended E r arr' (Suc index) result"
  shows "rows_appended E r arr index result"
proof -
  from assms(4) obtain items where
    "list_all2 (\<lambda>i item. built_from E (jc_object E) (row_entries E r i) item) [Suc index..<row_count r] items"
    "appended_from E arr' items result" by (auto simp: rows_appended_def)
  with assms(1-3) show ?thesis
    unfolding rows_appended_def
    by (intro exI [of _ "item # items"]) (auto simp: upt_conv_Cons simp del: built_from.simps)
qed

lemma rows_appended_inserted:
  assumes "index < row_count r"
    and "inserted E (jc_object E) (jc_add E (jc_object E) ''content_id'')
      (jc_string E (cell_text r index 0)) obj"
    and "inserted E obj (jc_add E obj ''views'') (jc_int E (fst (c_strtol (cell_text r index (Suc 0))))) item"
    and "inserted E arr (jc_append E arr) item arr'" and "rows_appended E r arr' (Suc index) result"
  shows "rows_appended E r arr index result"
  using assms by (intro rows_appended_step [of index r E item arr arr' result]) (auto simp: row_entries_def)

definition rows_present :: "pg_result \<Rightarrow> nat \<Rightarrow> bool" where
  "rows_present r index \<longleftrightarrow> (\<forall>i j. index \<le> i \<and> i < row_count r \<and> j < 2 \<longrightarrow> cell_present r i j)"

lemma rows_present_step:
  "index < row_count r \<Longrightarrow> rows_present r index \<Longrightarrow>
   cell_present r index 0 \<and> cell_present r index (Suc 0) \<and> rows_present r (Suc index)"
  by (auto simp: rows_present_def)

lemma emits_top_items:
  assumes "\<And>arr es. \<not> generous E \<Longrightarrow> released es \<Longrightarrow> sqls es = [] \<Longrightarrow> responses es = [] \<Longrightarrow>
      (rows_present r index \<Longrightarrow> stays_defined es) \<Longrightarrow> K (False, arr) es"
    and "\<And>arr es. rows_appended E r items index arr \<Longrightarrow> released es \<Longrightarrow> sqls es = [] \<Longrightarrow> responses es = [] \<Longrightarrow>
      (generous E \<Longrightarrow> dropped_references es = 0) \<Longrightarrow> (rows_present r index \<Longrightarrow> stays_defined es) \<Longrightarrow>
      K (True, arr) es"
  shows "emits (top_items E (Some \<lparr>db_result = Some r\<rparr>) items index) K"
  using assms
proof (induction "row_count r - index" arbitrary: items index K)
  case 0
  then have "K (True, items) []" by (intro "0.prems"(2) rows_appended_end) auto
  with 0 show ?case
    by (subst top_items.simps) (auto intro: emits_return)
next
  case (Suc d)
  then have less: "index < row_count r" and d: "d = row_count r - Suc index" by simp_all
  show ?case
    by (subst top_items.simps, simp only: reading less if_True,
        intro emits_intros emits_append_child Suc.hyps(1) [OF d])
      (use less in \<open>auto simp: released_def settled_def intro!: Suc.prems
        intro: rows_appended_inserted dest: rows_present_step\<close>)
qed

definition top_content_outcome ::
  "('x, 'j) ext \<Rightarrow> http_context \<Rightarrow> mhd_connection option \<Rightarrow> mhd_result \<Rightarrow> event list \<Rightarrow> bool" where
  "top_content_outcome E ctx connection result es \<longleftrightarrow>
     (let portal = lookup_argument connection ''portal_key'' in
      if \<not> portal_validation_key portal 120 then
        sqls es = [] \<and> replies E connection 400
          (error_body E ''validation_error'' ''portal_key is required.'') result es
      else (case (range_of (lookup_argument connection ''days'') 7 1 365,
              range_of (lookup_argument connection ''limit'') 10 1 100) of
          (Some days, Some limit) \<Rightarrow>
            asked (live E ctx) top_content_query
              [text_of portal, decimal (nat days), decimal (nat limit)] (sqls es) (\<lambda>answer.
              case answer of
                Some r \<Rightarrow>
                  if pq_status r = PGRES_TUPLES_OK then
                    replies E connection 200 (\<lambda>b. \<exists>arr. rows_appended E r (jc_array E) 0 arr \<and>
                      prints_entries E [(''portal_key'', jc_string E (text_of portal)),
                        (''days'', jc_int E days), (''items'', arr)] b) result es
                  else replies E connection 500
                    (error_body E ''database_error'' ''Could not load analytics.'') result es
              | None \<Rightarrow> replies E connection 500
                  (error_body E ''database_error'' ''Could not load analytics.'') result es)
        | _ \<Rightarrow> sqls es = [] \<and> replies E connection 400 (error_body E ''validation_error''
            ''days must be 1..365 and limit must be 1..100.'') result es))"

lemma top_content_cells:
  assumes "server_contract E" "database_may_answer E database top_content_query values r"
    and "pq_status r = PGRES_TUPLES_OK"
  shows "rows_present r 0"
  unfolding rows_present_def
proof clarify
  fix i j :: nat
  assume "i < row_count r" "j < 2"
  then show "cell_present r i j"
    using promised_cell [OF assms, of 3 2 i j] by (simp add: sql_table_def)
qed

lemma emits_top_content:
  assumes connection: "connection \<noteq> None"
    and K: "\<And>result es. protected E ctx connection (\<lambda>_. top_content_outcome E ctx connection) result es \<Longrightarrow>
      safe E connection result es \<Longrightarrow> K result es"
  shows "emits (portal_http_route_top_content E ctx connection) K"
proof -
  let ?portal = "lookup_argument connection ''portal_key''"
  let ?days = "range_of (lookup_argument connection ''days'') 7 1 365"
  let ?limit = "range_of (lookup_argument connection ''limit'') 10 1 100"
  have test: "(?portal = None \<or> \<not> portal_validation_key ?portal 120) = (\<not> portal_validation_key ?portal 120)"
    by auto
  consider (key) "\<not> portal_validation_key ?portal 120"
    | (range) "portal_validation_key ?portal 120" "?days = None \<or> ?limit = None"
    | (valid) portal days limit where "?portal = Some portal" "portal_validation_key (Some portal) 120"
        "?days = Some days" "?limit = Some limit"
    by (cases ?portal; cases ?days; cases ?limit) auto
  then show ?thesis
  proof cases
    case key
    then show ?thesis
      unfolding portal_http_route_top_content_def Let_def test
      by (intro emits_protected [OF connection _ K], simp_all)
        (intro error.reply_rule conjI; auto simp: top_content_outcome_def intro: safe_reply)
  next
    case range
    then show ?thesis
      unfolding portal_http_route_top_content_def Let_def test parse_range_cases
      by (intro emits_protected [OF connection _ K], simp_all split: option.split)
        (intro error.reply_rule conjI impI allI; auto simp: top_content_outcome_def intro: safe_reply)
  next
    case valid
    from range_of_bounds [OF valid(3)] have days: "1 \<le> days" "days \<le> 365" by simp_all
    from range_of_bounds [OF valid(4)] have limit: "1 \<le> limit" "limit \<le> 365" by simp_all
    have tests: "(\<not> portal_validation_key (Some portal) 120) = False"
        "(Some portal = None \<or> False) = False"
        "(\<not> True \<or> \<not> True) = False" "(int n < 0 \<or> int m < 0) = False" for n m
      using valid(2) by simp_all
    show ?thesis
      unfolding portal_http_route_top_content_def Let_def test
      unfolding parse_range_cases valid(1,3,4) option.case prod.case tests if_False option.sel
      unfolding small_number_text [OF days] small_number_text [OF limit] prod.case tests if_False
      by (rule emits_protected [OF connection _ K, where granted = "\<lambda>_. top_content_outcome E ctx connection"],
          intro emits_intros reply_rules emits_top_items emits_add_child conjI)
        (auto simp: top_content_outcome_def valid route_defs elim!: replies_weaken
          intro: replies_no_memory prints_intros top_content_cells)
  qed
qed

interpretation top_content: handler E connection "portal_http_route_top_content E ctx connection"
  for E connection ctx
  by unfold_locales (rule emits_top_content)

end
