(* ===== verification/Server.thy ===== *)
theory Server
  imports Auth_Routes Favorites Activity Analytics
begin

text \<open>
  \<^verbatim>\<open>src/src/http/http.c\<close>: the router, the access handler libmicrohttpd calls for every piece of a
  request, and the server object. The router is related to a table of endpoints; the life of one
  request is a step relation with an invariant that holds in every reachable state.
\<close>

section \<open>The router\<close>

text \<open>The copy of a content id into its buffer of 301 bytes.\<close>

definition content_id_buffer :: "string \<Rightarrow> nat \<Rightarrow> char list option" where
  "content_id_buffer path n =
     (case c_memcpy (replicate 301 (CHR 0x00)) 0 (take n path) of
        None \<Rightarrow> None
      | Some copied \<Rightarrow> c_store copied n (CHR 0x00))"

definition http_dispatch_content ::
  "('x, 'j) ext \<Rightarrow> http_context \<Rightarrow> mhd_connection option \<Rightarrow> string \<Rightarrow> string \<Rightarrow> 'j option \<Rightarrow>
   ('x, mhd_result) prog" where
  "http_dispatch_content E context connection url meth json =
     (let path = drop 9 url; n = length path
      in if (meth = ''PUT'' \<or> meth = ''DELETE'') \<and> n > 5 \<and> drop (n - 5) path = ''/like'' then
        (if n - 5 \<ge> 301
         then portal_http_response_error E connection 400 (Some ''validation_error'')
           (Some ''Invalid content id.'')
         else (case content_id_buffer path (n - 5) of
             None \<Rightarrow> undefined_behaviour MHD_NO
           | Some content_id \<Rightarrow>
               portal_http_route_like E context connection meth (c_str content_id) json))
      else if meth = ''POST'' \<and> n > 9 \<and> drop (n - 9) path = ''/comments'' then
        (if n - 9 \<ge> 301
         then portal_http_response_error E connection 400 (Some ''validation_error'')
           (Some ''Invalid content id.'')
         else (case content_id_buffer path (n - 9) of
             None \<Rightarrow> undefined_behaviour MHD_NO
           | Some content_id \<Rightarrow>
               portal_http_route_comment E context connection (c_str content_id) json))
      else portal_http_response_error E connection 404 (Some ''not_found'') (Some ''Route not found.''))"

definition health_text :: string where
  "health_text =
     [CHR 0x7B, CHR 0x22] @ ''status'' @ [CHR 0x22, CHR 0x3A, CHR 0x22] @ ''ok'' @ [CHR 0x22, CHR 0x7D]"

text \<open>The result and \<open>*handled\<close>.\<close>

definition handled :: "('x, mhd_result) prog \<Rightarrow> ('x, mhd_result \<times> bool) prog" where
  "handled m = do { result \<leftarrow> m; return (result, True) }"

definition http_dispatch_without_body ::
  "('x, 'j) ext \<Rightarrow> http_context \<Rightarrow> mhd_connection option \<Rightarrow> string \<Rightarrow> string \<Rightarrow>
   ('x, mhd_result \<times> bool) prog" where
  "http_dispatch_without_body E context connection url meth =
     (if meth = ''OPTIONS'' then handled (portal_http_response_options E connection)
      else if meth = ''GET'' \<and> url = ''/health'' then handled (do {
        connected \<leftarrow> portal_database_is_connected E (ctx_database context);
        if \<not> connected
        then portal_http_response_error E connection 503 (Some ''database_unavailable'')
          (Some ''Database is unavailable.'')
        else portal_http_response_bytes E connection 200 (Some health_text) (length health_text)
          (Some ''application/json; charset=utf-8'') })
      else if meth = ''GET'' \<and> url = ''/analytics/top-content'' then
        handled (portal_http_route_top_content E context connection)
      else if meth = ''GET'' \<and> url = ''/me/favorite-sections'' then
        handled (portal_http_route_favorite_list E context connection PORTAL_FAVORITE_SECTION)
      else if meth = ''GET'' \<and> url = ''/me/favorite-tags'' then
        handled (portal_http_route_favorite_list E context connection PORTAL_FAVORITE_TAG)
      else if meth = ''DELETE'' \<and> url = ''/auth/session'' then
        handled (portal_http_route_logout E context connection)
      else if c_strneq url ''/me/favorite-sections/'' 22 \<and> (meth = ''PUT'' \<or> meth = ''DELETE'') then
        handled (portal_http_route_favorite_change E context connection meth PORTAL_FAVORITE_SECTION
          (drop 22 url))
      else if c_strneq url ''/me/favorite-tags/'' 18 \<and> (meth = ''PUT'' \<or> meth = ''DELETE'') then
        handled (portal_http_route_favorite_change E context connection meth PORTAL_FAVORITE_TAG
          (drop 18 url))
      else return (MHD_YES, False))"

definition http_dispatch_json_route ::
  "('x, 'j) ext \<Rightarrow> http_context \<Rightarrow> mhd_connection option \<Rightarrow> string \<Rightarrow> string \<Rightarrow> 'j option \<Rightarrow>
   ('x, mhd_result) prog" where
  "http_dispatch_json_route E context connection url meth json =
     (if meth = ''POST'' \<and> url = ''/auth/register'' then
        portal_http_route_register E context connection json
      else if meth = ''POST'' \<and> url = ''/auth/confirm'' then
        portal_http_route_confirm E context connection json
      else if meth = ''POST'' \<and> url = ''/auth/login'' then
        portal_http_route_login E context connection json
      else if meth = ''POST'' \<and> url = ''/activity'' then
        portal_http_route_activity E context connection json
      else if c_strneq url ''/content/'' 9 then
        http_dispatch_content E context connection url meth json
      else portal_http_response_error E connection 404 (Some ''not_found'') (Some ''Route not found.''))"

definition http_dispatch ::
  "('x, 'j) ext \<Rightarrow> http_context \<Rightarrow> mhd_connection option \<Rightarrow> string \<Rightarrow> string \<Rightarrow> request_body \<Rightarrow>
   ('x, mhd_result) prog" where
  "http_dispatch E context connection url meth body = do {
     (result, was_handled) \<leftarrow> http_dispatch_without_body E context connection url meth;
     if was_handled then return result
     else do {
       let body_expected = (meth = ''POST'' \<or> meth = ''PUT'' \<or> (meth = ''DELETE'' \<and> body_length body > 0));
       json \<leftarrow> (if body_expected then portal_http_request_parse_json E (Some body) else return None);
       if body_expected \<and> json = None
       then portal_http_response_error E connection 400 (Some ''invalid_json'')
         (Some ''A JSON object request body is required.'')
       else do {
         result \<leftarrow> http_dispatch_json_route E context connection url meth json;
         json_cleanup json;
         return result } } }"

section \<open>The access handler\<close>

text \<open>The result, \<open>*upload_data_size\<close> and \<open>*con_cls\<close> after the call.\<close>

definition http_access_handler ::
  "('x, 'j) ext \<Rightarrow> http_context \<Rightarrow> mhd_connection option \<Rightarrow> string \<Rightarrow> string \<Rightarrow> char list option \<Rightarrow>
   64 word \<Rightarrow> request_body option \<Rightarrow> ('x, mhd_result \<times> 64 word \<times> request_body option) prog" where
  "http_access_handler E context connection url meth upload_data upload_data_size con_cls =
     (case con_cls of
        None \<Rightarrow> do {
          ok \<leftarrow> c_calloc E;
          if \<not> ok then return (MHD_NO, upload_data_size, None)
          else return (MHD_YES, upload_data_size, Some new_body) }
      | Some body \<Rightarrow>
          if response_queued body then return (MHD_YES, 0, Some body)
          else if upload_data_size \<noteq> 0 then do {
            (ok, body') \<leftarrow> portal_http_request_body_append E (Some body) upload_data upload_data_size;
            if \<not> ok then do {
              let body'' = map_option (\<lambda>b. b\<lparr>response_queued := True\<rparr>) body';
              result \<leftarrow> portal_http_response_error E connection 413 (Some ''payload_too_large'')
                (Some ''The request body exceeds 1 MiB or could not be allocated.'');
              return (result, 0, body'') }
            else return (MHD_YES, 0, body') }
          else do {
            result \<leftarrow> http_dispatch E context connection url meth body;
            return (result, upload_data_size, Some body) })"

definition http_request_completed :: "request_body option \<Rightarrow> ('x, request_body option) prog" where
  "http_request_completed con_cls = do {
     _ \<leftarrow> portal_http_request_body_destroy con_cls;
     return None }"

section \<open>The server\<close>

text \<open>\<open>server_daemon\<close> is \<open>daemon != NULL\<close>.\<close>

record http_server =
  server_context :: http_context
  server_daemon :: bool

definition portal_http_server_create ::
  "('x, 'j) ext \<Rightarrow> portal_config option \<Rightarrow> portal_database option \<Rightarrow> ('x, http_server option) prog" where
  "portal_http_server_create E config database =
     (if config = None \<or> database = None then return None
      else do {
        ok \<leftarrow> c_calloc E;
        if \<not> ok then return None
        else return (Some \<lparr>server_context = \<lparr>ctx_config = config, ctx_database = database\<rparr>,
          server_daemon = False\<rparr>) })"

definition portal_http_server_start ::
  "('x, 'j) ext \<Rightarrow> http_server option \<Rightarrow> ('x, bool \<times> http_server option) prog" where
  "portal_http_server_start E server =
     (case server of
        None \<Rightarrow> return (False, server)
      | Some s \<Rightarrow>
          if server_daemon s then return (False, server)
          else do {
            started \<leftarrow> MHD_start_daemon E (portal_config_port (ctx_config (server_context s)));
            return (started, Some (s\<lparr>server_daemon := started\<rparr>)) })"

definition portal_http_server_stop ::
  "('x, 'j) ext \<Rightarrow> http_server option \<Rightarrow> ('x, http_server option) prog" where
  "portal_http_server_stop E server =
     (case server of
        None \<Rightarrow> return server
      | Some s \<Rightarrow>
          if \<not> server_daemon s then return server
          else do { MHD_stop_daemon E; return (Some (s\<lparr>server_daemon := False\<rparr>)) })"

definition portal_http_server_destroy ::
  "('x, 'j) ext \<Rightarrow> http_server option \<Rightarrow> ('x, http_server option) prog" where
  "portal_http_server_destroy E server =
     (case server of
        None \<Rightarrow> return None
      | Some s \<Rightarrow> do { _ \<leftarrow> portal_http_server_stop E (Some s); c_free; return None })"

section \<open>Every dispatch is safe\<close>

lemma error_safe: "emits (portal_http_response_error E connection status (Some ecode) (Some message))
    (safe E connection)"
  by (rule error.reply_rule) (rule safe_reply)

lemma content_id_fits:
  assumes "n < 301" and "n \<le> length path"
  shows "\<exists>buffer. content_id_buffer path n = Some buffer \<and> c_str buffer = c_str (take n path)"
proof -
  obtain m where m: "301 - n = Suc m" using assms(1) by (cases "301 - n") auto
  have "c_memcpy (replicate 301 (CHR 0x00)) 0 (take n path) =
      Some (take n path @ CHR 0x00 # replicate m (CHR 0x00))"
    using assms m by (simp add: c_memcpy_def)
  then have "content_id_buffer path n = Some (take n path @ CHR 0x00 # replicate m (CHR 0x00))"
    using assms by (simp add: content_id_buffer_def c_store_def list_update_append)
  then show ?thesis by simp
qed

section \<open>The table of endpoints\<close>

text \<open>The router written as a table: the endpoint a method and a path name.\<close>

datatype endpoint =
  Preflight | Health | Top_Content | Favorite_List favorite_kind | Logout
  | Favorite_Change favorite_kind string | Register | Confirm | Login | Record_Activity
  | Like string | Comment string | Long_Content_Id | No_Route

definition fixed_endpoints :: "((string \<times> string) \<times> endpoint) list" where
  "fixed_endpoints =
     [((''GET'', ''/health''), Health),
      ((''GET'', ''/analytics/top-content''), Top_Content),
      ((''GET'', ''/me/favorite-sections''), Favorite_List PORTAL_FAVORITE_SECTION),
      ((''GET'', ''/me/favorite-tags''), Favorite_List PORTAL_FAVORITE_TAG),
      ((''DELETE'', ''/auth/session''), Logout),
      ((''POST'', ''/auth/register''), Register),
      ((''POST'', ''/auth/confirm''), Confirm),
      ((''POST'', ''/auth/login''), Login),
      ((''POST'', ''/activity''), Record_Activity)]"

definition strip_prefix :: "string \<Rightarrow> string \<Rightarrow> string option" where
  "strip_prefix p s = (if take (length p) s = p then Some (drop (length p) s) else None)"

definition strip_suffix :: "string \<Rightarrow> string \<Rightarrow> string option" where
  "strip_suffix p s =
     (if length p < length s \<and> drop (length s - length p) s = p
      then Some (take (length s - length p) s) else None)"

definition content_endpoint :: "string \<Rightarrow> string \<Rightarrow> endpoint" where
  "content_endpoint meth path =
     (case (if meth = ''PUT'' \<or> meth = ''DELETE'' then strip_suffix ''/like'' path else None) of
        Some i \<Rightarrow> if length i \<le> 300 then Like (c_str i) else Long_Content_Id
      | None \<Rightarrow>
          (case (if meth = ''POST'' then strip_suffix ''/comments'' path else None) of
             Some i \<Rightarrow> if length i \<le> 300 then Comment (c_str i) else Long_Content_Id
           | None \<Rightarrow> No_Route))"

definition pattern_endpoint :: "string \<Rightarrow> string \<Rightarrow> endpoint" where
  "pattern_endpoint meth url =
     (if meth = ''OPTIONS'' then Preflight
      else case (strip_prefix ''/me/favorite-sections/'' url, strip_prefix ''/me/favorite-tags/'' url,
          strip_prefix ''/content/'' url) of
        (Some key, _, _) \<Rightarrow>
          if meth = ''PUT'' \<or> meth = ''DELETE'' then Favorite_Change PORTAL_FAVORITE_SECTION key else No_Route
      | (None, Some key, _) \<Rightarrow>
          if meth = ''PUT'' \<or> meth = ''DELETE'' then Favorite_Change PORTAL_FAVORITE_TAG key else No_Route
      | (None, None, Some path) \<Rightarrow> content_endpoint meth path
      | (None, None, None) \<Rightarrow> No_Route)"

definition endpoint_of :: "string \<Rightarrow> string \<Rightarrow> endpoint" where
  "endpoint_of meth url =
     (case map_of fixed_endpoints (meth, url) of
        Some e \<Rightarrow> e | None \<Rightarrow> pattern_endpoint meth url)"

definition run_endpoint ::
  "('x, 'j) ext \<Rightarrow> http_context \<Rightarrow> mhd_connection option \<Rightarrow> string \<Rightarrow> 'j option \<Rightarrow> endpoint \<Rightarrow>
   ('x, mhd_result) prog" where
  "run_endpoint E ctx connection meth json e =
     (case e of
        Preflight \<Rightarrow> portal_http_response_options E connection
      | Health \<Rightarrow> do {
          connected \<leftarrow> portal_database_is_connected E (ctx_database ctx);
          if \<not> connected
          then portal_http_response_error E connection 503 (Some ''database_unavailable'')
            (Some ''Database is unavailable.'')
          else portal_http_response_bytes E connection 200 (Some health_text) (length health_text)
            (Some ''application/json; charset=utf-8'') }
      | Top_Content \<Rightarrow> portal_http_route_top_content E ctx connection
      | Favorite_List kind \<Rightarrow> portal_http_route_favorite_list E ctx connection kind
      | Logout \<Rightarrow> portal_http_route_logout E ctx connection
      | Favorite_Change kind key \<Rightarrow> portal_http_route_favorite_change E ctx connection meth kind key
      | Register \<Rightarrow> portal_http_route_register E ctx connection json
      | Confirm \<Rightarrow> portal_http_route_confirm E ctx connection json
      | Login \<Rightarrow> portal_http_route_login E ctx connection json
      | Record_Activity \<Rightarrow> portal_http_route_activity E ctx connection json
      | Like i \<Rightarrow> portal_http_route_like E ctx connection meth i json
      | Comment i \<Rightarrow> portal_http_route_comment E ctx connection i json
      | Long_Content_Id \<Rightarrow> portal_http_response_error E connection 400 (Some ''validation_error'')
          (Some ''Invalid content id.'')
      | No_Route \<Rightarrow> portal_http_response_error E connection 404 (Some ''not_found'')
          (Some ''Route not found.''))"

text \<open>The endpoints answered before the body is looked at.\<close>

fun without_body :: "endpoint \<Rightarrow> bool" where
  "without_body Preflight = True"
| "without_body Health = True"
| "without_body Top_Content = True"
| "without_body (Favorite_List _) = True"
| "without_body Logout = True"
| "without_body (Favorite_Change _ _) = True"
| "without_body _ = False"

lemma copied_content_id:
  assumes "length path - k \<le> 300"
  shows "(case content_id_buffer path (length path - k) of
      None \<Rightarrow> undefined_behaviour MHD_NO | Some content_id \<Rightarrow> f (c_str content_id)) =
    f (c_str (take (length path - k) path))"
  using content_id_fits [of "length path - k" path] assms by auto

lemma dispatch_content_endpoint:
  "http_dispatch_content E ctx connection url meth json =
   run_endpoint E ctx connection meth json (content_endpoint meth (drop 9 url))"
proof -
  define path where "path = drop 9 url"
  let ?like = "(meth = ''PUT'' \<or> meth = ''DELETE'') \<and> 5 < length path \<and> drop (length path - 5) path = ''/like''"
  let ?comment = "meth = ''POST'' \<and> 9 < length path \<and> drop (length path - 9) path = ''/comments''"
  note unfolded = http_dispatch_content_def path_def [symmetric] Let_def
  have lengths: "length ''/like'' = 5" "length ''/comments'' = 9" by simp_all
  note table = content_endpoint_def strip_suffix_def lengths
  consider (like) ?like | (comment) "\<not> ?like" ?comment | (none) "\<not> ?like" "\<not> ?comment" by argo
  then show ?thesis
  proof cases
    case like
    then have e: "content_endpoint meth path =
        (if length path - 5 \<le> 300 then Like (c_str (take (length path - 5) path)) else Long_Content_Id)"
      unfolding table by (elim conjE) (simp split: if_split_asm)
    show ?thesis
      unfolding unfolded e if_P [OF like]
      using copied_content_id [of path 5 "\<lambda>i. portal_http_route_like E ctx connection meth i json"]
      by (simp add: run_endpoint_def)
  next
    case comment
    then have e: "content_endpoint meth path =
        (if length path - 9 \<le> 300 then Comment (c_str (take (length path - 9) path)) else Long_Content_Id)"
      unfolding table by (elim conjE) simp
    show ?thesis
      unfolding unfolded e if_not_P [OF comment(1)] if_P [OF comment(2)]
      using copied_content_id [of path 9 "\<lambda>i. portal_http_route_comment E ctx connection i json"]
      by (simp add: run_endpoint_def)
  next
    case none
    then have e: "content_endpoint meth path = No_Route"
      unfolding table
      by (cases "5 < length path \<and> drop (length path - 5) path = ''/like''";
          cases "9 < length path \<and> drop (length path - 9) path = ''/comments''"; simp) blast+
    show ?thesis
      unfolding unfolded e if_not_P [OF none(1)] if_not_P [OF none(2)]
      by (simp add: run_endpoint_def)
  qed
qed

lemma prefix_lengths:
  "length ''/me/favorite-sections/'' = 22" "length ''/me/favorite-tags/'' = 18" "length ''/content/'' = 9"
  by simp_all

lemma strip_prefix_drop: "strip_prefix p url = Some rest \<Longrightarrow> rest = drop (length p) url"
  by (simp add: strip_prefix_def split: if_splits)

text \<open>The two halves of the router follow the table.\<close>

lemma endpoint_cases:
  "endpoint_of meth url =
     (if meth = ''OPTIONS'' then Preflight
      else if meth = ''GET'' \<and> url = ''/health'' then Health
      else if meth = ''GET'' \<and> url = ''/analytics/top-content'' then Top_Content
      else if meth = ''GET'' \<and> url = ''/me/favorite-sections'' then Favorite_List PORTAL_FAVORITE_SECTION
      else if meth = ''GET'' \<and> url = ''/me/favorite-tags'' then Favorite_List PORTAL_FAVORITE_TAG
      else if meth = ''DELETE'' \<and> url = ''/auth/session'' then Logout
      else if c_strneq url ''/me/favorite-sections/'' 22 \<and> (meth = ''PUT'' \<or> meth = ''DELETE'')
      then Favorite_Change PORTAL_FAVORITE_SECTION (drop 22 url)
      else if c_strneq url ''/me/favorite-tags/'' 18 \<and> (meth = ''PUT'' \<or> meth = ''DELETE'')
      then Favorite_Change PORTAL_FAVORITE_TAG (drop 18 url)
      else if meth = ''POST'' \<and> url = ''/auth/register'' then Register
      else if meth = ''POST'' \<and> url = ''/auth/confirm'' then Confirm
      else if meth = ''POST'' \<and> url = ''/auth/login'' then Login
      else if meth = ''POST'' \<and> url = ''/activity'' then Record_Activity
      else if c_strneq url ''/content/'' 9 then content_endpoint meth (drop 9 url)
      else No_Route)"
proof -
  consider (sections) rest where "url = ''/me/favorite-sections/'' @ rest"
    | (tags) rest where "url = ''/me/favorite-tags/'' @ rest"
    | (content) rest where "url = ''/content/'' @ rest"
    | (other) "\<not> c_strneq url ''/me/favorite-sections/'' 22" "\<not> c_strneq url ''/me/favorite-tags/'' 18"
        "\<not> c_strneq url ''/content/'' 9"
    using c_strneq_prefix [of "''/me/favorite-sections/''" 22 url]
      c_strneq_prefix [of "''/me/favorite-tags/''" 18 url] c_strneq_prefix [of "''/content/''" 9 url]
    by auto
  then show ?thesis
  proof cases
    case sections
    then show ?thesis
      by (simp add: endpoint_of_def fixed_endpoints_def pattern_endpoint_def strip_prefix_def c_strneq_def)
  next
    case tags
    then show ?thesis
      by (simp add: endpoint_of_def fixed_endpoints_def pattern_endpoint_def strip_prefix_def c_strneq_def)
  next
    case content
    then show ?thesis
      by (simp add: endpoint_of_def fixed_endpoints_def pattern_endpoint_def strip_prefix_def c_strneq_def)
  next
    case other
    then have none: "strip_prefix ''/me/favorite-sections/'' url = None"
        "strip_prefix ''/me/favorite-tags/'' url = None" "strip_prefix ''/content/'' url = None"
      unfolding strip_prefix_def prefix_lengths c_strneq_def by simp_all
    show ?thesis
    proof (cases "map_of fixed_endpoints (meth, url)")
      case None
      then have "(meth, url) \<notin> fst ` set fixed_endpoints" by (rule map_of_eq_None_iff [THEN iffD1])
      then have "\<not> (meth = m \<and> url = u)" if "(m, u) \<in> fst ` set fixed_endpoints" for m u
        using that by metis
      note this [of "''GET''" "''/health''"] this [of "''GET''" "''/analytics/top-content''"]
        this [of "''GET''" "''/me/favorite-sections''"] this [of "''GET''" "''/me/favorite-tags''"]
        this [of "''DELETE''" "''/auth/session''"] this [of "''POST''" "''/auth/register''"]
        this [of "''POST''" "''/auth/confirm''"] this [of "''POST''" "''/auth/login''"]
        this [of "''POST''" "''/activity''"]
      note absent = this [unfolded fixed_endpoints_def, simplified]
      show ?thesis
        using absent other none unfolding endpoint_of_def None option.case pattern_endpoint_def by simp
    next
      case (Some e)
      then have "((meth, url), e) \<in> set fixed_endpoints" by (rule map_of_SomeD)
      moreover have "endpoint_of meth url = e" using Some by (simp add: endpoint_of_def)
      ultimately show ?thesis
        unfolding fixed_endpoints_def list.set by (elim insertE emptyE; simp add: c_strneq_def)
    qed
  qed
qed

text \<open>The dispatcher serves the endpoint of the table, with the body's object where one is expected.\<close>

definition serve ::
  "('x, 'j) ext \<Rightarrow> http_context \<Rightarrow> mhd_connection option \<Rightarrow> string \<Rightarrow> string \<Rightarrow> request_body \<Rightarrow>
   ('x, mhd_result) prog" where
  "serve E ctx connection url meth body =
     (let e = endpoint_of meth url in
      if without_body e then run_endpoint E ctx connection meth None e
      else if meth = ''POST'' \<or> meth = ''PUT'' \<or> meth = ''DELETE'' \<and> body_length body > 0 then do {
        json \<leftarrow> portal_http_request_parse_json E (Some body);
        (case json of
           None \<Rightarrow> portal_http_response_error E connection 400 (Some ''invalid_json'')
             (Some ''A JSON object request body is required.'')
         | Some j \<Rightarrow> do {
             result \<leftarrow> run_endpoint E ctx connection meth (Some j) e;
             json_object_put;
             return result }) }
      else run_endpoint E ctx connection meth None e)"

lemma content_endpoint_body: "\<not> without_body (content_endpoint meth path)"
  by (auto simp: content_endpoint_def split: option.split)

text \<open>Two cascades of tests agree when they agree step by step.\<close>

lemma cascade_step:
  "(c \<Longrightarrow> f = G x) \<Longrightarrow> (\<not> c \<Longrightarrow> f' = G x') \<Longrightarrow> (if c then f else f') = G (if c then x else x')"
  by simp

lemma without_body_route:
  "http_dispatch_without_body E ctx connection url meth =
     (if without_body (endpoint_of meth url)
      then handled (run_endpoint E ctx connection meth None (endpoint_of meth url))
      else return (MHD_YES, False))"
  unfolding http_dispatch_without_body_def endpoint_cases
  by (rule cascade_step [where G = "\<lambda>e. if without_body e
        then handled (run_endpoint E ctx connection meth None e) else return (MHD_YES, False)"],
      simp add: run_endpoint_def)+ (simp add: content_endpoint_body)

lemma cascade_skip:
  "\<not> w (if c then x else y) \<Longrightarrow> w x \<Longrightarrow> (\<not> w y \<Longrightarrow> y = t) \<Longrightarrow> (if c then x else y) = t"
  by (auto split: if_splits)

lemma json_endpoint:
  "\<not> without_body (endpoint_of meth url) \<Longrightarrow>
   endpoint_of meth url =
     (if meth = ''POST'' \<and> url = ''/auth/register'' then Register
      else if meth = ''POST'' \<and> url = ''/auth/confirm'' then Confirm
      else if meth = ''POST'' \<and> url = ''/auth/login'' then Login
      else if meth = ''POST'' \<and> url = ''/activity'' then Record_Activity
      else if c_strneq url ''/content/'' 9 then content_endpoint meth (drop 9 url)
      else No_Route)"
  unfolding endpoint_cases by (erule cascade_skip, (simp; fail))+ (rule refl)

lemma json_route:
  assumes "\<not> without_body (endpoint_of meth url)"
  shows "http_dispatch_json_route E ctx connection url meth json =
   run_endpoint E ctx connection meth json (endpoint_of meth url)"
  unfolding http_dispatch_json_route_def json_endpoint [OF assms]
  by (rule cascade_step [where G = "run_endpoint E ctx connection meth json"],
      simp add: run_endpoint_def dispatch_content_endpoint)+ (simp add: run_endpoint_def)

lemma dispatch_serve:
  "http_dispatch E ctx connection url meth body = serve E ctx connection url meth body"
proof (cases "without_body (endpoint_of meth url)")
  case True
  then show ?thesis
    by (simp add: http_dispatch_def serve_def without_body_route handled_def)
next
  case False
  note route = json_route [OF False]
  have rest: "(\<lambda>json. if True \<and> json = None then refuse
      else http_dispatch_json_route E ctx connection url meth json \<bind>
        (\<lambda>result. json_cleanup json \<bind> (\<lambda>_. return result))) =
    (\<lambda>json. case json of None \<Rightarrow> refuse
      | Some j \<Rightarrow> run_endpoint E ctx connection meth (Some j) (endpoint_of meth url) \<bind>
          (\<lambda>result. json_object_put \<bind> (\<lambda>_. return result)))" for refuse
    by (rule ext) (simp add: route json_cleanup_def split: option.split)
  show ?thesis
  proof (cases "meth = ''POST'' \<or> meth = ''PUT'' \<or> meth = ''DELETE'' \<and> body_length body > 0")
    case expected: True
    then have e: "(meth = ''POST'' \<or> meth = ''PUT'' \<or> meth = ''DELETE'' \<and> body_length body > 0) = True" by simp
    show ?thesis
      unfolding http_dispatch_def serve_def without_body_route Let_def e if_not_P [OF False]
      by (simp add: rest [unfolded simp_thms])
  next
    case unexpected: False
    then have e: "(meth = ''POST'' \<or> meth = ''PUT'' \<or> meth = ''DELETE'' \<and> body_length body > 0) = False" by simp
    show ?thesis
      unfolding http_dispatch_def serve_def without_body_route Let_def e if_not_P [OF False]
      by (simp add: route json_cleanup_def)
  qed
qed

section \<open>Every request is safe\<close>

interpretation not_routed: handler E connection
    "portal_http_response_error E connection status (Some ecode) (Some message)"
  for E connection status ecode message
  by unfold_locales (rule error_safe)

interpretation preflight: handler E connection "portal_http_response_options E connection"
  for E connection
  by unfold_locales (rule options.reply_rule, rule safe_reply)

lemma emits_is_connected [emits_intros]:
  "(\<And>b. K b []) \<Longrightarrow> emits (portal_database_is_connected E database) K"
  unfolding portal_database_is_connected_def by (intro emits_intros) simp_all

lemma health_safe: "emits (run_endpoint E ctx connection meth json Health) (safe E connection)"
  unfolding run_endpoint_def endpoint.case
  by (intro emits_intros reply_rules) (auto intro: safe_reply)

interpretation any_endpoint: handler E connection "run_endpoint E ctx connection meth json e"
  for E connection ctx meth json e
proof
  assume "connection \<noteq> None"
  then show "emits (run_endpoint E ctx connection meth json e) (safe E connection)"
    using register.run_safe confirm.run_safe login.run_safe logout.run_safe favorite_list.run_safe
      favorite_change.run_safe activity.run_safe like.run_safe comment.run_safe top_content.run_safe
      not_routed.run_safe preflight.run_safe health_safe
    by (cases e) (simp_all add: run_endpoint_def)
qed

lemma emits_serve:
  assumes connection: "connection \<noteq> None" and ok: "body_ok body"
  shows "emits (serve E ctx connection url meth body) (safe E connection)"
proof -
  let ?e = "endpoint_of meth url"
  have object: "emits (do {
      result \<leftarrow> run_endpoint E ctx connection meth (Some j) ?e;
      json_object_put;
      return result }) (\<lambda>result fs. safe E connection result (es @ fs))"
    if "quiet es" "owns es [Json_Reference]" for j es
    by (intro emits_bind any_endpoint.safe_rule [OF connection] emits_intros)
      (use that in \<open>auto simp: safe_def quiet_def owns_def released_def\<close>)
  have refused: "emits (portal_http_response_error E connection 400 (Some ''invalid_json'')
      (Some ''A JSON object request body is required.'')) (\<lambda>result fs. safe E connection result (es @ fs))"
    if "quiet es" "released es" for es
    by (rule not_routed.safe_rule [OF connection], rule safe_append)
      (use that in \<open>auto simp: quiet_def\<close>)
  have "emits (portal_http_request_parse_json E (Some body)) (\<lambda>json es.
      emits (case json of
         None \<Rightarrow> portal_http_response_error E connection 400 (Some ''invalid_json'')
           (Some ''A JSON object request body is required.'')
       | Some j \<Rightarrow> do {
           result \<leftarrow> run_endpoint E ctx connection meth (Some j) ?e;
           json_object_put;
           return result }) (\<lambda>result fs. safe E connection result (es @ fs)))"
    by (rule emits_parse_json [OF ok]) (simp_all add: object refused)
  then show ?thesis
    unfolding serve_def Let_def
    by (intro emits_if any_endpoint.safe_rule [OF connection] emits_bind) auto
qed

lemma emits_dispatch:
  "connection \<noteq> None \<Longrightarrow> body_ok body \<Longrightarrow>
   emits (http_dispatch E ctx connection url meth body) (safe E connection)"
  unfolding dispatch_serve by (rule emits_serve)

section \<open>The life of a request\<close>

text \<open>
  What libmicrohttpd documents: the access handler is called once when the headers are there, then
  for every piece of the upload, then once more with a size of zero; after a refusal or after that
  last call it is not called again; at the end the completion callback runs once, from any point.
  \<open>received\<close> is a ghost: the upload so far.
\<close>

datatype phase = Fresh | Uploading | Answered | Closed

record 'x request_state =
  phase :: phase
  con_cls :: "request_body option"
  received :: "char list"
  around :: "'x world"

inductive request_step ::
  "('x, 'j) ext \<Rightarrow> http_context \<Rightarrow> mhd_connection option \<Rightarrow> string \<Rightarrow> string \<Rightarrow>
   'x request_state \<Rightarrow> 'x request_state \<Rightarrow> bool"
  for E ctx connection url meth where
  open_request: "phase s = Fresh \<Longrightarrow>
    run_state (http_access_handler E ctx connection url meth None 0 (con_cls s)) (around s) =
      ((result, n, p), w) \<Longrightarrow>
    request_step E ctx connection url meth s
      (s\<lparr>phase := if result = MHD_NO then Answered else Uploading, con_cls := p, around := w\<rparr>)"
| upload: "phase s = Uploading \<Longrightarrow> chunk \<noteq> [] \<Longrightarrow> length chunk < 2 ^ 64 \<Longrightarrow>
    run_state (http_access_handler E ctx connection url meth (Some chunk) (of_nat (length chunk)) (con_cls s))
      (around s) = ((result, n, p), w) \<Longrightarrow>
    request_step E ctx connection url meth s
      (s\<lparr>phase := if result = MHD_NO then Answered else Uploading, con_cls := p,
         received := received s @ chunk, around := w\<rparr>)"
| finish: "phase s = Uploading \<Longrightarrow>
    run_state (http_access_handler E ctx connection url meth None 0 (con_cls s)) (around s) =
      ((result, n, p), w) \<Longrightarrow>
    request_step E ctx connection url meth s (s\<lparr>phase := Answered, con_cls := p, around := w\<rparr>)"
| complete: "phase s \<noteq> Closed \<Longrightarrow>
    run_state (http_request_completed (con_cls s)) (around s) = (p, w) \<Longrightarrow>
    request_step E ctx connection url meth s (s\<lparr>phase := Closed, con_cls := p, around := w\<rparr>)"

definition fresh_request :: "'x world \<Rightarrow> 'x request_state" where
  "fresh_request w = \<lparr>phase = Fresh, con_cls = None, received = [], around = w\<rparr>"

definition request_reachable ::
  "('x, 'j) ext \<Rightarrow> http_context \<Rightarrow> mhd_connection option \<Rightarrow> string \<Rightarrow> string \<Rightarrow> 'x world \<Rightarrow>
   'x request_state \<Rightarrow> bool" where
  "request_reachable E ctx connection url meth w s \<longleftrightarrow>
     (request_step E ctx connection url meth)\<^sup>*\<^sup>* (fresh_request w) s"

text \<open>The memory of the request: its record and the block of its body.\<close>

definition request_blocks :: "request_body option \<Rightarrow> int" where
  "request_blocks p = (case p of None \<Rightarrow> 0 | Some b \<Rightarrow> 1 + body_blocks b)"

text \<open>
  The invariant, on the events of this request: its memory is exactly what \<open>con_cls\<close> holds, at most
  one response is queued, an open request has none unless it is marked, a marked one has the response
  413, and an answered request has a response when nothing fails, 413 if its upload was too long.
\<close>

definition request_inv ::
  "('x, 'j) ext \<Rightarrow> phase \<Rightarrow> request_body option \<Rightarrow> char list \<Rightarrow> event list \<Rightarrow> bool" where
  "request_inv E ph p upload es \<longleftrightarrow>
     (\<forall>k. held k es = (if k = Heap_Block then request_blocks p
        else if k = Json_Reference then int (dropped_references es) else 0)) \<and>
     list_all known_statement (sqls es) \<and>
     (generous E \<longrightarrow> dropped_references es = 0) \<and>
     (server_contract E \<longrightarrow> stays_defined es) \<and>
     length (responses es) \<le> 1 \<and>
     (case ph of
        Fresh \<Rightarrow> p = None \<and> responses es = [] \<and> upload = []
      | Uploading \<Rightarrow> (\<exists>b. p = Some b \<and> body_ok b \<and>
          (if response_queued b
           then (generous E \<longrightarrow> (\<exists>body. responses es = [(413, body, MHD_YES)]) \<and> 1048576 < length upload)
           else responses es = [] \<and> body_content b = upload))
      | Answered \<Rightarrow> (generous E \<longrightarrow> (\<exists>status body. responses es = [(status, body, MHD_YES)] \<and>
            (1048576 < length upload \<longrightarrow> status = 413))) \<and>
          (\<forall>b. p = Some b \<longrightarrow> body_ok b)
      | Closed \<Rightarrow> p = None)"

lemma body_ok_queued [simp]: "body_ok (b\<lparr>response_queued := q\<rparr>) = body_ok b"
  by (simp add: body_ok_def split: option.split)

lemma body_blocks_queued [simp]: "body_blocks (b\<lparr>response_queued := q\<rparr>) = body_blocks b"
  by (simp add: body_blocks_def)

lemma open_preserves:
  assumes "request_inv E Fresh p upload es"
  shows "emits (http_access_handler E ctx connection url meth None 0 p) (\<lambda>r fs. case r of (result, n, p') \<Rightarrow>
    request_inv E (if result = MHD_NO then Answered else Uploading) p' upload (es @ fs))"
proof -
  have p: "p = None" using assms by (simp add: request_inv_def)
  show ?thesis
    unfolding http_access_handler_def p option.case
    by (intro emits_intros) (use assms in \<open>auto simp: request_inv_def request_blocks_def
        new_body_def body_ok_def body_content_def body_blocks_def\<close>)
qed

lemma safe_responses: "safe E connection result fs \<Longrightarrow> length (responses fs) \<le> 1"
  "safe E connection result fs \<Longrightarrow> generous E \<Longrightarrow> connection \<noteq> None \<Longrightarrow>
   \<exists>status body. responses fs = [(status, body, MHD_YES)] \<and> result = MHD_YES"
  by (auto simp: safe_def replies_def)

lemma safe_parts:
  assumes "safe E connection result fs"
  shows "list_all known_statement (sqls fs)" "released fs" "generous E \<Longrightarrow> dropped_references fs = 0"
    "server_contract E \<Longrightarrow> stays_defined fs"
  using assms by (auto simp: safe_def)

lemma accepted_inv:
  assumes "request_inv E Uploading (Some b) upload es" and "\<not> response_queued b"
    and "body_ok b'" and "body_content b' = body_content b @ chunk" and "response_queued b' = response_queued b"
    and "quiet fs" and "\<And>k. held k fs = (if k = Heap_Block then body_blocks b' - body_blocks b else 0)"
  shows "request_inv E Uploading (Some b') (upload @ chunk) (es @ fs)"
  using assms by (simp add: request_inv_def request_blocks_def quiet_def)

lemma refused_inv:
  assumes inv: "request_inv E Uploading (Some b) upload es" and open_now: "\<not> response_queued b"
    and reason: "1048576 < length (body_content b) + length chunk \<or> \<not> generous E"
    and connection: "connection \<noteq> None" and safe: "safe E connection result fs"
    and reply: "replies E connection 413 P result fs"
  shows "request_inv E (if result = MHD_NO then Answered else Uploading)
    (Some (b\<lparr>response_queued := True\<rparr>)) (upload @ chunk) (es @ fs)"
proof -
  have "body_ok b" "responses es = []" "body_content b = upload"
    using inv open_now by (simp_all add: request_inv_def)
  moreover have "held k (es @ fs) = (if k = Heap_Block then 1 + body_blocks b
      else if k = Json_Reference then int (dropped_references (es @ fs)) else 0)" for k
    using inv safe_parts(2) [OF safe] by (simp add: request_inv_def request_blocks_def released_def)
  ultimately show ?thesis
    using inv safe_parts [OF safe] safe_responses [OF safe] connection reason reply
    by (auto simp: request_inv_def request_blocks_def replies_def)
qed

lemma upload_preserves:
  assumes connection: "connection \<noteq> None" and inv: "request_inv E Uploading p upload es"
    and chunk: "chunk \<noteq> []" "length chunk < 2 ^ 64"
  shows "emits (http_access_handler E ctx connection url meth (Some chunk) (of_nat (length chunk)) p)
    (\<lambda>r fs. case r of (result, n, p') \<Rightarrow>
      request_inv E (if result = MHD_NO then Answered else Uploading) p' (upload @ chunk) (es @ fs))"
proof -
  obtain b where b: "p = Some b" "body_ok b" using inv by (auto simp: request_inv_def)
  have len: "unat (of_nat (length chunk) :: 64 word) = length chunk"
    using chunk(2) by (simp add: unsigned_of_nat take_bit_nat_eq_self)
  then have nonzero: "(of_nat (length chunk) :: 64 word) \<noteq> 0"
    using chunk(1) by (metis length_0_conv unsigned_0)
  show ?thesis
  proof (cases "response_queued b")
    case True
    with inv b show ?thesis
      unfolding http_access_handler_def b(1) option.case
      by (auto intro!: emits_return simp: request_inv_def)
  next
    case False
    note accepted = accepted_inv [OF inv [unfolded b(1)] False]
    note refused = refused_inv [OF inv [unfolded b(1)] False _ connection]
    show ?thesis
      unfolding http_access_handler_def b(1) option.case Let_def if_not_P [OF False] if_P [OF nonzero]
    proof (intro emits_bind emits_body_append [OF b(2) len [symmetric]], unfold prod.case not_True_eq_False
        not_False_eq_True if_True if_False option.map)
      assume "1048576 < length (body_content b) + length chunk \<or> \<not> generous E"
      from refused [OF this] show "emits (do {
          result \<leftarrow> portal_http_response_error E connection 413 (Some ''payload_too_large'')
            (Some ''The request body exceeds 1 MiB or could not be allocated.'');
          return (result, 0, Some (b\<lparr>response_queued := True\<rparr>)) })
        (\<lambda>x fs. case x of (result, n, p') \<Rightarrow> request_inv E
          (if result = MHD_NO then Answered else Uploading) p' (upload @ chunk) (es @ [] @ fs))"
        by (intro emits_bind error.reply_rule emits_return) (simp add: safe_reply)
    next
      fix b' fs
      assume "body_ok b'" "body_content b' = body_content b @ chunk" "response_queued b' = response_queued b"
        "quiet fs" "\<And>k. held k fs = (if k = Heap_Block then body_blocks b' - body_blocks b else 0)"
      from accepted [OF this] show "emits (return (MHD_YES, 0, Some b'))
        (\<lambda>x gs. case x of (result, n, p') \<Rightarrow> request_inv E
          (if result = MHD_NO then Answered else Uploading) p' (upload @ chunk) (es @ fs @ gs))"
        by (intro emits_return) simp
    qed
  qed
qed

lemma finish_preserves:
  assumes connection: "connection \<noteq> None" and inv: "request_inv E Uploading p upload es"
  shows "emits (http_access_handler E ctx connection url meth None 0 p)
    (\<lambda>r fs. case r of (result, n, p') \<Rightarrow> request_inv E Answered p' upload (es @ fs))"
proof -
  obtain b where b: "p = Some b" "body_ok b" using inv by (auto simp: request_inv_def)
  show ?thesis
  proof (cases "response_queued b")
    case True
    with inv b show ?thesis
      unfolding http_access_handler_def b(1) option.case
      by (auto intro!: emits_return simp: request_inv_def)
  next
    case False
    have answered: "request_inv E Answered (Some b) upload (es @ fs)" if safe: "safe E connection result fs"
      for result fs
    proof -
      have "responses es = []" "body_content b = upload" using inv b False by (simp_all add: request_inv_def)
      moreover have "length (body_content b) \<le> 1048576"
        using length_body_content [OF b(2)] body_length_le [OF b(2)] by simp
      moreover have "held k (es @ fs) = (if k = Heap_Block then 1 + body_blocks b
          else if k = Json_Reference then int (dropped_references (es @ fs)) else 0)" for k
        using inv b safe_parts(2) [OF safe] by (simp add: request_inv_def request_blocks_def released_def)
      ultimately show ?thesis
        using inv b safe_parts [OF safe] safe_responses [OF safe] connection
        by (auto simp: request_inv_def request_blocks_def)
    qed
    show ?thesis
      unfolding http_access_handler_def b(1) option.case if_not_P [OF False]
      by simp (intro emits_bind emits_mono [OF emits_dispatch [OF connection b(2)]] emits_return,
          simp add: answered)
  qed
qed

lemma complete_preserves:
  assumes "request_inv E ph p upload es" and "ph \<noteq> Closed"
  shows "emits (http_request_completed p) (\<lambda>p' fs. request_inv E Closed p' upload (es @ fs))"
  unfolding http_request_completed_def
  by (intro emits_intros)
    (use assms in \<open>auto simp: request_inv_def request_blocks_def quiet_def\<close>)

text \<open>A step extends the trace, and the events of the request keep the invariant.\<close>

lemma request_step_inv:
  assumes connection: "connection \<noteq> None" and step: "request_step E ctx connection url meth s s'"
    and inv: "request_inv E (phase s) (con_cls s) (received s) es"
  shows "\<exists>fs. trace (around s') = trace (around s) @ fs \<and>
    request_inv E (phase s') (con_cls s') (received s') (es @ fs)"
  using step
proof cases
  case (open_request result n p w')
  show ?thesis
    by (rule emits_run [OF open_preserves [OF inv [unfolded open_request(2)]] open_request(3)])
      (auto simp: open_request(1))
next
  case (upload chunk result n p w')
  show ?thesis
    by (rule emits_run [OF upload_preserves [OF connection inv [unfolded upload(2)] upload(3,4)] upload(5)])
      (auto simp: upload(1))
next
  case (finish result n p w')
  show ?thesis
    by (rule emits_run [OF finish_preserves [OF connection inv [unfolded finish(2)]] finish(3)])
      (auto simp: finish(1))
next
  case (complete p w')
  show ?thesis
    by (rule emits_run [OF complete_preserves [OF inv complete(2)] complete(3)])
      (auto simp: complete(1))
qed

text \<open>The invariant of a state, on the events since the request began.\<close>

definition state_inv :: "('x, 'j) ext \<Rightarrow> 'x world \<Rightarrow> 'x request_state \<Rightarrow> bool" where
  "state_inv E w s \<longleftrightarrow> (\<exists>es. trace (around s) = trace w @ es \<and>
     request_inv E (phase s) (con_cls s) (received s) es)"

lemma request_step_preserves:
  assumes "connection \<noteq> None" and "request_step E ctx connection url meth s s'" and "state_inv E w s"
  shows "state_inv E w s'"
  using assms(3) request_step_inv [OF assms(1,2)] unfolding state_inv_def by fastforce

lemma state_inv_fresh: "state_inv E w (fresh_request w)"
  by (simp add: state_inv_def request_inv_def request_blocks_def fresh_request_def)

lemma reachable_inv:
  assumes "connection \<noteq> None" and "request_reachable E ctx connection url meth w s"
  shows "state_inv E w s"
  using assms(2) unfolding request_reachable_def
  by (induction rule: rtranclp_induct)
    (auto intro: state_inv_fresh request_step_preserves [OF assms(1)])

inductive_cases request_stepE: "request_step E ctx connection url meth s s'"

text \<open>A closed request does nothing more.\<close>

lemma closed_final: "phase s = Closed \<Longrightarrow> \<not> request_step E ctx connection url meth s s'"
  by (auto elim: request_stepE)

text \<open>The phases are ordered, and no step goes back.\<close>

fun phase_rank :: "phase \<Rightarrow> nat" where
  "phase_rank Fresh = 0"
| "phase_rank Uploading = 1"
| "phase_rank Answered = 2"
| "phase_rank Closed = 3"

lemma phase_rank_inject [simp]: "phase_rank x = phase_rank y \<longleftrightarrow> x = y"
  by (cases x; cases y) simp_all

instantiation phase :: linorder
begin

definition less_eq_phase :: "phase \<Rightarrow> phase \<Rightarrow> bool" where
  "less_eq_phase x y \<longleftrightarrow> phase_rank x \<le> phase_rank y"

definition less_phase :: "phase \<Rightarrow> phase \<Rightarrow> bool" where
  "less_phase x y \<longleftrightarrow> phase_rank x < phase_rank y"

instance
  by standard (auto simp: less_eq_phase_def less_phase_def)

end

lemma request_step_forward: "request_step E ctx connection url meth s s' \<Longrightarrow> phase s \<le> phase s'"
  by (erule request_stepE) (cases "phase s"; auto simp: less_eq_phase_def)+

lemma request_steps_forward:
  "(request_step E ctx connection url meth)\<^sup>*\<^sup>* s s' \<Longrightarrow> phase s \<le> phase s'"
  by (induction rule: rtranclp_induct) (auto intro: order.trans request_step_forward)

text \<open>Every piece of the upload is kept or refused: what was received only grows.\<close>

lemma request_steps_prefix:
  "(request_step E ctx connection url meth)\<^sup>*\<^sup>* s s' \<Longrightarrow> \<exists>more. received s' = received s @ more"
  by (induction rule: rtranclp_induct) (auto elim!: request_stepE)

section \<open>The server object\<close>

definition server_blocks :: "http_server option \<Rightarrow> resource \<Rightarrow> int" where
  "server_blocks server k =
     (case server of
        None \<Rightarrow> 0
      | Some s \<Rightarrow> if k = Heap_Block then 1 else if k = Mhd_Daemon \<and> server_daemon s then 1 else 0)"

text \<open>The contract of the object: what it owns is what its state says.\<close>

locale owning_object =
  fixes create :: "('x, 's option) prog"
    and start :: "'s option \<Rightarrow> ('x, bool \<times> 's option) prog"
    and stop destroy :: "'s option \<Rightarrow> ('x, 's option) prog"
    and running :: "'s option \<Rightarrow> bool"
    and owned :: "'s option \<Rightarrow> resource \<Rightarrow> int"
  assumes create_owns: "emits create (\<lambda>p es. quiet es \<and> (\<forall>k. held k es = owned p k) \<and> \<not> running p)"
    and start_owns: "emits (start p) (\<lambda>(ok, p') es. quiet es \<and>
      (\<forall>k. held k es = owned p' k - owned p k) \<and> (ok \<longrightarrow> running p' \<and> \<not> running p) \<and>
      (running p \<longrightarrow> \<not> ok \<and> p' = p))"
    and stop_owns: "emits (stop p) (\<lambda>p' es. quiet es \<and>
      (\<forall>k. held k es = owned p' k - owned p k) \<and> \<not> running p')"
    and destroy_owns: "emits (destroy p) (\<lambda>p' es. quiet es \<and> p' = None \<and>
      (\<forall>k. held k es = - owned p k))"
    and nothing: "owned None k = 0"
begin

text \<open>Any use of the object between its creation and its destruction gives everything back.\<close>

lemma lifecycle:
  "emits (do {
      p \<leftarrow> create;
      (ok, p) \<leftarrow> start p;
      p \<leftarrow> stop p;
      destroy p }) (\<lambda>p es. p = None \<and> quiet es \<and> (\<forall>k. held k es = 0))"
  by (intro emits_bind emits_mono [OF create_owns])
    (auto intro!: emits_bind emits_mono [OF start_owns] emits_mono [OF stop_owns]
      emits_mono [OF destroy_owns] simp: quiet_def)

lemma stop_twice: "emits (do { p \<leftarrow> stop p; stop p }) (\<lambda>p' es. quiet es \<and>
    (\<forall>k. held k es = owned p' k - owned p k) \<and> \<not> running p')"
  by (intro emits_bind emits_mono [OF stop_owns]) (auto intro!: emits_mono [OF stop_owns] simp: quiet_def)

end

interpretation server: owning_object "portal_http_server_create E config database"
    "portal_http_server_start E" "portal_http_server_stop E" "portal_http_server_destroy E"
    "\<lambda>p. p \<noteq> None \<and> server_daemon (the p)" server_blocks
  for E config database
proof
  show "emits (portal_http_server_create E config database) (\<lambda>p es. quiet es \<and>
      (\<forall>k. held k es = server_blocks p k) \<and> \<not> (p \<noteq> None \<and> server_daemon (the p)))"
    unfolding portal_http_server_create_def
    by (intro emits_intros) (auto simp: quiet_def server_blocks_def)
  show "emits (portal_http_server_start E p) (\<lambda>(ok, p') es. quiet es \<and>
      (\<forall>k. held k es = server_blocks p' k - server_blocks p k) \<and>
      (ok \<longrightarrow> (p' \<noteq> None \<and> server_daemon (the p')) \<and> \<not> (p \<noteq> None \<and> server_daemon (the p))) \<and>
      (p \<noteq> None \<and> server_daemon (the p) \<longrightarrow> \<not> ok \<and> p' = p))" for p
    unfolding portal_http_server_start_def
    by (intro emits_intros) (auto simp: quiet_def server_blocks_def)
  show "emits (portal_http_server_stop E p) (\<lambda>p' es. quiet es \<and>
      (\<forall>k. held k es = server_blocks p' k - server_blocks p k) \<and>
      \<not> (p' \<noteq> None \<and> server_daemon (the p')))" for p
    unfolding portal_http_server_stop_def
    by (intro emits_intros) (auto simp: quiet_def server_blocks_def)
  show "emits (portal_http_server_destroy E p) (\<lambda>p' es. quiet es \<and> p' = None \<and>
      (\<forall>k. held k es = - server_blocks p k))" for p
    unfolding portal_http_server_destroy_def portal_http_server_stop_def
    by (intro emits_intros) (auto simp: quiet_def server_blocks_def)
  show "server_blocks None k = 0" for k by (simp add: server_blocks_def)
qed

end
