(* ===== verification/App.thy ===== *)
theory App
  imports Server
begin

text \<open>
  \<^verbatim>\<open>src/src/app/app.c\<close> and \<^verbatim>\<open>src/src/main.c\<close>: the three long-lived objects, created in order and destroyed
  in the reverse order, and the wait for a shutdown signal, or for a key in the \<open>_WIN32\<close> branch. The lemmas account for every resource on every path of the process.
\<close>

record portal_app =
  app_config :: "portal_config option"
  app_database :: "portal_database option"
  app_http_server :: "http_server option"

definition portal_app_destroy :: "('x, 'j) ext \<Rightarrow> portal_app option \<Rightarrow> ('x, portal_app option) prog" where
  "portal_app_destroy E app =
     (case app of
        None \<Rightarrow> return None
      | Some a \<Rightarrow> do {
          _ \<leftarrow> portal_http_server_destroy E (app_http_server a);
          _ \<leftarrow> portal_database_destroy (app_database a);
          _ \<leftarrow> portal_config_destroy (app_config a);
          c_free;
          return None })"

definition portal_app_create :: "('x, 'j) ext \<Rightarrow> ('x, portal_app option) prog" where
  "portal_app_create E = do {
     ok \<leftarrow> c_calloc E;
     if \<not> ok then return None
     else do {
       let app = \<lparr>app_config = None, app_database = None, app_http_server = None\<rparr>;
       config \<leftarrow> portal_config_create_from_environment E;
       let app = app\<lparr>app_config := config\<rparr>;
       if config = None then portal_app_destroy E (Some app)
       else do {
         database \<leftarrow> portal_database_create E (portal_config_database_url config);
         let app = app\<lparr>app_database := database\<rparr>;
         if database = None then portal_app_destroy E (Some app)
         else do {
           server \<leftarrow> portal_http_server_create E config database;
           let app = app\<lparr>app_http_server := server\<rparr>;
           if server = None then portal_app_destroy E (Some app)
           else return (Some app) } } } }"

text \<open>The tests stop at the first call that fails.\<close>

definition app_block_shutdown_signals :: "('x, 'j) ext \<Rightarrow> ('x, int) prog" where
  "app_block_shutdown_signals E = do {
     a \<leftarrow> ask (os_sigemptyset E);
     if a \<noteq> 0 then return (- 1)
     else do {
       b \<leftarrow> ask (os_sigaddset E ''SIGINT'');
       if b \<noteq> 0 then return (- 1)
       else do {
         c \<leftarrow> ask (os_sigaddset E ''SIGTERM'');
         if c \<noteq> 0 then return (- 1)
         else ask (os_sigprocmask E ''SIG_BLOCK'') } } }"

definition portal_app_run ::
  "('x, 'j) ext \<Rightarrow> portal_app option \<Rightarrow> ('x, int \<times> portal_app option) prog" where
  "portal_app_run E app =
     (case app of
        None \<Rightarrow> return (1, app)
      | Some a \<Rightarrow>
          if app_http_server a = None then return (1, app)
          else do {
            blocked \<leftarrow> app_block_shutdown_signals E;
            if blocked \<noteq> 0 then return (1, app)
            else do {
              (started, server) \<leftarrow> portal_http_server_start E (app_http_server a);
              result \<leftarrow>
                (if \<not> started then return 1
                 else do {
                   emit (Stderr (''portal-api listening on port '' @
                     decimal (unat (portal_config_port (app_config a))) @ [CHR 0x0A]));
                   signalled \<leftarrow> ask (os_sigwait E);
                   return (if signalled = 0 then 0 else 1) });
              server \<leftarrow> portal_http_server_stop E server;
              restored \<leftarrow> ask (os_sigprocmask E ''SIG_SETMASK'');
              return (if restored \<noteq> 0 then 1 else result, Some (a\<lparr>app_http_server := server\<rparr>)) } })"

text \<open>The \<open>_WIN32\<close> branch of \<open>portal_app_run\<close>: it leaves the server running for the destruction.\<close>

definition app_run_until_key ::
  "('x, 'j) ext \<Rightarrow> portal_app option \<Rightarrow> ('x, int \<times> portal_app option) prog" where
  "app_run_until_key E app =
     (case app of
        None \<Rightarrow> return (1, app)
      | Some a \<Rightarrow>
          if app_http_server a = None then return (1, app)
          else do {
            (started, server) \<leftarrow> portal_http_server_start E (app_http_server a);
            let app = Some (a\<lparr>app_http_server := server\<rparr>);
            if \<not> started then return (1, app)
            else do {
              emit (Stderr (''portal-api listening on port '' @
                decimal (unat (portal_config_port (app_config a))) @ ''; press a key to stop'' @
                [CHR 0x0A]));
              _ \<leftarrow> ask (os_getch E);
              return (0, app) } })"

definition EXIT_SUCCESS :: int where "EXIT_SUCCESS = 0"

definition EXIT_FAILURE :: int where "EXIT_FAILURE = 1"

definition main :: "('x, 'j) ext \<Rightarrow> ('x, int) prog" where
  "main E = do {
     app \<leftarrow> portal_app_create E;
     (result, app) \<leftarrow>
       (if app \<noteq> None then do {
          (r, app) \<leftarrow> portal_app_run E app;
          return (if r = 0 then EXIT_SUCCESS else EXIT_FAILURE, app) }
        else return (EXIT_FAILURE, app));
     _ \<leftarrow> portal_app_destroy E app;
     return result }"

section \<open>Ownership\<close>

lemma emits_database_create:
  assumes "\<And>es. quiet es \<Longrightarrow> (\<And>k. held k es = 0) \<Longrightarrow> K None es"
    and "\<And>c es. quiet es \<Longrightarrow> (\<And>k. held k es = int (count_list [Heap_Block, Pg_Connection] k)) \<Longrightarrow>
      K (Some \<lparr>db_connection = Some c\<rparr>) es"
  shows "emits (portal_database_create E conninfo) K"
  unfolding portal_database_create_def portal_database_destroy_def
  by (intro emits_intros) (auto intro!: assms simp: quiet_def)

text \<open>What an application owns: its record, and what its three objects own.\<close>

definition app_owns :: "portal_app option \<Rightarrow> resource \<Rightarrow> int" where
  "app_owns app k =
     (case app of
        None \<Rightarrow> 0
      | Some a \<Rightarrow>
          (if k = Heap_Block then 1 else 0) +
          (case app_config a of
             None \<Rightarrow> 0
           | Some c \<Rightarrow> if k = Heap_Block then 1 + (if database_url c = None then 0 else 1) else 0) +
          (case app_database a of
             None \<Rightarrow> 0
           | Some d \<Rightarrow> if k = Heap_Block then 1
               else if k = Pg_Connection \<and> db_connection d \<noteq> None then 1 else 0) +
          server_blocks (app_http_server a) k)"

definition app_ready :: "portal_app \<Rightarrow> bool" where
  "app_ready a \<longleftrightarrow> app_config a \<noteq> None \<and> app_database a \<noteq> None \<and>
     (\<exists>s. app_http_server a = Some s \<and> \<not> server_daemon s \<and>
        server_context s = \<lparr>ctx_config = app_config a, ctx_database = app_database a\<rparr>)"

text \<open>The events of the destruction, in their order.\<close>

definition teardown :: "portal_app \<Rightarrow> event list" where
  "teardown a =
     (case app_http_server a of
        None \<Rightarrow> []
      | Some s \<Rightarrow> (if server_daemon s then [Released Mhd_Daemon] else []) @ [Released Heap_Block]) @
     (case app_database a of
        None \<Rightarrow> []
      | Some d \<Rightarrow> (if db_connection d = None then [] else [Released Pg_Connection]) @ [Released Heap_Block]) @
     (case app_config a of
        None \<Rightarrow> []
      | Some c \<Rightarrow> (if database_url c = None then [] else [Released Heap_Block]) @ [Released Heap_Block]) @
     [Released Heap_Block]"

lemma emits_app_destroy:
  assumes "app = None \<Longrightarrow> K None []" and "\<And>a. app = Some a \<Longrightarrow> K None (teardown a)"
  shows "emits (portal_app_destroy E app) K"
proof (cases app)
  case None
  with assms(1) show ?thesis by (simp add: portal_app_destroy_def emits_return)
next
  case (Some a)
  note K = assms(2) [OF Some]
  show ?thesis
    unfolding portal_app_destroy_def Some option.case portal_http_server_destroy_def
      portal_http_server_stop_def portal_database_destroy_def
    by (intro emits_intros)
      (use K in \<open>auto simp: teardown_def split: option.splits\<close>)
qed

lemma teardown_held: "held k (teardown a) = - app_owns (Some a) k"
  by (auto simp: teardown_def app_owns_def server_blocks_def split: option.splits)

lemma teardown_quiet: "quiet (teardown a)"
  by (auto simp: teardown_def quiet_def split: option.splits)

lemma app_owns_running:
  assumes "app_http_server a = Some s" and "\<not> server_daemon s"
  shows "app_owns (Some (a\<lparr>app_http_server := Some (s\<lparr>server_daemon := True\<rparr>)\<rparr>)) k =
    app_owns (Some a) k + (if k = Mhd_Daemon then 1 else 0)"
  using assms by (simp add: app_owns_def server_blocks_def)

lemma teardown_acquires_nothing: "Acquired k \<notin> set (teardown a)"
  by (auto simp: teardown_def split: option.splits)

lemma emits_app_create:
  assumes "\<And>es. quiet es \<Longrightarrow> (\<And>k. held k es = 0) \<Longrightarrow> K None es"
    and "\<And>a es. app_ready a \<Longrightarrow> config_ok E (the (app_config a)) \<Longrightarrow> quiet es \<Longrightarrow>
      (\<And>k. held k es = app_owns (Some a) k) \<Longrightarrow> K (Some a) es"
  shows "emits (portal_app_create E) K"
  unfolding portal_app_create_def portal_http_server_create_def Let_def
  by (intro emits_intros emits_database_create emits_app_destroy)
    (auto intro!: assms simp: quiet_def owns_def teardown_def config_ok_def app_ready_def app_owns_def
      server_blocks_def split: option.splits)

section \<open>The run of the process\<close>

lemma emits_block_signals [emits_intros]:
  "(\<And>i. K i []) \<Longrightarrow> emits (app_block_shutdown_signals E) K"
  unfolding app_block_shutdown_signals_def by (intro emits_intros emits_ask) auto

text \<open>
  A run of a ready application: status 0 or 1, the daemon stopped again, and status 0 only after the
  daemon was started.
\<close>

lemma emits_app_run:
  assumes ready: "app_ready a"
    and K: "\<And>status es. status \<in> {0, 1} \<Longrightarrow> quiet es \<Longrightarrow> (\<And>k. held k es = 0) \<Longrightarrow>
      (status = 0 \<Longrightarrow> Acquired Mhd_Daemon \<in> set es) \<Longrightarrow> K (status, Some a) es"
  shows "emits (portal_app_run E (Some a)) K"
proof -
  obtain s where s: "app_http_server a = Some s" "\<not> server_daemon s"
    using ready by (auto simp: app_ready_def)
  then have same: "a\<lparr>app_http_server := Some s\<rparr> = a" "s\<lparr>server_daemon := False\<rparr> = s"
    by (cases a, simp, cases s, simp)
  show ?thesis
    unfolding portal_app_run_def portal_http_server_start_def portal_http_server_stop_def s
    by (intro emits_intros emits_ask)
      (use s in \<open>auto intro!: K simp: quiet_def same\<close>)
qed

text \<open>The other branch: status 0 exactly when the daemon was started, and it is still running.\<close>

lemma emits_run_until_key:
  assumes ready: "app_ready a"
    and stopped: "\<And>es. quiet es \<Longrightarrow> (\<And>k. held k es = 0) \<Longrightarrow> Acquired Mhd_Daemon \<notin> set es \<Longrightarrow>
      K (1, Some a) es"
    and running: "\<And>s es. app_http_server a = Some s \<Longrightarrow> quiet es \<Longrightarrow>
      (\<And>k. held k es = (if k = Mhd_Daemon then 1 else 0)) \<Longrightarrow> Acquired Mhd_Daemon \<in> set es \<Longrightarrow>
      K (0, Some (a\<lparr>app_http_server := Some (s\<lparr>server_daemon := True\<rparr>)\<rparr>)) es"
  shows "emits (app_run_until_key E (Some a)) K"
proof -
  obtain s where s: "app_http_server a = Some s" "\<not> server_daemon s"
    using ready by (auto simp: app_ready_def)
  then have same: "a\<lparr>app_http_server := Some (s\<lparr>server_daemon := False\<rparr>)\<rparr> = a"
    by (cases a, cases s, simp)
  show ?thesis
    unfolding app_run_until_key_def portal_http_server_start_def s
    by (intro emits_intros emits_ask)
      (use s in \<open>auto intro!: stopped running [OF s(1)] simp: quiet_def same\<close>)
qed

text \<open>The end of a process that created its application: the daemon is down before the rest goes.\<close>

definition orderly_end :: "event list \<Rightarrow> bool" where
  "orderly_end es \<longleftrightarrow> (\<exists>before a. es = before @ teardown a \<and> app_ready a \<and> held Mhd_Daemon before = 0)"

lemma orderly_endI:
  "app_ready a \<Longrightarrow> held Mhd_Daemon es + held Mhd_Daemon fs = 0 \<Longrightarrow> orderly_end (es @ fs @ teardown a)"
  unfolding orderly_end_def by (intro exI [of _ "es @ fs"] exI [of _ a]) simp

lemma emits_main:
  assumes "\<And>es. quiet es \<Longrightarrow> (\<And>k. held k es = 0) \<Longrightarrow> K EXIT_FAILURE es"
    and "\<And>status es. status \<in> {EXIT_SUCCESS, EXIT_FAILURE} \<Longrightarrow> quiet es \<Longrightarrow> (\<And>k. held k es = 0) \<Longrightarrow>
      orderly_end es \<Longrightarrow> (status = EXIT_SUCCESS \<Longrightarrow> Acquired Mhd_Daemon \<in> set es) \<Longrightarrow> K status es"
  shows "emits (main E) K"
  unfolding main_def
proof (intro emits_bind emits_app_create)
  fix es assume "quiet es" "\<And>k. held k es = 0"
  then show "emits
      (if None \<noteq> (None :: portal_app option) then do {
         (r, app) \<leftarrow> portal_app_run E None;
         return (if r = 0 then EXIT_SUCCESS else EXIT_FAILURE, app) }
       else return (EXIT_FAILURE, None))
      (\<lambda>r fs. emits (case r of (result, app) \<Rightarrow> do {
         _ \<leftarrow> portal_app_destroy E app;
         return result }) (\<lambda>b gs. K b (es @ fs @ gs)))"
    by (auto intro!: emits_intros emits_app_destroy assms(1))
next
  fix a es
  assume ready: "app_ready a" and es: "quiet es" "\<And>k. held k es = app_owns (Some a) k"
  have daemon: "app_owns (Some a) Mhd_Daemon = 0"
    using ready by (auto simp: app_owns_def app_ready_def server_blocks_def split: option.splits)
  show "emits
      (if Some a \<noteq> None then do {
         (r, app) \<leftarrow> portal_app_run E (Some a);
         return (if r = 0 then EXIT_SUCCESS else EXIT_FAILURE, app) }
       else return (EXIT_FAILURE, Some a))
      (\<lambda>r fs. emits (case r of (result, app) \<Rightarrow> do {
         _ \<leftarrow> portal_app_destroy E app;
         return result }) (\<lambda>b gs. K b (es @ fs @ gs)))"
    by (simp del: bind_assoc, intro emits_bind emits_app_run [OF ready], unfold prod.case,
        intro emits_intros emits_app_destroy assms(2))
      (use es ready daemon teardown_quiet [of a] in
        \<open>auto simp: quiet_def teardown_held EXIT_SUCCESS_def EXIT_FAILURE_def intro: orderly_endI\<close>)
qed

section \<open>A cooperative system\<close>

text \<open>
  Everything outside works: memory, the environment, the connection to PostgreSQL, the signal calls
  and the start of the daemon. Then every step of the process succeeds.
\<close>

definition cooperative :: "('x, 'j) ext \<Rightarrow> bool" where
  "cooperative E \<longleftrightarrow> generous E \<and> os_getenv E ''DATABASE_URL'' \<notin> {None, Some []} \<and>
     (\<forall>x text c. fst (pq_connect E text x) \<noteq> None \<and> pq_conn_status E c x = CONNECTION_OK) \<and>
     (\<forall>x name. fst (os_sigemptyset E x) = 0 \<and> fst (os_sigaddset E name x) = 0 \<and>
        fst (os_sigprocmask E name x) = 0 \<and> fst (os_sigwait E x) = 0) \<and>
     (\<forall>x p. fst (mhd_start E p x))"

lemma cooperativeD:
  assumes "cooperative E"
  shows "generous E" "os_getenv E ''DATABASE_URL'' \<noteq> None" "os_getenv E ''DATABASE_URL'' \<noteq> Some []"
    "pq_connect E url x = (p, x') \<Longrightarrow> p \<noteq> None" "pq_conn_status E c x = CONNECTION_OK"
    "os_sigemptyset E x = (i, x') \<Longrightarrow> i = 0" "os_sigaddset E name x = (i, x') \<Longrightarrow> i = 0"
    "os_sigprocmask E name x = (i, x') \<Longrightarrow> i = 0" "os_sigwait E x = (i, x') \<Longrightarrow> i = 0"
    "mhd_start E n x = (ok, x') \<Longrightarrow> ok"
  using assms unfolding cooperative_def by (auto dest: arg_cong [where f = fst], (metis fst_conv)+)

lemma emits_database_create_cooperative:
  assumes E: "cooperative E" and K: "\<And>c es. K (Some \<lparr>db_connection = Some c\<rparr>) es"
  shows "emits (portal_database_create E (Some conninfo)) K"
  unfolding portal_database_create_def PQconnectdb_def PQstatus_def option.case
  by (intro emits_intros emits_ask) (use cooperativeD [OF E] in \<open>auto intro: K\<close>)

lemma emits_app_create_cooperative:
  assumes E: "cooperative E" and K: "\<And>a es. app_ready a \<Longrightarrow> K (Some a) es"
  shows "emits (portal_app_create E) K"
proof -
  have "emits (portal_app_create E) (\<lambda>app es. app \<noteq> None)"
    unfolding portal_app_create_def portal_http_server_create_def Let_def
    by (intro emits_intros emits_app_destroy)
      (use cooperativeD [OF E] in \<open>auto simp: config_ok_def portal_config_database_url_def
        intro!: emits_database_create_cooperative [OF E] emits_intros\<close>)
  moreover have "emits (portal_app_create E) (\<lambda>app es. app = None \<or> app_ready (the app))"
    by (rule emits_app_create) auto
  ultimately show ?thesis
    by (rule emits_mono [OF emits_conj]) (auto intro: K)
qed

lemma emits_app_run_cooperative:
  assumes E: "cooperative E" and ready: "app_ready a"
  shows "emits (portal_app_run E (Some a)) (\<lambda>(status, app) es. status = 0)"
proof -
  obtain s where s: "app_http_server a = Some s" "\<not> server_daemon s"
    using ready by (auto simp: app_ready_def)
  show ?thesis
    unfolding portal_app_run_def portal_http_server_start_def portal_http_server_stop_def s
      MHD_start_daemon_def app_block_shutdown_signals_def
    by (intro emits_intros emits_ask) (use s cooperativeD [OF E] in \<open>auto\<close>)
qed

lemma emits_main_cooperative:
  assumes E: "cooperative E"
  shows "emits (main E) (\<lambda>status es. status = EXIT_SUCCESS)"
  unfolding main_def
  by (intro emits_bind emits_app_create_cooperative [OF E])
    (auto intro!: emits_bind emits_mono [OF emits_app_run_cooperative [OF E]] emits_return emits_app_destroy)

text \<open>
  In the \<open>_WIN32\<close> branch a run of a ready application has status 0 exactly when it started the daemon,
  which is then still running; destroying the application stops it, and the two together give back
  exactly what the application owned.
\<close>

lemma key_branch_gives_back:
  assumes "app_ready a"
  shows "emits (do {
      (status, app) \<leftarrow> app_run_until_key E (Some a);
      app \<leftarrow> portal_app_destroy E app;
      return (status, app) })
    (\<lambda>(status, app) es. app = None \<and> quiet es \<and> (status = 0 \<longleftrightarrow> Acquired Mhd_Daemon \<in> set es) \<and>
      (\<forall>k. held k es = - app_owns (Some a) k))"
proof -
  obtain s where s: "app_http_server a = Some s" "\<not> server_daemon s"
    using assms by (auto simp: app_ready_def)
  show ?thesis
    by (rule emits_bind, rule emits_run_until_key [OF assms]; unfold prod.case;
        intro emits_bind emits_app_destroy emits_return)
      (use s teardown_quiet in \<open>auto simp: quiet_def teardown_held app_owns_running teardown_acquires_nothing\<close>)
qed

end
