(* ===== verification/Reference.thy ===== *)
theory Reference
  imports App
begin

text \<open>
  One concrete outside, to run the program on: memory never fails, PostgreSQL answers every statement
  of the table with one row, libmicrohttpd takes every response, and json-c is a small datatype whose
  parser knows one document. The examples evaluate the model on it; it meets the hypotheses the
  theorems make about the libraries.
\<close>

datatype json =
  JString string | JInt int | JObject "(string \<times> json option) list" | JArray "json option list"

fun json_kind :: "json \<Rightarrow> json_type" where
  "json_kind (JString _) = json_type_string"
| "json_kind (JInt _) = json_type_int"
| "json_kind (JObject _) = json_type_object"
| "json_kind (JArray _) = json_type_array"

fun json_text :: "json \<Rightarrow> string" where
  "json_text (JString s) = s"
| "json_text _ = []"

fun json_add :: "json \<Rightarrow> string \<Rightarrow> json option \<Rightarrow> json" where
  "json_add (JObject members) key child = JObject (members @ [(key, child)])"
| "json_add j key child = j"

fun json_append :: "json \<Rightarrow> json option \<Rightarrow> json" where
  "json_append (JArray items) child = JArray (items @ [child])"
| "json_append j child = j"

fun json_member :: "json \<Rightarrow> string \<Rightarrow> json option option" where
  "json_member (JObject members) key = map_of members key"
| "json_member j key = None"

text \<open>Enough of a printer: the strings and the keys in order.\<close>

fun json_print :: "json \<Rightarrow> string" where
  "json_print (JString s) = s"
| "json_print (JInt i) = signed_decimal i"
| "json_print (JObject members) =
     concat (map (\<lambda>(k, v). k @ '':'' @ (case v of None \<Rightarrow> ''null'' | Some j \<Rightarrow> json_print j) @ '';'') members)"
| "json_print (JArray items) =
     concat (map (\<lambda>v. (case v of None \<Rightarrow> ''null'' | Some j \<Rightarrow> json_print j) @ '','') items)"

definition sample_document :: json where
  "sample_document = JObject
     [(''email'', Some (JString ''Ana@Example.com'')),
      (''password'', Some (JString ''una-clave-larga'')),
      (''display_name'', Some (JString ''Ana'')),
      (''token'', Some (JString ''8de3c6d1-05bb-4b74-82bc-518f1f8b0871'')),
      (''anonymous_id'', Some (JString ''visitor-0001'')),
      (''portal_key'', Some (JString ''mi-portal'')),
      (''event_type'', Some (JString ''page_view'')),
      (''content_id'', Some (JString ''nota-42'')),
      (''body'', Some (JString ''Hola''))]"

text \<open>The columns of a statement's answer; the table has no statement twice.\<close>

definition sample_columns :: "string \<Rightarrow> nat option" where
  "sample_columns command = map_of (map (\<lambda>(q, _, columns). (q, columns)) sql_table) command"

definition sample_answer :: "string \<Rightarrow> pg_result" where
  "sample_answer command =
     (case sample_columns command of
        None \<Rightarrow> \<lparr>pq_status = PGRES_OTHER 7, pq_ntuples = 0, pq_nfields = 0, pq_cell = \<lambda>_ _. None,
          pq_sqlstate = Some ''42601'', pq_message = ''syntax error''\<rparr>
      | Some columns \<Rightarrow>
          \<lparr>pq_status = if columns = 0 then PGRES_COMMAND_OK else PGRES_TUPLES_OK,
            pq_ntuples = if columns = 0 then 0 else 1, pq_nfields = int columns,
            pq_cell = \<lambda>_ _. Some ''7'', pq_sqlstate = None, pq_message = []\<rparr>)"

definition sample_environment :: "string \<Rightarrow> string option" where
  "sample_environment name =
     map_of [(''DATABASE_URL'', ''postgresql://localhost/portal''), (''PORT'', ''9090''),
       (''EXPOSE_CONFIRMATION_TOKEN'', ''TRUE'')] name"

definition sample :: "(unit, json) ext" where
  "sample = \<lparr>
     os_getenv = sample_environment,
     os_sigemptyset = \<lambda>x. (0, x), os_sigaddset = \<lambda>_ x. (0, x), os_sigprocmask = \<lambda>_ x. (0, x),
     os_sigwait = \<lambda>x. (0, x), os_getch = \<lambda>x. (13, x),
     heap_alloc = \<lambda>x. (True, x), heap_fill = \<lambda>_ _. CHR 0xAA,
     pq_connect = \<lambda>_ x. (Some 1, x), pq_conn_status = \<lambda>_ _. CONNECTION_OK,
     pq_conn_message = \<lambda>_ _. [],
     pq_exec = \<lambda>_ command _ x. (Some (sample_answer command), x),
     mhd_create = \<lambda>x. (True, x), mhd_add_header = \<lambda>_ _ x. (MHD_YES, x),
     mhd_queue = \<lambda>_ _ _ x. (MHD_YES, x), mhd_start = \<lambda>_ x. (True, x), mhd_stop = \<lambda>x. x,
     jc_alloc = \<lambda>x. (True, x),
     jc_parse = \<lambda>buffer x. ((Some sample_document, True, length buffer), x),
     jc_object = JObject [], jc_array = JArray [], jc_string = JString, jc_int = JInt,
     jc_add = json_add, jc_append = json_append, jc_field = json_member, jc_type = json_kind,
     jc_text = json_text, jc_print = json_print\<rparr>"

definition sample_database :: portal_database where
  "sample_database = \<lparr>db_connection = Some 1\<rparr>"

definition sample_config :: portal_config where
  "sample_config = \<lparr>database_url = Some ''db'', port = 8080, token_ttl_hours = 168,
     confirmation_ttl_hours = 24, expose_confirmation_token = True\<rparr>"

definition sample_context :: http_context where
  "sample_context = \<lparr>ctx_config = Some sample_config, ctx_database = Some sample_database\<rparr>"

definition sample_token :: string where
  "sample_token = ''8de3c6d1-05bb-4b74-82bc-518f1f8b0871''"

definition signed_in :: "mhd_connection option" where
  "signed_in = Some \<lparr>conn_header = (\<lambda>k. if k = ''Authorization'' then Some (''Bearer '' @ sample_token) else None),
     conn_argument = (\<lambda>k. if k = ''portal_key'' then Some ''mi-portal'' else None)\<rparr>"

definition visitor :: "mhd_connection option" where
  "visitor = Some \<lparr>conn_header = (\<lambda>_. None), conn_argument = (\<lambda>_. None)\<rparr>"

definition start_world :: "unit world" where
  "start_world = \<lparr>outside = (), trace = []\<rparr>"

lemma present [simp]: "signed_in \<noteq> None" "visitor \<noteq> None"
  by (simp_all add: signed_in_def visitor_def)

lemma sample_generous: "generous sample"
  by (simp add: generous_def sample_def)

lemma sample_server_contract: "server_contract sample"
proof -
  have "answer_ok command (sample_answer command)" for command
  proof (cases "sample_columns command")
    case None
    then show ?thesis by (simp add: answer_ok_def sample_answer_def)
  next
    case (Some columns)
    have "columns' = columns" if "(command, n, columns') \<in> set sql_table" for n columns'
    proof -
      have "distinct (map fst (map (\<lambda>(q, _, columns). (q, columns)) sql_table))"
        using sql_table_distinct by (simp add: comp_def case_prod_beta')
      moreover have "(command, columns') \<in> set (map (\<lambda>(q, _, columns). (q, columns)) sql_table)"
        using that by force
      ultimately have "sample_columns command = Some columns'"
        unfolding sample_columns_def by (rule map_of_is_SomeI)
      with Some show ?thesis by simp
    qed
    moreover have "columns < 8"
      using map_of_SomeD [OF Some [unfolded sample_columns_def]]
      by (auto simp: sql_table_def)
    ultimately show ?thesis
      using Some by (auto simp: answer_ok_def sample_answer_def result_table_ok_def list_all_iff)
  qed
  then show ?thesis
    by (auto simp: server_contract_def may_answer_def sample_def)
qed

end
