(* ===== verification/Execution.thy ===== *)
theory Execution
  imports Reference
begin

text \<open>
  Running the program. The rules turn \<open>run_state\<close> of a program into its result and its final state one
  call at a time, so that the simplifier executes the model inside the kernel. Under \<open>later_steps\<close>
  it does not look into the rest of a program before the state it runs in is known. The facts on the
  concrete outside of \<open>Reference\<close> are evaluated once here.
\<close>

named_theorems run_simps "execution of programs"

section \<open>Steps\<close>

lemma later_steps: "m = m' \<Longrightarrow> State_Monad.bind m f = State_Monad.bind m' f"
  by simp

lemma run_bind [run_simps]:
  "run_state (m \<bind> f) w = (case run_state m w of (a, v) \<Rightarrow> run_state (f a) v)"
  by (simp split: prod.split)

lemma run_return [run_simps]: "run_state (return a) w = (a, w)"
  by simp

lemma run_emit [run_simps]: "run_state (emit e) w = ((), w\<lparr>trace := trace w @ [e]\<rparr>)"
  by (simp add: emit_def)

lemma run_ask [run_simps]:
  "run_state (ask f) w = (case f (outside w) of (a, x) \<Rightarrow> (a, w\<lparr>outside := x\<rparr>))"
  by (simp add: ask_def)

lemma run_if [run_simps]:
  "run_state (if b then m else n) w = (if b then run_state m w else run_state n w)"
  by simp

lemma run_option [run_simps]:
  "run_state (case p of None \<Rightarrow> m | Some a \<Rightarrow> f a) w =
     (case p of None \<Rightarrow> run_state m w | Some a \<Rightarrow> run_state (f a) w)"
  by (simp split: option.split)

lemma run_prod [run_simps]:
  "run_state (case p of (a, b) \<Rightarrow> f a b) w = (case p of (a, b) \<Rightarrow> run_state (f a b) w)"
  by (simp split: prod.split)

lemma run_let [run_simps]: "run_state (Let a f) w = run_state (f a) w"
  by simp

section \<open>Calls\<close>

lemmas run_library [run_simps] =
  undefined_behaviour_def [THEN arg_cong [where f = run_state], THEN fun_cong]
  deref_def [THEN arg_cong [where f = run_state], THEN fun_cong]
  c_calloc_def [THEN arg_cong [where f = run_state], THEN fun_cong]
  c_free_def [THEN arg_cong [where f = run_state], THEN fun_cong]
  fresh_bytes_def [THEN arg_cong [where f = run_state], THEN fun_cong]
  c_malloc_def [THEN arg_cong [where f = run_state], THEN fun_cong]
  c_realloc_def [THEN arg_cong [where f = run_state], THEN fun_cong]
  c_free_ptr_def [THEN arg_cong [where f = run_state], THEN fun_cong]
  PQconnectdb_def [THEN arg_cong [where f = run_state], THEN fun_cong]
  PQfinish_def [THEN arg_cong [where f = run_state], THEN fun_cong]
  PQstatus_def [THEN arg_cong [where f = run_state], THEN fun_cong]
  PQerrorMessage_def [THEN arg_cong [where f = run_state], THEN fun_cong]
  PQexecParams_def [THEN arg_cong [where f = run_state], THEN fun_cong]
  PQclear_def [THEN arg_cong [where f = run_state], THEN fun_cong]
  MHD_create_response_from_buffer_def [THEN arg_cong [where f = run_state], THEN fun_cong]
  MHD_add_response_header_def [THEN arg_cong [where f = run_state], THEN fun_cong]
  MHD_queue_response_def [THEN arg_cong [where f = run_state], THEN fun_cong]
  MHD_destroy_response_def [THEN arg_cong [where f = run_state], THEN fun_cong]
  MHD_start_daemon_def [THEN arg_cong [where f = run_state], THEN fun_cong]
  MHD_stop_daemon_def [THEN arg_cong [where f = run_state], THEN fun_cong]
  json_new_def [THEN arg_cong [where f = run_state], THEN fun_cong]
  json_object_new_object_def [THEN arg_cong [where f = run_state], THEN fun_cong]
  json_object_new_array_def [THEN arg_cong [where f = run_state], THEN fun_cong]
  json_object_new_string_def [THEN arg_cong [where f = run_state], THEN fun_cong]
  json_object_new_int64_def [THEN arg_cong [where f = run_state], THEN fun_cong]
  json_insert_def [THEN arg_cong [where f = run_state], THEN fun_cong]
  json_object_object_add_def [THEN arg_cong [where f = run_state], THEN fun_cong]
  json_object_array_add_def [THEN arg_cong [where f = run_state], THEN fun_cong]
  json_object_put_def [THEN arg_cong [where f = run_state], THEN fun_cong]
  json_tokener_new_def [THEN arg_cong [where f = run_state], THEN fun_cong]
  json_tokener_parse_ex_def [THEN arg_cong [where f = run_state], THEN fun_cong]
  json_tokener_free_def [THEN arg_cong [where f = run_state], THEN fun_cong]

lemmas run_program [run_simps] =
  config_copy_string_def [THEN arg_cong [where f = run_state], THEN fun_cong]
  config_parse_integer_def [THEN arg_cong [where f = run_state], THEN fun_cong]
  portal_config_destroy_def [THEN arg_cong [where f = run_state], THEN fun_cong]
  portal_config_create_from_environment_def [THEN arg_cong [where f = run_state], THEN fun_cong]
  portal_database_create_def [THEN arg_cong [where f = run_state], THEN fun_cong]
  portal_database_destroy_def [THEN arg_cong [where f = run_state], THEN fun_cong]
  portal_database_is_connected_def [THEN arg_cong [where f = run_state], THEN fun_cong]
  portal_database_query_def [THEN arg_cong [where f = run_state], THEN fun_cong]
  portal_database_result_destroy_def [THEN arg_cong [where f = run_state], THEN fun_cong]
  json_add_string_def [THEN arg_cong [where f = run_state], THEN fun_cong]
  json_add_int64_def [THEN arg_cong [where f = run_state], THEN fun_cong]
  json_append_string_def [THEN arg_cong [where f = run_state], THEN fun_cong]
  json_cleanup_def [THEN arg_cong [where f = run_state], THEN fun_cong]
  portal_http_response_bytes_def [THEN arg_cong [where f = run_state], THEN fun_cong]
  portal_http_response_json_def [THEN arg_cong [where f = run_state], THEN fun_cong]
  portal_http_response_empty_def [THEN arg_cong [where f = run_state], THEN fun_cong]
  portal_http_response_error_def [THEN arg_cong [where f = run_state], THEN fun_cong]
  portal_http_response_options_def [THEN arg_cong [where f = run_state], THEN fun_cong]
  portal_http_authenticate_def [THEN arg_cong [where f = run_state], THEN fun_cong]
  portal_http_request_body_append_def [THEN arg_cong [where f = run_state], THEN fun_cong]
  portal_http_request_body_destroy_def [THEN arg_cong [where f = run_state], THEN fun_cong]
  portal_http_request_parse_json_def [THEN arg_cong [where f = run_state], THEN fun_cong]
  auth_database_error_def [THEN arg_cong [where f = run_state], THEN fun_cong]
  portal_http_route_register_def [THEN arg_cong [where f = run_state], THEN fun_cong]
  portal_http_route_confirm_def [THEN arg_cong [where f = run_state], THEN fun_cong]
  portal_http_route_login_def [THEN arg_cong [where f = run_state], THEN fun_cong]
  portal_http_route_logout_def [THEN arg_cong [where f = run_state], THEN fun_cong]
  favorite_has_authenticated_user_def [THEN arg_cong [where f = run_state], THEN fun_cong]
  portal_http_route_favorite_list_def [THEN arg_cong [where f = run_state], THEN fun_cong]
  portal_http_route_favorite_change_def [THEN arg_cong [where f = run_state], THEN fun_cong]
  activity_load_actor_def [THEN arg_cong [where f = run_state], THEN fun_cong]
  activity_actor_error_def [THEN arg_cong [where f = run_state], THEN fun_cong]
  portal_http_route_activity_def [THEN arg_cong [where f = run_state], THEN fun_cong]
  portal_http_route_like_def [THEN arg_cong [where f = run_state], THEN fun_cong]
  portal_http_route_comment_def [THEN arg_cong [where f = run_state], THEN fun_cong]
  portal_http_route_top_content_def [THEN arg_cong [where f = run_state], THEN fun_cong]
  http_dispatch_content_def [THEN arg_cong [where f = run_state], THEN fun_cong]
  handled_def [THEN arg_cong [where f = run_state], THEN fun_cong]
  http_dispatch_without_body_def [THEN arg_cong [where f = run_state], THEN fun_cong]
  http_dispatch_json_route_def [THEN arg_cong [where f = run_state], THEN fun_cong]
  http_dispatch_def [THEN arg_cong [where f = run_state], THEN fun_cong]
  http_access_handler_def [THEN arg_cong [where f = run_state], THEN fun_cong]
  http_request_completed_def [THEN arg_cong [where f = run_state], THEN fun_cong]
  portal_http_server_create_def [THEN arg_cong [where f = run_state], THEN fun_cong]
  portal_http_server_start_def [THEN arg_cong [where f = run_state], THEN fun_cong]
  portal_http_server_stop_def [THEN arg_cong [where f = run_state], THEN fun_cong]
  portal_http_server_destroy_def [THEN arg_cong [where f = run_state], THEN fun_cong]
  portal_app_destroy_def [THEN arg_cong [where f = run_state], THEN fun_cong]
  portal_app_create_def [THEN arg_cong [where f = run_state], THEN fun_cong]
  app_block_shutdown_signals_def [THEN arg_cong [where f = run_state], THEN fun_cong]
  portal_app_run_def [THEN arg_cong [where f = run_state], THEN fun_cong]
  app_run_until_key_def [THEN arg_cong [where f = run_state], THEN fun_cong]
  main_def [THEN arg_cong [where f = run_state], THEN fun_cong]

lemmas run_loops [run_simps] =
  add_headers.simps [THEN arg_cong [where f = run_state], THEN fun_cong]
  favorite_items.simps [THEN arg_cong [where f = run_state], THEN fun_cong]
  top_items.simps [THEN arg_cong [where f = run_state], THEN fun_cong]

section \<open>The concrete outside\<close>

lemma sample_columns_simps:
  "sample_columns auth_query = Some 2"
  "sample_columns register_query = Some 2"
  "sample_columns confirm_query = Some 1"
  "sample_columns login_query = Some 2"
  "sample_columns logout_query = Some 0"
  "sample_columns tag_list_query = Some 1"
  "sample_columns section_list_query = Some 1"
  "sample_columns tag_insert_query = Some 0"
  "sample_columns tag_delete_query = Some 0"
  "sample_columns section_insert_query = Some 0"
  "sample_columns section_delete_query = Some 0"
  "sample_columns activity_query = Some 1"
  "sample_columns like_insert_query = Some 1"
  "sample_columns like_delete_query = Some 0"
  "sample_columns comment_query = Some 2"
  "sample_columns top_content_query = Some 2"
  by code_simp+

lemma sample_strings:
  "portal_http_json_string sample (Some sample_document) (Some ''email'') 5 254 = Some ''Ana@Example.com''"
  "portal_http_json_string sample (Some sample_document) (Some ''password'') (Suc 0) 256 = Some ''una-clave-larga''"
  "portal_http_json_string sample (Some sample_document) (Some ''password'') 12 256 = Some ''una-clave-larga''"
  "portal_http_json_string sample (Some sample_document) (Some ''display_name'') (Suc 0) 100 = Some ''Ana''"
  "portal_http_json_string sample (Some sample_document) (Some ''token'') 36 36 = Some sample_token"
  "portal_http_json_string sample (Some sample_document) (Some ''portal_key'') (Suc 0) 120 = Some ''mi-portal''"
  "portal_http_json_string sample (Some sample_document) (Some ''event_type'') (Suc 0) 40 = Some ''page_view''"
  "portal_http_json_string sample (Some sample_document) (Some ''body'') (Suc 0) 5000 = Some ''Hola''"
  "portal_http_json_optional_string sample (Some sample_document) (Some ''anonymous_id'') 200 =
     Some ''visitor-0001''"
  "portal_http_json_optional_string sample (Some sample_document) (Some ''content_id'') 300 = Some ''nota-42''"
  "portal_http_json_optional_string sample (Some sample_document) (Some ''component_id'') 300 = None"
  "portal_http_json_optional_string sample (Some sample_document) (Some ''page_url'') 2000 = None"
  "portal_http_json_optional_string sample (Some sample_document) (Some ''author_name'') 100 = None"
  "jc_field sample sample_document ''event_data'' = None"
  by code_simp+

lemma sample_checks:
  "portal_validation_email (Some ''Ana@Example.com'')"
  "portal_validation_anonymous_id (Some ''visitor-0001'')"
  "portal_validation_key (Some ''mi-portal'') 120"
  "portal_validation_key (Some ''nota-42'') 300"
  "portal_validation_key (Some ''tema'') 160"
  "portal_validation_event_type (Some ''page_view'')"
  by code_simp+

definition sample_copy :: "char list" where
  "sample_copy = map c_tolower ''Ana@Example.com'' @ CHR 0x00 # replicate 239 (CHR 0x00)"

lemma sample_copy_simps:
  "portal_validation_lowercase_copy (Some (replicate 255 (CHR 0x00))) 255 (Some ''Ana@Example.com'') =
     Some (True, Some sample_copy)"
  "c_str sample_copy = ''ana@example.com''"
proof -
  show "portal_validation_lowercase_copy (Some (replicate 255 (CHR 0x00))) 255 (Some ''Ana@Example.com'') =
     Some (True, Some sample_copy)"
    unfolding sample_copy_def
    by (subst lowercase_copy_fits) simp_all
  have "c_str (map c_tolower ''Ana@Example.com'') = ''ana@example.com''" by code_simp
  then show "c_str sample_copy = ''ana@example.com''"
    unfolding sample_copy_def c_str_cut .
qed

lemma sample_numbers:
  "decimal 168 = ''168''" "decimal 24 = ''24''" "decimal 7 = ''7''" "decimal 10 = ''10''"
  "c_strtol ''7'' = (7, [], False)"
  by code_simp+

lemma sample_range: "analytics_parse_range None i j k (Some i) = (True, Some i)"
  by (simp add: analytics_parse_range_def)

lemma sample_fields:
  "os_getenv sample = sample_environment"
  "os_sigemptyset sample u = (0, u)" "os_sigaddset sample name u = (0, u)"
  "os_sigprocmask sample name u = (0, u)" "os_sigwait sample u = (0, u)" "os_getch sample u = (13, u)"
  "heap_alloc sample u = (True, u)" "heap_fill sample u n = CHR 0xAA"
  "pq_connect sample name u = (Some 1, u)" "pq_conn_status sample c u = CONNECTION_OK"
  "pq_exec sample c command texts u = (Some (sample_answer command), u)"
  "mhd_create sample u = (True, u)" "mhd_add_header sample name text u = (MHD_YES, u)"
  "mhd_queue sample status headers text u = (MHD_YES, u)" "mhd_start sample p u = (True, u)"
  "mhd_stop sample u = u" "jc_alloc sample u = (True, u)"
  "jc_parse sample buffer u = ((Some sample_document, True, length buffer), u)"
  "jc_object sample = JObject []" "jc_array sample = JArray []" "jc_string sample = JString"
  "jc_int sample = JInt" "jc_add sample = json_add" "jc_append sample = json_append"
  "jc_type sample = json_kind" "jc_print sample = json_print"
  by (simp_all add: sample_def)

lemmas sample_run = signed_in_def visitor_def lookup_header_def lookup_argument_def sample_context_def
  sample_database_def sample_config_def start_world_def no_user_def no_actor_def
  PORTAL_HTTP_UUID_TEXT_LENGTH_def c_strneq_def INT_MAX_def sample_answer_def
  sample_columns_simps sample_strings sample_checks sample_fields sample_token_def
  portal_database_result_status_def portal_database_result_row_count_def
  portal_database_result_value_def size_of_int_def int_of_size_def c_snprintf_def
  portal_config_confirmation_ttl_hours_def portal_config_token_ttl_hours_def
  portal_config_exposes_confirmation_token_def sample_copy_simps sample_numbers sample_range actor_user_id_def
  actor_anonymous_def text_or_empty_def signed_decimal_def
  favorite_list_query_def favorite_change_query_def

text \<open>What a program says to the server and to the client, from the start.\<close>

definition conversation ::
  "(unit, 'a) prog \<Rightarrow> (string \<times> string option list) list \<times> (nat \<times> string \<times> mhd_result) list" where
  "conversation m =
     (let es = trace (snd (run_state m start_world))
      in (map (\<lambda>(command, texts, _). (command, texts)) (sqls es), responses es))"

section \<open>Examples\<close>

lemma example_register:
  "conversation (portal_http_route_register sample sample_context visitor (Some sample_document)) =
   ([(register_query, [Some ''ana@example.com'', Some ''una-clave-larga'', Some ''Ana'', Some ''24''])],
    [(201, ''message:Account created. Confirm it before signing in.;confirmation_expires_at:7;'' @
       ''confirmation_token:7;'', MHD_YES)])"
  by (simp add: conversation_def run_simps sample_run cong: later_steps)

lemma example_login:
  "conversation (portal_http_route_login sample sample_context visitor (Some sample_document)) =
   ([(login_query, [Some ''ana@example.com'', Some ''una-clave-larga'', Some ''168''])],
    [(200, ''access_token:7;token_type:Bearer;expires_at:7;'', MHD_YES)])"
  by (simp add: conversation_def run_simps sample_run cong: later_steps)

lemma example_logout:
  "conversation (portal_http_route_logout sample sample_context signed_in) =
   ([(auth_query, [Some sample_token]), (logout_query, [Some sample_token])], [(204, [], MHD_YES)])"
  by (simp add: conversation_def run_simps sample_run cong: later_steps)

lemma example_favorite_list:
  "conversation (portal_http_route_favorite_list sample sample_context signed_in PORTAL_FAVORITE_TAG) =
   ([(auth_query, [Some sample_token]), (tag_list_query, [Some ''7''])],
    [(200, ''items:7,;'', MHD_YES)])"
  by (simp add: conversation_def run_simps sample_run cong: later_steps)

lemma example_favorite_change:
  "conversation (portal_http_route_favorite_change sample sample_context visitor ''PUT''
     PORTAL_FAVORITE_TAG ''tema'') =
   ([], [(401, ''error:unauthorized;message:A valid Bearer token is required.;'', MHD_YES)])"
  by (simp add: conversation_def favorite_has_authenticated_user_def run_simps sample_run cong: later_steps)

lemma example_top_content:
  "conversation (portal_http_route_top_content sample sample_context signed_in) =
   ([(auth_query, [Some sample_token]), (top_content_query, [Some ''mi-portal'', Some ''7'', Some ''10''])],
    [(200, ''portal_key:mi-portal;days:7;items:content_id:7;views:7;,;'', MHD_YES)])"
  by (simp add: conversation_def run_simps sample_run cong: later_steps)

lemma example_activity:
  "conversation (portal_http_route_activity sample sample_context visitor (Some sample_document)) =
   ([(activity_query, [Some [], Some ''visitor-0001'', Some ''mi-portal'', Some ''page_view'',
       Some ''nota-42'', Some [], Some [], Some [CHR 0x7B, CHR 0x7D]])],
    [(201, ''event_id:7;'', MHD_YES)])"
  by (simp add: conversation_def run_simps sample_run cong: later_steps)

lemma example_like:
  "conversation (portal_http_route_like sample sample_context signed_in ''PUT'' ''nota-42''
     (Some sample_document)) =
   ([(auth_query, [Some sample_token]),
     (like_insert_query, [Some ''nota-42'', Some ''7'', Some [], Some ''u:7'', Some ''mi-portal''])],
    [(204, [], MHD_YES)])"
  by (simp add: conversation_def run_simps sample_run cong: later_steps)

lemma example_comment:
  "conversation (portal_http_route_comment sample sample_context visitor ''nota-42''
     (Some sample_document)) =
   ([(comment_query, [Some ''nota-42'', Some [], Some ''visitor-0001'', Some [], Some ''Hola'',
       Some ''mi-portal''])],
    [(201, ''id:7;created_at:7;'', MHD_YES)])"
  by (simp add: conversation_def run_simps sample_run cong: later_steps)

end
