(* ===== verification/Route_Properties.thy ===== *)
theory Route_Properties
  imports Execution
begin

text \<open>
  What each route does, for every request and every behaviour of the libraries: the statement it
  sends with its parameters, and the response that each answer leads to. The predicates in the
  statements (\<open>register_outcome\<close> and the others) are written next to the routes; \<open>emits m K\<close> says
  that every run of \<open>m\<close> only appends events to the trace and that its result and these events
  satisfy \<open>K\<close>. Some runs on the concrete outside of \<open>Reference\<close> show the predicates at work.
\<close>

section \<open>Sessions\<close>

text \<open>
  C21. Who a request is. Without an \<open>Authorization\<close> header the request is anonymous, with a header
  that is not \<open>Bearer\<close> and 36 characters it is refused, both without asking the database; otherwise
  exactly one statement checks the token (none only when the database is not available), and the
  user is the one of its single row. Nothing stays allocated and no response is sent.
\<close>

theorem authentication_decides:
  "emits (portal_http_authenticate E (Some ctx) (Some c) (Some user)) (\<lambda>(status, u) es.
     \<exists>v. u = Some v \<and> auth_decision (live E ctx) (Some c) status (user_id v) (sqls es) \<and>
       owns es [] \<and> responses es = [])"
  by (rule emits_authenticate) (auto simp: owns_def released_def)

text \<open>
  Logging out. Only a signed-in request gets as far as the database; then the one statement
  revokes the very token of the header, and the answer decides between 204 without a body and 500.
  Everybody else gets 401 and nothing is written.
\<close>

theorem logout_behaviour:
  "emits (portal_http_route_logout E ctx (Some c))
     (protected E ctx (Some c) (\<lambda>_. logout_outcome E ctx (Some c)))"
  by (rule emits_logout) simp_all

text \<open>
  Listing favourites. A signed-in user gets the keys of the favourites stored under the own id
  and of the kind asked for, in the order of the rows of the answer; a failed statement is 500.
\<close>

theorem favorite_list_behaviour:
  "emits (portal_http_route_favorite_list E ctx (Some c) kind)
     (protected E ctx (Some c) (favorite_list_outcome E ctx (Some c) kind))"
  by (rule emits_favorite_list) simp_all

text \<open>
  C30. Changing a favourite. For a signed-in user and a valid key of at most 160 characters, \<open>PUT\<close>
  inserts and any other method deletes the pair of the own id and the key in the table of the kind;
  an invalid key is 400 before any statement but the session check.
\<close>

theorem favorite_change_behaviour:
  "emits (portal_http_route_favorite_change E ctx (Some c) meth kind key)
     (protected E ctx (Some c) (favorite_change_outcome E ctx (Some c) kind (meth = ''PUT'') key))"
  by (rule emits_favorite_change) simp_all

text \<open>
  C31. The most viewed contents. A signed-in user with a valid portal key gets the rows of the one
  statement, whose parameters are the portal, the number of days (7 unless given, 1 to 365) and the
  limit (10 unless given, 1 to 100) in decimal; anything else is 400 without that statement.
\<close>

theorem top_content_behaviour:
  "emits (portal_http_route_top_content E ctx (Some c))
     (protected E ctx (Some c) (\<lambda>_. top_content_outcome E ctx (Some c)))"
  by (rule emits_top_content) simp_all

section \<open>Accounts\<close>


text \<open>
  C29. Confirmation. A token of 36 characters is the parameter of the one statement; the account is
  confirmed (200) when exactly one row was updated, and refused (400) in every other case, a
  database failure included.
\<close>

theorem confirm_behaviour:
  "emits (portal_http_route_confirm E ctx connection json) (confirm_outcome E ctx connection json)"
  by (rule emits_confirm)

text \<open>
  C23. Login. The statement gets the email in lower case, the password and the configured lifetime
  of the session; one row is a new session (200 with its token and its end), no row is 401, a
  failure is 500, and a request without an email and a password is 400 without a statement.
\<close>

theorem login_behaviour:
  "emits (portal_http_route_login E ctx connection json) (login_outcome E ctx connection json)"
  by (rule emits_login)

section \<open>Actions of users and visitors\<close>

text \<open>
  C24. Who acts. Loading the actor of a request gives the signed-in user, or the visitor whose valid
  \<open>anonymous_id\<close> the body names, or is refused: a wrong token is refused even when an anonymous id is
  there. The loaded record then holds that actor's two columns and its key.
\<close>

theorem load_actor_behaviour:
  "emits (activity_load_actor E ctx (Some c) json no_actor) (\<lambda>(authentication, actor) es.
     \<exists>status uid. auth_decision (live E ctx) (Some c) status uid (sqls es) \<and>
       (case resolved E json status uid of
          None \<Rightarrow> authentication = PORTAL_AUTH_INVALID
        | Some a \<Rightarrow> authentication = status \<and> represents status actor a) \<and>
       owns es [] \<and> responses es = [])"
  by (rule emits_load_actor) (fastforce simp: owns_def released_def)+

lemma resolved_visitor: "resolved E json status uid = Some (Visitor v) \<Longrightarrow> v \<noteq> []"
  by (auto simp: resolved_def anonymous_id.valid_iff split: auth_status.splits option.splits if_splits)

lemma actor_columns_inject:
  assumes "x \<noteq> Visitor []" and "y \<noteq> Visitor []"
  shows "(user_column x, visitor_column x) = (user_column y, visitor_column y) \<longleftrightarrow> x = y"
  using assms by (cases x; cases y) auto

lemma loaded_actor:
  assumes "run_state (activity_load_actor E ctx (Some c) json no_actor) w = ((status, actor), v)"
    and "status \<noteq> PORTAL_AUTH_INVALID"
  obtains a where "represents status actor a" and "a \<noteq> Visitor []"
proof -
  have "emits (activity_load_actor E ctx (Some c) json no_actor) (\<lambda>(status, actor) es.
      status = PORTAL_AUTH_INVALID \<or> (\<exists>a. represents status actor a \<and> a \<noteq> Visitor []))"
    by (rule emits_load_actor) (auto dest: resolved_visitor)
  from emits_run [OF this assms(1)] show thesis
    using assms(2) that by auto
qed

text \<open>
  C25. The keys of actors. Two requests whose actors were loaded have the same actor key exactly when
  they act as the same user or as the same visitor: no user id and no anonymous id can be chosen to
  collide with somebody else's key, and no key was cut to fit its buffer.
\<close>

theorem actor_keys_distinguish:
  assumes "run_state (activity_load_actor E ctx (Some c) json no_actor) w = ((status, actor), v)"
    and "run_state (activity_load_actor E ctx' (Some c') json' no_actor) w' = ((status', actor'), v')"
    and "status \<noteq> PORTAL_AUTH_INVALID" and "status' \<noteq> PORTAL_AUTH_INVALID"
  shows "actor_key actor = actor_key actor' \<longleftrightarrow>
    (actor_user_id status actor, actor_anonymous status actor) =
      (actor_user_id status' actor', actor_anonymous status' actor')"
proof -
  obtain a where a: "represents status actor a" "a \<noteq> Visitor []"
    using loaded_actor [OF assms(1,3)] .
  obtain b where b: "represents status' actor' b" "b \<noteq> Visitor []"
    using loaded_actor [OF assms(2,4)] .
  show ?thesis
    using a(1) b(1) actor_columns_inject [OF a(2) b(2)] by (auto simp: represents_def actor_key_inject)
qed

text \<open>A signed-in request and an anonymous one with the same body, on the concrete outside.\<close>

definition signed_in_actor :: "auth_status \<times> activity_actor" where
  "signed_in_actor = fst (run_state
     (activity_load_actor sample sample_context signed_in (Some sample_document) no_actor) start_world)"

definition visiting_actor :: "auth_status \<times> activity_actor" where
  "visiting_actor = fst (run_state
     (activity_load_actor sample sample_context visitor (Some sample_document) no_actor) start_world)"

lemma sample_actors:
  "fst signed_in_actor = PORTAL_AUTH_AUTHENTICATED" "actor_key (snd signed_in_actor) = ''u:7''"
  "fst visiting_actor = PORTAL_AUTH_ANONYMOUS" "actor_key (snd visiting_actor) = ''a:visitor-0001''"
  unfolding signed_in_actor_def visiting_actor_def
  by (simp_all add: run_simps sample_run cong: later_steps)

lemma actor_keys_distinguish_witness:
  "actor_key (snd signed_in_actor) \<noteq> actor_key (snd visiting_actor) \<and>
   (actor_user_id (fst signed_in_actor) (snd signed_in_actor),
    actor_anonymous (fst signed_in_actor) (snd signed_in_actor)) \<noteq>
   (actor_user_id (fst visiting_actor) (snd visiting_actor),
    actor_anonymous (fst visiting_actor) (snd visiting_actor))"
proof -
  obtain c v where c: "signed_in = Some c" "visitor = Some v" using present by blast
  obtain w where w: "run_state (activity_load_actor sample sample_context (Some c) (Some sample_document)
      no_actor) start_world = ((fst signed_in_actor, snd signed_in_actor), w)"
    unfolding signed_in_actor_def c by (metis prod.collapse)
  obtain w' where w': "run_state (activity_load_actor sample sample_context (Some v) (Some sample_document)
      no_actor) start_world = ((fst visiting_actor, snd visiting_actor), w')"
    unfolding visiting_actor_def c by (metis prod.collapse)
  show ?thesis
    using actor_keys_distinguish [OF w w'] by (simp add: sample_actors)
qed

text \<open>
  C26. Recording an activity. A valid portal key and one of the five event types come first, then the
  actor, then \<open>event_data\<close>, which is an object or absent; the statement gets the actor's columns, the
  texts of the body (empty for an absent one) and the data. The number of the event is the answer.
\<close>

theorem activity_behaviour:
  "emits (portal_http_route_activity E ctx (Some c) json) (activity_outcome E ctx (Some c) json)"
  by (rule emits_activity) simp_all

text \<open>
  C27. Likes. After the content id and the actor, \<open>PUT\<close> needs a valid portal key and stores the like
  with the actor's key; any other method removes the like of this key and needs no portal. A like
  stored or removed is 204 without a body.
\<close>

theorem like_behaviour:
  "emits (portal_http_route_like E ctx (Some c) meth content_id json)
     (like_outcome E ctx (Some c) (meth = ''PUT'') content_id json)"
  by (rule emits_like) simp_all

text \<open>
  C28. Comments. A valid content id, a valid portal key and a body of 1 to 5000 bytes come first,
  then the actor; the one statement stores the comment and its event, and its one row is the id and
  the time in the 201 response.
\<close>

theorem comment_behaviour:
  "emits (portal_http_route_comment E ctx (Some c) content_id json)
     (comment_outcome E ctx (Some c) content_id json)"
  by (rule emits_comment) simp_all

end
