(* ===== verification/Component_Properties.thy ===== *)
theory Component_Properties
  imports Execution
begin

text \<open>
  What the parts below the routes guarantee: the checks on strings, the body of a request and its
  readers, results of the database, the settings, and error responses.
\<close>

section \<open>Request bodies\<close>

text \<open>
  C32. Appending a chunk. From a well-formed body the call either appends the whole chunk, with the
  body well-formed again and at most 1 MiB of content, or leaves the body as it was; it refuses only
  a chunk that would pass 1 MiB, or for want of memory. No byte is written outside the block, no
  size wraps and the doubling loop ends: nothing undefined happens.
\<close>

theorem append_chunk_or_refuse:
  assumes "body_ok b" and "length bytes = unat n"
  shows "emits (portal_http_request_body_append E (Some b) (Some bytes) n) (\<lambda>(ok, p) es.
    \<exists>b'. p = Some b' \<and> body_ok b' \<and> stays_defined es \<and>
      held Heap_Block es = body_blocks b' - body_blocks b \<and>
      (if ok then body_content b' = body_content b @ bytes \<and> length (body_content b') \<le> 1048576
       else b' = b \<and> (1048576 < length (body_content b) + length bytes \<or> \<not> generous E)))"
  by (rule emits_body_append [OF assms]) (use assms(1) in \<open>auto simp: quiet_def\<close>)

lemma append_chunk_or_refuse_witness:
  "emits (portal_http_request_body_append sample (Some new_body) (Some ''hola'') 4) (\<lambda>(ok, p) es.
    \<exists>b'. p = Some b' \<and> body_ok b' \<and> stays_defined es \<and>
      held Heap_Block es = body_blocks b' - body_blocks new_body \<and>
      (if ok then body_content b' = body_content new_body @ ''hola'' \<and> length (body_content b') \<le> 1048576
       else b' = new_body \<and> (1048576 < length (body_content new_body) + length ''hola'' \<or> \<not> generous sample)))"
  using append_chunk_or_refuse [of new_body "''hola''" 4 sample] by simp

text \<open>
  C33. Cutting an upload. With memory to spare it does not matter how the network cuts an upload into
  chunks: two ways of sending the same bytes are both accepted with the same content, or both
  refused, and they are refused exactly when the content would pass 1 MiB.
\<close>

theorem chunking_is_invisible:
  assumes "generous E" and "body_ok b" and "concat chunks = concat chunks'"
    and "list_all (\<lambda>chunk. length chunk < 2 ^ 64) chunks"
    and "list_all (\<lambda>chunk. length chunk < 2 ^ 64) chunks'"
    and "run_state (feed (append_chunk E) (Some b) chunks) w = ((ok, p), v)"
    and "run_state (feed (append_chunk E) (Some b) chunks') w' = ((ok', p'), v')"
  shows "ok = ok' \<and> (ok \<longleftrightarrow> length (body_content b) + length (concat chunks) \<le> 1048576) \<and>
    (ok \<longrightarrow> body_content (the p) = body_content b @ concat chunks \<and>
      body_content (the p') = body_content (the p))"
proof -
  have one: "(ok \<longleftrightarrow> length (body_content b) + length (concat cs) \<le> 1048576) \<and>
      (ok \<longrightarrow> body_content (the p) = body_content b @ concat cs)"
    if cs: "list_all (\<lambda>chunk. length chunk < 2 ^ 64) cs"
      and run: "run_state (feed (append_chunk E) (Some b) cs) w = ((ok, p), v)" for cs ok p w v
  proof -
    have "\<exists>a. Some b = Some a \<and> body_ok a" using assms(2) by simp
    from emits_run [OF buffer.feed_contract [OF this cs, of E] run]
    obtain a where a: "p = Some a" "body_ok a"
      and result: "if ok then body_content (the p) = body_content (the (Some b)) @ concat cs
        else 1048576 < length (body_content (the (Some b))) + length (concat cs) \<or> \<not> generous E"
      unfolding prod.case by blast
    have "length (body_content a) \<le> 1048576"
      using length_body_content [OF a(2)] body_length_le [OF a(2)] by simp
    with a(1) result assms(1) show ?thesis by (cases ok) auto
  qed
  from one [OF assms(4,6)] one [OF assms(5,7)] assms(3) show ?thesis by auto
qed

lemma chunking_is_invisible_witness:
  "\<exists>ok p v ok' p' v'. run_state (feed (append_chunk sample) (Some new_body) [''ho'', ''la'']) start_world = ((ok, p), v) \<and>
    run_state (feed (append_chunk sample) (Some new_body) [''hola'']) start_world = ((ok', p'), v') \<and>
    ok \<and> ok' \<and> body_content (the p) = ''hola'' \<and> body_content (the p') = ''hola''"
proof -
  obtain ok p v where 1: "run_state (feed (append_chunk sample) (Some new_body) [''ho'', ''la'']) start_world =
    ((ok, p), v)" by (metis prod.collapse)
  obtain ok' p' v' where 2: "run_state (feed (append_chunk sample) (Some new_body) [''hola'']) start_world =
    ((ok', p'), v')" by (metis prod.collapse)
  from chunking_is_invisible [OF sample_generous body_ok_new _ _ _ 1 2]
  have "ok \<and> ok' \<and> body_content (the p) = ''hola'' \<and> body_content (the p') = ''hola''" by auto
  with 1 2 show ?thesis by blast
qed

text \<open>
  C34. The doubling loop. For every well-formed body and every chunk the limit admits, the loop that
  doubles the capacity ends, with a capacity that holds the content and its terminator and is at
  most 2 MiB, although sizes are 64-bit words and the loop would not end from a capacity of zero.
\<close>

theorem capacity_growth_ends:
  assumes "body_ok b" and "\<not> n > PORTAL_HTTP_MAX_BODY_SIZE - body_length b"
  shows "\<exists>capacity. grow_capacity (if body_capacity b = 0 then 4096 else body_capacity b)
      (body_length b + n + 1) = Some capacity \<and>
    unat (body_length b) + unat n < unat capacity \<and> unat capacity \<le> 2097152"
proof -
  obtain m where m: "grow_capacity (if body_capacity b = 0 then 4096 else body_capacity b)
      (body_length b + n + 1) = Some (2 ^ m)" "m \<le> 21" "body_length b + n < 2 ^ m"
    using grow_body [OF assms] by metis
  have "unat (2 ^ m :: 64 word) = 2 ^ m" using m(2) by (intro unat_pow2) simp
  moreover have "(2 :: nat) ^ m \<le> 2 ^ 21" using m(2) by (intro power_increasing) auto
  ultimately show ?thesis
    using m append_sizes(2) [OF assms] by (auto simp: word_less_nat_alt)
qed

lemma capacity_growth_ends_witness:
  "\<exists>capacity. grow_capacity 4096 5001 = Some capacity \<and> 5000 < unat capacity \<and> unat capacity \<le> 2097152"
  using capacity_growth_ends [of new_body 5000]
  by (simp add: new_body_def body_ok_def PORTAL_HTTP_MAX_BODY_SIZE_def)

text \<open>
  C35. Parsing the body. The result is a JSON object that covers the whole body up to white space, and
  the caller owns one reference to it; or there is none, nothing is kept, and the body was empty, or
  memory was short, or json-c reported an error, a value that is not an object, or text after it.
\<close>

theorem parse_gives_object:
  assumes "body_ok b"
  shows "emits (portal_http_request_parse_json E (Some b)) (\<lambda>json es. stays_defined es \<and>
    (case json of
       None \<Rightarrow> owns es [] \<and> (body_content b = [] \<or> \<not> generous E \<or> unacceptable E (body_content b))
     | Some j \<Rightarrow> owns es [Json_Reference] \<and> (\<exists>parse_end.
         may_parse E (body_content b) (Some j) True parse_end \<and>
         json_body_ok E (body_content b) (Some j) True parse_end)))"
  by (rule emits_parse_json [OF assms]) (auto simp: quiet_def owns_def released_def)

definition sample_body :: request_body where
  "sample_body = \<lparr>body_data = Some ([CHR 0x7B, CHR 0x7D] @ replicate 4094 (CHR 0x00)),
     body_length = 2, body_capacity = 4096, response_queued = False\<rparr>"

lemma sample_body_simps [simp]:
  "body_ok sample_body" "body_content sample_body = [CHR 0x7B, CHR 0x7D]"
proof -
  have "(4096 :: 64 word) = 2 ^ 12" by simp
  then show "body_ok sample_body"
    unfolding body_ok_def sample_body_def
    by (auto simp: PORTAL_HTTP_MAX_BODY_SIZE_def intro!: exI [of _ 12])
qed (simp add: body_content_def sample_body_def)

lemma parse_gives_object_witness:
  "body_ok sample_body \<and> emits (portal_http_request_parse_json sample (Some sample_body)) (\<lambda>json es.
    \<exists>j. json = Some j \<and> owns es [Json_Reference])"
proof -
  have "\<not> unacceptable sample (body_content sample_body)"
    by (simp add: unacceptable_def may_parse_def json_body_ok_def sample_fields sample_document_def)
  then have "emits (portal_http_request_parse_json sample (Some sample_body)) (\<lambda>json es.
      \<exists>j. json = Some j \<and> owns es [Json_Reference])"
    by (intro emits_mono [OF parse_gives_object]) (auto simp: sample_generous split: option.splits)
  then show ?thesis by simp
qed

text \<open>
  Reading a member. The text is there exactly when the object has the member, it is a string, and
  its part before the first NUL has a length within the bounds; that part is what the caller gets.
  An optional member is a member whose least length is zero, so one that is too long counts as absent.
\<close>

theorem json_string_reads_member:
  "(portal_http_json_string E (Some obj) (Some key) lo hi = Some t \<longleftrightarrow>
      (\<exists>v. jc_field E obj key = Some (Some v) \<and> jc_type E v = json_type_string \<and>
        t = c_str (jc_text E v) \<and> lo \<le> length t \<and> length t \<le> hi)) \<and>
   portal_http_json_optional_string E json name hi = portal_http_json_string E json name 0 hi \<and>
   portal_http_json_string E None name lo hi = None"
  by (simp add: json_string_iff json_optional_eq)

section \<open>Checks on strings\<close>

text \<open>
  C40. Keys. A key is accepted exactly when it is there, has 1 to \<open>maximum_length\<close> bytes, and all of
  them are letters, digits or one of \<open>-\<close>, \<open>_\<close>, \<open>.\<close>, \<open>:\<close>; so no accepted key holds a slash, a quote, a space,
  a control character or a byte above 127.
\<close>

theorem key_accepted_iff:
  "portal_validation_key v m \<longleftrightarrow>
   (\<exists>s. v = Some s \<and> 1 \<le> length s \<and> length s \<le> m \<and>
     (\<forall>c \<in> set s. c_isalnum c \<or> c \<in> {CHR ''-'', CHR ''_'', CHR ''.'', CHR '':''}) \<and>
     {CHR ''/'', CHR 0x27, CHR 0x22, CHR '' '', CHR 0x00} \<inter> set s = {})"
proof -
  have allowed: "key_char c \<longleftrightarrow> c_isalnum c \<or> c \<in> {CHR ''-'', CHR ''_'', CHR ''.'', CHR '':''}" for c
    by (simp add: key_char_def)
  have "\<forall>c \<in> {CHR ''/'', CHR 0x27, CHR 0x22, CHR '' '', CHR 0x00}. \<not> key_char c"
    by (simp add: key_char_def c_isalnum_def c_isdigit_def c_isupper_def c_islower_def)
  moreover have "B \<inter> set s = {}" if "\<forall>c \<in> B. \<not> key_char c" "list_all key_char s" for B s
    using that by (auto simp: list_all_iff)
  moreover have conj_absorbed: "(P \<Longrightarrow> Q) \<Longrightarrow> P = (P \<and> Q)" for P Q
    by blast
  ultimately have "{CHR ''/'', CHR 0x27, CHR 0x22, CHR '' '', CHR 0x00} \<inter> set s = {}"
    if "list_all key_char s" for s
    using that by blast
  then have "list_all key_char s \<longleftrightarrow>
      (\<forall>c \<in> set s. c_isalnum c \<or> c \<in> {CHR ''-'', CHR ''_'', CHR ''.'', CHR '':''}) \<and>
      {CHR ''/'', CHR 0x27, CHR 0x22, CHR '' '', CHR 0x00} \<inter> set s = {}" for s
    unfolding list_all_iff allowed by (rule conj_absorbed)
  note set_of_chars = this
  show ?thesis unfolding key.valid_iff set_of_chars ..
qed

lemma key_accepted_iff_witness:
  "portal_validation_key (Some ''mi-portal'') 120 \<and> \<not> portal_validation_key (Some ''../x'') 120 \<and>
   \<not> portal_validation_key (Some ''mi-portal'') 8"
  by (simp add: key_accepted_iff c_isalnum_def c_isdigit_def c_isupper_def c_islower_def)

text \<open>
  Emails. An address is accepted exactly when it has 5 to 254 bytes, no space, something before
  its first at sign and a dot somewhere after it.
\<close>

theorem email_accepted_iff:
  "portal_validation_email (Some (c_str s)) \<longleftrightarrow>
   5 \<le> length (c_str s) \<and> length (c_str s) \<le> 254 \<and> CHR '' '' \<notin> set (c_str s) \<and>
   (\<exists>user host. c_str s = user @ CHR ''@'' # host \<and> CHR ''@'' \<notin> set user \<and> user \<noteq> [] \<and> CHR ''.'' \<in> set host)"
  by (auto simp: email_iff c_str_no_nul email_shape_def)

text \<open>
  Copying in lower case. The call writes only inside the buffer: with room for the text and its
  terminator the buffer then starts with the text in lower case and the terminator and is otherwise
  unchanged, without room nothing is written and the result is false.
\<close>

theorem lowercase_copy_result:
  "portal_validation_lowercase_copy (Some target) (length target) (Some s) =
   (if length s < length target
    then Some (True, Some (map c_tolower s @ CHR 0x00 # drop (Suc (length s)) target))
    else Some (False, Some target))"
  by (simp add: lowercase_copy_fits lowercase_copy_too_long)

section \<open>Results of the database\<close>

text \<open>
  Reading a cell. For a result as libpq documents it, the value is the cell of exactly this row
  and column when both are inside the table, whatever the 64-bit arguments are, and null otherwise:
  the conversions between \<open>int\<close> and \<open>size_t\<close> never reach another cell.
\<close>

theorem result_value_in_table:
  assumes "result_table_ok r"
  shows "portal_database_result_value (Some \<lparr>db_result = Some r\<rparr>) row column =
    (if int row < pq_ntuples r \<and> int column < pq_nfields r then pq_cell r (int row) (int column) else None)"
  using assms by (rule result_value_cell)

lemma result_value_in_table_witness:
  "portal_database_result_value (Some \<lparr>db_result = Some (sample_answer auth_query)\<rparr>) 0 1 = Some ''7'' \<and>
   portal_database_result_value (Some \<lparr>db_result = Some (sample_answer auth_query)\<rparr>) 4294967296 0 = None"
proof -
  have "result_table_ok (sample_answer auth_query)"
    by (simp add: result_table_ok_def sample_answer_def sample_columns_simps)
  from result_value_in_table [OF this] show ?thesis
    by (simp add: sample_answer_def sample_columns_simps)
qed

text \<open>
  Running a statement. The caller gets a result it owns, with one statement sent for the text and
  the parameters given, or null with nothing left allocated; the statement is left out only without a
  connection or memory, and a null result stands for no answer at all.
\<close>

theorem query_contract:
  assumes "length texts \<le> INT_MAX"
  shows "emits (portal_database_query E database (Some command) (length texts) texts) (\<lambda>handle es.
    (handle = None \<or> Option.bind handle db_result \<noteq> None) \<and>
    statement_outcome (database_available E database) (database_may_answer E database command texts)
      command texts (Option.bind handle db_result) es)"
  using db.run_query_contract [of "length texts" texts E database command] assms by simp

lemma query_contract_witness:
  "emits (portal_database_query sample (Some sample_database) (Some logout_query) 1 [Some sample_token])
    (\<lambda>handle es. length (sqls es) = 1)"
proof -
  have "database_available sample (Some sample_database)"
    by (simp add: database_available_def sample_generous sample_database_def)
  then have "emits (portal_database_query sample (Some sample_database) (Some logout_query)
      (length [Some sample_token]) [Some sample_token]) (\<lambda>handle es. length (sqls es) = 1)"
    by (intro emits_mono [OF query_contract])
      (auto simp: INT_MAX_def statement_outcome_def split: option.splits)
  then show ?thesis by simp
qed

section \<open>Settings\<close>

text \<open>
  C39. The configuration. Creation gives a configuration whose every field is in its documented range
  and whose connection string is an owned copy of \<open>DATABASE_URL\<close>, in two heap blocks; or nothing, with
  nothing left allocated, and then \<open>DATABASE_URL\<close> was missing or empty or memory was short.
\<close>

theorem configuration_created:
  "emits (portal_config_create_from_environment E) (\<lambda>config es. quiet es \<and>
    (case config of
       None \<Rightarrow> owns es [] \<and> (os_getenv E ''DATABASE_URL'' \<in> {None, Some []} \<or> \<not> generous E)
     | Some c \<Rightarrow> owns es [Heap_Block, Heap_Block] \<and> config_ok E c))"
  by (intro emits_config_create) simp_all

lemma configuration_created_witness:
  "emits (portal_config_create_from_environment sample) (\<lambda>config es.
    \<exists>c. config = Some c \<and> config_ok sample c \<and> owns es [Heap_Block, Heap_Block])"
proof -
  have "sample_environment ''DATABASE_URL'' = Some ''postgresql://localhost/portal''" by code_simp
  then show ?thesis
    by (intro emits_mono [OF configuration_created])
      (auto simp: sample_fields sample_generous split: option.splits)
qed

lemma digit_chars:
  "digit_char 0 = CHR ''0''" "digit_char (Suc 0) = CHR ''1''" "digit_char 2 = CHR ''2''"
  "digit_char 3 = CHR ''3''" "digit_char 4 = CHR ''4''" "digit_char 5 = CHR ''5''"
  "digit_char 6 = CHR ''6''" "digit_char 7 = CHR ''7''" "digit_char 8 = CHR ''8''"
  "digit_char 9 = CHR ''9''"
  by code_simp+

text \<open>
  A number as an administrator writes it. A decimal number within the range is the setting,
  without a message.
\<close>

theorem decimal_setting_read_back:
  assumes "os_getenv E name = Some (decimal n)" and "unat minimum \<le> n" and "n \<le> unat maximum"
  shows "run_state (config_parse_integer E name fallback minimum maximum) w = (of_nat n, w)"
  using assms by (rule parse_integer_decimal)

lemma decimal_setting_read_back_witness:
  "run_state (config_parse_integer sample ''PORT'' 8080 1 65535) start_world = (9090, start_world)"
proof -
  have "decimal 9090 = ''9090''" by (simp add: decimal.simps digit_chars)
  moreover have "sample_environment ''PORT'' = Some ''9090''" by code_simp
  ultimately show ?thesis
    using decimal_setting_read_back [of sample "''PORT''" 9090 1 65535 8080 start_world]
    by (simp add: sample_fields)
qed

text \<open>
  A negative number is not refused. \<open>strtoul\<close> takes a minus sign and negates modulo 2 to the 64, so
  the text of a negative number just above the negative end of the range of \<open>unsigned long\<close> is read as
  a small positive setting, without the message for an invalid value.
\<close>

theorem negative_text_accepted:
  assumes "os_getenv E name = Some (CHR ''-'' # decimal (2 ^ 64 - n))"
    and "0 < n" and "unat minimum \<le> n" and "n \<le> unat maximum"
  shows "run_state (config_parse_integer E name fallback minimum maximum) w = (of_nat n, w)"
proof -
  have n: "n < 2 ^ 32" using assms(4) unat_bound [of maximum] by simp
  let ?m = "2 ^ 64 - n"
  have "(of_nat n :: 64 word) + of_nat ?m = of_nat (2 ^ 64)"
    using n by (subst of_nat_add [symmetric]) simp
  then have "(of_nat n :: 64 word) + of_nat ?m = 0" by simp
  then have minus: "- (of_nat ?m :: 64 word) = of_nat n" by (metis minus_unique add.commute)
  have strtoul: "c_strtoul (CHR ''-'' # decimal ?m) = (of_nat n, [], False)"
    using assms(2) minus by (simp add: c_strtoul_def skip_space_def take_sign_def c_isspace_def Let_def)
  have "unat (of_nat n :: 64 word) = n" using n by (simp add: unat_of_nat)
  then have "\<not> (of_nat n :: 64 word) < ucast minimum" "\<not> (of_nat n :: 64 word) > ucast maximum"
    using assms(3,4) by (simp_all add: word_less_nat_alt)
  moreover have "(ucast (of_nat n :: 64 word) :: 32 word) = of_nat n"
    using n by (simp add: word_eq_iff_unsigned unsigned_of_nat unsigned_ucast_eq take_bit_nat_eq_self)
  ultimately show ?thesis
    unfolding config_parse_integer_def assms(1) option.case strtoul by simp
qed

lemma negative_text_accepted_witness:
  "run_state (config_parse_integer (sample\<lparr>os_getenv := \<lambda>_. Some ''-18446744073709543616''\<rparr>) ''PORT'' 8080 1 65535)
    start_world = (8000, start_world)"
proof -
  have "decimal 18446744073709543616 = ''18446744073709543616''"
    by (simp add: decimal.simps digit_chars)
  then show ?thesis
    using negative_text_accepted [of "sample\<lparr>os_getenv := \<lambda>_. Some ''-18446744073709543616''\<rparr>" "''PORT''"
        8000 1 65535 8080 start_world] by simp
qed

text \<open>
  A truth value. A variable with a text in it is true exactly for \<open>1\<close> and for \<open>true\<close> and \<open>yes\<close> in
  any mixture of cases, whatever the fallback; an unset or empty one gives the fallback.
\<close>

theorem boolean_setting:
  assumes "os_getenv E name = Some v" and "CHR 0x00 \<notin> set v" and "os_getenv E unset \<in> {None, Some []}"
  shows "config_parse_boolean E unset fallback = fallback \<and>
    (v \<noteq> [] \<longrightarrow> config_parse_boolean E name fallback =
      (map c_tolower v \<in> {''1'', ''true'', ''yes''}))"
proof -
  have one: "map c_tolower v = ''1'' \<longleftrightarrow> v = ''1''"
  proof
    assume "map c_tolower v = ''1''"
    then obtain c where c: "v = [c]" "c_tolower c = CHR ''1''" by auto
    then have "code (c_tolower c) = code (CHR ''1'')" by simp
    then have "code c = code (CHR ''1'')" by (auto simp: code_tolower c_isupper_def split: if_splits)
    with c(1) show "v = ''1''" by (simp only: code_eq_iff)
  qed (simp add: c_tolower_def c_isupper_def)
  have lower: "map c_tolower ''true'' = ''true''" "map c_tolower ''yes'' = ''yes''"
    by (simp_all add: c_tolower_def c_isupper_def)
  have "config_ascii_equals_ignore_case (Some v) (Some ''true'') \<longleftrightarrow> map c_tolower v = ''true''"
    "config_ascii_equals_ignore_case (Some v) (Some ''yes'') \<longleftrightarrow> map c_tolower v = ''yes''"
    using ascii_equals_loop_iff [OF assms(2), of "''true''"] ascii_equals_loop_iff [OF assms(2), of "''yes''"]
    unfolding lower by (simp_all add: config_ascii_equals_ignore_case_def)
  then show ?thesis
    using assms(1,3) one by (auto simp: config_parse_boolean_def)
qed

lemma boolean_setting_witness:
  "config_parse_boolean sample ''EXPOSE_CONFIRMATION_TOKEN'' False \<and>
   \<not> config_parse_boolean sample ''VERBOSE'' False"
proof -
  have "os_getenv sample ''EXPOSE_CONFIRMATION_TOKEN'' = Some ''TRUE''" "os_getenv sample ''VERBOSE'' = None"
    by (simp_all add: sample_fields) code_simp+
  moreover have "map c_tolower ''TRUE'' = ''true''" by code_simp
  ultimately show ?thesis
    using boolean_setting [of sample "''EXPOSE_CONFIRMATION_TOKEN''" "''TRUE''" "''VERBOSE''" False] by simp
qed

section \<open>Ranges of the analytics\<close>

text \<open>
  A number of a query string. Whatever the client sends, an accepted number is within its range,
  and an absent one is the fallback; every number of the range is accepted in decimal.
\<close>

theorem query_number_in_range:
  assumes "minimum \<le> fallback" and "fallback \<le> maximum" and "maximum < 2 ^ 63"
  shows "(\<forall>text number. analytics_parse_range text fallback minimum maximum (Some before) = (True, number) \<longrightarrow>
      (\<exists>i. number = Some i \<and> minimum \<le> i \<and> i \<le> maximum \<and> (text = None \<longrightarrow> i = fallback))) \<and>
    (\<forall>n. minimum \<le> int n \<and> int n \<le> maximum \<longrightarrow>
      analytics_parse_range (Some (decimal n)) fallback minimum maximum (Some before) = (True, Some (int n)))"
proof (intro conjI allI impI)
  fix t number
  assume "analytics_parse_range t fallback minimum maximum (Some before) = (True, number)"
  then show "\<exists>i. number = Some i \<and> minimum \<le> i \<and> i \<le> maximum \<and> (t = None \<longrightarrow> i = fallback)"
    using assms(1,2)
    by (auto simp: analytics_parse_range_def split: option.splits prod.splits if_splits)
next
  fix n
  assume n: "minimum \<le> int n \<and> int n \<le> maximum"
  with assms(3) have "n < 2 ^ 63" by simp
  with n show "analytics_parse_range (Some (decimal n)) fallback minimum maximum (Some before) =
      (True, Some (int n))"
    by (simp add: analytics_parse_range_def c_strtol_decimal)
qed

lemma query_number_in_range_witness:
  "analytics_parse_range (Some ''30'') 7 1 365 (Some 7) = (True, Some 30) \<and>
   fst (analytics_parse_range (Some ''366'') 7 1 365 (Some 7)) = False"
proof -
  have shown: "decimal 30 = ''30''" "decimal 366 = ''366''" by (simp_all add: decimal.simps digit_chars)
  note fact = query_number_in_range [of 1 7 365 7, simplified]
  have "analytics_parse_range (Some (decimal 30)) 7 1 365 (Some 7) = (True, Some 30)"
    using fact by simp
  moreover have "fst (analytics_parse_range (Some (decimal 366)) 7 1 365 (Some 7)) = False"
    by (simp add: analytics_parse_range_def c_strtol_decimal)
  ultimately show ?thesis by (simp add: shown)
qed

section \<open>Error responses\<close>

text \<open>
  An error response. With memory to spare the client of an open connection gets exactly one
  response, with the status given and the print of the object of the code and the message, in this
  order, and nothing stays allocated.
\<close>

theorem error_response_sent:
  assumes "generous E"
  shows "emits (portal_http_response_error E (Some c) status (Some ecode) (Some message)) (\<lambda>result es.
    responses es = [(status, jc_print E (full_object E
      [(''error'', jc_string E ecode), (''message'', jc_string E message)]), MHD_YES)] \<and>
    result = MHD_YES \<and> owns es [] \<and> sqls es = [])"
  by (rule error.reply_rule)
    (use assms in \<open>auto simp: replies_def error_body_def prints_entries_generous settled_def released_def owns_def\<close>)

lemma error_response_sent_witness:
  "emits (portal_http_response_error sample visitor 404 (Some ''not_found'') (Some ''Route not found.''))
    (\<lambda>result es. responses es = [(404, ''error:not_found;message:Route not found.;'', MHD_YES)])"
proof -
  obtain c where c: "visitor = Some c" using present by blast
  have "jc_print sample (full_object sample [(''error'', jc_string sample ''not_found''),
      (''message'', jc_string sample ''Route not found.'')]) = ''error:not_found;message:Route not found.;''"
    by (simp add: full_object_def sample_fields)
  then show ?thesis
    unfolding c by (intro emits_mono [OF error_response_sent [OF sample_generous]]) simp
qed

end
