(* ===== verification/Store.thy ===== *)
theory Store
  imports Statements "HOL-Library.Multiset"
begin

text \<open>
  The tables of \<^verbatim>\<open>src/db/init.sql\<close> and what the statements of \<^verbatim>\<open>src/src/http/\<close> do to them: one
  function per statement, read off its SQL text and the constraints of its tables. What PostgreSQL
  itself computes (casts, \<open>lower\<close>, \<open>char_length\<close>, \<open>crypt\<close>, the text of a time, the collation) are
  the fields of \<open>postgres\<close>; what it draws for a statement (the time, fresh UUIDs and numbers, a salt)
  is a \<open>draw\<close>. Times are in seconds. The columns that no statement reads (\<^verbatim>\<open>created_at\<close> of most tables,
  \<^verbatim>\<open>updated_at\<close>, \<^verbatim>\<open>last_seen_at\<close>, \<^verbatim>\<open>received_at\<close>) are left out.
\<close>

record postgres =
  pg_uuid :: "string \<Rightarrow> string option"
  pg_lower :: "string \<Rightarrow> string"
  pg_char_length :: "string \<Rightarrow> nat"
  pg_crypt :: "string \<Rightarrow> string \<Rightarrow> string"
  pg_time_text :: "int \<Rightarrow> string"
  pg_jsonb :: "string \<Rightarrow> string option"
  pg_before :: "string \<Rightarrow> string \<Rightarrow> bool"

record draw =
  draw_time :: int
  draw_id :: string
  draw_token :: string
  draw_number :: int
  draw_salt :: string

section \<open>The tables\<close>

record user_row =
  user_row_id :: string
  account_email :: string
  display_name :: string
  password_hash :: string
  confirmed_at :: "int option"

record confirmation_row =
  confirmation_token :: string
  confirmation_user :: string
  confirmation_expires :: int
  consumed_at :: "int option"

record session_row =
  session_token :: string
  session_owner :: string
  session_expires :: int
  revoked_at :: "int option"

record event_row =
  event_id :: int
  event_user :: "string option"
  event_anonymous :: "string option"
  event_portal :: string
  event_kind :: string
  event_content :: "string option"
  event_component :: "string option"
  event_page :: "string option"
  event_json :: string
  occurred_at :: int

record like_row =
  like_content :: string
  like_user :: "string option"
  like_anonymous :: "string option"
  like_actor :: string

record comment_row =
  comment_id :: string
  comment_content :: string
  comment_user :: "string option"
  comment_anonymous :: "string option"
  comment_author :: "string option"
  comment_text :: string
  comment_created :: int

record store =
  clock :: int
  users :: "user_row list"
  confirmation_tokens :: "confirmation_row list"
  auth_sessions :: "session_row list"
  favorite_sections :: "(string \<times> string) list"
  favorite_tags :: "(string \<times> string) list"
  activity_events :: "event_row list"
  content_likes :: "like_row list"
  comments :: "comment_row list"

subsection \<open>The \<open>CHECK\<close> constraints\<close>

definition users_check :: "postgres \<Rightarrow> user_row \<Rightarrow> bool" where
  "users_check P u \<longleftrightarrow> account_email u = pg_lower P (account_email u) \<and>
     1 \<le> pg_char_length P (display_name u) \<and> pg_char_length P (display_name u) \<le> 100"

definition favorite_key_check :: "postgres \<Rightarrow> string \<Rightarrow> bool" where
  "favorite_key_check P key \<longleftrightarrow> 1 \<le> pg_char_length P key \<and> pg_char_length P key \<le> 160"

definition activity_check :: "postgres \<Rightarrow> event_row \<Rightarrow> bool" where
  "activity_check P e \<longleftrightarrow>
     (event_user e \<noteq> None \<or> event_anonymous e \<noteq> None) \<and>
     1 \<le> pg_char_length P (event_portal e) \<and> pg_char_length P (event_portal e) \<le> 120 \<and>
     event_kind e \<in> {''page_view'', ''content_view'', ''component_click'', ''like'', ''comment''} \<and>
     (case event_anonymous e of None \<Rightarrow> True
      | Some a \<Rightarrow> 8 \<le> pg_char_length P a \<and> pg_char_length P a \<le> 200)"

definition likes_check :: "like_row \<Rightarrow> bool" where
  "likes_check l \<longleftrightarrow> like_user l \<noteq> None \<or> like_anonymous l \<noteq> None"

definition comments_check :: "postgres \<Rightarrow> comment_row \<Rightarrow> bool" where
  "comments_check P c \<longleftrightarrow>
     (comment_user c \<noteq> None \<or> comment_anonymous c \<noteq> None) \<and>
     1 \<le> pg_char_length P (comment_text c) \<and> pg_char_length P (comment_text c) \<le> 5000"

text \<open>The foreign keys to \<open>users\<close>; a null reference is allowed.\<close>

definition user_exists :: "store \<Rightarrow> string option \<Rightarrow> bool" where
  "user_exists d uid = (case uid of None \<Rightarrow> True | Some i \<Rightarrow> list_ex (\<lambda>u. user_row_id u = i) (users d))"

section \<open>The statements\<close>

text \<open>Rows, the completion of a command, or an error with its SQLSTATE; an error changes nothing.\<close>

datatype sql_outcome = Rows "string list list" | Command_Done | Failed string

text \<open>\<open>NULLIF($n, '')\<close>, and its cast to a UUID: \<^term>\<open>None\<close> when the text is not one.\<close>

definition nullif :: "string \<Rightarrow> string option" where
  "nullif s = (if s = [] then None else Some s)"

definition nullable_uuid :: "postgres \<Rightarrow> string \<Rightarrow> string option option" where
  "nullable_uuid P s = (case nullif s of None \<Rightarrow> Some None | Some t \<Rightarrow> map_option Some (pg_uuid P t))"

text \<open>\<open>$n::int\<close>.\<close>

definition sql_int :: "string \<Rightarrow> int option" where
  "sql_int s = (case c_strtol s of (n, rest, range_error) \<Rightarrow>
     if range_error \<or> rest = s \<or> rest \<noteq> [] \<or> n < - (2 ^ 31) \<or> 2 ^ 31 \<le> n then None else Some n)"

text \<open>\<open>ORDER BY\<close>: insertion into a sorted list.\<close>

fun insert_by :: "('a \<Rightarrow> 'a \<Rightarrow> bool) \<Rightarrow> 'a \<Rightarrow> 'a list \<Rightarrow> 'a list" where
  "insert_by before x [] = [x]"
| "insert_by before x (y # ys) = (if before x y then x # y # ys else y # insert_by before x ys)"

definition order_by :: "('a \<Rightarrow> 'a \<Rightarrow> bool) \<Rightarrow> 'a list \<Rightarrow> 'a list" where
  "order_by before xs = foldr (insert_by before) xs []"

lemma mset_insert_by [simp]: "mset (insert_by before x ys) = add_mset x (mset ys)"
  by (induction ys) auto

lemma mset_order_by [simp]: "mset (order_by before xs) = mset xs"
  by (induction xs) (auto simp: order_by_def)

lemma set_order_by [simp]: "set (order_by before xs) = set xs"
  by (metis mset_order_by set_mset_mset)

lemma length_order_by [simp]: "length (order_by before xs) = length xs"
  by (metis mset_order_by size_mset)

subsection \<open>\<^verbatim>\<open>authentication.c\<close> and \<^verbatim>\<open>routes/auth.c\<close>\<close>

definition session_valid :: "int \<Rightarrow> string \<Rightarrow> session_row \<Rightarrow> user_row \<Rightarrow> bool" where
  "session_valid now token s u \<longleftrightarrow>
     user_row_id u = session_owner s \<and> session_token s = token \<and> revoked_at s = None \<and>
     session_expires s > now \<and> confirmed_at u \<noteq> None"

fun sql_auth :: "postgres \<Rightarrow> draw \<Rightarrow> store \<Rightarrow> string list \<Rightarrow> sql_outcome \<times> store" where
  "sql_auth P r d [token] =
     (case pg_uuid P token of
        None \<Rightarrow> (Failed ''22P02'', d)
      | Some t \<Rightarrow> (Rows (map (\<lambda>(s, u). [user_row_id u, account_email u])
          (filter (\<lambda>(s, u). session_valid (clock d) t s u) (List.product (auth_sessions d) (users d)))), d))"
| "sql_auth P r d _ = (Failed ''08P01'', d)"

fun sql_register :: "postgres \<Rightarrow> draw \<Rightarrow> store \<Rightarrow> string list \<Rightarrow> sql_outcome \<times> store" where
  "sql_register P r d [email, password, name, ttl] =
     (let user = \<lparr>user_row_id = draw_id r, account_email = email, display_name = name,
            password_hash = pg_crypt P password (draw_salt r), confirmed_at = None\<rparr>
      in case sql_int ttl of
        None \<Rightarrow> (Failed ''22P02'', d)
      | Some hours \<Rightarrow>
          if \<not> users_check P user then (Failed ''23514'', d)
          else if list_ex (\<lambda>u. account_email u = email) (users d) then (Failed ''23505'', d)
          else
            let expires = clock d + hours * 3600
            in (Rows [[draw_token r, pg_time_text P expires]],
              d\<lparr>users := users d @ [user],
                confirmation_tokens := confirmation_tokens d @
                  [\<lparr>confirmation_token = draw_token r, confirmation_user = draw_id r,
                    confirmation_expires = expires, consumed_at = None\<rparr>]\<rparr>))"
| "sql_register P r d _ = (Failed ''08P01'', d)"

definition consumable :: "int \<Rightarrow> string \<Rightarrow> confirmation_row \<Rightarrow> bool" where
  "consumable now token c \<longleftrightarrow>
     confirmation_token c = token \<and> consumed_at c = None \<and> confirmation_expires c > now"

fun sql_confirm :: "postgres \<Rightarrow> draw \<Rightarrow> store \<Rightarrow> string list \<Rightarrow> sql_outcome \<times> store" where
  "sql_confirm P r d [token] =
     (case pg_uuid P token of
        None \<Rightarrow> (Failed ''22P02'', d)
      | Some t \<Rightarrow>
          let owners = map confirmation_user (filter (consumable (clock d) t) (confirmation_tokens d));
              confirmed = (\<lambda>u. user_row_id u \<in> set owners)
          in (Rows (map (\<lambda>u. [user_row_id u]) (filter confirmed (users d))),
            d\<lparr>confirmation_tokens := map (\<lambda>c. if consumable (clock d) t c
                  then c\<lparr>consumed_at := Some (clock d)\<rparr> else c) (confirmation_tokens d),
              users := map (\<lambda>u. if confirmed u \<and> confirmed_at u = None
                  then u\<lparr>confirmed_at := Some (clock d)\<rparr> else u) (users d)\<rparr>))"
| "sql_confirm P r d _ = (Failed ''08P01'', d)"

text \<open>\<open>users_email_unique\<close> leaves one candidate at most, so one session is inserted at most.\<close>

definition login_candidate :: "postgres \<Rightarrow> string \<Rightarrow> string \<Rightarrow> user_row \<Rightarrow> bool" where
  "login_candidate P email password u \<longleftrightarrow>
     account_email u = email \<and> confirmed_at u \<noteq> None \<and>
     password_hash u = pg_crypt P password (password_hash u)"

fun sql_login :: "postgres \<Rightarrow> draw \<Rightarrow> store \<Rightarrow> string list \<Rightarrow> sql_outcome \<times> store" where
  "sql_login P r d [email, password, ttl] =
     (case (sql_int ttl, filter (login_candidate P email password) (users d)) of
        (None, _) \<Rightarrow> (Failed ''22P02'', d)
      | (Some hours, []) \<Rightarrow> (Rows [], d)
      | (Some hours, u # _) \<Rightarrow>
          let expires = clock d + hours * 3600
          in (Rows [[draw_token r, pg_time_text P expires]],
            d\<lparr>auth_sessions := auth_sessions d @
                [\<lparr>session_token = draw_token r, session_owner = user_row_id u,
                  session_expires = expires, revoked_at = None\<rparr>]\<rparr>))"
| "sql_login P r d _ = (Failed ''08P01'', d)"

fun sql_logout :: "postgres \<Rightarrow> draw \<Rightarrow> store \<Rightarrow> string list \<Rightarrow> sql_outcome \<times> store" where
  "sql_logout P r d [token] =
     (case pg_uuid P token of
        None \<Rightarrow> (Failed ''22P02'', d)
      | Some t \<Rightarrow> (Command_Done,
          d\<lparr>auth_sessions := map (\<lambda>s. if session_token s = t \<and> revoked_at s = None
              then s\<lparr>revoked_at := Some (clock d)\<rparr> else s) (auth_sessions d)\<rparr>))"
| "sql_logout P r d _ = (Failed ''08P01'', d)"

subsection \<open>\<^verbatim>\<open>routes/favorites.c\<close>\<close>

text \<open>The two favourite tables have the same shape: the rows of one as a list of pairs.\<close>

definition favorite_keys :: "postgres \<Rightarrow> (string \<times> string) list \<Rightarrow> string \<Rightarrow> string list" where
  "favorite_keys P table uid = order_by (pg_before P) (map snd (filter (\<lambda>(u, _). u = uid) table))"

text \<open>\<open>INSERT ... ON CONFLICT DO NOTHING\<close>: \<^term>\<open>Inl\<close> the SQLSTATE, or the table.\<close>

definition favorite_added ::
  "postgres \<Rightarrow> store \<Rightarrow> (string \<times> string) list \<Rightarrow> string \<Rightarrow> string \<Rightarrow> string + (string \<times> string) list" where
  "favorite_added P d table uid key =
     (if \<not> favorite_key_check P key then Inl ''23514''
      else if (uid, key) \<in> set table then Inr table
      else if \<not> user_exists d (Some uid) then Inl ''23503''
      else Inr (table @ [(uid, key)]))"

definition favorite_removed :: "(string \<times> string) list \<Rightarrow> string \<Rightarrow> string \<Rightarrow> (string \<times> string) list" where
  "favorite_removed table uid key = filter (\<lambda>row. row \<noteq> (uid, key)) table"

fun sql_tag_list :: "postgres \<Rightarrow> draw \<Rightarrow> store \<Rightarrow> string list \<Rightarrow> sql_outcome \<times> store" where
  "sql_tag_list P r d [uid] =
     (case pg_uuid P uid of
        None \<Rightarrow> (Failed ''22P02'', d)
      | Some i \<Rightarrow> (Rows (map (\<lambda>k. [k]) (favorite_keys P (favorite_tags d) i)), d))"
| "sql_tag_list P r d _ = (Failed ''08P01'', d)"

fun sql_section_list :: "postgres \<Rightarrow> draw \<Rightarrow> store \<Rightarrow> string list \<Rightarrow> sql_outcome \<times> store" where
  "sql_section_list P r d [uid] =
     (case pg_uuid P uid of
        None \<Rightarrow> (Failed ''22P02'', d)
      | Some i \<Rightarrow> (Rows (map (\<lambda>k. [k]) (favorite_keys P (favorite_sections d) i)), d))"
| "sql_section_list P r d _ = (Failed ''08P01'', d)"

fun sql_tag_insert :: "postgres \<Rightarrow> draw \<Rightarrow> store \<Rightarrow> string list \<Rightarrow> sql_outcome \<times> store" where
  "sql_tag_insert P r d [uid, key] =
     (case pg_uuid P uid of
        None \<Rightarrow> (Failed ''22P02'', d)
      | Some i \<Rightarrow> (case favorite_added P d (favorite_tags d) i key of
            Inl broken \<Rightarrow> (Failed broken, d)
          | Inr rows \<Rightarrow> (Command_Done, d\<lparr>favorite_tags := rows\<rparr>)))"
| "sql_tag_insert P r d _ = (Failed ''08P01'', d)"

fun sql_section_insert :: "postgres \<Rightarrow> draw \<Rightarrow> store \<Rightarrow> string list \<Rightarrow> sql_outcome \<times> store" where
  "sql_section_insert P r d [uid, key] =
     (case pg_uuid P uid of
        None \<Rightarrow> (Failed ''22P02'', d)
      | Some i \<Rightarrow> (case favorite_added P d (favorite_sections d) i key of
            Inl broken \<Rightarrow> (Failed broken, d)
          | Inr rows \<Rightarrow> (Command_Done, d\<lparr>favorite_sections := rows\<rparr>)))"
| "sql_section_insert P r d _ = (Failed ''08P01'', d)"

fun sql_tag_delete :: "postgres \<Rightarrow> draw \<Rightarrow> store \<Rightarrow> string list \<Rightarrow> sql_outcome \<times> store" where
  "sql_tag_delete P r d [uid, key] =
     (case pg_uuid P uid of
        None \<Rightarrow> (Failed ''22P02'', d)
      | Some i \<Rightarrow> (Command_Done, d\<lparr>favorite_tags := favorite_removed (favorite_tags d) i key\<rparr>))"
| "sql_tag_delete P r d _ = (Failed ''08P01'', d)"

fun sql_section_delete :: "postgres \<Rightarrow> draw \<Rightarrow> store \<Rightarrow> string list \<Rightarrow> sql_outcome \<times> store" where
  "sql_section_delete P r d [uid, key] =
     (case pg_uuid P uid of
        None \<Rightarrow> (Failed ''22P02'', d)
      | Some i \<Rightarrow> (Command_Done, d\<lparr>favorite_sections := favorite_removed (favorite_sections d) i key\<rparr>))"
| "sql_section_delete P r d _ = (Failed ''08P01'', d)"

subsection \<open>\<^verbatim>\<open>routes/activity.c\<close>\<close>

text \<open>One more row of \<open>activity_events\<close>, or the SQLSTATE of the constraint it breaks.\<close>

definition event_inserted :: "postgres \<Rightarrow> store \<Rightarrow> event_row \<Rightarrow> string + store" where
  "event_inserted P d e =
     (if \<not> activity_check P e then Inl ''23514''
      else if \<not> user_exists d (event_user e) then Inl ''23503''
      else Inr (d\<lparr>activity_events := activity_events d @ [e]\<rparr>))"

fun sql_activity :: "postgres \<Rightarrow> draw \<Rightarrow> store \<Rightarrow> string list \<Rightarrow> sql_outcome \<times> store" where
  "sql_activity P r d [user, anonymous, portal, kind, content, component, page, event_data] =
     (case (nullable_uuid P user, pg_jsonb P event_data) of
        (Some uid, Some json) \<Rightarrow>
          (case event_inserted P d
              \<lparr>event_id = draw_number r, event_user = uid, event_anonymous = nullif anonymous,
               event_portal = portal, event_kind = kind, event_content = nullif content,
               event_component = nullif component, event_page = nullif page, event_json = json,
               occurred_at = clock d\<rparr> of
             Inl broken \<Rightarrow> (Failed broken, d)
           | Inr d' \<Rightarrow> (Rows [[signed_decimal (draw_number r)]], d'))
      | _ \<Rightarrow> (Failed ''22P02'', d))"
| "sql_activity P r d _ = (Failed ''08P01'', d)"

text \<open>The event a like or a comment leaves: the other columns have their defaults.\<close>

definition plain_event ::
  "draw \<Rightarrow> store \<Rightarrow> string option \<Rightarrow> string option \<Rightarrow> string \<Rightarrow> string \<Rightarrow> string \<Rightarrow> event_row" where
  "plain_event r d uid anonymous portal kind content =
     \<lparr>event_id = draw_number r, event_user = uid, event_anonymous = anonymous, event_portal = portal,
      event_kind = kind, event_content = Some content, event_component = None, event_page = None,
      event_json = [CHR 0x7B, CHR 0x7D], occurred_at = clock d\<rparr>"

definition liked :: "store \<Rightarrow> string \<Rightarrow> string \<Rightarrow> bool" where
  "liked d content actor \<longleftrightarrow>
     list_ex (\<lambda>l. like_content l = content \<and> like_actor l = actor) (content_likes d)"

fun sql_like_insert :: "postgres \<Rightarrow> draw \<Rightarrow> store \<Rightarrow> string list \<Rightarrow> sql_outcome \<times> store" where
  "sql_like_insert P r d [content, user, anonymous, actor, portal] =
     (case nullable_uuid P user of
        None \<Rightarrow> (Failed ''22P02'', d)
      | Some uid \<Rightarrow>
          let row = \<lparr>like_content = content, like_user = uid, like_anonymous = nullif anonymous,
                like_actor = actor\<rparr>
          in if \<not> likes_check row then (Failed ''23514'', d)
             else if liked d content actor then (Rows [], d)
             else (case event_inserted P d
                 (plain_event r d uid (nullif anonymous) portal ''like'' content) of
                Inl broken \<Rightarrow> (Failed broken, d)
              | Inr d' \<Rightarrow> (Rows [[signed_decimal (draw_number r)]],
                  d'\<lparr>content_likes := content_likes d' @ [row]\<rparr>)))"
| "sql_like_insert P r d _ = (Failed ''08P01'', d)"

fun sql_like_delete :: "postgres \<Rightarrow> draw \<Rightarrow> store \<Rightarrow> string list \<Rightarrow> sql_outcome \<times> store" where
  "sql_like_delete P r d [content, actor] =
     (Command_Done, d\<lparr>content_likes :=
        filter (\<lambda>l. \<not> (like_content l = content \<and> like_actor l = actor)) (content_likes d)\<rparr>)"
| "sql_like_delete P r d _ = (Failed ''08P01'', d)"

fun sql_comment :: "postgres \<Rightarrow> draw \<Rightarrow> store \<Rightarrow> string list \<Rightarrow> sql_outcome \<times> store" where
  "sql_comment P r d [content, user, anonymous, author, body, portal] =
     (case nullable_uuid P user of
        None \<Rightarrow> (Failed ''22P02'', d)
      | Some uid \<Rightarrow>
          let row = \<lparr>comment_id = draw_id r, comment_content = content, comment_user = uid,
                comment_anonymous = nullif anonymous, comment_author = nullif author,
                comment_text = body, comment_created = clock d\<rparr>
          in if \<not> comments_check P row then (Failed ''23514'', d)
             else (case event_inserted P d
                 (plain_event r d uid (nullif anonymous) portal ''comment'' content) of
                Inl broken \<Rightarrow> (Failed broken, d)
              | Inr d' \<Rightarrow> (Rows [[draw_id r, pg_time_text P (clock d)]],
                  d'\<lparr>comments := comments d' @ [row]\<rparr>)))"
| "sql_comment P r d _ = (Failed ''08P01'', d)"

subsection \<open>\<^verbatim>\<open>routes/analytics.c\<close>\<close>

definition viewed :: "store \<Rightarrow> string \<Rightarrow> int \<Rightarrow> event_row \<Rightarrow> bool" where
  "viewed d portal days e \<longleftrightarrow>
     event_portal e = portal \<and> event_content e \<noteq> None \<and>
     event_kind e \<in> {''content_view'', ''page_view''} \<and> occurred_at e \<ge> clock d - days * 86400"

definition view_counts :: "store \<Rightarrow> string \<Rightarrow> int \<Rightarrow> (string \<times> nat) list" where
  "view_counts d portal days =
     (let contents = map (\<lambda>e. the (event_content e)) (filter (viewed d portal days) (activity_events d))
      in map (\<lambda>c. (c, count_list contents c)) (remdups contents))"

definition more_viewed :: "postgres \<Rightarrow> string \<times> nat \<Rightarrow> string \<times> nat \<Rightarrow> bool" where
  "more_viewed P x y \<longleftrightarrow> snd y < snd x \<or> snd y = snd x \<and> pg_before P (fst x) (fst y)"

fun sql_top_content :: "postgres \<Rightarrow> draw \<Rightarrow> store \<Rightarrow> string list \<Rightarrow> sql_outcome \<times> store" where
  "sql_top_content P r d [portal, days_text, limit_text] =
     (case (sql_int days_text, sql_int limit_text) of
        (Some days, Some limit) \<Rightarrow>
          if limit < 0 then (Failed ''2201W'', d)
          else (Rows (map (\<lambda>(c, n). [c, decimal n])
              (take (nat limit) (order_by (more_viewed P) (view_counts d portal days)))), d)
      | _ \<Rightarrow> (Failed ''22P02'', d))"
| "sql_top_content P r d _ = (Failed ''08P01'', d)"

section \<open>Executing a statement\<close>

definition statement_table ::
  "(string \<times> (postgres \<Rightarrow> draw \<Rightarrow> store \<Rightarrow> string list \<Rightarrow> sql_outcome \<times> store)) list" where
  "statement_table =
     [(auth_query, sql_auth), (register_query, sql_register), (confirm_query, sql_confirm),
      (login_query, sql_login), (logout_query, sql_logout), (tag_list_query, sql_tag_list),
      (section_list_query, sql_section_list), (tag_insert_query, sql_tag_insert),
      (tag_delete_query, sql_tag_delete), (section_insert_query, sql_section_insert),
      (section_delete_query, sql_section_delete), (activity_query, sql_activity),
      (like_insert_query, sql_like_insert), (like_delete_query, sql_like_delete),
      (comment_query, sql_comment), (top_content_query, sql_top_content)]"

definition run_statement ::
  "postgres \<Rightarrow> draw \<Rightarrow> store \<Rightarrow> string \<Rightarrow> string list \<Rightarrow> sql_outcome \<times> store" where
  "run_statement P r d command texts =
     (case map_of statement_table command of
        None \<Rightarrow> (Failed ''42601'', d)
      | Some effect \<Rightarrow> effect P r (d\<lparr>clock := draw_time r\<rparr>) texts)"

end
