(* ===== verification/Backed.thy ===== *)
theory Backed
  imports Store Server
begin

text \<open>
  The program on a database that executes its statements. \<open>backed P E db\<close> says that \<open>db\<close> reads the
  tables off the state of the outside, that \<open>PQexecParams\<close> executes the statement as in \<open>Store\<close> or
  fails, and that no other call touches the tables. Every program of the model then changes the
  tables exactly by the statements of its trace: \<open>stores m K\<close> relates the tables before, the
  result, the events and the tables after.
\<close>

section \<open>Execution of one statement\<close>

text \<open>What PostgreSQL draws is new where the primary keys need it, and time does not go back.\<close>

definition draw_ok :: "postgres \<Rightarrow> store \<Rightarrow> draw \<Rightarrow> bool" where
  "draw_ok P d r \<longleftrightarrow>
     clock d \<le> draw_time r \<and>
     pg_uuid P (draw_id r) = Some (draw_id r) \<and> pg_uuid P (draw_token r) = Some (draw_token r) \<and>
     draw_id r \<notin> set (map user_row_id (users d)) \<and> draw_id r \<notin> set (map comment_id (comments d)) \<and>
     draw_token r \<notin> set (map confirmation_token (confirmation_tokens d)) \<and>
     draw_token r \<notin> set (map session_token (auth_sessions d)) \<and>
     0 < draw_number r \<and> draw_number r < 2 ^ 63 \<and>
     draw_number r \<notin> set (map event_id (activity_events d))"

definition columns_of :: "string \<Rightarrow> nat" where
  "columns_of command =
     (case map_of (map (\<lambda>(q, _, columns). (q, columns)) sql_table) command of
        None \<Rightarrow> 0 | Some columns \<Rightarrow> columns)"

text \<open>How libpq reports an outcome; a result has less than \<open>2 ^ 31\<close> rows.\<close>

definition reported :: "nat \<Rightarrow> sql_outcome \<Rightarrow> pg_result option \<Rightarrow> bool" where
  "reported columns outcome answer \<longleftrightarrow>
     (case (outcome, answer) of
        (Rows rows, Some r) \<Rightarrow>
          pq_status r = PGRES_TUPLES_OK \<and> length rows < 2 ^ 31 \<and>
          pq_ntuples r = int (length rows) \<and> pq_nfields r = int columns \<and>
          (\<forall>i < length rows. \<forall>j < columns. pq_cell r (int i) (int j) = Some (rows ! i ! j))
      | (Command_Done, Some r) \<Rightarrow> pq_status r = PGRES_COMMAND_OK
      | (Failed broken, Some r) \<Rightarrow>
          pq_status r \<noteq> PGRES_TUPLES_OK \<and> pq_status r \<noteq> PGRES_COMMAND_OK \<and> pq_sqlstate r = Some broken
      | _ \<Rightarrow> False)"

text \<open>
  An answer that tells nothing: no result, or an error other than a violated constraint. The
  connection may have broken before or after the statement was committed.
\<close>

definition lost :: "pg_result option \<Rightarrow> bool" where
  "lost answer \<longleftrightarrow>
     (case answer of
        None \<Rightarrow> True
      | Some r \<Rightarrow> pq_status r \<noteq> PGRES_TUPLES_OK \<and> pq_status r \<noteq> PGRES_COMMAND_OK \<and>
          pq_sqlstate r \<noteq> Some ''23505'')"

definition executed ::
  "postgres \<Rightarrow> store \<Rightarrow> string \<times> string option list \<times> pg_result option \<Rightarrow> store \<Rightarrow> bool" where
  "executed P d statement d' \<longleftrightarrow>
     (case statement of (command, values, answer) \<Rightarrow>
        if known_statement statement then
          lost answer \<and> d' = d \<or>
          (\<exists>r. draw_ok P d r \<and>
            (let (outcome, e) = run_statement P r d command (map the values)
             in d' = e \<and> (reported (columns_of command) outcome answer \<or> lost answer)))
        else case answer of None \<Rightarrow> True | Some r \<Rightarrow> answer_ok command r)"

fun history ::
  "postgres \<Rightarrow> store \<Rightarrow> (string \<times> string option list \<times> pg_result option) list \<Rightarrow> store \<Rightarrow> bool" where
  "history P d [] d' \<longleftrightarrow> d' = d"
| "history P d (s # ss) d' \<longleftrightarrow> (\<exists>e. executed P d s e \<and> history P e ss d')"

lemma history_append: "history P d ss e \<Longrightarrow> history P e ts d' \<Longrightarrow> history P d (ss @ ts) d'"
  by (induction ss arbitrary: d) auto

lemma history_split: "history P d (ss @ ts) d' \<Longrightarrow> \<exists>e. history P d ss e \<and> history P e ts d'"
proof (induction ss arbitrary: d)
  case (Cons s ss)
  then obtain e where "executed P d s e" "history P e (ss @ ts) d'" by auto
  with Cons.IH [OF this(2)] show ?case by auto
qed simp

section \<open>Programs on a database\<close>

definition calm :: "('x \<Rightarrow> store) \<Rightarrow> ('x \<Rightarrow> 'a \<times> 'x) \<Rightarrow> bool" where
  "calm db f \<longleftrightarrow> (\<forall>x. db (snd (f x)) = db x)"

definition backed :: "postgres \<Rightarrow> ('x, 'j) ext \<Rightarrow> ('x \<Rightarrow> store) \<Rightarrow> bool" where
  "backed P E db \<longleftrightarrow>
     (\<forall>c command values x. executed P (db x) (command, values, fst (pq_exec E c command values x))
        (db (snd (pq_exec E c command values x)))) \<and>
     calm db (heap_alloc E) \<and> calm db (mhd_create E) \<and> calm db (jc_alloc E) \<and>
     (\<forall>h v. calm db (mhd_add_header E h v)) \<and> (\<forall>st hs b. calm db (mhd_queue E st hs b)) \<and>
     (\<forall>buffer. calm db (jc_parse E buffer))"

definition follows :: "postgres \<Rightarrow> ('x \<Rightarrow> store) \<Rightarrow> ('x, 'a) prog \<Rightarrow> bool" where
  "follows P db m \<longleftrightarrow>
     (\<forall>w. \<exists>es. trace (snd (run_state m w)) = trace w @ es \<and>
        history P (db (outside w)) (sqls es) (db (outside (snd (run_state m w)))))"

named_theorems follows_intros "programs change the tables by the statements they send"

lemma follows_return [follows_intros]: "follows P db (return a)"
  by (simp add: follows_def)

lemma follows_emit [follows_intros]: "sqls [e] = [] \<Longrightarrow> follows P db (emit e)"
  by (simp add: follows_def emit_def)

lemma follows_ask [follows_intros]: "calm db f \<Longrightarrow> follows P db (ask f)"
  by (simp add: follows_def ask_def calm_def split: prod.split) (metis snd_conv)

lemma follows_bind [follows_intros]:
  assumes "follows P db m" and "\<And>a. follows P db (f a)"
  shows "follows P db (m \<bind> f)"
  unfolding follows_def
proof
  fix w
  obtain a w' where m: "run_state m w = (a, w')" by fastforce
  obtain b w'' where fw: "run_state (f a) w' = (b, w'')" by fastforce
  obtain es where es: "trace w' = trace w @ es" "history P (db (outside w)) (sqls es) (db (outside w'))"
    using assms(1) m unfolding follows_def by (metis snd_conv)
  obtain fs where fs: "trace w'' = trace w' @ fs" "history P (db (outside w')) (sqls fs) (db (outside w''))"
    using assms(2) fw unfolding follows_def by (metis snd_conv)
  show "\<exists>es. trace (snd (run_state (m \<bind> f) w)) = trace w @ es \<and>
      history P (db (outside w)) (sqls es) (db (outside (snd (run_state (m \<bind> f) w))))"
    using m fw es fs history_append [OF es(2) fs(2)] by (intro exI [of _ "es @ fs"]) simp
qed

lemma follows_if [follows_intros]:
  "follows P db m \<Longrightarrow> follows P db n \<Longrightarrow> follows P db (if b then m else n)"
  by simp

lemma follows_option [follows_intros]:
  "follows P db m \<Longrightarrow> (\<And>a. follows P db (f a)) \<Longrightarrow>
   follows P db (case p of None \<Rightarrow> m | Some a \<Rightarrow> f a)"
  by (cases p) auto

lemma follows_prod [follows_intros]:
  "(\<And>a b. follows P db (f a b)) \<Longrightarrow> follows P db (case p of (a, b) \<Rightarrow> f a b)"
  by (cases p) auto

lemma follows_let [follows_intros]: "(\<And>a. follows P db (f a)) \<Longrightarrow> follows P db (let x = a in f x)"
  by simp

lemma follows_deref [follows_intros]: "follows P db (deref p a)"
  unfolding deref_def undefined_behaviour_def by (intro follows_intros) simp

lemma follows_undefined [follows_intros]: "follows P db (undefined_behaviour a)"
  unfolding undefined_behaviour_def by (intro follows_intros) simp

lemma calm_read [follows_intros]: "calm db (\<lambda>x. (f x, x))"
  by (simp add: calm_def)

text \<open>The interface of a database server: the laws, and what every program owes to them.\<close>

locale database_server =
  fixes P :: postgres
    and E :: "('x, 'j) ext"
    and db :: "'x \<Rightarrow> store"
  assumes backed: "backed P E db"
begin

lemma calm_calls [follows_intros]:
  "calm db (heap_alloc E)" "calm db (mhd_create E)" "calm db (jc_alloc E)"
  "calm db (mhd_add_header E h v)" "calm db (mhd_queue E st hs b)" "calm db (jc_parse E buffer)"
  using backed by (simp_all add: backed_def)

lemma follows_PQexecParams [follows_intros]: "follows P db (PQexecParams E c command n values)"
proof -
  let ?m = "do {
    r \<leftarrow> ask (pq_exec E c command (take n values));
    emit (Sql command (take n values) r);
    (case r of None \<Rightarrow> return () | Some _ \<Rightarrow> emit (Acquired Pg_Result));
    return r }"
  have "\<exists>es. trace (snd (run_state ?m w)) = trace w @ es \<and>
      history P (db (outside w)) (sqls es) (db (outside (snd (run_state ?m w))))" for w
  proof -
    obtain r x where r: "pq_exec E c command (take n values) (outside w) = (r, x)" by fastforce
    have "executed P (db (outside w)) (command, take n values, r) (db x)"
      using backed r unfolding backed_def by (metis fst_conv snd_conv)
    then show ?thesis
      by (intro exI [of _ "Sql command (take n values) r # (if r = None then [] else [Acquired Pg_Result])"])
        (cases r; simp add: r ask_def emit_def)
  qed
  then have "follows P db ?m" unfolding follows_def by blast
  then show ?thesis
    unfolding PQexecParams_def by (rule follows_bind [rotated]) (intro follows_intros; simp)
qed

lemma follows_heap [follows_intros]:
  "follows P db (c_calloc E)" "follows P db c_free" "follows P db (c_malloc E k)"
  "follows P db (c_realloc E old k)" "follows P db (c_free_ptr p)"
  unfolding c_calloc_def c_free_def c_malloc_def c_realloc_def c_free_ptr_def fresh_bytes_def
  by (intro follows_intros; simp)+

lemma follows_libpq [follows_intros]:
  "follows P db (PQstatus E c)" "follows P db (PQerrorMessage E c)" "follows P db PQclear"
  unfolding PQstatus_def PQerrorMessage_def PQclear_def by (intro follows_intros; simp)+

lemma follows_mhd [follows_intros]:
  "follows P db (MHD_create_response_from_buffer E k buffer)"
  "follows P db (MHD_add_response_header E response header content)"
  "follows P db (MHD_queue_response E status response)" "follows P db MHD_destroy_response"
  unfolding MHD_create_response_from_buffer_def MHD_add_response_header_def MHD_queue_response_def
    MHD_destroy_response_def
  by (intro follows_intros; simp)+

lemma follows_json [follows_intros]:
  "follows P db (json_new E j)" "follows P db (json_insert E container child updated)"
  "follows P db json_object_put" "follows P db (json_tokener_new E)"
  "follows P db (json_tokener_parse_ex E buffer)" "follows P db json_tokener_free"
  unfolding json_new_def json_insert_def json_object_put_def json_tokener_new_def
    json_tokener_parse_ex_def json_tokener_free_def
  by (intro follows_intros; simp)+

lemma follows_json_calls [follows_intros]:
  "follows P db (json_object_new_object E)" "follows P db (json_object_new_array E)"
  "follows P db (json_object_new_string E s)" "follows P db (json_object_new_int64 E i)"
  "follows P db (json_object_object_add E obj key child)" "follows P db (json_object_array_add E obj child)"
  "follows P db (json_add_string E obj key text')" "follows P db (json_add_int64 E obj key i)"
  "follows P db (json_append_string E obj text')" "follows P db (json_cleanup child)"
  unfolding json_object_new_object_def json_object_new_array_def json_object_new_string_def
    json_object_new_int64_def json_object_object_add_def json_object_array_add_def
    json_add_string_def json_add_int64_def json_append_string_def json_cleanup_def
  by (intro follows_intros)+

subsection \<open>The functions of the program\<close>

lemma follows_add_headers [follows_intros]: "follows P db (add_headers E response headers)"
proof (induction headers arbitrary: response)
  case Nil
  show ?case unfolding add_headers.simps by (intro follows_intros)
next
  case (Cons h headers)
  obtain name content where h: "h = (name, content)" by (cases h)
  show ?case unfolding h add_headers.simps by (intro follows_intros Cons.IH)
qed

lemma follows_responses [follows_intros]:
  "follows P db (portal_http_response_bytes E connection status bytes k content_type)"
  "follows P db (portal_http_response_json E connection status json)"
  "follows P db (portal_http_response_empty E connection status)"
  "follows P db (portal_http_response_error E connection status ecode message)"
  "follows P db (portal_http_response_options E connection)"
proof -
  show bytes: "follows P db (portal_http_response_bytes E connection status bytes k content_type)"
    for connection status bytes k content_type
    unfolding portal_http_response_bytes_def by (intro follows_intros)
  show json: "follows P db (portal_http_response_json E connection status json)" for connection status json
    unfolding portal_http_response_json_def by (intro follows_intros bytes)
  show "follows P db (portal_http_response_empty E connection status)"
    unfolding portal_http_response_empty_def by (rule bytes)
  show "follows P db (portal_http_response_error E connection status ecode message)"
    unfolding portal_http_response_error_def by (intro follows_intros json)
  show "follows P db (portal_http_response_options E connection)"
    unfolding portal_http_response_options_def by (intro follows_intros)
qed

lemma follows_request [follows_intros]:
  "follows P db (portal_http_request_body_append E body bytes k)"
  "follows P db (portal_http_request_body_destroy body)"
  "follows P db (portal_http_request_parse_json E body)"
  unfolding portal_http_request_body_append_def portal_http_request_body_destroy_def
    portal_http_request_parse_json_def
  by (intro follows_intros; simp)+

lemma follows_database [follows_intros]:
  "follows P db (portal_database_result_destroy handle)"
  "follows P db (portal_database_query E database query k values)"
  "follows P db (portal_database_is_connected E database)"
proof -
  show destroy: "follows P db (portal_database_result_destroy handle)" for handle
    unfolding portal_database_result_destroy_def by (intro follows_intros)
  show "follows P db (portal_database_query E database query k values)"
    unfolding portal_database_query_def by (intro follows_intros destroy; simp)
  show "follows P db (portal_database_is_connected E database)"
    unfolding portal_database_is_connected_def by (intro follows_intros)
qed

lemma follows_authenticate [follows_intros]:
  "follows P db (portal_http_authenticate E ctx connection user)"
  unfolding portal_http_authenticate_def by (intro follows_intros)

lemma follows_auth_routes [follows_intros]:
  "follows P db (portal_http_route_register E ctx connection json)"
  "follows P db (portal_http_route_confirm E ctx connection json)"
  "follows P db (portal_http_route_login E ctx connection json)"
  "follows P db (portal_http_route_logout E ctx connection)"
  unfolding portal_http_route_register_def portal_http_route_confirm_def
    portal_http_route_login_def portal_http_route_logout_def auth_database_error_def
  by (intro follows_intros)+

lemma follows_favorite_items [follows_intros]: "follows P db (favorite_items E handle items index)"
proof (induction "portal_database_result_row_count handle - index" arbitrary: items index)
  case 0
  then show ?case
    by (subst favorite_items.simps) (simp add: follows_return)
next
  case (Suc k)
  then have k: "k = portal_database_result_row_count handle - Suc index" by simp
  show ?case
    by (subst favorite_items.simps) (intro follows_intros Suc.hyps(1) [OF k])
qed

lemma follows_top_items [follows_intros]: "follows P db (top_items E handle items index)"
proof (induction "portal_database_result_row_count handle - index" arbitrary: items index)
  case 0
  then show ?case
    by (subst top_items.simps) (simp add: follows_return)
next
  case (Suc k)
  then have k: "k = portal_database_result_row_count handle - Suc index" by simp
  show ?case
    by (subst top_items.simps) (intro follows_intros Suc.hyps(1) [OF k])
qed

lemma follows_favorites [follows_intros]:
  "follows P db (portal_http_route_favorite_list E ctx connection kind)"
  "follows P db (portal_http_route_favorite_change E ctx connection meth kind key)"
  unfolding portal_http_route_favorite_list_def portal_http_route_favorite_change_def
    favorite_has_authenticated_user_def
  by (intro follows_intros)+

lemma follows_load_actor [follows_intros]: "follows P db (activity_load_actor E ctx connection json actor)"
  unfolding activity_load_actor_def by (intro follows_intros)

lemma follows_activity [follows_intros]:
  "follows P db (portal_http_route_activity E ctx connection json)"
  "follows P db (portal_http_route_like E ctx connection meth content_id json)"
  "follows P db (portal_http_route_comment E ctx connection content_id json)"
  "follows P db (portal_http_route_top_content E ctx connection)"
  unfolding portal_http_route_activity_def portal_http_route_like_def portal_http_route_comment_def
    portal_http_route_top_content_def activity_actor_error_def
  by (intro follows_intros)+

lemma follows_endpoint [follows_intros]: "follows P db (run_endpoint E ctx connection meth json e)"
  unfolding run_endpoint_def by (cases e) (simp_all only: endpoint.case, (intro follows_intros)+)

theorem follows_dispatch [follows_intros]: "follows P db (http_dispatch E ctx connection url meth body)"
  unfolding dispatch_serve serve_def by (intro follows_intros)

theorem follows_handler [follows_intros]:
  "follows P db (http_access_handler E ctx connection url meth bytes k p)"
  unfolding http_access_handler_def by (intro follows_intros)

theorem follows_completed [follows_intros]: "follows P db (http_request_completed p)"
  unfolding http_request_completed_def by (intro follows_intros)

end

section \<open>Tables before and after\<close>

text \<open>
  \<open>stores db m K\<close>: whatever the tables are, \<open>K\<close> holds of them, of the result and the events of the
  run, and of the tables after it.
\<close>

definition stores ::
  "('x \<Rightarrow> store) \<Rightarrow> ('x, 'a) prog \<Rightarrow> (store \<Rightarrow> 'a \<Rightarrow> event list \<Rightarrow> store \<Rightarrow> bool) \<Rightarrow> bool" where
  "stores db m K \<longleftrightarrow>
     (\<forall>w. \<exists>es. trace (snd (run_state m w)) = trace w @ es \<and>
        K (db (outside w)) (fst (run_state m w)) es (db (outside (snd (run_state m w)))))"

lemma stores_emits:
  assumes "follows P db m" and "emits m C"
    and "\<And>d a es d'. C a es \<Longrightarrow> history P d (sqls es) d' \<Longrightarrow> K d a es d'"
  shows "stores db m K"
  unfolding stores_def
proof
  fix w
  obtain es where es: "trace (snd (run_state m w)) = trace w @ es"
      "history P (db (outside w)) (sqls es) (db (outside (snd (run_state m w))))"
    using assms(1) unfolding follows_def by blast
  moreover obtain fs where "trace (snd (run_state m w)) = trace w @ fs" "C (fst (run_state m w)) fs"
    using assms(2) unfolding emits_def by blast
  ultimately have "C (fst (run_state m w)) es" by simp
  with es assms(3) show "\<exists>es. trace (snd (run_state m w)) = trace w @ es \<and>
      K (db (outside w)) (fst (run_state m w)) es (db (outside (snd (run_state m w))))"
    by blast
qed

lemma stores_run:
  assumes "stores db m K" and "run_state m w = (a, w')"
  obtains es where "trace w' = trace w @ es" and "K (db (outside w)) a es (db (outside w'))"
  using assms unfolding stores_def by (metis fst_conv snd_conv)

lemma stores_mono: "stores db m K \<Longrightarrow> (\<And>d a es d'. K d a es d' \<Longrightarrow> K' d a es d') \<Longrightarrow> stores db m K'"
  unfolding stores_def by blast

end
