(* ===== verification/Tables.thy ===== *)
theory Tables
  imports Backed "HOL-Library.Sublist"
begin

text \<open>
  What the statements do to the tables over time. \<open>evolves\<close> is the abstract specification: users,
  events and comments are only added, tokens are only consumed, sessions only revoked, and new
  tokens are new. \<open>store_ok\<close> collects the constraints of \<^verbatim>\<open>src/db/init.sql\<close>. Both hold for
  every statement, and so for every history.
\<close>

section \<open>The effect of a statement\<close>

lemma statement_table_distinct: "distinct (map fst statement_table)"
proof -
  have "map fst statement_table = map fst sql_table"
    by (simp add: statement_table_def sql_table_def)
  then show ?thesis using sql_table_distinct by simp
qed

lemma run_statement_table:
  "(command, effect) \<in> set statement_table \<Longrightarrow>
   run_statement P r d command texts = effect P r (d\<lparr>clock := draw_time r\<rparr>) texts"
  unfolding run_statement_def by (simp add: map_of_is_SomeI [OF statement_table_distinct])

lemma effect_of_command:
  assumes "(command, n, columns) \<in> set sql_table"
  obtains effect where "(command, effect) \<in> set statement_table"
proof -
  have "map fst statement_table = map fst sql_table"
    by (simp add: statement_table_def sql_table_def)
  with assms show thesis
    by (metis (no_types, lifting) fst_conv image_eqI image_set imageE prod.collapse that)
qed

lemma run_statements:
  "run_statement P r d auth_query = sql_auth P r (d\<lparr>clock := draw_time r\<rparr>)"
  "run_statement P r d register_query = sql_register P r (d\<lparr>clock := draw_time r\<rparr>)"
  "run_statement P r d confirm_query = sql_confirm P r (d\<lparr>clock := draw_time r\<rparr>)"
  "run_statement P r d login_query = sql_login P r (d\<lparr>clock := draw_time r\<rparr>)"
  "run_statement P r d logout_query = sql_logout P r (d\<lparr>clock := draw_time r\<rparr>)"
  "run_statement P r d tag_list_query = sql_tag_list P r (d\<lparr>clock := draw_time r\<rparr>)"
  "run_statement P r d section_list_query = sql_section_list P r (d\<lparr>clock := draw_time r\<rparr>)"
  "run_statement P r d tag_insert_query = sql_tag_insert P r (d\<lparr>clock := draw_time r\<rparr>)"
  "run_statement P r d tag_delete_query = sql_tag_delete P r (d\<lparr>clock := draw_time r\<rparr>)"
  "run_statement P r d section_insert_query = sql_section_insert P r (d\<lparr>clock := draw_time r\<rparr>)"
  "run_statement P r d section_delete_query = sql_section_delete P r (d\<lparr>clock := draw_time r\<rparr>)"
  "run_statement P r d activity_query = sql_activity P r (d\<lparr>clock := draw_time r\<rparr>)"
  "run_statement P r d like_insert_query = sql_like_insert P r (d\<lparr>clock := draw_time r\<rparr>)"
  "run_statement P r d like_delete_query = sql_like_delete P r (d\<lparr>clock := draw_time r\<rparr>)"
  "run_statement P r d comment_query = sql_comment P r (d\<lparr>clock := draw_time r\<rparr>)"
  "run_statement P r d top_content_query = sql_top_content P r (d\<lparr>clock := draw_time r\<rparr>)"
  by (rule ext, rule run_statement_table, simp add: statement_table_def)+

lemma columns_of_table:
  assumes "(command, n, columns) \<in> set sql_table"
  shows "columns_of command = columns"
proof -
  have "distinct (map fst (map (\<lambda>(q, _, columns). (q, columns)) sql_table))"
    using sql_table_distinct by (simp add: comp_def case_prod_beta')
  moreover have "(command, columns) \<in> set (map (\<lambda>(q, _, columns). (q, columns)) sql_table)"
    using assms by force
  ultimately show ?thesis
    unfolding columns_of_def by (simp add: map_of_is_SomeI)
qed

text \<open>A statement of the program with its texts: what it may have done.\<close>

lemma executed_statement:
  assumes "executed P d (command, map Some texts, answer) d'"
    and "(command, length texts, columns) \<in> set sql_table"
  obtains (lost) "lost answer" and "d' = d"
  | (sent) r outcome where "draw_ok P d r" and "run_statement P r d command texts = (outcome, d')"
      and "reported columns outcome answer \<or> lost answer"
proof -
  have "known_statement (command, map Some texts, answer)"
    using assms(2) by (auto simp: known_statement_def list_ex_iff list_all_iff)
  moreover have "map the (map Some texts) = texts" by (simp add: comp_def)
  ultimately consider "lost answer" "d' = d" | r where "draw_ok P d r"
    "let (outcome, e) = run_statement P r d command texts
     in d' = e \<and> (reported (columns_of command) outcome answer \<or> lost answer)"
    using assms(1) by (auto simp only: executed_def prod.case if_True)
  then show ?thesis
    using columns_of_table [OF assms(2)] by cases (auto intro: that split: prod.splits)
qed

text \<open>Every relation between tables that each statement keeps, every execution keeps.\<close>

lemma executed_rule:
  assumes "executed P d statement d'" and "known_statement statement"
    and "\<And>r command texts outcome e columns. draw_ok P d r \<Longrightarrow> (command, length texts, columns) \<in> set sql_table \<Longrightarrow>
      run_statement P r d command texts = (outcome, e) \<Longrightarrow> R e"
    and "R d"
  shows "R d'"
proof -
  obtain command "values" answer where s: "statement = (command, values, answer)" by (cases statement)
  obtain n columns where table: "(command, n, columns) \<in> set sql_table" "length values = n"
    and texts: "values = map Some (map the values)"
    using assms(2) unfolding s known_statement_def
    by (fastforce simp: list_ex_iff list_all_iff comp_def map_idI)
  from assms(1) s texts have "executed P d (command, map Some (map the values), answer) d'" by simp
  then show ?thesis
  proof (rule executed_statement)
    show "(command, length (map the values), columns) \<in> set sql_table" using table by simp
  qed (use assms(3,4) table in \<open>metis length_map\<close>)+
qed

section \<open>How the tables evolve\<close>

text \<open>A table keeps its rows, each aged, in front of new ones; the new ones have new keys.\<close>

definition grows :: "('a \<Rightarrow> 'a \<Rightarrow> bool) \<Rightarrow> ('a \<Rightarrow> string) \<Rightarrow> 'a list \<Rightarrow> 'a list \<Rightarrow> bool" where
  "grows ages key xs ys \<longleftrightarrow>
     (\<exists>old new. ys = old @ new \<and> list_all2 (\<lambda>x y. ages x y \<and> key y = key x) xs old \<and>
        (\<forall>y \<in> set new. key y \<notin> key ` set xs))"

definition user_ages :: "user_row \<Rightarrow> user_row \<Rightarrow> bool" where
  "user_ages u u' \<longleftrightarrow> u' = u \<or> confirmed_at u = None \<and> (\<exists>t. u' = u\<lparr>confirmed_at := Some t\<rparr>)"

definition confirmation_ages :: "confirmation_row \<Rightarrow> confirmation_row \<Rightarrow> bool" where
  "confirmation_ages c c' \<longleftrightarrow> c' = c \<or> consumed_at c = None \<and> (\<exists>t. c' = c\<lparr>consumed_at := Some t\<rparr>)"

definition session_ages :: "session_row \<Rightarrow> session_row \<Rightarrow> bool" where
  "session_ages s s' \<longleftrightarrow> s' = s \<or> revoked_at s = None \<and> (\<exists>t. s' = s\<lparr>revoked_at := Some t\<rparr>)"

definition evolves :: "store \<Rightarrow> store \<Rightarrow> bool" where
  "evolves d d' \<longleftrightarrow>
     clock d \<le> clock d' \<and>
     grows user_ages user_row_id (users d) (users d') \<and>
     grows user_ages account_email (users d) (users d') \<and>
     grows confirmation_ages confirmation_token (confirmation_tokens d) (confirmation_tokens d') \<and>
     grows session_ages session_token (auth_sessions d) (auth_sessions d') \<and>
     prefix (activity_events d) (activity_events d') \<and> prefix (comments d) (comments d')"

lemma ages_refl [simp]: "user_ages u u" "confirmation_ages c c" "session_ages s s"
  by (simp_all add: user_ages_def confirmation_ages_def session_ages_def)

lemma ages_trans:
  "user_ages u u' \<Longrightarrow> user_ages u' u'' \<Longrightarrow> user_ages u u''"
  "confirmation_ages c c' \<Longrightarrow> confirmation_ages c' c'' \<Longrightarrow> confirmation_ages c c''"
  "session_ages s s' \<Longrightarrow> session_ages s' s'' \<Longrightarrow> session_ages s s''"
  by (auto simp: user_ages_def confirmation_ages_def session_ages_def)

lemma grows_refl [simp]: "(\<And>x. ages x x) \<Longrightarrow> grows ages key xs xs"
  unfolding grows_def by (intro exI [of _ xs] exI [of _ "[]"]) (simp add: list.rel_refl)

lemma same_keys: "list_all2 (\<lambda>x y. ages x y \<and> key y = key x) xs ys \<Longrightarrow> key ` set ys = key ` set xs"
  by (induction rule: list_all2_induct) auto

lemma grows_trans:
  assumes trans: "\<And>x y z. ages x y \<Longrightarrow> ages y z \<Longrightarrow> ages x z"
    and xy: "grows ages key xs ys" and yz: "grows ages key ys zs"
  shows "grows ages key xs zs"
proof -
  let ?R = "\<lambda>x y. ages x y \<and> key y = key x"
  obtain old new where ys: "ys = old @ new" "list_all2 ?R xs old" "\<forall>y \<in> set new. key y \<notin> key ` set xs"
    using xy by (auto simp: grows_def)
  obtain old' new' where zs: "zs = old' @ new'" "list_all2 ?R ys old'" "\<forall>z \<in> set new'. key z \<notin> key ` set ys"
    using yz by (auto simp: grows_def)
  obtain a b where ab: "old' = a @ b" "list_all2 ?R old a" "list_all2 ?R new b"
    using zs(2) unfolding ys(1) by (auto simp: list_all2_append1)
  have "list_all2 ?R xs a"
    using ys(2) ab(2) by (rule list_all2_trans [rotated]) (auto intro: trans)
  moreover have "key z \<notin> key ` set xs" if "z \<in> set (b @ new')" for z
  proof -
    have "key ` set new \<inter> key ` set xs = {}" using ys(3) by blast
    moreover have "key ` set new' \<inter> key ` (set old \<union> set new) = {}" using zs(3) by (auto simp: ys(1))
    moreover have "key z \<in> key ` set b \<union> key ` set new'" using that by auto
    ultimately show ?thesis
      unfolding same_keys [OF ab(3)] same_keys [OF ys(2), symmetric] by blast
  qed
  ultimately show ?thesis
    unfolding grows_def zs(1) ab(1) by (intro exI [of _ a] exI [of _ "b @ new'"]) auto
qed

lemma evolves_refl [simp]: "evolves d d"
  by (simp add: evolves_def)

lemma evolves_trans: "evolves d e \<Longrightarrow> evolves e f \<Longrightarrow> evolves d f"
  unfolding evolves_def
  by (elim conjE, intro conjI)
    (auto intro: ages_trans order.trans prefix_order.trans elim: grows_trans [rotated])

lemma grows_append: "(\<And>x. ages x x) \<Longrightarrow> key z \<notin> key ` set xs \<Longrightarrow> grows ages key xs (xs @ [z])"
  unfolding grows_def by (intro exI [of _ xs] exI [of _ "[z]"]) (simp add: list.rel_refl)

lemma grows_map: "(\<And>x. ages x (f x) \<and> key (f x) = key x) \<Longrightarrow> grows ages key xs (map f xs)"
  unfolding grows_def by (intro exI [of _ "map f xs"] exI [of _ "[]"]) (simp add: list_all2_map2 list.rel_refl)

text \<open>A row stays, aged; a key that was used stays with its row.\<close>

lemma grows_keeps:
  assumes "grows ages key xs ys" and "x \<in> set xs"
  shows "\<exists>y \<in> set ys. ages x y \<and> key y = key x"
  using assms unfolding grows_def by (fastforce simp: list_all2_conv_all_nth in_set_conv_nth)

lemma grows_same_key:
  assumes "grows ages key xs ys" and "y \<in> set ys" and "key y \<in> key ` set xs"
  shows "\<exists>x \<in> set xs. ages x y \<and> key x = key y"
proof -
  obtain old new where ys: "ys = old @ new" "list_all2 (\<lambda>x y. ages x y \<and> key y = key x) xs old"
      "\<forall>y \<in> set new. key y \<notin> key ` set xs"
    using assms(1) by (auto simp: grows_def)
  from assms(2,3) ys have "y \<in> set old" by auto
  with ys(2) show ?thesis by (fastforce simp: list_all2_conv_all_nth in_set_conv_nth)
qed

subsection \<open>Every statement only evolves the tables\<close>

text \<open>What the draw promises of the tables it was made for, whatever the clock.\<close>

lemma draw_ok_clock: "draw_ok P d r \<Longrightarrow> draw_ok P (d\<lparr>clock := draw_time r\<rparr>) r"
  by (simp add: draw_ok_def)

lemma evolves_clock: "draw_ok P d r \<Longrightarrow> evolves d (d\<lparr>clock := draw_time r\<rparr>)"
  by (simp add: evolves_def draw_ok_def)

lemma evolves_favorites [simp]:
  "evolves d (d\<lparr>favorite_tags := t\<rparr>)" "evolves d (d\<lparr>favorite_sections := t\<rparr>)"
  "evolves d (d\<lparr>content_likes := l\<rparr>)"
  by (simp_all add: evolves_def)

lemma evolves_event: "event_inserted P d e = Inr d' \<Longrightarrow> evolves d d'"
  by (auto simp: event_inserted_def evolves_def split: if_splits)

lemma evolves_event_like:
  "event_inserted P d e = Inr d' \<Longrightarrow> evolves d (d'\<lparr>content_likes := l\<rparr>)"
  by (rule evolves_trans [OF evolves_event evolves_favorites(3)])

lemma evolves_comments [simp]: "evolves d (d\<lparr>comments := comments d @ [c]\<rparr>)"
  by (simp add: evolves_def)

lemma evolves_event_comment:
  "event_inserted P d e = Inr d' \<Longrightarrow> evolves d (d'\<lparr>comments := comments d' @ [c]\<rparr>)"
  by (rule evolves_trans [OF evolves_event evolves_comments])

lemma evolves_sessions_map:
  "(\<And>s. session_ages s (f s)) \<Longrightarrow> evolves d (d\<lparr>auth_sessions := map f (auth_sessions d)\<rparr>)"
proof -
  assume ages: "\<And>s. session_ages s (f s)"
  then have "session_token (f s) = session_token s" for s
    using ages [of s] unfolding session_ages_def by fastforce
  with ages show ?thesis by (simp add: evolves_def grows_map)
qed

lemma sql_register_evolves:
  assumes "draw_ok P d r"
  shows "evolves d (snd (sql_register P r d texts))"
  by (cases "(P, r, d, texts)" rule: sql_register.cases)
    (use assms in \<open>auto simp: Let_def evolves_def draw_ok_def list_ex_iff intro!: grows_append split: option.splits\<close>)

lemma sql_confirm_evolves: "evolves d (snd (sql_confirm P r d texts))"
  by (cases "(P, r, d, texts)" rule: sql_confirm.cases)
    (auto simp: Let_def evolves_def user_ages_def confirmation_ages_def consumable_def
      intro!: grows_map split: option.splits)

lemma sql_login_evolves:
  assumes "draw_ok P d r"
  shows "evolves d (snd (sql_login P r d texts))"
  by (cases "(P, r, d, texts)" rule: sql_login.cases)
    (use assms in \<open>auto simp: Let_def evolves_def draw_ok_def intro!: grows_append split: option.splits list.splits\<close>)

lemma sql_logout_evolves: "evolves d (snd (sql_logout P r d texts))"
  by (cases "(P, r, d, texts)" rule: sql_logout.cases)
    (auto simp: session_ages_def intro!: evolves_sessions_map split: option.splits)

lemma sql_reads [simp]:
  "snd (sql_auth P r d texts) = d" "snd (sql_tag_list P r d texts) = d"
  "snd (sql_section_list P r d texts) = d" "snd (sql_top_content P r d texts) = d"
  by (cases "(P, r, d, texts)" rule: sql_auth.cases; auto split: option.splits)
    (cases "(P, r, d, texts)" rule: sql_tag_list.cases, auto split: option.splits,
     cases "(P, r, d, texts)" rule: sql_section_list.cases, auto split: option.splits,
     cases "(P, r, d, texts)" rule: sql_top_content.cases, auto split: option.splits)

lemma sql_favorites_evolve:
  "evolves d (snd (sql_tag_insert P r d texts))" "evolves d (snd (sql_section_insert P r d texts))"
  "evolves d (snd (sql_tag_delete P r d texts))" "evolves d (snd (sql_section_delete P r d texts))"
  by (cases "(P, r, d, texts)" rule: sql_tag_insert.cases; auto split: option.splits sum.splits)
    (cases "(P, r, d, texts)" rule: sql_section_insert.cases, auto split: option.splits sum.splits,
     cases "(P, r, d, texts)" rule: sql_tag_delete.cases, auto split: option.splits,
     cases "(P, r, d, texts)" rule: sql_section_delete.cases, auto split: option.splits)

lemma sql_activity_evolves: "evolves d (snd (sql_activity P r d texts))"
  by (cases "(P, r, d, texts)" rule: sql_activity.cases)
    (auto intro: evolves_event split: option.splits sum.splits)

lemma sql_like_insert_evolves: "evolves d (snd (sql_like_insert P r d texts))"
  by (cases "(P, r, d, texts)" rule: sql_like_insert.cases)
    (auto simp: Let_def intro: evolves_event_like split: option.splits sum.splits)

lemma sql_like_delete_evolves: "evolves d (snd (sql_like_delete P r d texts))"
  by (cases "(P, r, d, texts)" rule: sql_like_delete.cases) auto

lemma sql_comment_evolves: "evolves d (snd (sql_comment P r d texts))"
  by (cases "(P, r, d, texts)" rule: sql_comment.cases)
    (auto simp: Let_def intro: evolves_event_comment split: option.splits sum.splits)

lemmas statements_evolve = sql_register_evolves sql_confirm_evolves sql_login_evolves
  sql_logout_evolves sql_favorites_evolve sql_activity_evolves sql_like_insert_evolves
  sql_like_delete_evolves sql_comment_evolves

lemma table_evolves:
  assumes "(command, effect) \<in> set statement_table" and "draw_ok P d r"
  shows "evolves d (snd (effect P r d texts))"
  using assms unfolding statement_table_def list.set
  by (elim insertE emptyE Pair_inject; simp add: statements_evolve)

text \<open>So does every execution of a statement of the program, and every history of them.\<close>

theorem executed_evolves:
  assumes "executed P d statement d'" and "known_statement statement"
  shows "evolves d d'"
proof (rule executed_rule [OF assms])
  fix r command texts outcome e columns
  assume r: "draw_ok P d r" and table: "(command, length texts, columns) \<in> set sql_table"
    and run: "run_statement P r d command texts = (outcome, e)"
  obtain effect where effect: "(command, effect) \<in> set statement_table"
    using table by (rule effect_of_command)
  from run run_statement_table [OF effect] have "e = snd (effect P r (d\<lparr>clock := draw_time r\<rparr>) texts)"
    by (metis snd_conv)
  with table_evolves [OF effect draw_ok_clock [OF r]] evolves_clock [OF r] show "evolves d e"
    by (auto intro: evolves_trans)
qed simp

theorem history_evolves:
  "history P d ss d' \<Longrightarrow> list_all known_statement ss \<Longrightarrow> evolves d d'"
  by (induction ss arbitrary: d) (auto intro: evolves_trans executed_evolves)

section \<open>Reading the answers\<close>

text \<open>The rows of a reported answer are the rows of the statement.\<close>

lemma reported_table:
  assumes "reported columns outcome (Some r)" and "pq_status r = PGRES_TUPLES_OK" and "columns < 2 ^ 31"
  obtains rows where "outcome = Rows rows" and "result_table_ok r" and "row_count r = length rows"
    and "\<And>i j. i < length rows \<Longrightarrow> j < columns \<Longrightarrow> cell_text r i j = rows ! i ! j"
proof -
  obtain rows where rows: "outcome = Rows rows"
    using assms(1,2) by (cases outcome) (auto simp: reported_def)
  have facts: "length rows < 2 ^ 31" "pq_ntuples r = int (length rows)" "pq_nfields r = int columns"
    and cells: "\<And>i j. i < length rows \<Longrightarrow> j < columns \<Longrightarrow> pq_cell r (int i) (int j) = Some (rows ! i ! j)"
    using assms(1) by (auto simp: reported_def rows)
  have ok: "result_table_ok r"
    unfolding result_table_ok_def
  proof (intro conjI allI impI)
    fix i j assume "0 \<le> i \<and> i < pq_ntuples r \<and> 0 \<le> j \<and> j < pq_nfields r"
    then have "nat i < length rows" "nat j < columns" "0 \<le> i" "0 \<le> j"
      unfolding facts(2,3) by linarith+
    then have "pq_cell r i j = Some (rows ! nat i ! nat j)"
      using cells [of "nat i" "nat j"] by simp
    then show "pq_cell r i j \<noteq> None" by simp
  qed (use facts assms(3) in simp_all)
  have count: "row_count r = length rows"
    using row_count_int [OF ok] facts(2) by simp
  have "cell_text r i j = rows ! i ! j" if "i < length rows" "j < columns" for i j
    unfolding cell_text_def result_value_cell [OF ok] using that cells facts by simp
  with rows ok count show ?thesis by (rule that)
qed

lemma lost_answered [simp]: "lost answer \<Longrightarrow> \<not> answered_tuples answer" "lost answer \<Longrightarrow> \<not> answered_command answer"
  "lost answer \<Longrightarrow> \<not> unique_violation answer"
  by (auto simp: lost_def unique_violation_def split: option.splits)

lemma reported_command:
  "reported columns outcome answer \<Longrightarrow> answered_command answer \<Longrightarrow> outcome = Command_Done"
  by (cases outcome; cases answer) (auto simp: reported_def)

lemma reported_tuples:
  "reported columns outcome answer \<Longrightarrow> answered_tuples answer \<Longrightarrow> \<exists>rows r. outcome = Rows rows \<and> answer = Some r"
  by (cases outcome; cases answer) (auto simp: reported_def)

lemma reported_violation:
  "reported columns outcome answer \<Longrightarrow> unique_violation answer \<Longrightarrow>
   outcome = Failed ''23505'' \<or> answered_tuples answer \<or> answered_command answer"
  by (cases outcome; cases answer) (auto simp: reported_def)

text \<open>
  A database that executes the statements meets the contract the routes rely on: the columns are
  there, and the two insertions return their row.
\<close>

lemma columns_small: "(command, n, columns) \<in> set sql_table \<Longrightarrow> columns \<le> 2"
  by (auto simp: sql_table_def)

lemma one_row:
  assumes "run_statement P r d command texts = (Rows rows, e)"
    and "command = register_query \<or> command = activity_query"
  shows "length rows = 1"
  using assms(2)
proof
  assume "command = register_query"
  with assms(1) show ?thesis
    by (cases "(P, r, d\<lparr>clock := draw_time r\<rparr>, texts)" rule: sql_register.cases)
      (auto simp: run_statements Let_def split: option.splits if_splits)
next
  assume "command = activity_query"
  with assms(1) show ?thesis
    by (cases "(P, r, d\<lparr>clock := draw_time r\<rparr>, texts)" rule: sql_activity.cases)
      (auto simp: run_statements split: option.splits sum.splits)
qed

lemma executed_answer_ok:
  assumes "executed P d (command, values, Some r) d'"
  shows "answer_ok command r"
proof (cases "known_statement (command, values, Some r)")
  case False
  with assms show ?thesis by (simp add: executed_def)
next
  case True
  obtain n columns where table: "(command, n, columns) \<in> set sql_table" "length values = n"
    and texts: "values = map Some (map the values)"
    using True unfolding known_statement_def
    by (fastforce simp: list_ex_iff list_all_iff comp_def map_idI)
  from assms texts have "executed P d (command, map Some (map the values), Some r) d'" by simp
  then have sent: "\<exists>draw outcome. run_statement P draw d command (map the values) = (outcome, d') \<and>
      reported columns outcome (Some r)" if "\<not> lost (Some r)"
    by (rule executed_statement) (use table that in auto)
  show ?thesis
    unfolding answer_ok_def
  proof (rule impI)
    assume tuples: "pq_status r = PGRES_TUPLES_OK"
    then have "\<not> lost (Some r)" by (simp add: lost_def)
    from sent [OF this] obtain draw outcome where
      run: "run_statement P draw d command (map the values) = (outcome, d')"
      and rep: "reported columns outcome (Some r)" by blast
    have small: "columns < 2 ^ 31" using columns_small [OF table(1)] by simp
    obtain rows where rows: "outcome = Rows rows" "result_table_ok r"
      by (rule reported_table [OF rep tuples small])
    have "pq_nfields r = int columns" "pq_ntuples r = int (length rows)"
      using rep by (auto simp: reported_def rows(1))
    moreover have "columns' = columns" if "(command, n', columns') \<in> set sql_table" for n' columns'
      using columns_of_table [OF that] columns_of_table [OF table(1)] by simp
    moreover have "length rows = 1" if "command = register_query \<or> command = activity_query"
      using one_row [OF run [unfolded rows(1)] that] .
    ultimately show "result_table_ok r \<and>
        list_all (\<lambda>(q, _, columns). command = q \<longrightarrow> pq_nfields r = int columns) sql_table \<and>
        (command = register_query \<or> command = activity_query \<longrightarrow> pq_ntuples r = 1)"
      using rows(2) by (auto simp: list_all_iff)
  qed
qed

context database_server
begin

lemma contract: "server_contract E"
  unfolding server_contract_def may_answer_def
proof (intro allI impI, elim exE)
  fix c command "values" r x x'
  assume "pq_exec E c command values x = (Some r, x')"
  then have "executed P (db x) (command, values, Some r) (db x')"
    using backed unfolding backed_def by (metis fst_conv snd_conv)
  then show "answer_ok command r" by (rule executed_answer_ok)
qed

end

end
