(* ===== verification/Accounts.thy ===== *)
theory Accounts
  imports Tables
begin

text \<open>
  The accounts of \<^verbatim>\<open>routes/auth.c\<close> and \<^verbatim>\<open>authentication.c\<close> over the tables: who an authenticated
  request is, and what a login, a logout, a registration and a confirmation leave behind, also
  after any number of further statements.
\<close>

section \<open>Statements and responses\<close>

text \<open>The status of a response that was queued, or refused by libmicrohttpd.\<close>

definition answered_with :: "event list \<Rightarrow> nat \<Rightarrow> bool" where
  "answered_with es status \<longleftrightarrow> status \<in> set (map fst (responses es))"

lemma answered_with_append [simp]:
  "answered_with (es @ fs) status \<longleftrightarrow> answered_with es status \<or> answered_with fs status"
  by (auto simp: answered_with_def)

lemma replies_status:
  "replies E connection status' Q result es \<Longrightarrow> answered_with es status \<Longrightarrow> status = status'"
  by (auto simp: replies_def answered_with_def)

lemma replies_body:
  "replies E connection status Q result es \<Longrightarrow> answered_with es status' \<Longrightarrow>
   \<exists>body. responses es = [(status, body, result)] \<and> Q body"
  by (auto simp: replies_def answered_with_def)

lemma no_response [simp]: "responses es = [] \<Longrightarrow> \<not> answered_with es status"
  by (simp add: answered_with_def)

text \<open>One statement of a route in its history: no answer that tells anything, or its outcome.\<close>

lemma asked_effect:
  assumes "asked available command texts ss post" and "history P d ss d'"
    and "(command, length texts, columns) \<in> set sql_table"
  obtains (lost) answer where "post answer" and "lost answer"
  | (known) answer r outcome where "post answer" and "draw_ok P d r"
      and "run_statement P r d command texts = (outcome, d')" and "reported columns outcome answer"
      and "evolves d d'"
proof -
  obtain answer where post: "post answer"
    and how: "ss = [(command, map Some texts, answer)] \<or> ss = [] \<and> answer = None"
    using assms(1) by (auto simp: asked_def)
  show thesis
  proof (cases "ss = []")
    case True
    with how have "lost answer" by (auto simp: lost_def)
    with post show thesis by (rule lost)
  next
    case False
    with how assms(2) have ex: "executed P d (command, map Some texts, answer) d'" by auto
    have evolves: "evolves d d'"
      by (rule executed_evolves [OF ex]) (use assms(3) in \<open>auto simp: known_statement_def list_ex_iff list_all_iff\<close>)
    from ex assms(3) show thesis
      by (rule executed_statement) (use post evolves lost known in blast)+
  qed
qed

text \<open>The rows behind an answer.\<close>

lemma reported_rows:
  assumes "reported columns outcome answer" and "answered_tuples answer" and "columns < 2 ^ 31"
  obtains rows where "outcome = Rows rows" and "answered_rows answer = length rows"
    and "\<And>i j. i < length rows \<Longrightarrow> j < columns \<Longrightarrow> answered_cell answer i j = rows ! i ! j"
proof -
  obtain r where r: "answer = Some r" "pq_status r = PGRES_TUPLES_OK"
    using assms(2) by (cases answer) auto
  show thesis
    by (rule reported_table [OF assms(1) [unfolded r(1)] r(2) assms(3)]) (use that r(1) in auto)
qed

lemma asked_mono:
  "asked available command texts ss post \<Longrightarrow> (\<And>answer. post answer \<Longrightarrow> post' answer) \<Longrightarrow>
   asked available command texts ss post'"
  by (auto simp: asked_def)

lemma asked_known:
  "asked available command texts ss post \<Longrightarrow> (command, length texts, columns) \<in> set sql_table \<Longrightarrow>
   list_all known_statement ss"
  by (auto simp: asked_def known_statement_def list_ex_iff list_all_iff)

section \<open>Sessions\<close>

text \<open>The valid sessions of a token, each with its user; a request is signed in when there is one.\<close>

definition sessions_of :: "store \<Rightarrow> string \<Rightarrow> (session_row \<times> user_row) list" where
  "sessions_of d t =
     filter (\<lambda>(s, u). session_valid (clock d) t s u) (List.product (auth_sessions d) (users d))"

definition signed_in_as :: "postgres \<Rightarrow> store \<Rightarrow> mhd_connection option \<Rightarrow> user_row \<Rightarrow> bool" where
  "signed_in_as P d connection u \<longleftrightarrow>
     (case bearer_token connection of
        None \<Rightarrow> False
      | Some token \<Rightarrow>
          (case pg_uuid P token of None \<Rightarrow> False | Some t \<Rightarrow> map snd (sessions_of d t) = [u]))"

lemma signed_in_asD:
  assumes "signed_in_as P d connection u"
  obtains token t s where "bearer_token connection = Some token" and "pg_uuid P token = Some t"
    and "s \<in> set (auth_sessions d)" and "u \<in> set (users d)" and "session_valid (clock d) t s u"
proof -
  obtain token t where token: "bearer_token connection = Some token" "pg_uuid P token = Some t"
    and list: "map snd (sessions_of d t) = [u]"
    using assms by (auto simp: signed_in_as_def split: option.splits)
  then have "u \<in> set (map snd (sessions_of d t))" by simp
  then show thesis
    using token that by (auto simp: sessions_of_def)
qed

lemma signed_in_as_session:
  assumes "signed_in_as P d connection u"
  shows "\<exists>token t s. bearer_token connection = Some token \<and> pg_uuid P token = Some t \<and>
    sessions_of d t = [(s, u)] \<and> session_valid (clock d) t s u"
proof -
  obtain token t where token: "bearer_token connection = Some token" "pg_uuid P token = Some t"
    and "map snd (sessions_of d t) = [u]"
    using assms by (auto simp: signed_in_as_def split: option.splits)
  then obtain s where one: "sessions_of d t = [(s, u)]" by (cases "sessions_of d t") auto
  then have "(s, u) \<in> set (sessions_of d t)" by simp
  then have "session_valid (clock d) t s u" by (simp add: sessions_of_def)
  with token one show ?thesis by blast
qed

lemma session_check:
  assumes "executed P d (auth_query, [Some token], answer) d'" and "session_user answer = Some i"
    and "bearer_token connection = Some token"
  obtains u where "signed_in_as P d' connection u" and "i = take 36 (user_row_id u)"
    and "d' = d\<lparr>clock := clock d'\<rparr>"
proof -
  obtain r where r: "answer = Some r" "pq_status r = PGRES_TUPLES_OK" "row_count r = 1"
      "i = take 36 (cell_text r 0 0)"
    using assms(2) by (auto simp: session_user_def split: option.splits if_splits)
  have "executed P d (auth_query, map Some [token], answer) d'" using assms(1) by simp
  then obtain draw outcome where draw: "run_statement P draw d auth_query [token] = (outcome, d')"
    and answer: "reported 2 outcome (Some r)"
    by (rule executed_statement [where columns = 2]) (use r(1,2) in \<open>auto simp: sql_table_def lost_def\<close>)
  obtain rows where rows: "outcome = Rows rows" "length rows = 1"
    and cells: "\<And>i j. i < length rows \<Longrightarrow> j < 2 \<Longrightarrow> cell_text r i j = rows ! i ! j"
    by (rule reported_table [OF answer r(2)]) (use r(3) in auto)
  obtain t where t: "pg_uuid P token = Some t"
    using draw rows(1) by (auto simp: run_statements split: option.splits)
  have d': "d' = d\<lparr>clock := draw_time draw\<rparr>"
    and list: "rows = map (\<lambda>(s, u). [user_row_id u, account_email u]) (sessions_of d' t)"
    using draw rows(1) by (auto simp: run_statements t sessions_of_def)
  obtain s u where one: "sessions_of d' t = [(s, u)]"
    using rows(2) by (auto simp: list length_Suc_conv)
  then have "signed_in_as P d' connection u"
    by (simp add: signed_in_as_def assms(3) t)
  moreover have "i = take 36 (user_row_id u)"
    using cells [of 0 0] r(4) by (simp add: list one)
  moreover have "d' = d\<lparr>clock := clock d'\<rparr>" by (simp add: d')
  ultimately show ?thesis by (rule that)
qed

lemma authenticated_statement:
  assumes "auth_decision available connection PORTAL_AUTH_AUTHENTICATED uid ss" and "history P d ss d'"
  obtains u where "signed_in_as P d' connection u" and "uid = take 36 (user_row_id u)"
    and "d' = d\<lparr>clock := clock d'\<rparr>" and "clock d \<le> clock d'"
proof -
  have "list_all known_statement ss"
    using assms(1) by (rule auth_decision_known)
  with assms(2) have "clock d \<le> clock d'"
    by (auto simp: evolves_def dest: history_evolves)
  moreover obtain token answer where "bearer_token connection = Some token"
    "ss = [(auth_query, [Some token], answer)]" "session_user answer = Some uid"
    using assms(1) by (auto simp: auth_decision_def split: if_splits option.splits)
  ultimately show thesis using assms(2) that by (auto elim: session_check)
qed

text \<open>The session check of a request reads the tables, whatever comes of it.\<close>

lemma decision_reads:
  assumes "auth_decision available connection status uid ss" and "history P d ss d'"
  shows "d' = d\<lparr>clock := clock d'\<rparr>"
proof (cases "ss = []")
  case False
  with assms(1) obtain token answer where "ss = [(auth_query, map Some [token], answer)]"
    by (auto simp: auth_decision_def split: if_splits option.splits)
  with assms(2) have "executed P d (auth_query, map Some [token], answer) d'" by simp
  then show ?thesis
  proof (rule executed_statement [where columns = 2])
    fix draw outcome
    assume "run_statement P draw d auth_query [token] = (outcome, d')"
    then have "d' = d\<lparr>clock := draw_time draw\<rparr>"
      using sql_reads(1) [of P draw "d\<lparr>clock := draw_time draw\<rparr>" "[token]"] by (simp add: run_statements)
    then show ?thesis by simp
  qed (auto simp: sql_table_def)
qed (use assms(2) in simp)

text \<open>A route for signed-in users that did not answer 401: for whom it was run, and on which tables.\<close>

lemma protected_effect:
  assumes "protected E ctx connection granted result es" and "history P d (sqls es) d'"
    and "answered_with es status" and "status \<noteq> 401"
  obtains u e fs where "signed_in_as P e connection u" and "e = d\<lparr>clock := clock e\<rparr>" and "clock d \<le> clock e"
    and "granted (take 36 (user_row_id u)) result fs" and "history P e (sqls fs) d'"
    and "answered_with fs status" and "responses es = responses fs"
proof -
  obtain decided uid es1 fs where es: "es = es1 @ fs" "responses es1 = []"
    and decision: "auth_decision (live E ctx) connection decided uid (sqls es1)"
    and rest: "if decided = PORTAL_AUTH_AUTHENTICATED then granted uid result fs
       else replies E connection 401
         (error_body E ''unauthorized'' ''A valid Bearer token is required.'') result fs"
    using assms(1) by (auto simp: protected_def split: if_splits)
  have now: "answered_with fs status" using assms(3) es by simp
  then have decided: "decided = PORTAL_AUTH_AUTHENTICATED"
    using rest assms(4) by (auto split: if_splits dest: replies_status)
  obtain e where e: "history P d (sqls es1) e" "history P e (sqls fs) d'"
    using assms(2) es(1) history_split by fastforce
  obtain u where "signed_in_as P e connection u" "uid = take 36 (user_row_id u)" "e = d\<lparr>clock := clock e\<rparr>"
      "clock d \<le> clock e"
    using authenticated_statement [OF decision [unfolded decided] e(1)] .
  then show thesis
    using that rest decided e(2) now es by simp
qed

subsection \<open>Logout\<close>

text \<open>A token that was issued and whose sessions are all revoked.\<close>

definition dead_session :: "store \<Rightarrow> string \<Rightarrow> bool" where
  "dead_session d t \<longleftrightarrow> (\<exists>s \<in> set (auth_sessions d). session_token s = t) \<and>
     (\<forall>s \<in> set (auth_sessions d). session_token s = t \<longrightarrow> revoked_at s \<noteq> None)"

lemma dead_session_stays:
  assumes "evolves d d'" and "dead_session d t"
  shows "dead_session d' t"
proof -
  have grows: "grows session_ages session_token (auth_sessions d) (auth_sessions d')"
    using assms(1) by (simp add: evolves_def)
  have "revoked_at s' \<noteq> None" if s': "s' \<in> set (auth_sessions d')" "session_token s' = t" for s'
  proof -
    have "session_token s' \<in> session_token ` set (auth_sessions d)"
      using assms(2) s'(2) unfolding dead_session_def image_iff by metis
    from grows_same_key [OF grows s'(1) this] obtain s where
      "s \<in> set (auth_sessions d)" "session_ages s s'" "session_token s = session_token s'" by blast
    then show ?thesis using assms(2) s'(2) by (auto simp: dead_session_def session_ages_def)
  qed
  moreover obtain s where "s \<in> set (auth_sessions d)" "session_token s = t"
    using assms(2) by (auto simp: dead_session_def)
  with grows_keeps [OF grows] have "\<exists>s \<in> set (auth_sessions d'). session_token s = t" by blast
  ultimately show ?thesis by (auto simp: dead_session_def)
qed

lemma dead_session_refused:
  assumes "dead_session d t" and "pg_uuid P token = Some t" and "bearer_token connection = Some token"
    and "auth_decision available connection status uid ss" and "history P d ss d'"
  shows "status = PORTAL_AUTH_INVALID"
proof (rule ccontr)
  assume "status \<noteq> PORTAL_AUTH_INVALID"
  moreover have "\<not> no_credentials connection"
    using assms(3) by (auto simp: no_credentials_def bearer_token_def split: option.splits if_splits)
  ultimately have "auth_decision available connection PORTAL_AUTH_AUTHENTICATED uid ss"
    using assms(4) by (auto simp: auth_decision_def split: if_splits option.splits)
  then obtain u where u: "signed_in_as P d' connection u" "d' = d\<lparr>clock := clock d'\<rparr>"
    using assms(5) by (auto elim: authenticated_statement)
  from u(1) obtain s where "s \<in> set (auth_sessions d')" "session_valid (clock d') t s u"
    by (rule signed_in_asD) (use assms(2,3) in auto)
  moreover have "auth_sessions d' = auth_sessions d" by (subst u(2)) simp
  ultimately show False using assms(1) by (auto simp: dead_session_def session_valid_def)
qed

text \<open>A logout that was answered with 204 leaves its token dead.\<close>

lemma logout_kills:
  assumes "protected E ctx connection (\<lambda>_. logout_outcome E ctx connection) result es"
    and "history P d (sqls es) d'" and "answered_with es 204" and "bearer_token connection = Some token"
  shows "\<exists>t. pg_uuid P token = Some t \<and> dead_session d' t"
proof -
  obtain u e fs where e: "signed_in_as P e connection u" "logout_outcome E ctx connection result fs"
      "history P e (sqls fs) d'" "answered_with fs 204"
    by (rule protected_effect [OF assms(1-3)]) simp
  from e(1) obtain t s where t: "pg_uuid P token = Some t" "s \<in> set (auth_sessions e)"
      "session_valid (clock e) t s u"
    by (rule signed_in_asD) (use assms(4) in auto)
  have "asked (live E ctx) logout_query [token] (sqls fs) (\<lambda>answer.
      if answered_command answer then replies E connection 204 (\<lambda>b. b = []) result fs
      else replies E connection 500 (error_body E ''database_error''
        ''Could not close the session.'') result fs)"
    using e(2) assms(4) by (auto simp: logout_outcome_def)
  then obtain r where "run_statement P r e logout_query [token] = (Command_Done, d')"
    by (rule asked_effect [OF _ e(3), where columns = 0])
      (use e(4) in \<open>auto simp: sql_table_def split: if_splits dest: replies_status reported_command\<close>)
  then have "auth_sessions d' = map (\<lambda>s. if session_token s = t \<and> revoked_at s = None
      then s\<lparr>revoked_at := Some (draw_time r)\<rparr> else s) (auth_sessions e)"
    by (auto simp: run_statements t(1))
  with t(2,3) have "dead_session d' t"
    unfolding dead_session_def session_valid_def
    by (simp only: list.set_map bex_simps ball_simps) (auto intro!: bexI [of _ s])
  with t(1) show ?thesis by blast
qed


subsection \<open>Login\<close>

text \<open>What a login adds to the tables: a session of the user, and nothing else.\<close>

definition new_session :: "store \<Rightarrow> user_row \<Rightarrow> string \<Rightarrow> int \<Rightarrow> store \<Rightarrow> bool" where
  "new_session d u t hours d' \<longleftrightarrow>
     d' = d\<lparr>clock := clock d', auth_sessions := auth_sessions d @
       [\<lparr>session_token = t, session_owner = user_row_id u,
         session_expires = clock d' + hours * 3600, revoked_at = None\<rparr>]\<rparr>"

text \<open>The lifetimes reach PostgreSQL in decimal and are read back as they are.\<close>

lemma sql_int_decimal: "n < 2 ^ 31 \<Longrightarrow> sql_int (decimal n) = Some (int n)"
  by (auto simp: sql_int_def c_strtol_decimal dest: arg_cong [where f = length])

lemma sql_int_hours:
  fixes hours :: "32 word"
  assumes "sql_int (decimal (unat hours)) = Some i"
  shows "i = int (unat hours)"
proof -
  have "unat hours < 2 ^ 32" using unsigned_less [of hours, where ?'a = nat] by simp
  then have "c_strtol (decimal (unat hours)) = (int (unat hours), [], False)"
    by (intro c_strtol_decimal) simp
  with assms show ?thesis by (auto simp: sql_int_def split: if_splits)
qed

lemma sql_login_row:
  assumes "run_statement P r d login_query [email, password, ttl] = (Rows [row], d')"
  obtains u hours where "u \<in> set (users d)" and "login_candidate P email password u"
    and "sql_int ttl = Some hours" and "new_session d u (draw_token r) hours d'"
    and "row = [draw_token r, pg_time_text P (clock d' + hours * 3600)]"
proof -
  obtain hours where hours: "sql_int ttl = Some hours"
    using assms by (auto simp: run_statements split: option.splits)
  obtain u us where u: "filter (login_candidate P email password) (users d) = u # us"
    using assms by (auto simp: run_statements hours split: list.splits)
  then have "u \<in> set (filter (login_candidate P email password) (users d))" by simp
  then have "u \<in> set (users d)" "login_candidate P email password u" by simp_all
  moreover have "new_session d u (draw_token r) hours d'"
    "row = [draw_token r, pg_time_text P (clock d' + hours * 3600)]"
    using assms by (auto simp: run_statements hours u Let_def new_session_def)
  ultimately show thesis using hours that by blast
qed

lemma login_session:
  assumes "login_outcome E ctx connection json result es" and "history P d (sqls es) d'"
    and "answered_with es 200"
  obtains email password u t hours body where "credentials E json = Some (email, password)"
    and "u \<in> set (users d)" and "login_candidate P (map c_tolower email) password u"
    and "hours = int (unat (portal_config_token_ttl_hours (ctx_config ctx)))"
    and "t \<notin> session_token ` set (auth_sessions d)" and "pg_uuid P t = Some t"
    and "new_session d u t hours d'" and "responses es = [(200, body, result)]"
    and "prints_entries E [(''access_token'', jc_string E t), (''token_type'', jc_string E ''Bearer''),
           (''expires_at'', jc_string E (pg_time_text P (clock d' + hours * 3600)))] body"
proof -
  let ?ttl = "decimal (unat (portal_config_token_ttl_hours (ctx_config ctx)))"
  obtain email password where input: "credentials E json = Some (email, password)"
    and asked: "asked (live E ctx) login_query [map c_tolower email, password, ?ttl] (sqls es)
            (\<lambda>answer. if \<not> answered_tuples answer then
               replies E connection 500 (error_body E ''database_error'' ''Could not sign in.'') result es
             else if answered_rows answer \<noteq> 1 then
               replies E connection 401 (error_body E ''invalid_credentials''
                 ''Invalid credentials or unconfirmed account.'') result es
             else replies E connection 200 (prints_entries E
               [(''access_token'', jc_string E (answered_cell answer 0 0)),
                (''token_type'', jc_string E ''Bearer''),
                (''expires_at'', jc_string E (answered_cell answer 0 1))]) result es)"
    using assms(1,3) by (auto simp: login_outcome_def split: option.splits dest: replies_status)
  from asked assms(2) obtain answer r outcome where draw: "draw_ok P d r"
    and run: "run_statement P r d login_query [map c_tolower email, password, ?ttl] = (outcome, d')"
    and reported: "reported 2 outcome answer" "answered_tuples answer" "answered_rows answer = 1"
    and reply: "replies E connection 200 (prints_entries E
               [(''access_token'', jc_string E (answered_cell answer 0 0)),
                (''token_type'', jc_string E ''Bearer''),
                (''expires_at'', jc_string E (answered_cell answer 0 1))]) result es"
    by (rule asked_effect [where columns = 2])
      (use assms(3) in \<open>auto simp: sql_table_def split: if_splits dest: replies_status\<close>)
  obtain row where row: "outcome = Rows [row]" "\<And>j. j < 2 \<Longrightarrow> answered_cell answer 0 j = row ! j"
    using reported by (auto simp: length_Suc_conv elim!: reported_rows)
  obtain u hours where "u \<in> set (users d)" "login_candidate P (map c_tolower email) password u"
      "sql_int ?ttl = Some hours" "new_session d u (draw_token r) hours d'"
      "row = [draw_token r, pg_time_text P (clock d' + hours * 3600)]"
    using run unfolding row(1) by (rule sql_login_row)
  moreover obtain body where "responses es = [(200, body, result)]"
      "prints_entries E [(''access_token'', jc_string E (row ! 0)), (''token_type'', jc_string E ''Bearer''),
           (''expires_at'', jc_string E (row ! 1))] body"
    using replies_body [OF reply assms(3)] row(2) by auto
  moreover from draw have "draw_token r \<notin> session_token ` set (auth_sessions d)"
      "pg_uuid P (draw_token r) = Some (draw_token r)"
    by (simp_all add: draw_ok_def)
  ultimately show thesis
    by - (rule that [of email password u hours "draw_token r" body],
      (rule input | (rule sql_int_hours, assumption) | assumption | simp)+)
qed

subsection \<open>Registration\<close>

text \<open>What a registration adds: an unconfirmed user with a hashed password, and its token.\<close>

definition new_user :: "store \<Rightarrow> user_row \<Rightarrow> string \<Rightarrow> int \<Rightarrow> store \<Rightarrow> bool" where
  "new_user d u t hours d' \<longleftrightarrow>
     d' = d\<lparr>clock := clock d', users := users d @ [u],
       confirmation_tokens := confirmation_tokens d @
         [\<lparr>confirmation_token = t, confirmation_user = user_row_id u,
           confirmation_expires = clock d' + hours * 3600, consumed_at = None\<rparr>]\<rparr>"

definition registered :: "store \<Rightarrow> string \<Rightarrow> bool" where
  "registered d email \<longleftrightarrow> (\<exists>u \<in> set (users d). account_email u = email)"

lemma registered_stays: "evolves d d' \<Longrightarrow> registered d email \<Longrightarrow> registered d' email"
  unfolding evolves_def registered_def by (elim conjE bexE) (drule (1) grows_keeps [of user_ages account_email], auto)

definition registration_row :: "postgres \<Rightarrow> string \<Rightarrow> string \<Rightarrow> string \<Rightarrow> user_row \<Rightarrow> bool" where
  "registration_row P email password name u \<longleftrightarrow>
     account_email u = email \<and> display_name u = name \<and> confirmed_at u = None \<and>
     (\<exists>salt. password_hash u = pg_crypt P password salt)"

lemma sql_register_rows:
  assumes "run_statement P r d register_query [email, password, name, ttl] = (Rows rows, d')"
    and "draw_ok P d r"
  obtains u hours where "sql_int ttl = Some hours" and "\<not> registered d email"
    and "registration_row P email password name u" and "user_row_id u \<notin> user_row_id ` set (users d)"
    and "new_user d u (draw_token r) hours d'"
    and "rows = [[draw_token r, pg_time_text P (clock d' + hours * 3600)]]"
proof -
  let ?u = "\<lparr>user_row_id = draw_id r, account_email = email, display_name = name,
      password_hash = pg_crypt P password (draw_salt r), confirmed_at = None\<rparr>"
  obtain hours where hours: "sql_int ttl = Some hours"
    using assms(1) by (auto simp: run_statements Let_def split: option.splits)
  have "user_row_id ?u \<notin> user_row_id ` set (users d)"
    using assms(2) by (simp add: draw_ok_def)
  moreover from assms(1) have "\<not> registered d email" "new_user d ?u (draw_token r) hours d'"
    "rows = [[draw_token r, pg_time_text P (clock d' + hours * 3600)]]"
    by (auto simp: run_statements hours Let_def new_user_def registered_def list_ex_iff split: if_splits)
  moreover have "registration_row P email password name ?u"
    by (auto simp: registration_row_def)
  ultimately show thesis using hours that [of hours ?u] by simp
qed

lemma register_account:
  assumes "register_outcome E ctx connection json result es" and "history P d (sqls es) d'"
    and "answered_with es 201"
  obtains email password name u t hours where "registration E json = Some (email, password, name)"
    and "hours = int (unat (portal_config_confirmation_ttl_hours (ctx_config ctx)))"
    and "\<not> registered d (map c_tolower email)"
    and "registration_row P (map c_tolower email) password name u"
    and "user_row_id u \<notin> user_row_id ` set (users d)"
    and "t \<notin> confirmation_token ` set (confirmation_tokens d)" and "new_user d u t hours d'"
proof -
  let ?ttl = "decimal (unat (portal_config_confirmation_ttl_hours (ctx_config ctx)))"
  obtain email password name where input: "registration E json = Some (email, password, name)"
    using assms(1,3) by (auto simp: register_outcome_def split: option.splits dest: replies_status)
  let ?asked = "asked (live E ctx) register_query [map c_tolower email, password, name, ?ttl] (sqls es)"
  have "?asked answered_tuples"
    using assms(1) unfolding register_outcome_def input option.case prod.case
    by (rule asked_mono) (use assms(3) in \<open>auto split: if_splits dest: replies_status\<close>)
  from this assms(2) obtain answer r outcome where draw: "draw_ok P d r"
    and run: "run_statement P r d register_query [map c_tolower email, password, name, ?ttl] = (outcome, d')"
    and reported: "reported 2 outcome answer" "answered_tuples answer"
    by (rule asked_effect [where columns = 2]) (auto simp: sql_table_def)
  obtain rows where "outcome = Rows rows"
    by (rule reported_rows [OF reported]) simp
  from sql_register_rows [OF run [unfolded this] draw] obtain u hours where
    "sql_int ?ttl = Some hours" "\<not> registered d (map c_tolower email)"
    "registration_row P (map c_tolower email) password name u" "user_row_id u \<notin> user_row_id ` set (users d)"
    "new_user d u (draw_token r) hours d'" .
  moreover from draw have "draw_token r \<notin> confirmation_token ` set (confirmation_tokens d)"
    by (simp add: draw_ok_def)
  ultimately show thesis
    by - (rule that [of email password name hours u "draw_token r"],
      (rule input | (rule sql_int_hours, assumption) | assumption | simp)+)
qed

lemma new_user_registered: "new_user d u t hours d' \<Longrightarrow> registered d' (account_email u)"
  unfolding new_user_def registered_def by (erule ssubst) simp

subsection \<open>Confirmation\<close>

text \<open>A confirmation token that was issued and can no longer be consumed.\<close>

definition spent :: "store \<Rightarrow> string \<Rightarrow> bool" where
  "spent d t \<longleftrightarrow> (\<exists>c \<in> set (confirmation_tokens d). confirmation_token c = t) \<and>
     (\<forall>c \<in> set (confirmation_tokens d). \<not> consumable (clock d) t c)"

lemma spent_stays:
  assumes "evolves d d'" and "spent d t"
  shows "spent d' t"
proof -
  have grows: "grows confirmation_ages confirmation_token (confirmation_tokens d) (confirmation_tokens d')"
    and time: "clock d \<le> clock d'"
    using assms(1) by (simp_all add: evolves_def)
  have "\<not> consumable (clock d') t c'" if c': "c' \<in> set (confirmation_tokens d')" for c'
  proof (cases "confirmation_token c' = t")
    case True
    have "confirmation_token c' \<in> confirmation_token ` set (confirmation_tokens d)"
      using assms(2) True unfolding spent_def image_iff by metis
    from grows_same_key [OF grows c' this] obtain c where
      c: "c \<in> set (confirmation_tokens d)" "confirmation_ages c c'" "confirmation_token c = confirmation_token c'"
      by blast
    then have "\<not> consumable (clock d) t c" using assms(2) by (simp add: spent_def)
    with c True time show ?thesis
      by (auto simp: consumable_def confirmation_ages_def)
  qed (simp add: consumable_def)
  moreover obtain c where "c \<in> set (confirmation_tokens d)" "confirmation_token c = t"
    using assms(2) by (auto simp: spent_def)
  with grows_keeps [OF grows] have "\<exists>c \<in> set (confirmation_tokens d'). confirmation_token c = t" by blast
  ultimately show ?thesis by (auto simp: spent_def)
qed

text \<open>
  What a confirmation does: tokens of this value that could be consumed are, their users may sign in
  from now on, and no other row changes.
\<close>

definition confirmed_by :: "store \<Rightarrow> string \<Rightarrow> confirmation_row \<Rightarrow> store \<Rightarrow> bool" where
  "confirmed_by d t c d' \<longleftrightarrow>
     c \<in> set (confirmation_tokens d) \<and> consumable (clock d') t c \<and> spent d' t \<and>
     (\<exists>u \<in> set (users d'). user_row_id u = confirmation_user c \<and> confirmed_at u \<noteq> None) \<and>
     d' = d\<lparr>clock := clock d', users := users d', confirmation_tokens := confirmation_tokens d'\<rparr>"

lemma sql_confirm_rows:
  assumes "run_statement P r d confirm_query [token] = (Rows rows, d')" and "rows \<noteq> []"
  obtains t c where "pg_uuid P token = Some t" and "confirmed_by d t c d'"
proof -
  obtain t where t: "pg_uuid P token = Some t"
    using assms(1) by (auto simp: run_statements split: option.splits)
  let ?now = "draw_time r"
  let ?owners = "map confirmation_user (filter (consumable ?now t) (confirmation_tokens d))"
  have rows: "rows = map (\<lambda>u. [user_row_id u]) (filter (\<lambda>u. user_row_id u \<in> set ?owners) (users d))"
    and d': "d' = d\<lparr>clock := ?now,
      confirmation_tokens := map (\<lambda>c. if consumable ?now t c
        then c\<lparr>consumed_at := Some ?now\<rparr> else c) (confirmation_tokens d),
      users := map (\<lambda>u. if user_row_id u \<in> set ?owners \<and> confirmed_at u = None
        then u\<lparr>confirmed_at := Some ?now\<rparr> else u) (users d)\<rparr>"
    using assms(1) by (auto simp: run_statements t Let_def cong: if_cong)
  obtain u c where u: "u \<in> set (users d)" "user_row_id u = confirmation_user c"
    and c: "c \<in> set (confirmation_tokens d)" "consumable ?now t c"
    using assms(2) unfolding rows by (auto simp: filter_empty_conv)
  let ?u = "if confirmed_at u = None then u\<lparr>confirmed_at := Some ?now\<rparr> else u"
  have "?u \<in> set (users d')"
    unfolding d' using u c by (auto intro!: image_eqI [of _ _ u])
  moreover have "user_row_id ?u = confirmation_user c" "confirmed_at ?u \<noteq> None" using u by simp_all
  moreover have tokens: "confirmation_tokens d' = map (\<lambda>c. if consumable ?now t c
        then c\<lparr>consumed_at := Some ?now\<rparr> else c) (confirmation_tokens d)" and now: "clock d' = ?now"
    unfolding d' by simp_all
  have "spent d' t"
    unfolding spent_def tokens now using c
    by (simp only: list.set_map bex_simps ball_simps) (auto simp: consumable_def intro!: bexI [of _ c])
  moreover have "d' = d\<lparr>clock := clock d', users := users d', confirmation_tokens := confirmation_tokens d'\<rparr>"
    unfolding d' by simp
  ultimately have "confirmed_by d t c d'"
    unfolding confirmed_by_def now using c by metis
  with t show thesis by (rule that)
qed

lemma confirm_account:
  assumes "confirm_outcome E ctx connection json result es" and "history P d (sqls es) d'"
    and "answered_with es 200"
  obtains token t c where "portal_http_json_string E json (Some ''token'') 36 36 = Some token"
    and "pg_uuid P token = Some t" and "confirmed_by d t c d'"
proof -
  obtain token where input: "portal_http_json_string E json (Some ''token'') 36 36 = Some token"
    using assms(1,3) by (auto simp: confirm_outcome_def split: option.splits dest: replies_status)
  have "asked (live E ctx) confirm_query [token] (sqls es) (\<lambda>answer. answered_tuples answer \<and> answered_rows answer = 1)"
    using assms(1) unfolding confirm_outcome_def input option.case
    by (rule asked_mono) (use assms(3) in \<open>auto split: if_splits dest: replies_status\<close>)
  from this assms(2) obtain answer r outcome where
    run: "run_statement P r d confirm_query [token] = (outcome, d')"
    and reported: "reported 1 outcome answer" "answered_tuples answer" "answered_rows answer = 1"
    by (rule asked_effect [where columns = 1]) (auto simp: sql_table_def)
  obtain rows where "outcome = Rows rows" "answered_rows answer = length rows"
    by (rule reported_rows [OF reported(1,2)]) simp_all
  with run reported(3) show thesis
    using input that by (auto elim: sql_confirm_rows)
qed

end
