(* ===== verification/Records.thy ===== *)
theory Records
  imports Accounts
begin

text \<open>
  The favourites, likes, comments and events of \<^verbatim>\<open>routes/favorites.c\<close>, \<^verbatim>\<open>routes/activity.c\<close> and
  \<^verbatim>\<open>routes/analytics.c\<close> over the tables: on whose behalf a request acts, what a change that was
  acknowledged did, and what a list that was answered shows.
\<close>

section \<open>The same request later\<close>

text \<open>A token names one user for as long as users and sessions stay what they are.\<close>

lemma signed_in_same:
  assumes "signed_in_as P d connection u" and "signed_in_as P d' connection u'"
    and "users d' = users d" and "auth_sessions d' = auth_sessions d" and "clock d \<le> clock d'"
  shows "u' = u"
proof -
  obtain t where t: "map snd (sessions_of d t) = [u]" "map snd (sessions_of d' t) = [u']"
    using assms(1,2) by (auto simp: signed_in_as_def split: option.splits)
  have "set (sessions_of d' t) \<subseteq> set (sessions_of d t)"
    using assms(3-5) by (auto simp: sessions_of_def session_valid_def)
  then have "set (map snd (sessions_of d' t)) \<subseteq> set (map snd (sessions_of d t))" by auto
  with t show ?thesis by simp
qed

section \<open>Favourites\<close>

fun favorites_of :: "store \<Rightarrow> favorite_kind \<Rightarrow> (string \<times> string) list" where
  "favorites_of d PORTAL_FAVORITE_TAG = favorite_tags d"
| "favorites_of d PORTAL_FAVORITE_SECTION = favorite_sections d"

fun with_favorites :: "favorite_kind \<Rightarrow> (string \<times> string) list \<Rightarrow> store \<Rightarrow> store" where
  "with_favorites PORTAL_FAVORITE_TAG rows d = d\<lparr>favorite_tags := rows\<rparr>"
| "with_favorites PORTAL_FAVORITE_SECTION rows d = d\<lparr>favorite_sections := rows\<rparr>"

definition favorites_after :: "(string \<times> string) list \<Rightarrow> bool \<Rightarrow> string \<Rightarrow> string \<Rightarrow> (string \<times> string) list" where
  "favorites_after rows is_put i key =
     (if is_put then (if (i, key) \<in> set rows then rows else rows @ [(i, key)])
      else favorite_removed rows i key)"

lemma favorites_after_iff:
  "(j, k) \<in> set (favorites_after rows is_put i key) \<longleftrightarrow>
     (if (j, k) = (i, key) then is_put else (j, k) \<in> set rows)"
  by (auto simp: favorites_after_def favorite_removed_def)

lemma with_favorites_simps [simp]:
  "favorites_of (with_favorites kind rows d) kind = rows"
  "users (with_favorites kind rows d) = users d"
  "auth_sessions (with_favorites kind rows d) = auth_sessions d"
  "clock (with_favorites kind rows d) = clock d"
  "favorites_of (d\<lparr>clock := now\<rparr>) kind = favorites_of d kind"
  by (cases kind; simp)+

lemma run_favorite_change:
  assumes "run_statement P r d (favorite_change_query kind is_put) [uid, key] = (Command_Done, d')"
  obtains i where "pg_uuid P uid = Some i"
    and "d' = with_favorites kind (favorites_after (favorites_of d kind) is_put i key) (d\<lparr>clock := clock d'\<rparr>)"
  using assms
  by (cases kind; cases is_put)
    (auto simp: favorite_change_query_def run_statements favorite_added_def favorites_after_def
      split: option.splits sum.splits if_splits)

lemma run_favorite_list:
  assumes "run_statement P r d (favorite_list_query kind) [uid] = (Rows rows, d')"
  obtains i where "pg_uuid P uid = Some i" and "d' = d\<lparr>clock := clock d'\<rparr>"
    and "rows = map (\<lambda>k. [k]) (favorite_keys P (favorites_of d kind) i)"
  using assms
  by (cases kind) (auto simp: favorite_list_query_def run_statements split: option.splits)

lemma favorite_queries_known:
  "(favorite_change_query kind is_put, Suc (Suc 0), 0) \<in> set sql_table"
  "(favorite_list_query kind, Suc 0, Suc 0) \<in> set sql_table"
  by (cases kind; cases is_put; simp add: favorite_change_query_def favorite_list_query_def sql_table_def)+

lemma favorite_changed:
  assumes "protected E ctx connection (favorite_change_outcome E ctx connection kind is_put key) result es"
    and "history P d (sqls es) d'" and "answered_with es 204"
  obtains u e i where "signed_in_as P e connection u" and "e = d\<lparr>clock := clock e\<rparr>"
    and "clock e \<le> clock d'" and "pg_uuid P (take 36 (user_row_id u)) = Some i"
    and "d' = with_favorites kind (favorites_after (favorites_of d kind) is_put i key) (d\<lparr>clock := clock d'\<rparr>)"
proof -
  obtain u e fs where e: "signed_in_as P e connection u" "e = d\<lparr>clock := clock e\<rparr>"
    and outcome: "favorite_change_outcome E ctx connection kind is_put key (take 36 (user_row_id u)) result fs"
    and later: "history P e (sqls fs) d'" and now: "answered_with fs 204"
    by (rule protected_effect [OF assms]) simp
  have "asked (live E ctx) (favorite_change_query kind is_put) [take 36 (user_row_id u), key] (sqls fs) answered_command"
    using outcome now unfolding favorite_change_outcome_def
    by (auto elim!: asked_mono split: if_splits dest: replies_status)
  from this later obtain answer r outcome where draw: "draw_ok P e r"
    and run: "run_statement P r e (favorite_change_query kind is_put) [take 36 (user_row_id u), key] = (outcome, d')"
    and "reported 0 outcome answer" "answered_command answer" and time: "clock e \<le> clock d'"
    by (rule asked_effect [where columns = 0]) (auto simp: favorite_queries_known evolves_def)
  then have "outcome = Command_Done" by (auto dest: reported_command)
  with run obtain i where i: "pg_uuid P (take 36 (user_row_id u)) = Some i"
    and d': "d' = with_favorites kind (favorites_after (favorites_of e kind) is_put i key) (e\<lparr>clock := clock d'\<rparr>)"
    by (auto elim: run_favorite_change)
  have "favorites_of e kind = favorites_of d kind" "e\<lparr>clock := clock d'\<rparr> = d\<lparr>clock := clock d'\<rparr>"
    by (subst e(2), simp)+
  with d' have "d' = with_favorites kind (favorites_after (favorites_of d kind) is_put i key) (d\<lparr>clock := clock d'\<rparr>)"
    by simp
  then show thesis by (rule that [OF e time i])
qed

text \<open>What a list that was answered shows.\<close>

definition lists_keys :: "('x, 'j) ext \<Rightarrow> string list \<Rightarrow> string \<Rightarrow> bool" where
  "lists_keys E keys body \<longleftrightarrow>
     (\<exists>arr. appended_from E (jc_array E) (map (jc_string E) keys) arr \<and> prints_entries E [(''items'', arr)] body)"

lemma favorites_listed:
  assumes "protected E ctx connection (favorite_list_outcome E ctx connection kind) result es"
    and "history P d (sqls es) d'" and "answered_with es 200"
  obtains u e i body where "signed_in_as P e connection u" and "e = d\<lparr>clock := clock e\<rparr>" and "clock d \<le> clock e"
    and "pg_uuid P (take 36 (user_row_id u)) = Some i" and "d' = d\<lparr>clock := clock d'\<rparr>"
    and "responses es = [(200, body, result)]" and "lists_keys E (favorite_keys P (favorites_of d kind) i) body"
proof -
  obtain u e fs where e: "signed_in_as P e connection u" "e = d\<lparr>clock := clock e\<rparr>" "clock d \<le> clock e"
    and outcome: "favorite_list_outcome E ctx connection kind (take 36 (user_row_id u)) result fs"
    and later: "history P e (sqls fs) d'" and now: "answered_with fs 200" and same: "responses es = responses fs"
    by (rule protected_effect [OF assms]) simp
  let ?reply = "\<lambda>answer. replies E connection 200 (\<lambda>b. \<exists>arr.
           appended_from E (jc_array E)
             (map (\<lambda>i. jc_string E (answered_cell answer i 0)) [0..<answered_rows answer]) arr \<and>
           prints_entries E [(''items'', arr)] b) result fs"
  have "asked (live E ctx) (favorite_list_query kind) [take 36 (user_row_id u)] (sqls fs)
      (\<lambda>answer. answered_tuples answer \<and> ?reply answer)"
    using outcome now unfolding favorite_list_outcome_def
    by (auto elim!: asked_mono split: if_splits dest: replies_status)
  from this later obtain answer r outcome where
    run: "run_statement P r e (favorite_list_query kind) [take 36 (user_row_id u)] = (outcome, d')"
    and reported: "reported 1 outcome answer" "answered_tuples answer" and reply: "?reply answer"
    by (rule asked_effect [where columns = 1]) (auto simp: favorite_queries_known)
  obtain rows where rows: "outcome = Rows rows" "answered_rows answer = length rows"
      "\<And>i j. i < length rows \<Longrightarrow> j < 1 \<Longrightarrow> answered_cell answer i j = rows ! i ! j"
    by (rule reported_rows [OF reported]) simp_all
  obtain i where i: "pg_uuid P (take 36 (user_row_id u)) = Some i" "d' = e\<lparr>clock := clock d'\<rparr>"
      "rows = map (\<lambda>k. [k]) (favorite_keys P (favorites_of e kind) i)"
    using run unfolding rows(1) by (rule run_favorite_list)
  let ?keys = "favorite_keys P (favorites_of e kind) i"
  have "map (\<lambda>i. jc_string E (answered_cell answer i 0)) [0..<answered_rows answer] = map (jc_string E) ?keys"
    using rows(2,3) by (intro nth_equalityI) (simp_all add: i(3))
  with replies_body [OF reply now] obtain body where
    "responses fs = [(200, body, result)]" "lists_keys E ?keys body"
    by (auto simp: lists_keys_def)
  moreover have "favorites_of e kind = favorites_of d kind" "e\<lparr>clock := clock d'\<rparr> = d\<lparr>clock := clock d'\<rparr>"
    by (subst e(2), simp)+
  ultimately show thesis
    using that e i same by metis
qed

section \<open>Actors\<close>

text \<open>For whom the actor of a request stands: a signed-in user, or the visitor its body names.\<close>

definition acts_as :: "postgres \<Rightarrow> store \<Rightarrow> mhd_connection option \<Rightarrow> string option \<Rightarrow> actor \<Rightarrow> bool" where
  "acts_as P d connection anonymous a \<longleftrightarrow>
     (case a of
        User uid \<Rightarrow> \<exists>u \<in> set (users d). signed_in_as P d connection u \<and> uid = take 36 (user_row_id u)
      | Visitor v \<Rightarrow> no_credentials connection \<and> anonymous = Some v \<and> portal_validation_anonymous_id (Some v))"

lemma attributed_effect:
  assumes "attributed E ctx connection json granted result es" and "history P d (sqls es) d'"
    and "answered_with es status" and "status \<noteq> 400" and "status \<noteq> 401"
  obtains a e fs where
    "acts_as P e connection (portal_http_json_optional_string E json (Some ''anonymous_id'') 200) a"
    and "e = d\<lparr>clock := clock e\<rparr>" and "granted a result fs" and "history P e (sqls fs) d'"
    and "answered_with fs status" and "responses es = responses fs"
proof -
  obtain decided uid es1 fs where es: "es = es1 @ fs" "responses es1 = []"
    and decision: "auth_decision (live E ctx) connection decided uid (sqls es1)"
    and rest: "case resolved E json decided uid of
           Some a \<Rightarrow> granted a result fs
         | None \<Rightarrow> sqls fs = [] \<and>
             (if no_credentials connection
              then replies E connection 400 (error_body E ''anonymous_id_required''
                ''Anonymous actions need an opaque anonymous_id.'') result fs
              else replies E connection 401 (error_body E ''invalid_token''
                ''The supplied Bearer token is invalid.'') result fs)"
    using assms(1) by (auto simp: attributed_def)
  have now: "answered_with fs status" using assms(3) es by simp
  obtain a where a: "resolved E json decided uid = Some a" "granted a result fs"
    using rest now assms(4,5) by (auto split: option.splits if_splits dest: replies_status)
  obtain e where e: "history P d (sqls es1) e" "history P e (sqls fs) d'"
    using assms(2) es(1) history_split by fastforce
  have "acts_as P e connection (portal_http_json_optional_string E json (Some ''anonymous_id'') 200) a"
  proof (cases decided)
    case PORTAL_AUTH_AUTHENTICATED
    obtain u where u: "signed_in_as P e connection u" "uid = take 36 (user_row_id u)"
      using authenticated_statement [OF decision [unfolded PORTAL_AUTH_AUTHENTICATED] e(1)] .
    moreover have "u \<in> set (users e)" using u(1) by (rule signed_in_asD)
    moreover have "a = User uid" using a(1) PORTAL_AUTH_AUTHENTICATED by (simp add: resolved_def)
    ultimately show ?thesis by (auto simp: acts_as_def)
  next
    case PORTAL_AUTH_ANONYMOUS
    then have "no_credentials connection"
      using decision by (auto simp: auth_decision_def split: if_splits option.splits)
    with a(1) PORTAL_AUTH_ANONYMOUS show ?thesis
      by (auto simp: acts_as_def resolved_def split: option.splits if_splits)
  qed (use a(1) in \<open>simp add: resolved_def\<close>)
  with decision_reads [OF decision e(1)] a(2) e(2) now es that show thesis by simp
qed

text \<open>The two columns of an actor in a row.\<close>

definition actor_row :: "postgres \<Rightarrow> actor \<Rightarrow> (string option \<times> string option) option" where
  "actor_row P a =
     (case a of
        User uid \<Rightarrow> if uid = [] then Some (None, None) else map_option (\<lambda>i. (Some i, None)) (pg_uuid P uid)
      | Visitor v \<Rightarrow> Some (None, Some v))"

lemma actor_columns:
  assumes "nullable_uuid P (user_column a) = Some uid" and "a \<noteq> Visitor []"
  shows "actor_row P a = Some (uid, nullif (visitor_column a))"
  using assms by (cases a) (auto simp: actor_row_def nullable_uuid_def nullif_def split: if_splits option.splits)

lemma acts_as_visitor: "acts_as P d connection anonymous a \<Longrightarrow> a \<noteq> Visitor []"
  by (auto simp: acts_as_def anonymous_id.valid_iff)

section \<open>Likes\<close>

definition like_added ::
  "postgres \<Rightarrow> store \<Rightarrow> string \<Rightarrow> string option \<Rightarrow> string option \<Rightarrow> string \<Rightarrow> string \<Rightarrow> store \<Rightarrow> bool" where
  "like_added P d content uid anonymous actor portal d' \<longleftrightarrow>
     (if liked d content actor then d' = d\<lparr>clock := clock d'\<rparr>
      else \<exists>e. event_user e = uid \<and> event_anonymous e = anonymous \<and> event_portal e = portal \<and>
        event_kind e = ''like'' \<and> event_content e = Some content \<and> occurred_at e = clock d' \<and>
        d' = d\<lparr>clock := clock d', activity_events := activity_events d @ [e],
          content_likes := content_likes d @
            [\<lparr>like_content = content, like_user = uid, like_anonymous = anonymous, like_actor = actor\<rparr>]\<rparr>)"

lemma run_like_insert:
  assumes "run_statement P r d like_insert_query [content, user, anonymous, actor, portal] = (Rows rows, d')"
  obtains uid where "nullable_uuid P user = Some uid"
    and "like_added P d content uid (nullif anonymous) actor portal d'"
proof -
  obtain uid where uid: "nullable_uuid P user = Some uid"
    using assms by (auto simp: run_statements split: option.splits)
  show thesis
  proof (rule that [OF uid], cases "liked d content actor")
    case True
    with assms show "like_added P d content uid (nullif anonymous) actor portal d'"
      by (auto simp: run_statements uid Let_def like_added_def liked_def split: if_splits)
  next
    case False
    let ?e = "plain_event r (d\<lparr>clock := draw_time r\<rparr>) uid (nullif anonymous) portal ''like'' content"
    from assms False show "like_added P d content uid (nullif anonymous) actor portal d'"
      unfolding like_added_def
      by (auto simp: run_statements uid Let_def liked_def event_inserted_def plain_event_def
        split: if_splits intro!: exI [of _ ?e])
  qed
qed

lemma run_like_delete:
  "run_statement P r d like_delete_query [content, actor] = (outcome, d') \<Longrightarrow>
   d' = d\<lparr>clock := clock d', content_likes :=
     filter (\<lambda>l. \<not> (like_content l = content \<and> like_actor l = actor)) (content_likes d)\<rparr>"
  by (auto simp: run_statements)

text \<open>What a like that was answered with 204 did.\<close>

definition like_done ::
  "postgres \<Rightarrow> bool \<Rightarrow> string \<Rightarrow> string \<Rightarrow> actor \<Rightarrow> store \<Rightarrow> store \<Rightarrow> bool" where
  "like_done P is_put content portal a d d' \<longleftrightarrow>
     (if is_put then \<exists>uid anonymous. actor_row P a = Some (uid, anonymous) \<and>
        like_added P d content uid anonymous (actor_key_of a) portal d'
      else d' = d\<lparr>clock := clock d', content_likes :=
        filter (\<lambda>l. \<not> (like_content l = content \<and> like_actor l = actor_key_of a)) (content_likes d)\<rparr>)"

lemma like_done_clock:
  assumes "e = d\<lparr>clock := now\<rparr>" and "like_done P is_put content portal a e d'"
  shows "like_done P is_put content portal a d d'"
proof -
  have "liked (d\<lparr>clock := now\<rparr>) = liked d" by (intro ext) (simp add: liked_def)
  with assms(2) show ?thesis
    unfolding assms(1) like_done_def like_added_def by (auto split: if_splits)
qed

lemma like_done_liked:
  assumes "like_done P is_put content portal a d d'"
  shows "liked d' content (actor_key_of a) \<longleftrightarrow> is_put"
proof -
  have "liked d' content (actor_key_of a)" if "like_added P d content uid anonymous (actor_key_of a) portal d'"
    for uid anonymous
  proof (cases "liked d content (actor_key_of a)")
    case True
    with that have "d' = d\<lparr>clock := clock d'\<rparr>" by (simp add: like_added_def)
    then have "content_likes d' = content_likes d" by (metis store.select_convs(8) store.surjective store.update_convs(1))
    with True show ?thesis by (simp add: liked_def)
  next
    case False
    with that obtain row where "content_likes d' = content_likes d @ [row]"
      "like_content row = content" "like_actor row = actor_key_of a"
      unfolding like_added_def by (auto dest: arg_cong [where f = content_likes])
    then show ?thesis by (simp add: liked_def)
  qed
  moreover have "\<not> liked d' content (actor_key_of a)" if "\<not> is_put"
  proof -
    have "content_likes d' =
        filter (\<lambda>l. \<not> (like_content l = content \<and> like_actor l = actor_key_of a)) (content_likes d)"
      using assms that unfolding like_done_def by (auto dest: arg_cong [where f = content_likes])
    then show ?thesis by (auto simp: liked_def list_ex_iff)
  qed
  ultimately show ?thesis using assms by (auto simp: like_done_def)
qed

lemma like_stored_done:
  assumes "like_stored E ctx connection is_put content json a result es" and "history P d (sqls es) d'"
    and "answered_with es 204" and "a \<noteq> Visitor []"
  shows "like_done P is_put content (text_of (portal_http_json_string E json (Some ''portal_key'') 1 120)) a d d'"
proof (cases is_put)
  case True
  let ?portal = "text_of (portal_http_json_string E json (Some ''portal_key'') 1 120)"
  have "asked (live E ctx) like_insert_query
      [content, user_column a, visitor_column a, actor_key_of a, ?portal] (sqls es) answered_tuples"
    using assms(1,3) True unfolding like_stored_def Let_def
    by (auto elim!: asked_mono split: if_splits dest: replies_status)
  from this assms(2) obtain answer r outcome where
    run: "run_statement P r d like_insert_query
      [content, user_column a, visitor_column a, actor_key_of a, ?portal] = (outcome, d')"
    and reported: "reported 1 outcome answer" "answered_tuples answer"
    by (rule asked_effect [where columns = 1]) (auto simp: sql_table_def)
  obtain rows where "outcome = Rows rows"
    by (rule reported_rows [OF reported]) simp_all
  from run_like_insert [OF run [unfolded this]] obtain uid where
    "nullable_uuid P (user_column a) = Some uid"
    "like_added P d content uid (nullif (visitor_column a)) (actor_key_of a) ?portal d'" .
  then show ?thesis
    using actor_columns [OF _ assms(4)] True unfolding like_done_def by auto
next
  case False
  have "asked (live E ctx) like_delete_query [content, actor_key_of a] (sqls es) answered_command"
    using assms(1,3) False unfolding like_stored_def Let_def
    by (auto elim!: asked_mono split: if_splits dest: replies_status)
  from this assms(2) obtain answer r outcome where
    "run_statement P r d like_delete_query [content, actor_key_of a] = (outcome, d')"
    by (rule asked_effect [where columns = 0]) (auto simp: sql_table_def)
  from run_like_delete [OF this] False show ?thesis by (simp add: like_done_def)
qed

lemma like_acknowledged:
  assumes "like_outcome E ctx connection is_put content json result es" and "history P d (sqls es) d'"
    and "answered_with es 204"
  obtains a e where
    "acts_as P e connection (portal_http_json_optional_string E json (Some ''anonymous_id'') 200) a"
    and "e = d\<lparr>clock := clock e\<rparr>"
    and "like_done P is_put content (text_of (portal_http_json_string E json (Some ''portal_key'') 1 120)) a d d'"
proof -
  have "attributed E ctx connection json (like_stored E ctx connection is_put content json) result es"
    using assms(1,3) by (auto simp: like_outcome_def split: if_splits dest: replies_status)
  from this assms(2,3) obtain a e fs where
    a: "acts_as P e connection (portal_http_json_optional_string E json (Some ''anonymous_id'') 200) a"
      "e = d\<lparr>clock := clock e\<rparr>" "like_stored E ctx connection is_put content json a result fs"
      "history P e (sqls fs) d'" "answered_with fs 204"
    by (rule attributed_effect) simp_all
  have "like_done P is_put content (text_of (portal_http_json_string E json (Some ''portal_key'') 1 120)) a e d'"
    by (rule like_stored_done [OF a(3-5) acts_as_visitor [OF a(1)]])
  from that [OF a(1,2) like_done_clock [OF a(2) this]] show thesis .
qed

section \<open>Events and comments\<close>

text \<open>Who did what, in the columns of an event.\<close>

definition event_by :: "postgres \<Rightarrow> actor \<Rightarrow> string \<Rightarrow> string \<Rightarrow> string option \<Rightarrow> int \<Rightarrow> event_row \<Rightarrow> bool" where
  "event_by P a portal kind content now e \<longleftrightarrow>
     actor_row P a = Some (event_user e, event_anonymous e) \<and> event_portal e = portal \<and>
     event_kind e = kind \<and> event_content e = content \<and> occurred_at e = now"

definition event_recorded ::
  "postgres \<Rightarrow> ('x, 'j) ext \<Rightarrow> 'j option \<Rightarrow> actor \<Rightarrow> store \<Rightarrow> store \<Rightarrow> event_row \<Rightarrow> bool" where
  "event_recorded P E json a d d' e \<longleftrightarrow>
     event_by P a (text_of (portal_http_json_string E json (Some ''portal_key'') 1 120))
       (text_of (portal_http_json_string E json (Some ''event_type'') 1 40))
       (nullif (text_of (portal_http_json_optional_string E json (Some ''content_id'') 300))) (clock d') e \<and>
     event_component e = nullif (text_of (portal_http_json_optional_string E json (Some ''component_id'') 300)) \<and>
     event_page e = nullif (text_of (portal_http_json_optional_string E json (Some ''page_url'') 2000)) \<and>
     Option.bind (event_data_text E json) (pg_jsonb P) = Some (event_json e) \<and>
     event_id e \<notin> event_id ` set (activity_events d) \<and>
     d' = d\<lparr>clock := clock d', activity_events := activity_events d @ [e]\<rparr>"

lemma run_activity:
  assumes "run_statement P r d activity_query [user, anonymous, portal, kind, content, component, page, data] =
      (Rows rows, d')"
  obtains e where "nullable_uuid P user = Some (event_user e)"
    and "event_anonymous e = nullif anonymous" and "event_portal e = portal" and "event_kind e = kind"
    and "event_content e = nullif content" and "event_component e = nullif component"
    and "event_page e = nullif page" and "pg_jsonb P data = Some (event_json e)" and "occurred_at e = clock d'"
    and "event_id e = draw_number r" and "rows = [[signed_decimal (event_id e)]]"
    and "d' = d\<lparr>clock := clock d', activity_events := activity_events d @ [e]\<rparr>"
proof -
  obtain uid json where "nullable_uuid P user = Some uid" "pg_jsonb P data = Some json"
    using assms by (auto simp: run_statements split: option.splits)
  with assms show thesis
    by (intro that [of "\<lparr>event_id = draw_number r, event_user = uid, event_anonymous = nullif anonymous,
               event_portal = portal, event_kind = kind, event_content = nullif content,
               event_component = nullif component, event_page = nullif page, event_json = json,
               occurred_at = draw_time r\<rparr>"])
      (auto simp: run_statements event_inserted_def split: if_splits)
qed

lemma event_number_read_back: "0 < n \<Longrightarrow> n < 2 ^ 63 \<Longrightarrow> fst (c_strtol (signed_decimal n)) = n"
  by (simp add: signed_decimal_def c_strtol_decimal)

lemma activity_acknowledged:
  assumes "activity_outcome E ctx connection json result es" and "history P d (sqls es) d'"
    and "answered_with es 201"
  obtains a e ev body where
    "acts_as P e connection (portal_http_json_optional_string E json (Some ''anonymous_id'') 200) a"
    and "e = d\<lparr>clock := clock e\<rparr>" and "event_recorded P E json a d d' ev"
    and "responses es = [(201, body, result)]"
    and "prints_entries E [(''event_id'', jc_int E (event_id ev))] body"
proof -
  have "attributed E ctx connection json (activity_stored E ctx connection json) result es"
    using assms(1,3) by (auto simp: activity_outcome_def split: if_splits dest: replies_status)
  from this assms(2,3) obtain a e fs where
    a: "acts_as P e connection (portal_http_json_optional_string E json (Some ''anonymous_id'') 200) a"
      "e = d\<lparr>clock := clock e\<rparr>" and stored: "activity_stored E ctx connection json a result fs"
      and later: "history P e (sqls fs) d'" and now: "answered_with fs 201" and same: "responses es = responses fs"
    by (rule attributed_effect) simp_all
  obtain data where data: "event_data_text E json = Some data"
    using stored now by (auto simp: activity_stored_def split: option.splits dest: replies_status)
  let ?texts = "[user_column a, visitor_column a,
             text_of (portal_http_json_string E json (Some ''portal_key'') 1 120),
             text_of (portal_http_json_string E json (Some ''event_type'') 1 40),
             text_of (portal_http_json_optional_string E json (Some ''content_id'') 300),
             text_of (portal_http_json_optional_string E json (Some ''component_id'') 300),
             text_of (portal_http_json_optional_string E json (Some ''page_url'') 2000), data]"
  let ?reply = "\<lambda>answer. replies E connection 201 (prints_entries E
                  [(''event_id'', jc_int E (fst (c_strtol (answered_cell answer 0 0))))]) result fs"
  have "asked (live E ctx) activity_query ?texts (sqls fs) (\<lambda>answer. answered_tuples answer \<and> ?reply answer)"
    using stored unfolding activity_stored_def data option.case
    by (rule asked_mono) (use now in \<open>auto split: if_splits dest: replies_status\<close>)
  from this later obtain answer r outcome where draw: "draw_ok P e r"
    and run: "run_statement P r e activity_query ?texts = (outcome, d')"
    and reported: "reported 1 outcome answer" "answered_tuples answer" and reply: "?reply answer"
    by (rule asked_effect [where columns = 1]) (auto simp: sql_table_def)
  obtain rows where rows: "outcome = Rows rows"
      "\<And>i j. i < length rows \<Longrightarrow> j < 1 \<Longrightarrow> answered_cell answer i j = rows ! i ! j"
    by (rule reported_rows [OF reported]) simp_all
  obtain ev where ev: "nullable_uuid P (user_column a) = Some (event_user ev)"
      "event_anonymous ev = nullif (visitor_column a)" "event_id ev = draw_number r"
      "rows = [[signed_decimal (event_id ev)]]"
    and recorded: "event_portal ev = ?texts ! 2" "event_kind ev = ?texts ! 3" "event_content ev = nullif (?texts ! 4)"
      "event_component ev = nullif (?texts ! 5)" "event_page ev = nullif (?texts ! 6)"
      "pg_jsonb P data = Some (event_json ev)" "occurred_at ev = clock d'"
    and d': "d' = e\<lparr>clock := clock d', activity_events := activity_events e @ [ev]\<rparr>"
    by (rule run_activity [OF run [unfolded rows(1)]], rule that) simp_all
  have tables: "activity_events e = activity_events d"
    "d' = d\<lparr>clock := clock d', activity_events := activity_events d @ [ev]\<rparr>"
    by (subst a(2), simp) (subst d', subst a(2), subst (2) a(2), simp)
  have "event_id ev \<notin> event_id ` set (activity_events d)"
    using draw ev(3) tables(1) by (simp add: draw_ok_def)
  with recorded data tables(2) actor_columns [OF ev(1) acts_as_visitor [OF a(1)]] ev(2)
  have "event_recorded P E json a d d' ev"
    by (simp add: event_recorded_def event_by_def)
  moreover have "fst (c_strtol (signed_decimal (event_id ev))) = event_id ev"
    by (rule event_number_read_back) (use draw ev(3) in \<open>simp_all add: draw_ok_def\<close>)
  then obtain body where "responses es = [(201, body, result)]"
      "prints_entries E [(''event_id'', jc_int E (event_id ev))] body"
    using replies_body [OF reply now] rows(2) [of 0 0] ev(4) same by auto
  ultimately show thesis using that a by blast
qed

text \<open>A comment and the event it leaves.\<close>

definition comment_recorded ::
  "postgres \<Rightarrow> ('x, 'j) ext \<Rightarrow> string \<Rightarrow> 'j option \<Rightarrow> actor \<Rightarrow> store \<Rightarrow> store \<Rightarrow> comment_row \<Rightarrow> bool" where
  "comment_recorded P E content json a d d' c \<longleftrightarrow>
     comment_id c \<notin> comment_id ` set (comments d) \<and> comment_content c = content \<and>
     actor_row P a = Some (comment_user c, comment_anonymous c) \<and>
     comment_author c = nullif (text_of (portal_http_json_optional_string E json (Some ''author_name'') 100)) \<and>
     comment_text c = text_of (portal_http_json_string E json (Some ''body'') 1 5000) \<and>
     comment_created c = clock d' \<and>
     (\<exists>e. event_by P a (text_of (portal_http_json_string E json (Some ''portal_key'') 1 120)) ''comment''
         (Some content) (clock d') e \<and>
       d' = d\<lparr>clock := clock d', activity_events := activity_events d @ [e], comments := comments d @ [c]\<rparr>)"

lemma run_comment:
  assumes "run_statement P r d comment_query [content, user, anonymous, author, body, portal] = (Rows rows, d')"
  obtains uid c e where "nullable_uuid P user = Some uid"
    and "c = \<lparr>comment_id = draw_id r, comment_content = content, comment_user = uid,
           comment_anonymous = nullif anonymous, comment_author = nullif author, comment_text = body,
           comment_created = clock d'\<rparr>"
    and "e = plain_event r d' uid (nullif anonymous) portal ''comment'' content"
    and "rows = [[draw_id r, pg_time_text P (clock d')]]"
    and "d' = d\<lparr>clock := clock d', activity_events := activity_events d @ [e], comments := comments d @ [c]\<rparr>"
proof -
  obtain uid where "nullable_uuid P user = Some uid"
    using assms by (auto simp: run_statements split: option.splits)
  with assms show thesis
    by (intro that)
      (auto simp: run_statements Let_def event_inserted_def plain_event_def split: if_splits)
qed

lemma comment_acknowledged:
  assumes "comment_outcome E ctx connection content json result es" and "history P d (sqls es) d'"
    and "answered_with es 201"
  obtains a e c body where
    "acts_as P e connection (portal_http_json_optional_string E json (Some ''anonymous_id'') 200) a"
    and "e = d\<lparr>clock := clock e\<rparr>" and "comment_recorded P E content json a d d' c"
    and "responses es = [(201, body, result)]"
    and "prints_entries E [(''id'', jc_string E (comment_id c)),
           (''created_at'', jc_string E (pg_time_text P (clock d')))] body"
proof -
  have "attributed E ctx connection json (comment_stored E ctx connection content json) result es"
    using assms(1,3) by (auto simp: comment_outcome_def split: if_splits dest: replies_status)
  from this assms(2,3) obtain a e fs where
    a: "acts_as P e connection (portal_http_json_optional_string E json (Some ''anonymous_id'') 200) a"
      "e = d\<lparr>clock := clock e\<rparr>" and stored: "comment_stored E ctx connection content json a result fs"
      and later: "history P e (sqls fs) d'" and now: "answered_with fs 201" and same: "responses es = responses fs"
    by (rule attributed_effect) simp_all
  let ?texts = "[content, user_column a, visitor_column a,
        text_of (portal_http_json_optional_string E json (Some ''author_name'') 100),
        text_of (portal_http_json_string E json (Some ''body'') 1 5000),
        text_of (portal_http_json_string E json (Some ''portal_key'') 1 120)]"
  let ?reply = "\<lambda>answer. replies E connection 201 (prints_entries E
           [(''id'', jc_string E (answered_cell answer 0 0)),
            (''created_at'', jc_string E (answered_cell answer 0 1))]) result fs"
  have "asked (live E ctx) comment_query ?texts (sqls fs) (\<lambda>answer. answered_tuples answer \<and> ?reply answer)"
    using stored unfolding comment_stored_def
    by (rule asked_mono) (use now in \<open>auto split: if_splits dest: replies_status\<close>)
  from this later obtain answer r outcome where draw: "draw_ok P e r"
    and run: "run_statement P r e comment_query ?texts = (outcome, d')"
    and reported: "reported 2 outcome answer" "answered_tuples answer" and reply: "?reply answer"
    by (rule asked_effect [where columns = 2]) (auto simp: sql_table_def)
  obtain rows where rows: "outcome = Rows rows"
      "\<And>i j. i < length rows \<Longrightarrow> j < 2 \<Longrightarrow> answered_cell answer i j = rows ! i ! j"
    by (rule reported_rows [OF reported]) simp_all
  obtain uid c ev where uid: "nullable_uuid P (user_column a) = Some uid"
    and c: "c = \<lparr>comment_id = draw_id r, comment_content = content, comment_user = uid,
           comment_anonymous = nullif (visitor_column a), comment_author = nullif (?texts ! 3),
           comment_text = ?texts ! 4, comment_created = clock d'\<rparr>"
    and ev: "ev = plain_event r d' uid (nullif (visitor_column a)) (?texts ! 5) ''comment'' content"
    and list: "rows = [[draw_id r, pg_time_text P (clock d')]]"
    and d': "d' = e\<lparr>clock := clock d', activity_events := activity_events e @ [ev], comments := comments e @ [c]\<rparr>"
    by (rule run_comment [OF run [unfolded rows(1)]], rule that) simp_all
  have tables: "comments e = comments d"
    "d' = d\<lparr>clock := clock d', activity_events := activity_events d @ [ev], comments := comments d @ [c]\<rparr>"
    by (subst a(2), simp) (subst d', subst a(2), subst (2) a(2), subst (3) a(2), simp)
  have "comment_id c \<notin> comment_id ` set (comments d)"
    using draw tables(1) by (simp add: draw_ok_def c)
  moreover have "event_by P a (?texts ! 5) ''comment'' (Some content) (clock d') ev"
    using actor_columns [OF uid acts_as_visitor [OF a(1)]] by (simp add: event_by_def ev plain_event_def)
  ultimately have "comment_recorded P E content json a d d' c"
    using actor_columns [OF uid acts_as_visitor [OF a(1)]] tables(2) unfolding comment_recorded_def
    by (auto simp: c)
  moreover obtain body where "responses es = [(201, body, result)]"
      "prints_entries E [(''id'', jc_string E (comment_id c)),
         (''created_at'', jc_string E (pg_time_text P (clock d')))] body"
    using replies_body [OF reply now] rows(2) [of 0 0] rows(2) [of 0 1] list same by (auto simp: c)
  ultimately show thesis using that a by blast
qed

section \<open>The most viewed contents\<close>

text \<open>How often a content was viewed, counted event by event.\<close>

definition views_of :: "store \<Rightarrow> string \<Rightarrow> int \<Rightarrow> string \<Rightarrow> nat" where
  "views_of d portal days content =
     length (filter (\<lambda>e. viewed d portal days e \<and> event_content e = Some content) (activity_events d))"

text \<open>
  What a list of the most viewed contents owes: at most \<open>limit\<close> contents, each once, viewed, with its
  exact count and in descending order; a viewed content is left out only of a full list, by contents
  viewed as often.
\<close>

definition most_viewed :: "store \<Rightarrow> string \<Rightarrow> int \<Rightarrow> nat \<Rightarrow> (string \<times> nat) list \<Rightarrow> bool" where
  "most_viewed d portal days limit ranking \<longleftrightarrow>
     length ranking \<le> limit \<and> distinct (map fst ranking) \<and> sorted_wrt (\<lambda>x y. snd y \<le> snd x) ranking \<and>
     (\<forall>(c, n) \<in> set ranking. n = views_of d portal days c \<and> 0 < n) \<and>
     (\<forall>c. 0 < views_of d portal days c \<longrightarrow> c \<in> fst ` set ranking \<or>
        length ranking = limit \<and> (\<forall>(c', n) \<in> set ranking. views_of d portal days c \<le> n))"

lemma insert_by_descending:
  assumes "sorted_wrt (\<lambda>x y. snd y \<le> snd x) ys"
  shows "sorted_wrt (\<lambda>x y. snd y \<le> snd x) (insert_by (more_viewed P) x ys)"
  using assms
proof (induction ys)
  case (Cons y ys)
  have "set (insert_by (more_viewed P) x ys) = insert x (set ys)"
    by (metis mset_insert_by set_mset_add_mset_insert set_mset_mset)
  moreover have "\<not> more_viewed P x y \<Longrightarrow> snd x \<le> snd y" by (auto simp: more_viewed_def)
  moreover have "more_viewed P x y \<Longrightarrow> snd y \<le> snd x" by (auto simp: more_viewed_def)
  ultimately show ?case using Cons by auto
qed simp

lemma order_by_descending: "sorted_wrt (\<lambda>x y. snd y \<le> snd x) (order_by (more_viewed P) xs)"
  unfolding order_by_def by (induction xs) (simp_all add: insert_by_descending)

lemma count_views: "count_list (map (\<lambda>e. the (event_content e)) (filter (viewed d portal days) es)) c =
    length (filter (\<lambda>e. viewed d portal days e \<and> event_content e = Some c) es)"
  by (induction es) (auto simp: viewed_def)

lemma view_counts_iff:
  "(c, n) \<in> set (view_counts d portal days) \<longleftrightarrow> n = views_of d portal days c \<and> 0 < n"
proof -
  let ?contents = "map (\<lambda>e. the (event_content e)) (filter (viewed d portal days) (activity_events d))"
  have "(c, n) \<in> set (view_counts d portal days) \<longleftrightarrow> c \<in> set ?contents \<and> n = count_list ?contents c"
    by (auto simp: view_counts_def Let_def)
  also have "c \<in> set ?contents \<longleftrightarrow> 0 < count_list ?contents c"
    by (metis count_list_0_iff gr0I less_numeral_extra(3))
  finally show ?thesis
    unfolding count_views views_of_def by blast
qed

lemma view_counts_once: "distinct (map fst (view_counts d portal days))"
  by (simp add: view_counts_def Let_def comp_def)

theorem most_viewed_top:
  "most_viewed d portal days limit (take limit (order_by (more_viewed P) (view_counts d portal days)))"
proof -
  let ?all = "order_by (more_viewed P) (view_counts d portal days)" and ?views = "views_of d portal days"
  let ?top = "take limit ?all"
  have sorted: "sorted_wrt (\<lambda>x y. snd y \<le> snd x) (?top @ drop limit ?all)"
    by (simp add: order_by_descending)
  have "mset (map fst ?all) = mset (map fst (view_counts d portal days))"
    by (simp add: mset_map)
  then have "distinct (map fst ?all)"
    using view_counts_once by (metis mset_eq_imp_distinct_iff)
  then have "distinct (take limit (map fst ?all))" by (rule distinct_take)
  then have "distinct (map fst ?top)" by (simp add: take_map)
  moreover have counted: "n = ?views c \<and> 0 < n" if "(c, n) \<in> set ?top" for c n
    using in_set_takeD [OF that] by (simp add: view_counts_iff)
  moreover have "c \<in> fst ` set ?top \<or> length ?top = limit \<and> (\<forall>(c', n) \<in> set ?top. ?views c \<le> n)"
    if "0 < ?views c" for c
  proof -
    have "(c, ?views c) \<in> set ?all" using that by (simp add: view_counts_iff)
    then have "(c, ?views c) \<in> set ?top \<or> (c, ?views c) \<in> set (drop limit ?all)"
      by (metis Un_iff append_take_drop_id set_append)
    then show ?thesis
    proof
      assume "(c, ?views c) \<in> set ?top"
      then show ?thesis by force
    next
      assume rest: "(c, ?views c) \<in> set (drop limit ?all)"
      then have "limit < length ?all" by (cases "limit < length ?all") auto
      moreover have "\<forall>x \<in> set ?top. ?views c \<le> snd x"
        using sorted rest unfolding sorted_wrt_append by fastforce
      ultimately show ?thesis by auto
    qed
  qed
  moreover have "sorted_wrt (\<lambda>x y. snd y \<le> snd x) ?top"
    using sorted by (simp add: sorted_wrt_append)
  ultimately show ?thesis
    unfolding most_viewed_def by auto
qed

text \<open>The body of such an answer.\<close>

definition lists_views :: "('x, 'j) ext \<Rightarrow> string \<Rightarrow> int \<Rightarrow> (string \<times> nat) list \<Rightarrow> string \<Rightarrow> bool" where
  "lists_views E portal days ranking body \<longleftrightarrow>
     (\<exists>items arr.
        list_all2 (\<lambda>(c, n) item. built_from E (jc_object E)
          [(''content_id'', jc_string E c), (''views'', jc_int E (int n))] item) ranking items \<and>
        appended_from E (jc_array E) items arr \<and>
        prints_entries E [(''portal_key'', jc_string E portal), (''days'', jc_int E days), (''items'', arr)] body)"

lemma run_top_content:
  assumes "run_statement P r d top_content_query [portal, decimal days, decimal limit] = (Rows rows, d')"
    and "days < 2 ^ 31" and "limit < 2 ^ 31"
  shows "d' = d\<lparr>clock := clock d'\<rparr>"
    and "rows = map (\<lambda>(c, n). [c, decimal n])
      (take limit (order_by (more_viewed P) (view_counts d' portal (int days))))"
  using assms(1) by (auto simp: run_statements sql_int_decimal [OF assms(2)] sql_int_decimal [OF assms(3)] split: if_splits)

lemma rows_of_ranking:
  assumes "rows_appended E r (jc_array E) 0 arr" and "row_count r = length ranking"
    and "\<And>i j. i < length ranking \<Longrightarrow> j < 2 \<Longrightarrow> cell_text r i j = map (\<lambda>(c, n). [c, decimal n]) ranking ! i ! j"
    and "\<And>c n. (c, n) \<in> set ranking \<Longrightarrow> n < 2 ^ 63"
    and "prints_entries E [(''portal_key'', jc_string E portal), (''days'', jc_int E days), (''items'', arr)] body"
  shows "lists_views E portal days ranking body"
proof -
  obtain items where items: "appended_from E (jc_array E) items arr"
    and each: "list_all2 (\<lambda>i item. built_from E (jc_object E) (row_entries E r i) item) [0..<length ranking] items"
    using assms(1,2) by (auto simp: rows_appended_def)
  have "row_entries E r i = (case ranking ! i of (c, n) \<Rightarrow>
      [(''content_id'', jc_string E c), (''views'', jc_int E (int n))])" if "i < length ranking" for i
  proof -
    obtain c n where cn: "ranking ! i = (c, n)" by fastforce
    with that have "n < 2 ^ 63" using assms(4) by (metis nth_mem)
    with that cn show ?thesis
      by (simp add: row_entries_def assms(3) c_strtol_decimal)
  qed
  then have "list_all2 (\<lambda>(c, n) item. built_from E (jc_object E)
      [(''content_id'', jc_string E c), (''views'', jc_int E (int n))] item) ranking items"
    using each by (auto simp: list_all2_conv_all_nth simp del: built_from.simps split: prod.split)
  with items assms(5) show ?thesis unfolding lists_views_def by blast
qed

lemma top_content_listed:
  assumes "protected E ctx connection (\<lambda>_. top_content_outcome E ctx connection) result es"
    and "history P d (sqls es) d'" and "answered_with es 200" and "length (activity_events d) < 2 ^ 63"
  obtains portal days limit ranking body where "lookup_argument connection ''portal_key'' = Some portal"
    and "range_of (lookup_argument connection ''days'') 7 1 365 = Some days"
    and "range_of (lookup_argument connection ''limit'') 10 1 100 = Some limit"
    and "most_viewed d' portal days (nat limit) ranking" and "d' = d\<lparr>clock := clock d'\<rparr>"
    and "responses es = [(200, body, result)]" and "lists_views E portal days ranking body"
proof -
  obtain u e fs where e: "e = d\<lparr>clock := clock e\<rparr>"
    and outcome: "top_content_outcome E ctx connection result fs" and later: "history P e (sqls fs) d'"
    and now: "answered_with fs 200" and same: "responses es = responses fs"
    by (rule protected_effect [OF assms(1-3)]) simp
  have valid: "portal_validation_key (lookup_argument connection ''portal_key'') 120"
    using outcome now by (auto simp: top_content_outcome_def Let_def split: if_splits dest: replies_status)
  then obtain portal where portal: "lookup_argument connection ''portal_key'' = Some portal"
    by (cases "lookup_argument connection ''portal_key''") auto
  obtain days limit where range: "range_of (lookup_argument connection ''days'') 7 1 365 = Some days"
      "range_of (lookup_argument connection ''limit'') 10 1 100 = Some limit"
    using outcome now
    by (auto simp: top_content_outcome_def Let_def split: if_splits option.splits dest: replies_status)
  have bounds: "1 \<le> days" "days \<le> 365" "1 \<le> limit" "limit \<le> 100"
    using range_of_bounds [OF range(1)] range_of_bounds [OF range(2)] by simp_all
  let ?reply = "\<lambda>r. replies E connection 200 (\<lambda>b. \<exists>arr. rows_appended E r (jc_array E) 0 arr \<and>
        prints_entries E [(''portal_key'', jc_string E portal), (''days'', jc_int E days), (''items'', arr)] b)
        result fs"
  have no_error: "\<not> replies E connection 500 Q result fs" for Q
    using now by (auto dest: replies_status)
  have "asked (live E ctx) top_content_query [portal, decimal (nat days), decimal (nat limit)] (sqls fs)
      (\<lambda>answer. \<exists>r. answer = Some r \<and> pq_status r = PGRES_TUPLES_OK \<and> ?reply r)"
    using outcome valid unfolding top_content_outcome_def Let_def portal range option.case prod.case
    by (auto simp: no_error elim!: asked_mono split: if_splits option.splits)
  from this later obtain r draw outcome where
    run: "run_statement P draw e top_content_query [portal, decimal (nat days), decimal (nat limit)] = (outcome, d')"
    and reported: "reported 2 outcome (Some r)" "pq_status r = PGRES_TUPLES_OK" and reply: "?reply r"
    by (rule asked_effect [where columns = 2]) (auto simp: sql_table_def lost_def)
  obtain rows where rows: "outcome = Rows rows" "row_count r = length rows"
      "\<And>i j. i < length rows \<Longrightarrow> j < 2 \<Longrightarrow> cell_text r i j = rows ! i ! j"
    by (rule reported_table [OF reported]) simp_all
  let ?ranking = "take (nat limit) (order_by (more_viewed P) (view_counts d' portal days))"
  have d': "d' = e\<lparr>clock := clock d'\<rparr>" and list: "rows = map (\<lambda>(c, n). [c, decimal n]) ?ranking"
    using run_top_content [OF run [unfolded rows(1)]] bounds by simp_all
  have later_tables: "d' = d\<lparr>clock := clock d'\<rparr>" by (subst d', subst e, simp)
  have small: "n < 2 ^ 63" if "(c, n) \<in> set ?ranking" for c n
  proof -
    have "n = views_of d' portal days c"
      using most_viewed_top [of d' portal days "nat limit" P] that by (auto simp: most_viewed_def)
    also have "\<dots> \<le> length (activity_events d')" by (simp add: views_of_def)
    also have "activity_events d' = activity_events d" by (subst later_tables) simp
    finally show ?thesis using assms(4) by simp
  qed
  from replies_body [OF reply now] obtain body arr where body: "responses fs = [(200, body, result)]"
    "rows_appended E r (jc_array E) 0 arr"
    "prints_entries E [(''portal_key'', jc_string E portal), (''days'', jc_int E days), (''items'', arr)] body"
    by blast
  have cells: "row_count r = length ?ranking" "\<And>i j. i < length ?ranking \<Longrightarrow> j < 2 \<Longrightarrow>
      cell_text r i j = map (\<lambda>(c, n). [c, decimal n]) ?ranking ! i ! j"
    using rows(2,3) unfolding list by simp_all
  have "lists_views E portal days ?ranking body"
    by (rule rows_of_ranking [OF body(2) cells(1) _ _ body(3)]) (simp add: cells(2), erule small)
  then show thesis
    using that [OF portal range most_viewed_top later_tables] body(1) same by simp
qed

end
