(* ===== verification/Effects.thy ===== *)
theory Effects
  imports Server
begin

text \<open>
  What a successful response promises. Every route of \<^verbatim>\<open>src/src/http/routes/\<close> sends at most one
  statement of its own, after at most one session check, and answers with a status below 400 only
  when PostgreSQL reported that statement as done. The locale \<open>effective_handler\<close> adds this promise to
  the contract of the routes; the router keeps it for every endpoint that has a statement.
\<close>

section \<open>The promise\<close>

definition done_by_server :: "pg_result option \<Rightarrow> bool" where
  "done_by_server answer \<longleftrightarrow> answered_tuples answer \<or> answered_command answer"

lemma done_by_server_None [simp]: "\<not> done_by_server None"
  by (simp add: done_by_server_def)

definition recorded ::
  "(string \<times> string option list \<times> pg_result option) list \<Rightarrow> (nat \<times> string \<times> mhd_result) list \<Rightarrow> bool" where
  "recorded work answers \<longleftrightarrow>
     length work \<le> 1 \<and> list_all (\<lambda>(command, _). command \<noteq> auth_query) work \<and>
     list_all (\<lambda>(status, _). status < 400 \<longrightarrow>
       length work = 1 \<and> list_all (\<lambda>(_, _, answer). done_by_server answer) work) answers"

definition effective :: "event list \<Rightarrow> bool" where
  "effective es \<longleftrightarrow> recorded (sqls es) (responses es)"

definition acknowledged :: "event list \<Rightarrow> bool" where
  "acknowledged es \<longleftrightarrow>
     (\<exists>checks work. sqls es = checks @ work \<and> length checks \<le> 1 \<and>
        list_all (\<lambda>(command, _). command = auth_query) checks \<and> recorded work (responses es))"

locale effective_handler = handler +
  assumes run_acknowledged: "connection \<noteq> None \<Longrightarrow> emits run (\<lambda>result es. acknowledged es)"
begin

text \<open>A status below 400 is never sent without an answered statement.\<close>

lemma success_has_statement:
  assumes "connection \<noteq> None"
  shows "emits run (\<lambda>result es. \<forall>(status, _) \<in> set (responses es). status < 400 \<longrightarrow>
    (\<exists>statement \<in> set (sqls es). done_by_server (snd (snd statement))))"
  by (rule emits_mono [OF run_acknowledged [OF assms]])
    (fastforce simp: acknowledged_def recorded_def list_all_iff length_Suc_conv)

text \<open>A request costs two statements at most.\<close>

lemma two_statements_at_most:
  "connection \<noteq> None \<Longrightarrow> emits run (\<lambda>result es. length (sqls es) \<le> 2)"
  by (rule emits_mono [OF run_acknowledged]) (auto simp: acknowledged_def recorded_def)

end

section \<open>From the outcome of a route to its promise\<close>

lemma effective_refused:
  "sqls es = [] \<Longrightarrow> replies E connection status P result es \<Longrightarrow> 400 \<le> status \<Longrightarrow> effective es"
  by (auto simp: effective_def recorded_def replies_def)

text \<open>The responses fit the answer of the statement.\<close>

definition fitting :: "event list \<Rightarrow> pg_result option \<Rightarrow> bool" where
  "fitting es answer \<longleftrightarrow> list_all (\<lambda>(status, _). status < 400 \<longrightarrow> done_by_server answer) (responses es)"

lemma fitting_reply:
  "replies E connection status P result es \<Longrightarrow>
   answered_tuples answer \<or> answered_command answer \<or> 400 \<le> status \<Longrightarrow> fitting es answer"
  by (auto simp: fitting_def replies_def done_by_server_def)

lemma effective_asked:
  assumes "asked available command values (sqls es) post" and "command \<noteq> auth_query"
    and "\<And>answer. post answer \<Longrightarrow> fitting es answer"
  shows "effective es"
proof -
  obtain answer where answer: "post answer"
      "sqls es = [(command, map Some values, answer)] \<or> sqls es = [] \<and> answer = None"
    using assms(1) by (auto simp: asked_def)
  then show ?thesis
    using assms(2) assms(3) [OF answer(1)]
    by (auto simp: effective_def recorded_def fitting_def list_all_iff)
qed

lemma acknowledged_effective: "effective es \<Longrightarrow> acknowledged es"
  unfolding acknowledged_def effective_def by (intro exI [of _ "[]"] exI [of _ "sqls es"]) simp

lemma acknowledged_checked:
  assumes "auth_decision available connection status uid (sqls es)" and "responses es = []"
    and "effective fs"
  shows "acknowledged (es @ fs)"
proof -
  have "length (sqls es) \<le> 1 \<and> list_all (\<lambda>(command, _). command = auth_query) (sqls es)"
    using assms(1) by (auto simp: auth_decision_def split: if_splits option.splits)
  then show ?thesis
    unfolding acknowledged_def using assms(2,3)
    by (intro exI [of _ "sqls es"] exI [of _ "sqls fs"]) (simp add: effective_def)
qed

lemma acknowledged_protected:
  assumes "protected E ctx connection granted result es"
    and "\<And>uid es. granted uid result es \<Longrightarrow> effective es"
  shows "acknowledged es"
  using assms(1) unfolding protected_def
  by (auto intro!: acknowledged_checked dest: assms(2) elim: effective_refused split: if_splits)

lemma acknowledged_attributed:
  assumes "attributed E ctx connection json granted result es"
    and "\<And>a es. granted a result es \<Longrightarrow> effective es"
  shows "acknowledged es"
  using assms(1) unfolding attributed_def
  by (auto intro!: acknowledged_checked dest: assms(2) elim: effective_refused split: if_splits option.splits)

text \<open>The statements of the routes are not the session check.\<close>

lemma not_the_check:
  "register_query \<noteq> auth_query" "confirm_query \<noteq> auth_query" "login_query \<noteq> auth_query"
  "logout_query \<noteq> auth_query" "favorite_list_query kind \<noteq> auth_query"
  "favorite_change_query kind is_put \<noteq> auth_query" "activity_query \<noteq> auth_query"
  "like_insert_query \<noteq> auth_query" "like_delete_query \<noteq> auth_query" "comment_query \<noteq> auth_query"
  "top_content_query \<noteq> auth_query"
proof -
  have "command \<noteq> auth_query" if "command \<in> set (map fst (tl sql_table))" for command
    using that sql_table_distinct by (auto simp: sql_table_def)
  note other = this [unfolded sql_table_def, simplified]
  show "register_query \<noteq> auth_query" "confirm_query \<noteq> auth_query" "login_query \<noteq> auth_query"
    "logout_query \<noteq> auth_query" "favorite_list_query kind \<noteq> auth_query"
    "favorite_change_query kind is_put \<noteq> auth_query" "activity_query \<noteq> auth_query"
    "like_insert_query \<noteq> auth_query" "like_delete_query \<noteq> auth_query" "comment_query \<noteq> auth_query"
    "top_content_query \<noteq> auth_query"
    by (rule other; simp add: favorite_list_query_def favorite_change_query_def)+
qed

section \<open>Every route keeps it\<close>

lemmas effective_rules = not_the_check [THEN [2] effective_asked]

lemma effective_register: "register_outcome E ctx connection json result es \<Longrightarrow> effective es"
  unfolding register_outcome_def Let_def
  by (auto elim: effective_refused elim!: effective_rules fitting_reply split: option.splits if_splits)

lemma effective_confirm: "confirm_outcome E ctx connection json result es \<Longrightarrow> effective es"
  unfolding confirm_outcome_def Let_def
  by (auto elim: effective_refused elim!: effective_rules fitting_reply split: option.splits if_splits)

lemma effective_login: "login_outcome E ctx connection json result es \<Longrightarrow> effective es"
  unfolding login_outcome_def Let_def
  by (auto elim: effective_refused elim!: effective_rules fitting_reply split: option.splits if_splits)

lemma effective_logout: "logout_outcome E ctx connection result es \<Longrightarrow> effective es"
  unfolding logout_outcome_def Let_def
  by (auto elim: effective_refused elim!: effective_rules fitting_reply split: option.splits if_splits)

lemma effective_favorite_list: "favorite_list_outcome E ctx connection kind uid result es \<Longrightarrow> effective es"
  unfolding favorite_list_outcome_def Let_def
  by (auto elim: effective_refused elim!: effective_rules fitting_reply split: option.splits if_splits)

lemma effective_favorite_change: "favorite_change_outcome E ctx connection kind is_put key uid result es \<Longrightarrow> effective es"
  unfolding favorite_change_outcome_def Let_def
  by (auto elim: effective_refused elim!: effective_rules fitting_reply split: option.splits if_splits)

lemma effective_top_content: "top_content_outcome E ctx connection result es \<Longrightarrow> effective es"
  unfolding top_content_outcome_def Let_def
  by (cases "range_of (lookup_argument connection ''days'') 7 1 365";
      cases "range_of (lookup_argument connection ''limit'') 10 1 100")
    (auto elim: effective_refused elim!: effective_rules fitting_reply split: option.splits if_splits)

lemma effective_activity: "activity_stored E ctx connection json a result es \<Longrightarrow> effective es"
  unfolding activity_stored_def Let_def
  by (auto elim: effective_refused elim!: effective_rules fitting_reply split: option.splits if_splits)

lemma effective_like: "like_stored E ctx connection is_put content_id json a result es \<Longrightarrow> effective es"
  unfolding like_stored_def Let_def
  by (auto elim: effective_refused elim!: effective_rules fitting_reply split: option.splits if_splits)

lemma effective_comment: "comment_stored E ctx connection content_id json a result es \<Longrightarrow> effective es"
  unfolding comment_stored_def Let_def
  by (auto elim: effective_refused elim!: effective_rules fitting_reply split: option.splits if_splits)

interpretation register_effect: effective_handler E connection "portal_http_route_register E ctx connection json"
  for E connection ctx json
  by unfold_locales (rule emits_register, erule acknowledged_effective [OF effective_register])

interpretation confirm_effect: effective_handler E connection "portal_http_route_confirm E ctx connection json"
  for E connection ctx json
  by unfold_locales (rule emits_confirm, erule acknowledged_effective [OF effective_confirm])

interpretation login_effect: effective_handler E connection "portal_http_route_login E ctx connection json"
  for E connection ctx json
  by unfold_locales (rule emits_login, erule acknowledged_effective [OF effective_login])

interpretation logout_effect: effective_handler E connection "portal_http_route_logout E ctx connection"
  for E connection ctx
  by unfold_locales (rule emits_logout, assumption, erule acknowledged_protected, erule effective_logout)

interpretation favorite_list_effect: effective_handler E connection "portal_http_route_favorite_list E ctx connection kind"
  for E connection ctx kind
  by unfold_locales (rule emits_favorite_list, assumption, erule acknowledged_protected, erule effective_favorite_list)

interpretation favorite_change_effect: effective_handler E connection "portal_http_route_favorite_change E ctx connection meth kind key"
  for E connection ctx meth kind key
  by unfold_locales (rule emits_favorite_change, assumption, erule acknowledged_protected, erule effective_favorite_change)

interpretation top_content_effect: effective_handler E connection "portal_http_route_top_content E ctx connection"
  for E connection ctx
  by unfold_locales (rule emits_top_content, assumption, erule acknowledged_protected, erule effective_top_content)

text \<open>The routes on behalf of an actor check the request before they ask who it is.\<close>

lemma acknowledged_if_valid:
  assumes "if valid then attributed E ctx connection json granted result es
      else sqls es = [] \<and> replies E connection 400 body result es"
    and "\<And>a es. granted a result es \<Longrightarrow> effective es"
  shows "acknowledged es"
  using assms(1) by (auto elim: acknowledged_attributed [OF _ assms(2)] effective_refused
      intro: acknowledged_effective split: if_splits)

lemma acknowledged_activity: "activity_outcome E ctx connection json result es \<Longrightarrow> acknowledged es"
  unfolding activity_outcome_def by (erule acknowledged_if_valid) (rule effective_activity)

interpretation activity_effect: effective_handler E connection "portal_http_route_activity E ctx connection json"
  for E connection ctx json
  by unfold_locales (rule emits_activity, assumption, erule acknowledged_activity)

lemma acknowledged_like: "like_outcome E ctx connection is_put content_id json result es \<Longrightarrow> acknowledged es"
  unfolding like_outcome_def by (erule acknowledged_if_valid) (rule effective_like)

interpretation like_effect: effective_handler E connection "portal_http_route_like E ctx connection meth content_id json"
  for E connection ctx meth content_id json
  by unfold_locales (rule emits_like, assumption, erule acknowledged_like)

lemma acknowledged_comment: "comment_outcome E ctx connection content_id json result es \<Longrightarrow> acknowledged es"
  unfolding comment_outcome_def by (erule acknowledged_if_valid) (rule effective_comment)

interpretation comment_effect: effective_handler E connection "portal_http_route_comment E ctx connection content_id json"
  for E connection ctx content_id json
  by unfold_locales (rule emits_comment, assumption, erule acknowledged_comment)

section \<open>The router keeps it\<close>

text \<open>The endpoints that ask the database; the preflight and the health check do not.\<close>

fun has_statement :: "endpoint \<Rightarrow> bool" where
  "has_statement Preflight = False"
| "has_statement Health = False"
| "has_statement _ = True"

lemma acknowledged_error: "400 \<le> status \<Longrightarrow>
    emits (portal_http_response_error E connection status (Some ecode) (Some message))
      (\<lambda>result es. acknowledged es)"
  by (rule error.reply_rule) (rule acknowledged_effective, rule effective_refused)

interpretation not_routed_effect: effective_handler E connection
    "portal_http_response_error E connection (400 + n) (Some ecode) (Some message)"
  for E connection n ecode message
  by unfold_locales (rule acknowledged_error, simp)

lemma endpoint_acknowledged:
  assumes "connection \<noteq> None" and "has_statement e"
  shows "emits (run_endpoint E ctx connection meth json e) (\<lambda>result es. acknowledged es)"
proof -
  note routes = register_effect.run_acknowledged confirm_effect.run_acknowledged
    login_effect.run_acknowledged logout_effect.run_acknowledged
    favorite_list_effect.run_acknowledged favorite_change_effect.run_acknowledged
    activity_effect.run_acknowledged like_effect.run_acknowledged comment_effect.run_acknowledged
    top_content_effect.run_acknowledged
  show ?thesis
    using assms(2)
    by (cases e) (simp_all add: run_endpoint_def acknowledged_error routes [OF assms(1)])
qed

text \<open>Parsing the body and giving back its object do not touch the conversation.\<close>

lemma acknowledged_append: "acknowledged fs \<Longrightarrow> quiet es \<Longrightarrow> acknowledged (es @ fs)"
  by (simp add: acknowledged_def quiet_def)

lemma acknowledged_released: "acknowledged (es @ [Released k]) = acknowledged es"
  by (simp add: acknowledged_def)

text \<open>What every endpoint and the refusal of a body keep, the router keeps.\<close>

lemma dispatch_rule:
  assumes ok: "body_ok body"
    and served: "\<And>json. emits (run_endpoint E ctx connection meth json (endpoint_of meth url)) (\<lambda>result es. Q es)"
    and refused: "emits (portal_http_response_error E connection 400 (Some ''invalid_json'')
      (Some ''A JSON object request body is required.'')) (\<lambda>result es. Q es)"
    and after: "\<And>es fs. Q fs \<Longrightarrow> quiet es \<Longrightarrow> Q (es @ fs)"
    and before: "\<And>es k. Q es \<Longrightarrow> Q (es @ [Released k])"
  shows "emits (http_dispatch E ctx connection url meth body) (\<lambda>result es. Q es)"
proof -
  have "emits (portal_http_request_parse_json E (Some body)) (\<lambda>json es.
      emits (case json of
         None \<Rightarrow> portal_http_response_error E connection 400 (Some ''invalid_json'')
           (Some ''A JSON object request body is required.'')
       | Some j \<Rightarrow> do {
           result \<leftarrow> run_endpoint E ctx connection meth (Some j) (endpoint_of meth url);
           json_object_put;
           return result }) (\<lambda>result fs. Q (es @ fs)))"
    by (rule emits_parse_json [OF ok])
      (auto intro!: emits_mono [OF refused] emits_bind emits_mono [OF served] emits_intros simp: after before)
  then show ?thesis
    unfolding dispatch_serve serve_def Let_def
    by (intro emits_if served emits_bind) auto
qed

lemma dispatch_acknowledged:
  assumes connection: "connection \<noteq> None" and ok: "body_ok body"
    and statement: "has_statement (endpoint_of meth url)"
  shows "emits (http_dispatch E ctx connection url meth body) (\<lambda>result es. acknowledged es)"
  by (rule dispatch_rule [OF ok endpoint_acknowledged [OF connection statement] acknowledged_error])
    (simp_all add: acknowledged_append acknowledged_released)

end
