(* ===== verification/Refusals.thy ===== *)
theory Refusals
  imports Records Effects
begin

text \<open>
  The tables around one whole request. A request that is refused with a status of the client
  (400 to 499) leaves every table as it was, with the confirmation of an account as the one
  exception: it answers 400 also when its statement failed on the way back. And whatever the
  answer, the tables only evolve.
\<close>

section \<open>Refused requests\<close>

definition client_error :: "event list \<Rightarrow> bool" where
  "client_error es \<longleftrightarrow> list_ex (\<lambda>(status, _). 400 \<le> status \<and> status < 500) (responses es)"

definition harmless :: "postgres \<Rightarrow> event list \<Rightarrow> bool" where
  "harmless P es \<longleftrightarrow>
     (\<forall>d d'. history P d (sqls es) d' \<longrightarrow> client_error es \<longrightarrow> d' = d\<lparr>clock := clock d'\<rparr>)"

lemma client_error_simps [simp]:
  "client_error (es @ fs) \<longleftrightarrow> client_error es \<or> client_error fs"
  "client_error [Released k] \<longleftrightarrow> False"
  "responses es = [] \<Longrightarrow> \<not> client_error es"
  by (auto simp: client_error_def)

lemma replies_client_error:
  "replies E connection status Q result es \<Longrightarrow> client_error es \<Longrightarrow> 400 \<le> status \<and> status < 500"
  by (auto simp: replies_def client_error_def)

lemma harmless_silent: "sqls es = [] \<Longrightarrow> harmless P es"
  by (auto simp: harmless_def)

text \<open>A statement whose answer leads to a client error, if at all, only after it changed nothing.\<close>

lemma harmless_asked:
  assumes "asked available command texts (sqls es) post" and "(command, length texts, columns) \<in> set sql_table"
    and "\<And>answer. post answer \<Longrightarrow> client_error es \<Longrightarrow> \<not> lost answer"
    and "\<And>answer r d outcome d'. post answer \<Longrightarrow> client_error es \<Longrightarrow>
      run_statement P r d command texts = (outcome, d') \<Longrightarrow> reported columns outcome answer \<Longrightarrow>
      d' = d\<lparr>clock := clock d'\<rparr>"
  shows "harmless P es"
  unfolding harmless_def
proof (intro allI impI)
  fix d d' assume later: "history P d (sqls es) d'" and error: "client_error es"
  from assms(1) later show "d' = d\<lparr>clock := clock d'\<rparr>"
    by (rule asked_effect [where columns = columns]) (use assms(2-4) error in blast)+
qed

text \<open>The routes that answer a client error before their own statement only.\<close>

lemma harmless_served:
  assumes "asked available command texts (sqls es) post"
    and "\<And>answer. post answer \<Longrightarrow> \<not> client_error es"
  shows "harmless P es"
  using assms by (auto simp: harmless_def asked_def)

lemma harmless_checked:
  assumes "auth_decision available connection status uid (sqls es)" and "responses es = []"
    and "harmless P fs"
  shows "harmless P (es @ fs)"
  unfolding harmless_def
proof (intro allI impI)
  fix d d' assume "history P d (sqls (es @ fs)) d'" and error: "client_error (es @ fs)"
  then obtain e where e: "history P d (sqls es) e" "history P e (sqls fs) d'"
    using history_split by fastforce
  have "e = d\<lparr>clock := clock e\<rparr>" by (rule decision_reads [OF assms(1) e(1)])
  moreover have "d' = e\<lparr>clock := clock d'\<rparr>"
    using assms(2,3) e(2) error by (simp add: harmless_def)
  ultimately show "d' = d\<lparr>clock := clock d'\<rparr>" by (metis store.select_convs(1) store.update_convs(1) store.surjective)
qed

lemma harmless_protected:
  assumes "protected E ctx connection granted result es"
    and "\<And>uid es. granted uid result es \<Longrightarrow> harmless P es"
  shows "harmless P es"
  using assms(1) unfolding protected_def
  by (auto intro!: harmless_checked dest: assms(2) intro: harmless_silent split: if_splits)

lemma harmless_attributed:
  assumes "attributed E ctx connection json granted result es"
    and "\<And>a es. granted a result es \<Longrightarrow> harmless P es"
  shows "harmless P es"
  using assms(1) unfolding attributed_def
  by (auto intro!: harmless_checked dest: assms(2) intro: harmless_silent split: if_splits option.splits)

lemma no_client_error:
  "replies E connection 200 Q result es \<Longrightarrow> \<not> client_error es"
  "replies E connection 500 Q result es \<Longrightarrow> \<not> client_error es"
  by (auto dest: replies_client_error)

lemma harmless_register:
  assumes "register_outcome E ctx connection json result es"
  shows "harmless P es"
proof (cases "registration E json")
  case None
  with assms show ?thesis by (simp add: register_outcome_def harmless_silent)
next
  case (Some r)
  obtain email password name where r: "r = (email, password, name)" by (cases r)
  have "asked (live E ctx) register_query [map c_tolower email, password, name,
      decimal (unat (portal_config_confirmation_ttl_hours (ctx_config ctx)))] (sqls es)
      (\<lambda>answer. client_error es \<longrightarrow> unique_violation answer \<and> \<not> answered_tuples answer)"
    using assms unfolding register_outcome_def Some r option.case prod.case
    by (rule asked_mono) (auto dest: replies_client_error split: if_splits)
  then show ?thesis
  proof (rule harmless_asked [where columns = 2])
    fix answer and r d and outcome :: sql_outcome and d'
    assume violation: "client_error es \<longrightarrow> unique_violation answer \<and> \<not> answered_tuples answer" "client_error es"
      and run: "run_statement P r d register_query [map c_tolower email, password, name,
        decimal (unat (portal_config_confirmation_ttl_hours (ctx_config ctx)))] = (outcome, d')"
      and reported: "reported 2 outcome answer"
    have "outcome \<noteq> Command_Done"
      using run by (auto simp: run_statements Let_def split: option.splits if_splits)
    moreover have "\<And>rows. outcome \<noteq> Rows rows"
      using reported violation by (cases answer) (auto simp: reported_def split: sql_outcome.splits)
    ultimately obtain code where "outcome = Failed code" by (cases outcome) auto
    with run show "d' = d\<lparr>clock := clock d'\<rparr>"
      by (auto simp: run_statements Let_def split: option.splits if_splits)
  qed (auto simp: sql_table_def)
qed

lemma harmless_login:
  assumes "login_outcome E ctx connection json result es"
  shows "harmless P es"
proof (cases "credentials E json")
  case None
  with assms show ?thesis by (simp add: login_outcome_def harmless_silent)
next
  case (Some r)
  obtain email password where r: "r = (email, password)" by (cases r)
  have "asked (live E ctx) login_query [map c_tolower email, password,
      decimal (unat (portal_config_token_ttl_hours (ctx_config ctx)))] (sqls es)
      (\<lambda>answer. client_error es \<longrightarrow> answered_tuples answer \<and> answered_rows answer \<noteq> 1)"
    using assms unfolding login_outcome_def Some r option.case prod.case
    by (rule asked_mono) (auto dest: replies_client_error split: if_splits)
  then show ?thesis
  proof (rule harmless_asked [where columns = 2])
    fix answer and r d and outcome :: sql_outcome and d'
    assume none: "client_error es \<longrightarrow> answered_tuples answer \<and> answered_rows answer \<noteq> 1" "client_error es"
      and run: "run_statement P r d login_query [map c_tolower email, password,
        decimal (unat (portal_config_token_ttl_hours (ctx_config ctx)))] = (outcome, d')"
      and reported: "reported 2 outcome answer"
    then have tuples: "answered_tuples answer" by simp
    obtain rows where rows: "outcome = Rows rows" "answered_rows answer = length rows"
      by (rule reported_rows [OF reported tuples]) simp_all
    with none run show "d' = d\<lparr>clock := clock d'\<rparr>"
      by (auto simp: run_statements Let_def split: option.splits list.splits)
  qed (auto simp: sql_table_def)
qed

lemma harmless_logout: "logout_outcome E ctx connection result es \<Longrightarrow> harmless P es"
  unfolding logout_outcome_def
  by (elim exE conjE, erule harmless_served) (auto dest: replies_client_error split: if_splits)

lemma harmless_favorite_list: "favorite_list_outcome E ctx connection kind uid result es \<Longrightarrow> harmless P es"
  unfolding favorite_list_outcome_def
  by (erule harmless_served) (auto dest: replies_client_error split: if_splits)

lemma harmless_favorite_change:
  "favorite_change_outcome E ctx connection kind is_put key uid result es \<Longrightarrow> harmless P es"
  unfolding favorite_change_outcome_def
  by (auto intro: harmless_silent elim!: harmless_served dest: replies_client_error split: if_splits)

lemma harmless_top_content: "top_content_outcome E ctx connection result es \<Longrightarrow> harmless P es"
  unfolding top_content_outcome_def Let_def
  by (cases "range_of (lookup_argument connection ''days'') 7 1 365";
      cases "range_of (lookup_argument connection ''limit'') 10 1 100")
    (auto intro: harmless_silent elim!: harmless_served dest: no_client_error split: if_splits option.splits)

lemma harmless_activity: "activity_stored E ctx connection json a result es \<Longrightarrow> harmless P es"
  unfolding activity_stored_def
  by (auto intro: harmless_silent elim!: harmless_served dest: replies_client_error split: if_splits option.splits)

lemma harmless_like: "like_stored E ctx connection is_put content_id json a result es \<Longrightarrow> harmless P es"
  unfolding like_stored_def Let_def
  by (auto intro: harmless_silent elim!: harmless_served dest: replies_client_error split: if_splits)

lemma harmless_comment: "comment_stored E ctx connection content_id json a result es \<Longrightarrow> harmless P es"
  unfolding comment_stored_def
  by (erule harmless_served) (auto dest: replies_client_error split: if_splits)

lemma harmless_if_valid:
  assumes "if valid then attributed E ctx connection json granted result es
      else sqls es = [] \<and> replies E connection 400 body result es"
    and "\<And>a es. granted a result es \<Longrightarrow> harmless P es"
  shows "harmless P es"
  using assms(1) by (auto intro: harmless_attributed [OF _ assms(2)] harmless_silent split: if_splits)

lemma harmless_actions:
  "activity_outcome E ctx connection json result es \<Longrightarrow> harmless P es"
  "like_outcome E ctx connection is_put content_id json result es \<Longrightarrow> harmless P es"
  "comment_outcome E ctx connection content_id json result es \<Longrightarrow> harmless P es"
  unfolding activity_outcome_def like_outcome_def comment_outcome_def
  by (erule harmless_if_valid, erule harmless_activity harmless_like harmless_comment)+

text \<open>Every endpoint but the confirmation, and the router in front of them.\<close>

lemma endpoint_harmless:
  assumes connection: "connection \<noteq> None" and "e \<noteq> Confirm"
  shows "emits (run_endpoint E ctx connection meth json e) (\<lambda>result es. harmless P es)"
proof -
  have error: "emits (portal_http_response_error E connection status (Some ecode) (Some message))
      (\<lambda>result es. harmless P es)" for status ecode message
    by (rule error.reply_rule) (rule harmless_silent)
  have options: "emits (portal_http_response_options E connection) (\<lambda>result es. harmless P es)"
    by (rule options.reply_rule) (rule harmless_silent)
  have health: "emits (run_endpoint E ctx connection meth json Health) (\<lambda>result es. harmless P es)"
    unfolding run_endpoint_def endpoint.case
    by (intro emits_intros reply_rules) (auto intro: harmless_silent)
  have register: "emits (portal_http_route_register E ctx connection json) (\<lambda>result es. harmless P es)"
    by (rule emits_register) (rule harmless_register)
  have login: "emits (portal_http_route_login E ctx connection json) (\<lambda>result es. harmless P es)"
    by (rule emits_login) (rule harmless_login)
  have logout: "emits (portal_http_route_logout E ctx connection) (\<lambda>result es. harmless P es)"
    by (rule emits_logout [OF connection]) (erule harmless_protected, erule harmless_logout)
  have favorite_list: "emits (portal_http_route_favorite_list E ctx connection kind) (\<lambda>result es. harmless P es)" for kind
    by (rule emits_favorite_list [OF connection]) (erule harmless_protected, erule harmless_favorite_list)
  have favorite_change: "emits (portal_http_route_favorite_change E ctx connection meth kind key)
      (\<lambda>result es. harmless P es)" for kind key
    by (rule emits_favorite_change [OF connection]) (erule harmless_protected, erule harmless_favorite_change)
  have top_content: "emits (portal_http_route_top_content E ctx connection) (\<lambda>result es. harmless P es)"
    by (rule emits_top_content [OF connection]) (erule harmless_protected, erule harmless_top_content)
  have activity: "emits (portal_http_route_activity E ctx connection json) (\<lambda>result es. harmless P es)"
    by (rule emits_activity [OF connection]) (erule harmless_actions)
  have like: "emits (portal_http_route_like E ctx connection meth content json) (\<lambda>result es. harmless P es)" for content
    by (rule emits_like [OF connection]) (erule harmless_actions)
  have comment: "emits (portal_http_route_comment E ctx connection content json) (\<lambda>result es. harmless P es)" for content
    by (rule emits_comment [OF connection]) (erule harmless_actions)
  show ?thesis
    using assms(2) health
    by (cases e) (simp_all add: run_endpoint_def error options register login logout favorite_list
      favorite_change top_content activity like comment)
qed

lemma dispatch_harmless:
  assumes "connection \<noteq> None" and "body_ok body" and "endpoint_of meth url \<noteq> Confirm"
  shows "emits (http_dispatch E ctx connection url meth body) (\<lambda>result es. harmless P es)"
proof (rule dispatch_rule [OF assms(2) endpoint_harmless [OF assms(1,3)]])
  show "emits (portal_http_response_error E connection 400 (Some ''invalid_json'')
      (Some ''A JSON object request body is required.'')) (\<lambda>result es. harmless P es)"
    by (rule error.reply_rule) (rule harmless_silent)
qed (simp_all add: harmless_def quiet_def)

section \<open>Every request\<close>

context database_server
begin

text \<open>One run: what its events satisfy, and how the tables got from its start to its end.\<close>

lemma run_events:
  assumes "follows P db m" and "emits m C" and "run_state m w = (a, w')"
  obtains es where "trace w' = trace w @ es" and "C a es" and "history P (db (outside w)) (sqls es) (db (outside w'))"
proof -
  have "stores db m (\<lambda>d a es d'. C a es \<and> history P d (sqls es) d')"
    by (rule stores_emits [OF assms(1,2)]) simp
  from stores_run [OF this assms(3)] that show thesis by blast
qed

lemma run_history:
  assumes "follows P db m" and "emits m C" and "run_state m w = (a, w')" and "trace w' = trace w @ es"
  shows "C a es" and "history P (db (outside w)) (sqls es) (db (outside w'))"
  using run_events [OF assms(1-3)] assms(4) by (metis same_append_eq)+

text \<open>Whatever a request is answered with, it changes the tables as \<open>evolves\<close> allows.\<close>

lemma dispatch_evolves:
  assumes "connection \<noteq> None" and "body_ok body"
  shows "stores db (http_dispatch E ctx connection url meth body) (\<lambda>d result es d'. evolves d d')"
  by (rule stores_emits [OF follows_dispatch emits_dispatch [OF assms]])
    (auto simp: safe_def intro: history_evolves)

lemma dispatch_refuses:
  assumes "connection \<noteq> None" and "body_ok body" and "endpoint_of meth url \<noteq> Confirm"
  shows "stores db (http_dispatch E ctx connection url meth body)
    (\<lambda>d result es d'. client_error es \<longrightarrow> d' = d\<lparr>clock := clock d'\<rparr>)"
  by (rule stores_emits [OF follows_dispatch dispatch_harmless [OF assms]]) (auto simp: harmless_def)

end

end
