(* ===== verification/Constraints.thy ===== *)
theory Constraints
  imports Tables
begin

text \<open>
  The constraints of \<^verbatim>\<open>src/db/init.sql\<close> as an invariant: primary and unique keys, foreign keys and
  checks. Every statement of the program keeps them, so every request does.
\<close>

definition users_ok :: "postgres \<Rightarrow> store \<Rightarrow> bool" where
  "users_ok P d \<longleftrightarrow>
     distinct (map user_row_id (users d)) \<and> distinct (map account_email (users d)) \<and>
     list_all (users_check P) (users d)"

definition tokens_ok :: "store \<Rightarrow> bool" where
  "tokens_ok d \<longleftrightarrow>
     distinct (map confirmation_token (confirmation_tokens d)) \<and>
     list_all (\<lambda>c. user_exists d (Some (confirmation_user c))) (confirmation_tokens d) \<and>
     distinct (map session_token (auth_sessions d)) \<and>
     list_all (\<lambda>s. user_exists d (Some (session_owner s))) (auth_sessions d)"

definition favorites_ok :: "postgres \<Rightarrow> store \<Rightarrow> (string \<times> string) list \<Rightarrow> bool" where
  "favorites_ok P d rows \<longleftrightarrow>
     distinct rows \<and> list_all (\<lambda>(u, key). user_exists d (Some u) \<and> favorite_key_check P key) rows"

definition events_ok :: "postgres \<Rightarrow> store \<Rightarrow> bool" where
  "events_ok P d \<longleftrightarrow>
     distinct (map event_id (activity_events d)) \<and>
     list_all (\<lambda>e. 0 < event_id e \<and> event_id e < 2 ^ 63) (activity_events d) \<and>
     list_all (\<lambda>e. activity_check P e \<and> user_exists d (event_user e)) (activity_events d)"

definition reactions_ok :: "postgres \<Rightarrow> store \<Rightarrow> bool" where
  "reactions_ok P d \<longleftrightarrow>
     distinct (map (\<lambda>l. (like_content l, like_actor l)) (content_likes d)) \<and>
     list_all (\<lambda>l. likes_check l \<and> user_exists d (like_user l)) (content_likes d) \<and>
     distinct (map comment_id (comments d)) \<and>
     list_all (\<lambda>c. comments_check P c \<and> user_exists d (comment_user c)) (comments d)"

definition store_ok :: "postgres \<Rightarrow> store \<Rightarrow> bool" where
  "store_ok P d \<longleftrightarrow>
     users_ok P d \<and> tokens_ok d \<and> favorites_ok P d (favorite_tags d) \<and>
     favorites_ok P d (favorite_sections d) \<and> events_ok P d \<and> reactions_ok P d"

lemmas store_ok_defs = store_ok_def users_ok_def tokens_ok_def favorites_ok_def events_ok_def reactions_ok_def

section \<open>References to users\<close>

lemma user_exists_iff:
  "user_exists d uid \<longleftrightarrow> (case uid of None \<Rightarrow> True | Some i \<Rightarrow> i \<in> user_row_id ` set (users d))"
  by (auto simp: user_exists_def list_ex_iff split: option.split)

lemma user_exists_other [simp]:
  "user_exists (d\<lparr>clock := now\<rparr>) = user_exists d"
  "user_exists (d\<lparr>confirmation_tokens := cs\<rparr>) = user_exists d"
  "user_exists (d\<lparr>auth_sessions := ss\<rparr>) = user_exists d"
  "user_exists (d\<lparr>favorite_tags := fs\<rparr>) = user_exists d"
  "user_exists (d\<lparr>favorite_sections := fs\<rparr>) = user_exists d"
  "user_exists (d\<lparr>activity_events := es\<rparr>) = user_exists d"
  "user_exists (d\<lparr>content_likes := ls\<rparr>) = user_exists d"
  "user_exists (d\<lparr>comments := ms\<rparr>) = user_exists d"
  by (rule ext, simp add: user_exists_iff split: option.split)+

lemma user_exists_added: "user_exists d uid \<Longrightarrow> user_exists (d\<lparr>users := users d @ us\<rparr>) uid"
  by (auto simp: user_exists_iff split: option.splits)

lemma user_exists_mapped:
  "(\<And>u. user_row_id (f u) = user_row_id u) \<Longrightarrow> user_exists (d\<lparr>users := map f (users d)\<rparr>) = user_exists d"
  by (rule ext) (simp add: user_exists_iff image_image split: option.split)

lemma user_exists_some: "user_exists d (Some i) \<longleftrightarrow> i \<in> user_row_id ` set (users d)"
  by (simp add: user_exists_iff)

text \<open>Tables whose users are among the old ones keep what refers to users.\<close>

lemma store_ok_users:
  assumes "store_ok P d" and "users_ok P (d\<lparr>users := us\<rparr>)"
    and "\<And>uid. user_exists d uid \<Longrightarrow> user_exists (d\<lparr>users := us\<rparr>) uid"
  shows "store_ok P (d\<lparr>users := us\<rparr>)"
  using assms by (auto simp: store_ok_defs list_all_iff)

lemma store_ok_clock [simp]: "store_ok P (d\<lparr>clock := now\<rparr>) = store_ok P d"
  by (simp add: store_ok_defs)

section \<open>Every statement keeps the constraints\<close>

lemma store_ok_event:
  assumes "store_ok P d" and "event_inserted P d e = Inr d'"
    and "event_id e \<notin> event_id ` set (activity_events d)" and "0 < event_id e" and "event_id e < 2 ^ 63"
  shows "store_ok P d'"
  using assms by (auto simp: event_inserted_def store_ok_defs split: if_splits)

lemma store_ok_session:
  assumes "store_ok P d" and "session_token s \<notin> session_token ` set (auth_sessions d)"
    and "user_exists d (Some (session_owner s))"
  shows "store_ok P (d\<lparr>auth_sessions := auth_sessions d @ [s]\<rparr>)"
  using assms by (simp add: store_ok_defs)

lemma store_ok_sessions_mapped:
  assumes "store_ok P d" and "\<And>s. session_token (f s) = session_token s \<and> session_owner (f s) = session_owner s"
  shows "store_ok P (d\<lparr>auth_sessions := map f (auth_sessions d)\<rparr>)"
  using assms by (simp add: store_ok_defs comp_def list_all_iff)

lemma store_ok_token:
  assumes "store_ok P d" and "confirmation_token c \<notin> confirmation_token ` set (confirmation_tokens d)"
    and "user_exists d (Some (confirmation_user c))"
  shows "store_ok P (d\<lparr>confirmation_tokens := confirmation_tokens d @ [c]\<rparr>)"
  using assms by (simp add: store_ok_defs)

lemma store_ok_tokens_mapped:
  assumes "store_ok P d"
    and "\<And>c. confirmation_token (f c) = confirmation_token c \<and> confirmation_user (f c) = confirmation_user c"
  shows "store_ok P (d\<lparr>confirmation_tokens := map f (confirmation_tokens d)\<rparr>)"
  using assms by (simp add: store_ok_defs comp_def list_all_iff)

lemma store_ok_user:
  assumes "store_ok P d" and "users_check P u" and "user_row_id u \<notin> user_row_id ` set (users d)"
    and "account_email u \<notin> account_email ` set (users d)"
  shows "store_ok P (d\<lparr>users := users d @ [u]\<rparr>)"
  using assms by (intro store_ok_users user_exists_added) (simp_all add: store_ok_def users_ok_def)

lemma store_ok_users_mapped:
  assumes "store_ok P d" and same: "\<And>u. user_row_id (f u) = user_row_id u \<and>
      account_email (f u) = account_email u \<and> display_name (f u) = display_name u"
  shows "store_ok P (d\<lparr>users := map f (users d)\<rparr>)"
  using assms
  by (intro store_ok_users) (simp_all add: user_exists_mapped store_ok_def users_ok_def comp_def list_all_iff users_check_def)

lemma store_ok_favorites:
  assumes "store_ok P d"
  shows "favorites_ok P d rows \<Longrightarrow> store_ok P (d\<lparr>favorite_tags := rows\<rparr>)"
    and "favorites_ok P d rows \<Longrightarrow> store_ok P (d\<lparr>favorite_sections := rows\<rparr>)"
  using assms by (simp_all add: store_ok_defs)

lemma favorites_ok_changed:
  "favorites_ok P d rows \<Longrightarrow> favorite_added P d rows uid key = Inr rows' \<Longrightarrow> favorites_ok P d rows'"
  "favorites_ok P d rows \<Longrightarrow> favorites_ok P d (favorite_removed rows uid key)"
  by (auto simp: favorites_ok_def favorite_added_def favorite_removed_def list_all_iff split: if_splits)

lemma store_ok_like:
  assumes "store_ok P d" and "likes_check l" and "user_exists d (like_user l)"
    and "\<not> liked d (like_content l) (like_actor l)"
  shows "store_ok P (d\<lparr>content_likes := content_likes d @ [l]\<rparr>)"
  using assms by (auto simp: store_ok_defs liked_def list_ex_iff)

lemma store_ok_unlike:
  "store_ok P d \<Longrightarrow> store_ok P (d\<lparr>content_likes := filter Q (content_likes d)\<rparr>)"
  by (auto simp: store_ok_defs list_all_iff distinct_map_filter)

lemma store_ok_comment:
  assumes "store_ok P d" and "comments_check P c" and "user_exists d (comment_user c)"
    and "comment_id c \<notin> comment_id ` set (comments d)"
  shows "store_ok P (d\<lparr>comments := comments d @ [c]\<rparr>)"
  using assms by (simp add: store_ok_defs)

lemma sql_register_ok:
  assumes "draw_ok P d r" and "store_ok P d"
  shows "store_ok P (snd (sql_register P r d texts))"
proof (cases "(P, r, d, texts)" rule: sql_register.cases)
  case (1 P' r' d' email password name ttl)
  let ?u = "\<lparr>user_row_id = draw_id r, account_email = email, display_name = name,
      password_hash = pg_crypt P password (draw_salt r), confirmed_at = None\<rparr>"
  let ?token = "\<lambda>expires. \<lparr>confirmation_token = draw_token r, confirmation_user = draw_id r,
      confirmation_expires = expires, consumed_at = None\<rparr>"
  have "store_ok P (d\<lparr>users := users d @ [?u], confirmation_tokens := confirmation_tokens d @ [?token expires]\<rparr>)"
    if "users_check P ?u" "\<not> list_ex (\<lambda>u. account_email u = email) (users d)" for expires
  proof -
    have "store_ok P (d\<lparr>users := users d @ [?u]\<rparr>)"
      using assms that by (intro store_ok_user) (auto simp: draw_ok_def list_ex_iff)
    from store_ok_token [OF this, of "?token expires"] show ?thesis
      using assms(1) by (simp add: draw_ok_def user_exists_some)
  qed
  with 1 assms(2) show ?thesis by (auto simp: Let_def split: option.split)
qed (use assms(2) in auto)

lemma sql_confirm_ok:
  assumes "store_ok P d"
  shows "store_ok P (snd (sql_confirm P r d texts))"
proof (cases "(P, r, d, texts)" rule: sql_confirm.cases)
  case (1 P' r' d' token)
  have "store_ok P (d\<lparr>confirmation_tokens := map f (confirmation_tokens d), users := map g (users d)\<rparr>)"
    if "\<And>c. confirmation_token (f c) = confirmation_token c \<and> confirmation_user (f c) = confirmation_user c"
      "\<And>u. user_row_id (g u) = user_row_id u \<and> account_email (g u) = account_email u \<and>
        display_name (g u) = display_name u" for f g
    using store_ok_users_mapped [OF store_ok_tokens_mapped [OF assms that(1)] that(2)] by simp
  with 1 assms show ?thesis by (auto simp: Let_def split: option.split)
qed (use assms in auto)

lemma sql_sessions_ok:
  assumes "draw_ok P d r" and "store_ok P d"
  shows "store_ok P (snd (sql_login P r d texts))" and "store_ok P (snd (sql_logout P r d texts))"
proof -
  show "store_ok P (snd (sql_login P r d texts))"
  proof (cases "(P, r, d, texts)" rule: sql_login.cases)
    case (1 P' r' d' email password ttl)
    have "u \<in> set (users d)" if "filter (login_candidate P email password) (users d) = u # us" for u us
      using that by (auto simp: filter_eq_Cons_iff)
    with 1 assms show ?thesis
      by (auto simp: Let_def draw_ok_def user_exists_some intro!: store_ok_session split: option.split list.split)
  qed (use assms(2) in auto)
  show "store_ok P (snd (sql_logout P r d texts))"
    by (cases "(P, r, d, texts)" rule: sql_logout.cases)
      (use assms(2) in \<open>auto intro!: store_ok_sessions_mapped split: option.split\<close>)
qed

lemma sql_favorites_ok:
  assumes "store_ok P d"
  shows "store_ok P (snd (sql_tag_insert P r d texts))" and "store_ok P (snd (sql_section_insert P r d texts))"
    and "store_ok P (snd (sql_tag_delete P r d texts))" and "store_ok P (snd (sql_section_delete P r d texts))"
proof -
  have ok: "favorites_ok P d (favorite_tags d)" "favorites_ok P d (favorite_sections d)"
    using assms by (simp_all add: store_ok_def)
  note change = favorites_ok_changed store_ok_favorites [OF assms]
  show "store_ok P (snd (sql_tag_insert P r d texts))"
    by (cases "(P, r, d, texts)" rule: sql_tag_insert.cases)
      (use assms ok in \<open>auto intro: change split: option.split sum.split\<close>)
  show "store_ok P (snd (sql_section_insert P r d texts))"
    by (cases "(P, r, d, texts)" rule: sql_section_insert.cases)
      (use assms ok in \<open>auto intro: change split: option.split sum.split\<close>)
  show "store_ok P (snd (sql_tag_delete P r d texts))"
    by (cases "(P, r, d, texts)" rule: sql_tag_delete.cases)
      (use assms ok in \<open>auto intro: change split: option.split\<close>)
  show "store_ok P (snd (sql_section_delete P r d texts))"
    by (cases "(P, r, d, texts)" rule: sql_section_delete.cases)
      (use assms ok in \<open>auto intro: change split: option.split\<close>)
qed

text \<open>The event a statement inserts takes the drawn number.\<close>

lemma store_ok_drawn_event:
  assumes "store_ok P d" and "draw_ok P d r" and "event_inserted P d e = Inr d'" and "event_id e = draw_number r"
  shows "store_ok P d'"
proof (rule store_ok_event [OF assms(1,3)])
  show "event_id e \<notin> event_id ` set (activity_events d)" "0 < event_id e" "event_id e < 2 ^ 63"
    unfolding assms(4) using assms(2) by (simp_all add: draw_ok_def)
qed

lemma event_inserted_other:
  "event_inserted P d e = Inr d' \<Longrightarrow> content_likes d' = content_likes d \<and> comments d' = comments d \<and>
     user_exists d' = user_exists d"
  by (auto simp: event_inserted_def split: if_splits)

lemma sql_events_ok:
  assumes "draw_ok P d r" and "store_ok P d"
  shows "store_ok P (snd (sql_activity P r d texts))" and "store_ok P (snd (sql_like_insert P r d texts))"
    and "store_ok P (snd (sql_like_delete P r d texts))" and "store_ok P (snd (sql_comment P r d texts))"
proof -
  note event = store_ok_drawn_event [OF assms(2,1)]
  show "store_ok P (snd (sql_activity P r d texts))"
    by (cases "(P, r, d, texts)" rule: sql_activity.cases)
      (use assms(2) in \<open>auto intro: event split: option.split sum.split\<close>)
  show "store_ok P (snd (sql_like_delete P r d texts))"
    by (cases "(P, r, d, texts)" rule: sql_like_delete.cases) (use assms(2) in \<open>auto intro: store_ok_unlike\<close>)
  show "store_ok P (snd (sql_like_insert P r d texts))"
  proof (cases "(P, r, d, texts)" rule: sql_like_insert.cases)
    case (1 P' r' d' content user anonymous actor portal)
    let ?row = "\<lambda>uid. \<lparr>like_content = content, like_user = uid, like_anonymous = nullif anonymous, like_actor = actor\<rparr>"
    have "store_ok P (e\<lparr>content_likes := content_likes e @ [?row uid]\<rparr>)"
      if "event_inserted P d (plain_event r d uid (nullif anonymous) portal ''like'' content) = Inr e"
        "likes_check (?row uid)" "\<not> liked d content actor" for uid e
    proof (rule store_ok_like)
      show "store_ok P e" by (rule event [OF that(1)]) (simp add: plain_event_def)
      show "user_exists e (like_user (?row uid))"
        using that(1) by (auto simp: event_inserted_def plain_event_def split: if_splits)
      show "\<not> liked e (like_content (?row uid)) (like_actor (?row uid))"
        using that event_inserted_other [OF that(1)] by (simp add: liked_def)
    qed (rule that(2))
    with 1 assms(2) show ?thesis by (auto simp: Let_def split: option.split sum.split)
  qed (use assms(2) in auto)
  show "store_ok P (snd (sql_comment P r d texts))"
  proof (cases "(P, r, d, texts)" rule: sql_comment.cases)
    case (1 P' r' d' content user anonymous author body portal)
    let ?row = "\<lambda>uid. \<lparr>comment_id = draw_id r, comment_content = content, comment_user = uid,
      comment_anonymous = nullif anonymous, comment_author = nullif author, comment_text = body,
      comment_created = clock d\<rparr>"
    have "store_ok P (e\<lparr>comments := comments e @ [?row uid]\<rparr>)"
      if "event_inserted P d (plain_event r d uid (nullif anonymous) portal ''comment'' content) = Inr e"
        "comments_check P (?row uid)" for uid e
    proof (rule store_ok_comment)
      show "store_ok P e" by (rule event [OF that(1)]) (simp add: plain_event_def)
      show "user_exists e (comment_user (?row uid))"
        using that(1) by (auto simp: event_inserted_def plain_event_def split: if_splits)
      show "comment_id (?row uid) \<notin> comment_id ` set (comments e)"
        using assms(1) event_inserted_other [OF that(1)] by (simp add: draw_ok_def)
    qed (rule that(2))
    with 1 assms(2) show ?thesis by (auto simp: Let_def split: option.split sum.split)
  qed (use assms(2) in auto)
qed

lemmas statements_ok = sql_register_ok sql_confirm_ok sql_sessions_ok sql_favorites_ok sql_events_ok

lemma table_keeps:
  assumes "(command, effect) \<in> set statement_table" and "draw_ok P d r" and "store_ok P d"
  shows "store_ok P (snd (effect P r d texts))"
  using assms unfolding statement_table_def list.set
  by (elim insertE emptyE Pair_inject; simp add: statements_ok)

theorem executed_keeps:
  assumes "executed P d statement d'" and "known_statement statement" and "store_ok P d"
  shows "store_ok P d'"
proof (rule executed_rule [OF assms(1,2)])
  fix r command texts outcome e columns
  assume r: "draw_ok P d r" and table: "(command, length texts, columns) \<in> set sql_table"
    and run: "run_statement P r d command texts = (outcome, e)"
  obtain effect where effect: "(command, effect) \<in> set statement_table"
    using table by (rule effect_of_command)
  with run have "e = snd (effect P r (d\<lparr>clock := draw_time r\<rparr>) texts)"
    by (simp add: run_statement_table)
  then show "store_ok P e"
    using table_keeps [OF effect draw_ok_clock [OF r]] assms(3) by simp
qed (rule assms(3))

theorem history_keeps:
  "history P d ss d' \<Longrightarrow> list_all known_statement ss \<Longrightarrow> store_ok P d \<Longrightarrow> store_ok P d'"
  by (induction ss arbitrary: d) (auto intro: executed_keeps)

text \<open>
  Tables that keep the constraints: a token has one session at most, so the session check of a
  token finds one row or none.
\<close>

lemma one_session:
  assumes "store_ok P d" and "session_valid now t s u" and "session_valid now' t s' u'"
    and "s \<in> set (auth_sessions d)" "u \<in> set (users d)" "s' \<in> set (auth_sessions d)" "u' \<in> set (users d)"
  shows "s' = s \<and> u' = u"
proof -
  have keys: "inj_on session_token (set (auth_sessions d))" "inj_on user_row_id (set (users d))"
    using assms(1) by (simp_all add: store_ok_defs distinct_map)
  have "s' = s" by (rule inj_onD [OF keys(1)]) (use assms(2-7) in \<open>simp_all add: session_valid_def\<close>)
  moreover from this have "u' = u"
    by (intro inj_onD [OF keys(2)]) (use assms(2-7) in \<open>simp_all add: session_valid_def\<close>)
  ultimately show ?thesis by blast
qed

end
