(* ===== verification/Portal.thy ===== *)
theory Portal
  imports Refusals Constraints Execution
begin

text \<open>
  A concrete outside with a database: its state is the tables and the draws PostgreSQL will make, one
  per statement; a statement without a proper draw gets no answer. It interprets the locale
  \<open>database_server\<close>, and the runs at the end execute the program on it.
\<close>

section \<open>A database server\<close>

fun text_before :: "string \<Rightarrow> string \<Rightarrow> bool" where
  "text_before [] t = True"
| "text_before (c # s) [] = False"
| "text_before (c # s) (e # t) = (code c < code e \<or> c = e \<and> text_before s t)"

definition portal_postgres :: postgres where
  "portal_postgres = \<lparr>pg_uuid = \<lambda>s. if length s = 36 then Some s else None,
     pg_lower = map c_tolower, pg_char_length = length, pg_crypt = \<lambda>password salt. take 4 salt @ password,
     pg_time_text = signed_decimal, pg_jsonb = Some, pg_before = text_before\<rparr>"

definition report :: "nat \<Rightarrow> sql_outcome \<Rightarrow> pg_result" where
  "report columns outcome =
     (case outcome of
        Rows rows \<Rightarrow> \<lparr>pq_status = PGRES_TUPLES_OK, pq_ntuples = int (length rows), pq_nfields = int columns,
          pq_cell = \<lambda>i j. if 0 \<le> i \<and> nat i < length rows \<and> 0 \<le> j \<and> nat j < columns
            then Some (rows ! nat i ! nat j) else None,
          pq_sqlstate = None, pq_message = []\<rparr>
      | Command_Done \<Rightarrow> \<lparr>pq_status = PGRES_COMMAND_OK, pq_ntuples = 0, pq_nfields = 0,
          pq_cell = \<lambda>_ _. None, pq_sqlstate = None, pq_message = []\<rparr>
      | Failed broken \<Rightarrow> \<lparr>pq_status = PGRES_OTHER 7, pq_ntuples = 0, pq_nfields = 0,
          pq_cell = \<lambda>_ _. None, pq_sqlstate = Some broken, pq_message = broken\<rparr>)"

definition reportable :: "sql_outcome \<Rightarrow> bool" where
  "reportable outcome \<longleftrightarrow> (case outcome of Rows rows \<Rightarrow> length rows < 2 ^ 31 | _ \<Rightarrow> True)"

definition answer_known :: "string \<Rightarrow> string list \<Rightarrow> store \<times> draw list \<Rightarrow> pg_result option \<times> store \<times> draw list" where
  "answer_known command texts x =
     (case x of
        (d, []) \<Rightarrow> (None, x)
      | (d, r # rs) \<Rightarrow>
          if \<not> draw_ok portal_postgres d r then (None, d, rs)
          else (case run_statement portal_postgres r d command texts of
              (outcome, e) \<Rightarrow>
                (if reportable outcome then Some (report (columns_of command) outcome) else None, e, rs)))"

definition portal_exec ::
  "string \<Rightarrow> string option list \<Rightarrow> store \<times> draw list \<Rightarrow> pg_result option \<times> store \<times> draw list" where
  "portal_exec command values x =
     (if known_statement (command, values, None) then answer_known command (map the values) x
      else (Some (report 0 (Failed ''42601'')), x))"

definition portal :: "(store \<times> draw list, json) ext" where
  "portal = \<lparr>
     os_getenv = sample_environment,
     os_sigemptyset = \<lambda>x. (0, x), os_sigaddset = \<lambda>_ x. (0, x), os_sigprocmask = \<lambda>_ x. (0, x),
     os_sigwait = \<lambda>x. (0, x), os_getch = \<lambda>x. (13, x),
     heap_alloc = \<lambda>x. (True, x), heap_fill = \<lambda>_ _. CHR 0xAA,
     pq_connect = \<lambda>_ x. (Some 1, x), pq_conn_status = \<lambda>_ _. CONNECTION_OK,
     pq_conn_message = \<lambda>_ _. [],
     pq_exec = \<lambda>_ command values x. portal_exec command values x,
     mhd_create = \<lambda>x. (True, x), mhd_add_header = \<lambda>_ _ x. (MHD_YES, x),
     mhd_queue = \<lambda>_ _ _ x. (MHD_YES, x), mhd_start = \<lambda>_ x. (True, x), mhd_stop = \<lambda>x. x,
     jc_alloc = \<lambda>x. (True, x),
     jc_parse = \<lambda>buffer x. ((Some sample_document, True, length buffer), x),
     jc_object = JObject [], jc_array = JArray [], jc_string = JString, jc_int = JInt,
     jc_add = json_add, jc_append = json_append, jc_field = json_member, jc_type = json_kind,
     jc_text = json_text, jc_print = json_print\<rparr>"

lemma report_reported: "reportable outcome \<Longrightarrow> reported columns outcome (Some (report columns outcome))"
  by (cases outcome) (auto simp: reported_def report_def reportable_def)

lemma lost_None [simp]: "lost None"
  by (simp add: lost_def)

lemma portal_executed: "executed portal_postgres d (command, values, fst (portal_exec command values (d, rs)))
    (fst (snd (portal_exec command values (d, rs))))"
proof (cases "known_statement (command, values, None)")
  case False
  then have "\<not> known_statement (command, values, answer)" for answer
    by (simp add: known_statement_def)
  with False show ?thesis
    by (simp add: portal_exec_def executed_def answer_ok_def report_def)
next
  case True
  then have known: "known_statement (command, values, answer)" for answer
    by (simp add: known_statement_def)
  show ?thesis
  proof (cases rs)
    case Nil
    with True known show ?thesis by (simp add: portal_exec_def answer_known_def executed_def)
  next
    case (Cons r rest)
    obtain outcome e where run: "run_statement portal_postgres r d command (map the values) = (outcome, e)"
      by fastforce
    show ?thesis
    proof (cases "draw_ok portal_postgres d r")
      case False
      with True known Cons show ?thesis by (simp add: portal_exec_def answer_known_def executed_def)
    next
      case draw: True
      with True known Cons run show ?thesis
        by (cases "reportable outcome")
          (auto simp: portal_exec_def answer_known_def executed_def report_reported intro!: exI [of _ r])
    qed
  qed
qed

lemma portal_backed: "backed portal_postgres portal fst"
  using portal_executed by (auto simp: backed_def calm_def portal_def)

interpretation portal: database_server portal_postgres portal fst
  by unfold_locales (rule portal_backed)

lemma portal_generous: "generous portal"
  by (simp add: generous_def portal_def)

section \<open>Tables and draws to start from\<close>

definition uuid_of :: "nat \<Rightarrow> string" where
  "uuid_of n = replicate 36 (char_of n)"

text \<open>Ana has an account, a session and a token that waits for its confirmation.\<close>

definition ana :: user_row where
  "ana = \<lparr>user_row_id = uuid_of 1, account_email = ''ana@example.com'', display_name = ''Ana'',
     password_hash = ''saltuna-clave-larga'', confirmed_at = Some 5\<rparr>"

definition empty_tables :: store where
  "empty_tables = \<lparr>clock = 10, users = [], confirmation_tokens = [], auth_sessions = [],
     favorite_sections = [], favorite_tags = [], activity_events = [], content_likes = [], comments = []\<rparr>"

definition portal_tables :: store where
  "portal_tables = empty_tables\<lparr>users := [ana],
     confirmation_tokens := [\<lparr>confirmation_token = sample_token, confirmation_user = uuid_of 1,
       confirmation_expires = 1000, consumed_at = None\<rparr>],
     auth_sessions := [\<lparr>session_token = sample_token, session_owner = uuid_of 1, session_expires = 1000,
       revoked_at = None\<rparr>],
     favorite_tags := [(uuid_of 1, ''viejo'')]\<rparr>"

definition draw_at :: "nat \<Rightarrow> draw" where
  "draw_at n = \<lparr>draw_time = int n, draw_id = uuid_of n, draw_token = uuid_of n, draw_number = int n,
     draw_salt = ''salt''\<rparr>"

definition portal_world :: "store \<Rightarrow> (store \<times> draw list) world" where
  "portal_world d = \<lparr>outside = (d, [draw_at 11, draw_at 12, draw_at 13, draw_at 14]), trace = []\<rparr>"

lemma uuid_length [simp]: "length (uuid_of n) = 36" "take 36 (uuid_of n) = uuid_of n" "uuid_of n \<noteq> []"
  by (simp_all add: uuid_of_def)

lemma uuid_eq [simp]: "uuid_of m = uuid_of n \<longleftrightarrow> (char_of m :: char) = char_of n"
  by (simp add: uuid_of_def)

lemma sample_token_simps [simp]:
  "length sample_token = 36" "uuid_of n \<noteq> sample_token" "sample_token \<noteq> uuid_of n"
proof -
  show "length sample_token = 36" by (simp add: sample_token_def)
  have "sample_token ! 0 \<noteq> sample_token ! 1" by (simp add: sample_token_def)
  moreover have "uuid_of n ! 0 = uuid_of n ! 1" by (simp add: uuid_of_def)
  ultimately show "uuid_of n \<noteq> sample_token" "sample_token \<noteq> uuid_of n" by metis+
qed

lemma ana_simps [simp]:
  "user_row_id ana = uuid_of 1" "account_email ana = ''ana@example.com''" "confirmed_at ana = Some 5"
  "password_hash ana = ''saltuna-clave-larga''"
  by (simp_all add: ana_def)

lemma portal_checks:
  "users_check portal_postgres ana"
  "users_check portal_postgres \<lparr>user_row_id = i, account_email = ''ana@example.com'',
     display_name = ''Ana'', password_hash = h, confirmed_at = c\<rparr>"
  "favorite_key_check portal_postgres ''viejo''" "favorite_key_check portal_postgres ''tema''"
proof -
  have "map c_tolower ''ana@example.com'' = ''ana@example.com''" by code_simp
  then show "users_check portal_postgres ana"
    and "users_check portal_postgres \<lparr>user_row_id = i, account_email = ''ana@example.com'',
      display_name = ''Ana'', password_hash = h, confirmed_at = c\<rparr>"
    by (simp_all add: users_check_def portal_postgres_def ana_def del: list.map)
qed (simp_all add: favorite_key_check_def portal_postgres_def)

lemma portal_tables_ok: "store_ok portal_postgres portal_tables"
  by (simp add: portal_checks store_ok_defs portal_tables_def empty_tables_def user_exists_def)

section \<open>Running on it\<close>

text \<open>What the concrete outside does at each statement.\<close>

lemma answer_simps:
  "answer_known command texts (d, []) = (None, d, [])"
  "draw_ok portal_postgres d r \<Longrightarrow> run_statement portal_postgres r d command texts = (outcome, e) \<Longrightarrow>
   reportable outcome \<Longrightarrow>
   answer_known command texts (d, r # rs) = (Some (report (columns_of command) outcome), e, rs)"
  by (simp_all add: answer_known_def)

lemma portal_exec_texts:
  assumes "list_ex (\<lambda>(q, n, _). command = q \<and> length texts = n) sql_table"
  shows "portal_exec command (map Some texts) x = answer_known command texts x"
proof -
  have "known_statement (command, map Some texts, None)"
    using assms by (auto simp: known_statement_def list_ex_iff list_all_iff)
  then show ?thesis by (simp add: portal_exec_def comp_def)
qed

lemma portal_exec_simps:
  "portal_exec auth_query [Some a] x = answer_known auth_query [a] x"
  "portal_exec register_query [Some a, Some b, Some c, Some d] x = answer_known register_query [a, b, c, d] x"
  "portal_exec confirm_query [Some a] x = answer_known confirm_query [a] x"
  "portal_exec login_query [Some a, Some b, Some c] x = answer_known login_query [a, b, c] x"
  "portal_exec logout_query [Some a] x = answer_known logout_query [a] x"
  "portal_exec tag_list_query [Some a] x = answer_known tag_list_query [a] x"
  "portal_exec tag_insert_query [Some a, Some b] x = answer_known tag_insert_query [a, b] x"
  "portal_exec tag_delete_query [Some a, Some b] x = answer_known tag_delete_query [a, b] x"
  "portal_exec activity_query [Some a, Some b, Some c, Some d, Some e, Some f, Some g, Some h] x =
     answer_known activity_query [a, b, c, d, e, f, g, h] x"
  "portal_exec like_insert_query [Some a, Some b, Some c, Some d, Some e] x =
     answer_known like_insert_query [a, b, c, d, e] x"
  "portal_exec like_delete_query [Some a, Some b] x = answer_known like_delete_query [a, b] x"
  "portal_exec comment_query [Some a, Some b, Some c, Some d, Some e, Some f] x =
     answer_known comment_query [a, b, c, d, e, f] x"
  "portal_exec top_content_query [Some a, Some b, Some c] x = answer_known top_content_query [a, b, c] x"
  by (rule portal_exec_texts [where texts = "[_]", simplified list.map] portal_exec_texts [where texts = "[_, _]", simplified list.map]
      portal_exec_texts [where texts = "[_, _, _]", simplified list.map]
      portal_exec_texts [where texts = "[_, _, _, _]", simplified list.map]
      portal_exec_texts [where texts = "[_, _, _, _, _]", simplified list.map]
      portal_exec_texts [where texts = "[_, _, _, _, _, _]", simplified list.map]
      portal_exec_texts [where texts = "[_, _, _, _, _, _, _, _]", simplified list.map],
      simp add: sql_table_def)+

lemma columns_listed:
  "list_ex (\<lambda>(q, _, n). command = q \<and> columns = n) sql_table \<Longrightarrow> columns_of command = columns"
  by (auto simp: list_ex_iff intro: columns_of_table)

lemma portal_columns:
  "columns_of auth_query = 2" "columns_of register_query = 2" "columns_of confirm_query = 1"
  "columns_of login_query = 2" "columns_of logout_query = 0" "columns_of tag_list_query = 1"
  "columns_of tag_insert_query = 0" "columns_of tag_delete_query = 0" "columns_of activity_query = 1"
  "columns_of like_insert_query = 1" "columns_of like_delete_query = 0" "columns_of comment_query = 2"
  "columns_of top_content_query = 2"
  by (rule columns_listed, simp add: sql_table_def)+

lemma portal_fields:
  "heap_alloc portal u = (True, u)" "heap_fill portal u n = CHR 0xAA"
  "pq_conn_status portal c u = CONNECTION_OK" "pq_exec portal c command texts u = portal_exec command texts u"
  "mhd_create portal u = (True, u)" "mhd_add_header portal name text u = (MHD_YES, u)"
  "mhd_queue portal status headers text u = (MHD_YES, u)" "jc_alloc portal u = (True, u)"
  "jc_parse portal buffer u = ((Some sample_document, True, length buffer), u)"
  "jc_object portal = JObject []" "jc_array portal = JArray []" "jc_string portal = JString"
  "jc_int portal = JInt" "jc_add portal = json_add" "jc_append portal = json_append"
  "jc_type portal = json_kind" "jc_print portal = json_print"
  by (simp_all add: portal_def)

text \<open>The members of a document are read alike on both outsides.\<close>

lemma portal_members: "jc_field portal = jc_field sample" "jc_type portal = jc_type sample" "jc_text portal = jc_text sample"
  by (simp_all add: portal_def sample_def)

lemma portal_strings:
  "portal_http_json_string portal = portal_http_json_string sample"
  "portal_http_json_optional_string portal = portal_http_json_optional_string sample"
  unfolding portal_http_json_string_def portal_http_json_optional_string_def json_object_is_type_def
    portal_members by (rule refl)+


lemma portal_postgres_simps:
  "pg_uuid portal_postgres s = (if length s = 36 then Some s else None)"
  "pg_char_length portal_postgres = length" "pg_crypt portal_postgres password salt = take 4 salt @ password"
  "pg_time_text portal_postgres = signed_decimal" "pg_jsonb portal_postgres = Some"
  "pg_before portal_postgres = text_before"
  by (simp_all add: portal_postgres_def)

lemma portal_numbers: "sql_int ''168'' = Some 168" "sql_int ''24'' = Some 24" "sql_int ''7'' = Some 7" "sql_int ''10'' = Some 10"
  by code_simp+

lemmas portal_run = portal_fields portal_members(1) portal_exec_simps portal_strings portal_columns answer_known_def run_statements
  draw_ok_def draw_at_def portal_world_def portal_tables_def empty_tables_def report_def reportable_def
  portal_postgres_simps portal_numbers portal_checks session_valid_def login_candidate_def consumable_def
  favorite_added_def favorite_removed_def favorite_keys_def order_by_def user_exists_def nullable_uuid_def nullif_def
  event_inserted_def plain_event_def liked_def activity_check_def likes_check_def comments_check_def view_counts_def
  answered_with_def sample_token_simps(2,3) [unfolded sample_token_def]

lemmas run_portal = run_simps sample_run portal_run

text \<open>A program that ran to its end from given tables.\<close>

definition run_from :: "store \<Rightarrow> (store \<times> draw list, 'a) prog \<Rightarrow> 'a \<times> (store \<times> draw list) world" where
  "run_from d m = run_state m (portal_world d)"

end
