(* ===== verification/Store_Properties.thy ===== *)
theory Store_Properties
  imports Portal
begin

text \<open>
  What clients get from the service as a whole: the program together with a database that executes
  its statements as \<open>Store\<close> says. Each property holds for every such database, every request and every
  behaviour of the other libraries; its witness runs the program on the concrete database of \<open>Portal\<close>.
\<close>

section \<open>Sessions\<close>

lemma authenticate_run:
  assumes "database_server P E db"
    and "run_state (portal_http_authenticate E (Some ctx) (Some c) (Some user)) w = ((status, v), w')"
  obtains u es where "v = Some u" and "trace w' = trace w @ es"
    and "auth_decision (live E ctx) (Some c) status (user_id u) (sqls es)"
    and "history P (db (outside w)) (sqls es) (db (outside w'))"
proof -
  have "emits (portal_http_authenticate E (Some ctx) (Some c) (Some user)) (\<lambda>(status, u) es.
      \<exists>v. u = Some v \<and> auth_decision (live E ctx) (Some c) status (user_id v) (sqls es))"
    by (rule emits_authenticate) auto
  then show thesis
    by (rule database_server.run_events [OF assms(1) database_server.follows_authenticate [OF assms(1)] _ assms(2)])
      (auto intro: that)
qed

text \<open>
  C9. A request that counts as signed in has a session in the tables: the token of its header is a
  UUID that names exactly one session, neither revoked nor expired, of a confirmed user, and the user
  id handed to the routes is this user's. The check changes no table.
\<close>

theorem authenticated_session:
  assumes "database_server P E db"
    and "run_state (portal_http_authenticate E (Some ctx) (Some c) (Some user)) w =
      ((PORTAL_AUTH_AUTHENTICATED, Some v), w')"
  shows "\<exists>token t s u. bearer_token (Some c) = Some token \<and> pg_uuid P token = Some t \<and>
    sessions_of (db (outside w')) t = [(s, u)] \<and>
    session_valid (clock (db (outside w'))) t s u \<and> user_id v = take 36 (user_row_id u) \<and>
    db (outside w') = (db (outside w))\<lparr>clock := clock (db (outside w'))\<rparr>"
proof -
  obtain es where "auth_decision (live E ctx) (Some c) PORTAL_AUTH_AUTHENTICATED (user_id v) (sqls es)"
    and "history P (db (outside w)) (sqls es) (db (outside w'))"
    by (rule authenticate_run [OF assms]) auto
  from authenticated_statement [OF this] obtain u where u: "signed_in_as P (db (outside w')) (Some c) u"
      "user_id v = take 36 (user_row_id u)" "db (outside w') = (db (outside w))\<lparr>clock := clock (db (outside w'))\<rparr>" .
  with signed_in_as_session [OF u(1)] show ?thesis by blast
qed

lemma authenticated_session_witness:
  "\<exists>token t s u. bearer_token signed_in = Some token \<and> pg_uuid portal_postgres token = Some t \<and>
    sessions_of (fst (outside (snd (run_from portal_tables
      (portal_http_authenticate portal (Some sample_context) signed_in (Some no_user)))))) t = [(s, u)]"
proof -
  let ?m = "portal_http_authenticate portal (Some sample_context) signed_in (Some no_user)"
  obtain c where c: "signed_in = Some c" using present by blast
  obtain v where v: "fst (run_from portal_tables ?m) = (PORTAL_AUTH_AUTHENTICATED, Some v)"
    by (simp add: run_from_def run_portal cong: later_steps)
  then have "run_state ?m (portal_world portal_tables) =
      ((PORTAL_AUTH_AUTHENTICATED, Some v), snd (run_from portal_tables ?m))"
    by (metis prod.collapse run_from_def)
  from authenticated_session [OF portal.database_server_axioms this [unfolded c]] show ?thesis
    unfolding c by blast
qed

text \<open>
  C8. A session that was closed stays closed. Once a logout was answered with 204, whatever
  statements the service sends afterwards, for this client or for others, and however much time
  passes: a request whose header carries a text of the same UUID is not signed in.
\<close>

theorem logout_ends_session:
  assumes "database_server P E db"
    and "run_state (portal_http_route_logout E ctx (Some c)) w = (result, w1)" and "trace w1 = trace w @ es"
    and "answered_with es 204" and "bearer_token (Some c) = Some token"
    and "list_all known_statement ss" and "history P (db (outside w1)) ss (db (outside w2))"
    and "bearer_token (Some c') = Some token'" and "pg_uuid P token' = pg_uuid P token"
    and "run_state (portal_http_authenticate E (Some ctx') (Some c') (Some user)) w2 = ((status, v), w3)"
  shows "status = PORTAL_AUTH_INVALID"
proof -
  have "emits (portal_http_route_logout E ctx (Some c)) (protected E ctx (Some c) (\<lambda>_. logout_outcome E ctx (Some c)))"
    by (rule emits_logout) simp_all
  note run = database_server.run_history [OF assms(1) database_server.follows_auth_routes(4) [OF assms(1)] this assms(2,3)]
  obtain t where t: "pg_uuid P token = Some t" "dead_session (db (outside w1)) t"
    using logout_kills [OF run assms(4,5)] by blast
  have dead: "dead_session (db (outside w2)) t"
    by (rule dead_session_stays [OF history_evolves [OF assms(7,6)] t(2)])
  obtain u :: authenticated_user and fs where "auth_decision (live E ctx') (Some c') status (user_id u) (sqls fs)"
    "history P (db (outside w2)) (sqls fs) (db (outside w3))"
    by (rule authenticate_run [OF assms(1,10)])
  then show ?thesis
    using dead_session_refused [OF dead _ assms(8)] assms(9) t(1) by simp
qed

lemma logout_ends_session_witness:
  "fst (fst (run_state (portal_http_authenticate portal (Some sample_context) signed_in (Some no_user))
     (snd (run_from portal_tables (portal_http_route_logout portal sample_context signed_in))))) =
   PORTAL_AUTH_INVALID"
proof -
  let ?logout = "portal_http_route_logout portal sample_context signed_in"
  let ?w1 = "snd (run_from portal_tables ?logout)"
  let ?check = "portal_http_authenticate portal (Some sample_context) signed_in (Some no_user)"
  obtain c where c: "signed_in = Some c" using present by blast
  have run: "run_state ?logout (portal_world portal_tables) = (fst (run_from portal_tables ?logout), ?w1)"
    by (simp add: run_from_def)
  have es: "trace ?w1 = trace (portal_world portal_tables) @ trace ?w1" by (simp add: portal_world_def)
  have answered: "answered_with (trace ?w1) 204"
    by (simp add: run_from_def run_portal cong: later_steps)
  have token: "bearer_token signed_in = Some sample_token"
    by (simp add: bearer_token_def signed_in_def lookup_header_def)
  obtain status v w3 where check: "run_state ?check ?w1 = ((status, v), w3)" by (metis prod.collapse)
  have "status = PORTAL_AUTH_INVALID"
    by (rule logout_ends_session [OF portal.database_server_axioms run [unfolded c] es [unfolded c] answered [unfolded c]
        token [unfolded c] _ _ token [unfolded c] refl check [unfolded c], of "[]"]) simp_all
  with check show ?thesis by simp
qed

text \<open>
  C13. A login answered with 200 opens one session and does nothing else to the tables. The email of
  the body in lower case and the password belong to a confirmed user; the new session is this user's,
  its token is new, it ends the configured number of hours from now, and the token and the end are
  what the body of the response says.
\<close>

theorem login_opens_session:
  assumes "database_server P E db"
    and "run_state (portal_http_route_login E ctx connection json) w = (result, w')" and "trace w' = trace w @ es"
    and "answered_with es 200"
  shows "\<exists>email password u t hours body. credentials E json = Some (email, password) \<and>
    u \<in> set (users (db (outside w))) \<and> login_candidate P (map c_tolower email) password u \<and>
    hours = int (unat (portal_config_token_ttl_hours (ctx_config ctx))) \<and>
    t \<notin> session_token ` set (auth_sessions (db (outside w))) \<and> pg_uuid P t = Some t \<and>
    new_session (db (outside w)) u t hours (db (outside w')) \<and> responses es = [(200, body, result)] \<and>
    prints_entries E [(''access_token'', jc_string E t), (''token_type'', jc_string E ''Bearer''),
      (''expires_at'', jc_string E (pg_time_text P (clock (db (outside w')) + hours * 3600)))] body"
proof -
  have "emits (portal_http_route_login E ctx connection json) (login_outcome E ctx connection json)"
    by (rule emits_login)
  note run = database_server.run_history [OF assms(1) database_server.follows_auth_routes(3) [OF assms(1)] this assms(2,3)]
  show ?thesis by (rule login_session [OF run assms(4)]) blast
qed

definition login_run :: "mhd_result \<times> (store \<times> draw list) world" where
  "login_run = run_from portal_tables (portal_http_route_login portal sample_context visitor (Some sample_document))"

lemma login_answered: "answered_with (trace (snd login_run)) 200" "trace (portal_world d) = []"
  by (simp_all add: login_run_def run_from_def run_portal cong: later_steps)

lemma login_opens_session_witness:
  "\<exists>u t hours. u \<in> set (users portal_tables) \<and>
     new_session portal_tables u t hours (fst (outside (snd login_run)))"
proof -
  have "run_state (portal_http_route_login portal sample_context visitor (Some sample_document))
      (portal_world portal_tables) = (fst login_run, snd login_run)"
    by (simp add: login_run_def run_from_def)
  from login_opens_session [OF portal.database_server_axioms this _ login_answered(1)]
  show ?thesis by (simp add: portal_world_def) blast
qed

lemma singleton_list: "distinct xs \<Longrightarrow> set xs = {x} \<Longrightarrow> xs = [x]"
  by (cases xs; cases "tl xs") (auto simp: insert_eq_iff)

lemma one_valid_session:
  assumes "store_ok P d" and "s \<in> set (auth_sessions d)" and "u \<in> set (users d)"
    and "session_valid (clock d) t s u"
  shows "sessions_of d t = [(s, u)]"
proof -
  have "x = (s, u)" if "x \<in> set (sessions_of d t)" for x
  proof -
    obtain s' u' where x: "x = (s', u')" by (cases x)
    with that have "session_valid (clock d) t s' u'" "s' \<in> set (auth_sessions d)" "u' \<in> set (users d)"
      by (simp_all add: sessions_of_def)
    from one_session [OF assms(1,4) this(1) assms(2,3) this(2,3)] x show ?thesis by simp
  qed
  moreover have "(s, u) \<in> set (sessions_of d t)" using assms by (simp add: sessions_of_def)
  ultimately have "set (sessions_of d t) = {(s, u)}" by blast
  moreover have "distinct (auth_sessions d)" "distinct (users d)"
    using assms(1) by (simp_all add: store_ok_defs distinct_map)
  then have "distinct (sessions_of d t)"
    unfolding sessions_of_def by (intro distinct_filter distinct_product)
  ultimately show ?thesis by (intro singleton_list)
qed

lemma session_answer:
  assumes "reported 2 (Rows [[user_row_id u, account_email u]]) answer"
    and "length (user_row_id u) = 36" and "length (account_email u) \<le> INT_MAX"
  shows "session_user answer = Some (user_row_id u)"
proof -
  obtain r where r: "answer = Some r" "pq_status r = PGRES_TUPLES_OK"
    using assms(1) by (cases answer) (auto simp: reported_def)
  obtain rows where "Rows [[user_row_id u, account_email u]] = Rows rows" "row_count r = length rows"
      "\<And>i j. i < length rows \<Longrightarrow> j < 2 \<Longrightarrow> cell_text r i j = rows ! i ! j"
    by (rule reported_table [OF assms(1) [unfolded r(1)] r(2)]) simp_all
  then have "row_count r = 1" "cell_text r 0 0 = user_row_id u" "cell_text r 0 1 = account_email u"
    by (auto simp: nth_Cons')
  with assms(2,3) r show ?thesis by (simp add: session_user_def INT_MAX_def)
qed

text \<open>
  C10. A session that is in the tables serves. On tables that keep their constraints, a request with
  a token whose session is neither revoked nor expired and belongs to a confirmed user is signed in as
  this user, whenever PostgreSQL answers the session check at all.
\<close>

theorem session_accepted:
  assumes "database_server P E db" and "store_ok P (db (outside w))"
    and "run_state (portal_http_authenticate E (Some ctx) (Some c) (Some user)) w = ((status, Some v), w')"
    and "trace w' = trace w @ es" and "bearer_token (Some c) = Some token" and "pg_uuid P token = Some t"
    and "sqls es = [(command, texts, answer)]" and "\<not> lost answer"
    and "s \<in> set (auth_sessions (db (outside w)))" and "u \<in> set (users (db (outside w)))"
    and "session_valid (clock (db (outside w'))) t s u"
    and "length (user_row_id u) = 36" and "length (account_email u) \<le> INT_MAX"
  shows "status = PORTAL_AUTH_AUTHENTICATED \<and> user_id v = user_row_id u"
proof -
  let ?d = "db (outside w)" and ?d' = "db (outside w')"
  have decision: "auth_decision (live E ctx) (Some c) status (user_id v) (sqls es)"
    and later: "history P ?d (sqls es) ?d'"
    by (rule authenticate_run [OF assms(1,3)]; use assms(4) in simp)+
  have "\<not> no_credentials (Some c)"
    using assms(5) by (auto simp: no_credentials_def bearer_token_def split: option.splits if_splits)
  with decision assms(5,7) have sent: "sqls es = [(auth_query, map Some [token], answer)]"
    and known: "case session_user answer of None \<Rightarrow> status = PORTAL_AUTH_INVALID
      | Some i \<Rightarrow> status = PORTAL_AUTH_AUTHENTICATED \<and> user_id v = i"
    by (auto simp: auth_decision_def)
  from later sent have "executed P ?d (auth_query, map Some [token], answer) ?d'" by simp
  then obtain r outcome where run: "run_statement P r ?d auth_query [token] = (outcome, ?d')"
    and reported: "reported 2 outcome answer"
    by (rule executed_statement [where columns = 2]) (use assms(8) in \<open>auto simp: sql_table_def\<close>)
  have d': "?d' = ?d\<lparr>clock := clock ?d'\<rparr>" by (rule decision_reads [OF decision later])
  have "users ?d' = users ?d" "auth_sessions ?d' = auth_sessions ?d" "store_ok P ?d'"
    using assms(2) by (subst d', simp)+
  with one_valid_session [of P ?d' s u t] assms(9-11) have "sessions_of ?d' t = [(s, u)]" by simp
  moreover have "(outcome, ?d') = sql_auth P r (?d\<lparr>clock := draw_time r\<rparr>) [token]"
    using run by (simp add: run_statements)
  then have "outcome = Rows (map (\<lambda>(s, u). [user_row_id u, account_email u]) (sessions_of ?d' t))"
    by (simp add: assms(6) sessions_of_def)
  ultimately have "session_user answer = Some (user_row_id u)"
    using session_answer reported assms(12,13) by simp
  with known show ?thesis by simp
qed

lemma session_accepted_witness:
  "fst (run_from portal_tables (portal_http_authenticate portal (Some sample_context) signed_in (Some no_user))) =
     (PORTAL_AUTH_AUTHENTICATED, Some \<lparr>user_id = uuid_of 1, user_email = ''ana@example.com''\<rparr>)"
proof -
  let ?m = "portal_http_authenticate portal (Some sample_context) signed_in (Some no_user)"
  let ?w = "snd (run_from portal_tables ?m)"
  obtain c where c: "signed_in = Some c" using present by blast
  obtain status i where result: "fst (run_from portal_tables ?m) =
      (status, Some \<lparr>user_id = i, user_email = ''ana@example.com''\<rparr>)"
    by (simp add: run_from_def run_portal cong: later_steps)
  then have run: "run_state ?m (portal_world portal_tables) =
      ((status, Some \<lparr>user_id = i, user_email = ''ana@example.com''\<rparr>), ?w)"
    by (metis prod.collapse run_from_def)
  obtain answer where answer: "sqls (trace ?w) = [(auth_query, [Some sample_token], Some answer)]"
      "pq_status answer = PGRES_TUPLES_OK" and clock: "clock (fst (outside ?w)) = 11"
    by (simp add: run_from_def run_portal cong: later_steps)
  obtain s where s: "s \<in> set (auth_sessions portal_tables)" "session_valid 11 sample_token s ana"
    by (simp add: portal_tables_def empty_tables_def session_valid_def)
  have start: "fst (outside (portal_world portal_tables)) = portal_tables" "trace (portal_world portal_tables) = []"
    by (simp_all add: portal_world_def)
  have token: "bearer_token signed_in = Some sample_token"
    by (simp add: bearer_token_def signed_in_def lookup_header_def)
  have uuid: "pg_uuid portal_postgres sample_token = Some sample_token" by (simp add: portal_postgres_simps)
  have ana: "ana \<in> set (users portal_tables)" by (simp add: portal_tables_def)
  have "status = PORTAL_AUTH_AUTHENTICATED \<and>
      user_id \<lparr>user_id = i, user_email = ''ana@example.com''\<rparr> = user_row_id ana"
    by (rule session_accepted [OF portal.database_server_axioms _ run [unfolded c] _ token [unfolded c] uuid
        answer(1) [unfolded c]])
      (use s ana clock answer(2) in \<open>simp_all add: start portal_tables_ok lost_def INT_MAX_def c\<close>)
  with result show ?thesis by simp
qed

section \<open>Accounts\<close>

text \<open>
  C11. An email is registered once. After a registration was answered with 201, no later
  registration with the same email, upper and lower case not told apart, is answered with 201, whatever
  was sent to the database in between.
\<close>

theorem email_registered_once:
  assumes "database_server P E db"
    and "run_state (portal_http_route_register E ctx connection json) w = (result, w1)" and "trace w1 = trace w @ es"
    and "answered_with es 201" and "registration E json = Some (email, password, name)"
    and "list_all known_statement ss" and "history P (db (outside w1)) ss (db (outside w2))"
    and "run_state (portal_http_route_register E ctx' connection' json') w2 = (result', w3)"
    and "trace w3 = trace w2 @ fs" and "registration E json' = Some (email', password', name')"
    and "map c_tolower email' = map c_tolower email"
  shows "\<not> answered_with fs 201"
proof
  assume again: "answered_with fs 201"
  have "emits (portal_http_route_register E ctx connection json) (register_outcome E ctx connection json)"
    for ctx connection json by (rule emits_register)
  note run = database_server.run_history [OF assms(1) database_server.follows_auth_routes(1) [OF assms(1)] this]
  obtain u t hours where "registration_row P (map c_tolower email) password name u"
    "new_user (db (outside w)) u t hours (db (outside w1))"
    by (rule register_account [OF run [OF assms(2,3)] assms(4)]) (use assms(5) in auto)
  then have "registered (db (outside w1)) (map c_tolower email)"
    using new_user_registered by (fastforce simp: registration_row_def)
  then have "registered (db (outside w2)) (map c_tolower email)"
    by (rule registered_stays [OF history_evolves [OF assms(7,6)]])
  moreover have "\<not> registered (db (outside w2)) (map c_tolower email')"
    by (rule register_account [OF run [OF assms(8,9)] again]) (use assms(10) in auto)
  ultimately show False using assms(11) by simp
qed

definition register_run :: "mhd_result \<times> (store \<times> draw list) world" where
  "register_run = run_from empty_tables (portal_http_route_register portal sample_context visitor (Some sample_document))"

lemma register_answered: "answered_with (trace (snd register_run)) 201"
  by (simp add: register_run_def run_from_def run_portal cong: later_steps)

lemma email_registered_once_witness:
  "\<exists>w3 fs. run_state (portal_http_route_register portal sample_context visitor (Some sample_document))
      (snd register_run) = (MHD_YES, w3) \<and> trace w3 = trace (snd register_run) @ fs \<and> \<not> answered_with fs 201"
proof -
  let ?m = "portal_http_route_register portal sample_context visitor (Some sample_document)"
  have first: "run_state ?m (portal_world empty_tables) = (fst register_run, snd register_run)"
    by (simp add: register_run_def run_from_def)
  have es: "trace (snd register_run) = trace (portal_world empty_tables) @ trace (snd register_run)"
    by (simp add: portal_world_def)
  have input: "registration portal (Some sample_document) =
      Some (''Ana@Example.com'', ''una-clave-larga'', ''Ana'')"
    by (simp add: registration_def portal_strings sample_strings sample_checks)
  obtain w3 where second: "run_state ?m (snd register_run) = (MHD_YES, w3)" 
    by (simp add: register_run_def run_from_def run_portal cong: later_steps)
  obtain fs where fs: "trace w3 = trace (snd register_run) @ fs"
    using emits_run [OF emits_register second] by auto
  have "\<not> answered_with fs 201"
    by (rule email_registered_once [OF portal.database_server_axioms first es register_answered input _ _ second fs
        input refl, of "[]"]) simp_all
  with second fs show ?thesis by blast
qed

text \<open>
  C12. A confirmation token works once. An answer of 200 means that the token was waiting in the
  tables, is consumed now, and that its user may sign in; whatever is sent to the database afterwards,
  no later confirmation with a text of the same UUID is answered with 200.
\<close>

theorem confirmation_used_once:
  assumes "database_server P E db"
    and "run_state (portal_http_route_confirm E ctx connection json) w = (result, w1)" and "trace w1 = trace w @ es"
    and "answered_with es 200" and "portal_http_json_string E json (Some ''token'') 36 36 = Some token"
    and "list_all known_statement ss" and "history P (db (outside w1)) ss (db (outside w2))"
    and "run_state (portal_http_route_confirm E ctx' connection' json') w2 = (result', w3)"
    and "trace w3 = trace w2 @ fs" and "portal_http_json_string E json' (Some ''token'') 36 36 = Some token'"
    and "pg_uuid P token' = pg_uuid P token"
  shows "(\<exists>t c. pg_uuid P token = Some t \<and> confirmed_by (db (outside w)) t c (db (outside w1))) \<and>
    \<not> answered_with fs 200"
proof
  have "emits (portal_http_route_confirm E ctx connection json) (confirm_outcome E ctx connection json)"
    for ctx connection json by (rule emits_confirm)
  note run = database_server.run_history [OF assms(1) database_server.follows_auth_routes(2) [OF assms(1)] this]
  obtain t c where t: "pg_uuid P token = Some t" "confirmed_by (db (outside w)) t c (db (outside w1))"
    by (rule confirm_account [OF run [OF assms(2,3)] assms(4)]) (use assms(5) in auto)
  then show "\<exists>t c. pg_uuid P token = Some t \<and> confirmed_by (db (outside w)) t c (db (outside w1))" by blast
  have spent: "spent (db (outside w2)) t"
    by (rule spent_stays [OF history_evolves [OF assms(7,6)]]) (use t(2) in \<open>simp add: confirmed_by_def\<close>)
  show "\<not> answered_with fs 200"
  proof
    assume again: "answered_with fs 200"
    obtain t' c' where "pg_uuid P token' = Some t'" "confirmed_by (db (outside w2)) t' c' (db (outside w3))"
      by (rule confirm_account [OF run [OF assms(8,9)] again]) (use assms(10) in auto)
    moreover have "history P (db (outside w2)) (sqls fs) (db (outside w3))" by (rule run(2) [OF assms(8,9)])
    moreover have "safe E connection' result' fs"
      by (rule database_server.run_history(1) [OF assms(1) database_server.follows_auth_routes(2) [OF assms(1)] _ assms(8,9)])
        (rule emits_confirm)
    ultimately have "t' = t" "c' \<in> set (confirmation_tokens (db (outside w2)))"
        "consumable (clock (db (outside w3))) t' c'" "clock (db (outside w2)) \<le> clock (db (outside w3))"
      using t(1) assms(11) history_evolves by (auto simp: confirmed_by_def safe_def evolves_def)
    with spent show False by (auto simp: spent_def consumable_def)
  qed
qed

definition confirm_run :: "mhd_result \<times> (store \<times> draw list) world" where
  "confirm_run = run_from portal_tables (portal_http_route_confirm portal sample_context visitor (Some sample_document))"

lemma confirm_answered: "answered_with (trace (snd confirm_run)) 200"
  by (simp add: confirm_run_def run_from_def run_portal cong: later_steps)

lemma confirmation_used_once_witness:
  "\<exists>w3 fs. run_state (portal_http_route_confirm portal sample_context visitor (Some sample_document))
      (snd confirm_run) = (MHD_YES, w3) \<and> trace w3 = trace (snd confirm_run) @ fs \<and> \<not> answered_with fs 200"
proof -
  let ?m = "portal_http_route_confirm portal sample_context visitor (Some sample_document)"
  have first: "run_state ?m (portal_world portal_tables) = (fst confirm_run, snd confirm_run)"
    by (simp add: confirm_run_def run_from_def)
  have es: "trace (snd confirm_run) = trace (portal_world portal_tables) @ trace (snd confirm_run)"
    by (simp add: portal_world_def)
  have input: "portal_http_json_string portal (Some sample_document) (Some ''token'') 36 36 = Some sample_token"
    by (simp add: portal_strings sample_strings)
  obtain w3 where second: "run_state ?m (snd confirm_run) = (MHD_YES, w3)"
    by (simp add: confirm_run_def run_from_def run_portal cong: later_steps)
  obtain fs where fs: "trace w3 = trace (snd confirm_run) @ fs"
    using emits_run [OF emits_confirm second] by auto
  have "\<not> answered_with fs 200"
    using confirmation_used_once [OF portal.database_server_axioms first es confirm_answered input _ _ second fs
        input refl, of "[]"] by simp
  with second fs show ?thesis by blast
qed

end
