(* ===== verification/Content_Properties.thy ===== *)
theory Content_Properties
  imports Store_Properties
begin

text \<open>
  What favourites, likes, events, comments and the list of the most viewed contents are to a client,
  on every database that executes the statements of the program, and what one whole request may do to
  the tables.
\<close>

section \<open>Favourites\<close>

text \<open>
  C14. Favourites round trip. After \<open>PUT\<close> or \<open>DELETE\<close> of a favourite was answered with 204, a list of
  the same kind with the same token that is answered with 200 shows the key exactly when it was put,
  and every other key exactly when it was a favourite of this user before; the other kind of
  favourites, the favourites of everybody else and all other tables are as they were.
\<close>

theorem favorite_round_trip:
  assumes "database_server P E db"
    and "run_state (portal_http_route_favorite_change E ctx (Some c) meth kind key) w = (result, w1)"
    and "trace w1 = trace w @ es" and "answered_with es 204"
    and "run_state (portal_http_route_favorite_list E ctx (Some c) kind) w1 = (result', w2)"
    and "trace w2 = trace w1 @ fs" and "answered_with fs 200"
  shows "\<exists>i keys body. responses fs = [(200, body, result')] \<and> lists_keys E keys body \<and>
    (\<forall>k. k \<in> set keys \<longleftrightarrow> (if k = key then meth = ''PUT'' else (i, k) \<in> set (favorites_of (db (outside w)) kind))) \<and>
    (\<forall>j k. j \<noteq> i \<longrightarrow> ((j, k) \<in> set (favorites_of (db (outside w2)) kind) \<longleftrightarrow>
       (j, k) \<in> set (favorites_of (db (outside w)) kind))) \<and>
    db (outside w2) = with_favorites kind (favorites_of (db (outside w2)) kind)
      ((db (outside w))\<lparr>clock := clock (db (outside w2))\<rparr>)"
proof -
  let ?d = "db (outside w)" and ?d1 = "db (outside w1)" and ?d2 = "db (outside w2)"
  have "emits (portal_http_route_favorite_change E ctx (Some c) meth kind key)
      (protected E ctx (Some c) (favorite_change_outcome E ctx (Some c) kind (meth = ''PUT'') key))"
    by (rule emits_favorite_change) simp_all
  note change = database_server.run_history [OF assms(1) database_server.follows_favorites(2) [OF assms(1)] this assms(2,3)]
  have "emits (portal_http_route_favorite_list E ctx (Some c) kind)
      (protected E ctx (Some c) (favorite_list_outcome E ctx (Some c) kind))"
    by (rule emits_favorite_list) simp_all
  note list = database_server.run_history [OF assms(1) database_server.follows_favorites(1) [OF assms(1)] this assms(5,6)]
  obtain u e i where u: "signed_in_as P e (Some c) u" "e = ?d\<lparr>clock := clock e\<rparr>" "clock e \<le> clock ?d1"
    and i: "pg_uuid P (take 36 (user_row_id u)) = Some i"
    and d1: "?d1 = with_favorites kind (favorites_after (favorites_of ?d kind) (meth = ''PUT'') i key)
      (?d\<lparr>clock := clock ?d1\<rparr>)"
    by (rule favorite_changed [OF change assms(4)])
  obtain u' e' i' body where u': "signed_in_as P e' (Some c) u'" "e' = ?d1\<lparr>clock := clock e'\<rparr>"
    and i': "pg_uuid P (take 36 (user_row_id u')) = Some i'" and d2: "?d2 = ?d1\<lparr>clock := clock ?d2\<rparr>"
    and body: "responses fs = [(200, body, result')]" "lists_keys E (favorite_keys P (favorites_of ?d1 kind) i') body"
    and later: "clock ?d1 \<le> clock e'"
    by (rule favorites_listed [OF list assms(7)])
  have "users e' = users ?d1" "auth_sessions e' = auth_sessions ?d1" by (subst u'(2), simp)+
  moreover have "users ?d1 = users ?d" "auth_sessions ?d1 = auth_sessions ?d" by (subst d1, simp)+
  moreover have "users e = users ?d" "auth_sessions e = auth_sessions ?d" by (subst u(2), simp)+
  ultimately have "u' = u"
    using signed_in_same [OF u(1) u'(1)] u(3) later by simp
  with i i' have same: "i' = i" by simp
  have after: "favorites_of ?d1 kind = favorites_after (favorites_of ?d kind) (meth = ''PUT'') i key"
    by (subst d1) simp
  have "set (favorite_keys P (favorites_of ?d1 kind) i) = {k. (i, k) \<in> set (favorites_of ?d1 kind)}"
    by (auto simp: favorite_keys_def image_iff)
  then have keys: "k \<in> set (favorite_keys P (favorites_of ?d1 kind) i) \<longleftrightarrow>
      (if k = key then meth = ''PUT'' else (i, k) \<in> set (favorites_of ?d kind))" for k
    by (simp add: after favorites_after_iff)
  have "favorites_of ?d2 kind = favorites_of ?d1 kind"
    by (subst d2) simp
  moreover have "?d2 = with_favorites kind (favorites_of ?d1 kind) (?d\<lparr>clock := clock ?d2\<rparr>)"
    by (subst d2, subst d1, subst after) (cases kind; simp)
  ultimately show ?thesis
    using body keys unfolding same
    by (intro exI [of _ i] exI [of _ "favorite_keys P (favorites_of ?d1 kind) i"] exI [of _ body])
      (simp add: after favorites_after_iff)
qed

definition tag_run :: "mhd_result \<times> (store \<times> draw list) world" where
  "tag_run = run_from portal_tables
     (portal_http_route_favorite_change portal sample_context signed_in ''PUT'' PORTAL_FAVORITE_TAG ''tema'')"

definition tag_list_run :: "mhd_result \<times> (store \<times> draw list) world" where
  "tag_list_run = run_state (portal_http_route_favorite_list portal sample_context signed_in PORTAL_FAVORITE_TAG)
     (snd tag_run)"

lemma tag_answered:
  "answered_with (trace (snd tag_run)) 204"
  "\<exists>fs. trace (snd tag_list_run) = trace (snd tag_run) @ fs \<and> answered_with fs 200"
  by (simp_all add: tag_list_run_def tag_run_def run_from_def run_portal cong: later_steps)

lemma favorite_round_trip_witness:
  "\<exists>fs keys body. trace (snd tag_list_run) = trace (snd tag_run) @ fs \<and>
     responses fs = [(200, body, fst tag_list_run)] \<and> lists_keys portal keys body \<and> ''tema'' \<in> set keys"
proof -
  obtain c where c: "signed_in = Some c" using present by blast
  let ?put = "portal_http_route_favorite_change portal sample_context signed_in ''PUT'' PORTAL_FAVORITE_TAG ''tema''"
  let ?list = "portal_http_route_favorite_list portal sample_context signed_in PORTAL_FAVORITE_TAG"
  have put: "run_state ?put (portal_world portal_tables) = (fst tag_run, snd tag_run)"
    by (simp add: tag_run_def run_from_def)
  have es: "trace (snd tag_run) = trace (portal_world portal_tables) @ trace (snd tag_run)"
    by (simp add: portal_world_def)
  have list: "run_state ?list (snd tag_run) = (fst tag_list_run, snd tag_list_run)"
    by (simp add: tag_list_run_def)
  obtain fs where fs: "trace (snd tag_list_run) = trace (snd tag_run) @ fs" "answered_with fs 200"
    using tag_answered(2) by blast
  from favorite_round_trip [OF portal.database_server_axioms put [unfolded c] es tag_answered(1) list [unfolded c] fs]
  obtain keys body where "responses fs = [(200, body, fst tag_list_run)]" "lists_keys portal keys body"
    and "\<forall>k. k = ''tema'' \<longrightarrow> k \<in> set keys" by (metis (full_types))
  with fs(1) show ?thesis by blast
qed

section \<open>Likes\<close>

text \<open>
  C15. A like counts once. Answered with 204, a \<open>PUT\<close> leaves a like of this content under the key of
  the actor: when there was one already the tables stay as they are, otherwise exactly this like
  and one event about it, with the portal and the actor's columns, are new. A \<open>DELETE\<close> leaves no like of
  this content under that key and every other like in its place. The actor is the signed-in user or the
  visitor that the body names.
\<close>

theorem like_counts_once:
  assumes "database_server P E db"
    and "run_state (portal_http_route_like E ctx (Some c) meth content json) w = (result, w')"
    and "trace w' = trace w @ es" and "answered_with es 204"
  shows "\<exists>a now. acts_as P ((db (outside w))\<lparr>clock := now\<rparr>) (Some c)
      (portal_http_json_optional_string E json (Some ''anonymous_id'') 200) a \<and>
    like_done P (meth = ''PUT'') content (text_of (portal_http_json_string E json (Some ''portal_key'') 1 120)) a
      (db (outside w)) (db (outside w')) \<and>
    (liked (db (outside w')) content (actor_key_of a) \<longleftrightarrow> meth = ''PUT'')"
proof -
  have "emits (portal_http_route_like E ctx (Some c) meth content json)
      (like_outcome E ctx (Some c) (meth = ''PUT'') content json)"
    by (rule emits_like) simp_all
  note run = database_server.run_history [OF assms(1) database_server.follows_activity(2) [OF assms(1)] this assms(2,3)]
  obtain a e where a: "acts_as P e (Some c) (portal_http_json_optional_string E json (Some ''anonymous_id'') 200) a"
      "e = (db (outside w))\<lparr>clock := clock e\<rparr>"
    and like: "like_done P (meth = ''PUT'') content
      (text_of (portal_http_json_string E json (Some ''portal_key'') 1 120)) a (db (outside w)) (db (outside w'))"
    by (rule like_acknowledged [OF run assms(4)])
  from like have "liked (db (outside w')) content (actor_key_of a) \<longleftrightarrow> meth = ''PUT''"
    by (rule like_done_liked)
  with a like show ?thesis by metis
qed

definition like_run :: "mhd_result \<times> (store \<times> draw list) world" where
  "like_run = run_from portal_tables
     (portal_http_route_like portal sample_context signed_in ''PUT'' ''nota-42'' (Some sample_document))"

lemma like_answered: "answered_with (trace (snd like_run)) 204"
  by (simp add: like_run_def run_from_def run_portal cong: later_steps)

lemma like_counts_once_witness:
  "\<exists>a. like_done portal_postgres True ''nota-42''
      (text_of (portal_http_json_string portal (Some sample_document) (Some ''portal_key'') 1 120)) a portal_tables
      (fst (outside (snd like_run))) \<and> liked (fst (outside (snd like_run))) ''nota-42'' (actor_key_of a)"
proof -
  obtain c where c: "signed_in = Some c" using present by blast
  have run: "run_state (portal_http_route_like portal sample_context signed_in ''PUT'' ''nota-42'' (Some sample_document))
      (portal_world portal_tables) = (fst like_run, snd like_run)"
    by (simp add: like_run_def run_from_def)
  have start: "trace (snd like_run) = trace (portal_world portal_tables) @ trace (snd like_run)"
      "fst (outside (portal_world portal_tables)) = portal_tables"
    by (simp_all add: portal_world_def)
  from like_counts_once [OF portal.database_server_axioms run [unfolded c] start(1) like_answered]
  show ?thesis unfolding start(2) by auto
qed

section \<open>Events and comments\<close>

text \<open>
  C19. An activity is recorded once. Answered with 201, the request added exactly one event with a new
  number, and nothing else: the columns of the actor, the portal, the type, the optional texts of the
  body as nulls when they are absent or empty, the JSON of the event data, and the time; the number is
  the one in the response.
\<close>

theorem activity_recorded_once:
  assumes "database_server P E db"
    and "run_state (portal_http_route_activity E ctx (Some c) json) w = (result, w')"
    and "trace w' = trace w @ es" and "answered_with es 201"
  shows "\<exists>a now event body. acts_as P ((db (outside w))\<lparr>clock := now\<rparr>) (Some c)
      (portal_http_json_optional_string E json (Some ''anonymous_id'') 200) a \<and>
    event_recorded P E json a (db (outside w)) (db (outside w')) event \<and>
    responses es = [(201, body, result)] \<and> prints_entries E [(''event_id'', jc_int E (event_id event))] body"
proof -
  have "emits (portal_http_route_activity E ctx (Some c) json) (activity_outcome E ctx (Some c) json)"
    by (rule emits_activity) simp_all
  note run = database_server.run_history [OF assms(1) database_server.follows_activity(1) [OF assms(1)] this assms(2,3)]
  show ?thesis by (rule activity_acknowledged [OF run assms(4)]) metis
qed

definition activity_run :: "mhd_result \<times> (store \<times> draw list) world" where
  "activity_run = run_from portal_tables
     (portal_http_route_activity portal sample_context visitor (Some sample_document))"

lemma activity_answered: "answered_with (trace (snd activity_run)) 201"
  by (simp add: activity_run_def run_from_def run_portal cong: later_steps)

lemma portal_start:
  "fst (outside (portal_world d)) = d" "trace w = trace (portal_world d) @ trace w"
  by (simp_all add: portal_world_def)

lemma activity_recorded_once_witness:
  "\<exists>a event. event_recorded portal_postgres portal (Some sample_document) a portal_tables
      (fst (outside (snd activity_run))) event"
proof -
  obtain c where c: "visitor = Some c" using present by blast
  have run: "run_state (portal_http_route_activity portal sample_context visitor (Some sample_document))
      (portal_world portal_tables) = (fst activity_run, snd activity_run)"
    by (simp add: activity_run_def run_from_def)
  from activity_recorded_once [OF portal.database_server_axioms run [unfolded c] portal_start(2) activity_answered]
  show ?thesis unfolding portal_start(1) by blast
qed

text \<open>
  C20. A comment is stored once, with its event. Answered with 201, the request added exactly one comment
  with a new id, the author's columns, name and text, and exactly one event about it, in one statement;
  the id and the time of the comment are in the response.
\<close>

theorem comment_stored_once:
  assumes "database_server P E db"
    and "run_state (portal_http_route_comment E ctx (Some c) content json) w = (result, w')"
    and "trace w' = trace w @ es" and "answered_with es 201"
  shows "\<exists>a now row body. acts_as P ((db (outside w))\<lparr>clock := now\<rparr>) (Some c)
      (portal_http_json_optional_string E json (Some ''anonymous_id'') 200) a \<and>
    comment_recorded P E content json a (db (outside w)) (db (outside w')) row \<and>
    responses es = [(201, body, result)] \<and>
    prints_entries E [(''id'', jc_string E (comment_id row)),
      (''created_at'', jc_string E (pg_time_text P (clock (db (outside w')))))] body"
proof -
  have "emits (portal_http_route_comment E ctx (Some c) content json) (comment_outcome E ctx (Some c) content json)"
    by (rule emits_comment) simp_all
  note run = database_server.run_history [OF assms(1) database_server.follows_activity(3) [OF assms(1)] this assms(2,3)]
  show ?thesis by (rule comment_acknowledged [OF run assms(4)]) metis
qed

definition comment_run :: "mhd_result \<times> (store \<times> draw list) world" where
  "comment_run = run_from portal_tables
     (portal_http_route_comment portal sample_context signed_in ''nota-42'' (Some sample_document))"

lemma comment_answered: "answered_with (trace (snd comment_run)) 201"
  by (simp add: comment_run_def run_from_def run_portal cong: later_steps)

lemma comment_stored_once_witness:
  "\<exists>a row. comment_recorded portal_postgres portal ''nota-42'' (Some sample_document) a portal_tables
      (fst (outside (snd comment_run))) row"
proof -
  obtain c where c: "signed_in = Some c" using present by blast
  have run: "run_state (portal_http_route_comment portal sample_context signed_in ''nota-42'' (Some sample_document))
      (portal_world portal_tables) = (fst comment_run, snd comment_run)"
    by (simp add: comment_run_def run_from_def)
  from comment_stored_once [OF portal.database_server_axioms run [unfolded c] portal_start(2) comment_answered]
  show ?thesis unfolding portal_start(1) by blast
qed

section \<open>The most viewed contents\<close>

text \<open>
  C18. The ranking is right. A list of the most viewed contents that is answered with 200 has at most
  the number of entries asked for, each content once and with the exact number of its views on this
  portal in the days asked for, in descending order, and leaves out only contents that were not viewed
  more often than any that is listed. (The table has fewer than \<open>2 ^ 63\<close> events.)
\<close>

theorem ranking_exact:
  assumes "database_server P E db" and "length (activity_events (db (outside w))) < 2 ^ 63"
    and "run_state (portal_http_route_top_content E ctx (Some c)) w = (result, w')"
    and "trace w' = trace w @ es" and "answered_with es 200"
  shows "\<exists>portal days limit ranking body. lookup_argument (Some c) ''portal_key'' = Some portal \<and>
    range_of (lookup_argument (Some c) ''days'') 7 1 365 = Some days \<and>
    range_of (lookup_argument (Some c) ''limit'') 10 1 100 = Some limit \<and>
    most_viewed (db (outside w')) portal days (nat limit) ranking \<and>
    db (outside w') = (db (outside w))\<lparr>clock := clock (db (outside w'))\<rparr> \<and>
    responses es = [(200, body, result)] \<and> lists_views E portal days ranking body"
proof -
  have "emits (portal_http_route_top_content E ctx (Some c))
      (protected E ctx (Some c) (\<lambda>_. top_content_outcome E ctx (Some c)))"
    by (rule emits_top_content) simp_all
  note run = database_server.run_history [OF assms(1) database_server.follows_activity(4) [OF assms(1)] this assms(3,4)]
  show ?thesis by (rule top_content_listed [OF run assms(5,2)]) blast
qed

text \<open>Three views of two contents in the last week, and one that is too old.\<close>

definition view_at :: "nat \<Rightarrow> string \<Rightarrow> event_row" where
  "view_at n content = \<lparr>event_id = int n, event_user = None, event_anonymous = Some ''visitor-0001'',
     event_portal = ''mi-portal'', event_kind = ''page_view'', event_content = Some content,
     event_component = None, event_page = None, event_json = [], occurred_at = int n\<rparr>"

definition viewed_tables :: store where
  "viewed_tables = portal_tables\<lparr>activity_events := [view_at 1 ''a'', view_at 2 ''b'', view_at 3 ''b'']\<rparr>"

definition ranking_run :: "mhd_result \<times> (store \<times> draw list) world" where
  "ranking_run = run_from viewed_tables (portal_http_route_top_content portal sample_context signed_in)"

lemma ranking_answered: "answered_with (trace (snd ranking_run)) 200"
  by (simp add: ranking_run_def run_from_def viewed_tables_def view_at_def viewed_def more_viewed_def
      run_portal cong: later_steps)

lemma ranking_exact_witness:
  "\<exists>days limit ranking. most_viewed (fst (outside (snd ranking_run))) ''mi-portal'' days limit ranking"
proof -
  obtain c where c: "signed_in = Some c" using present by blast
  have run: "run_state (portal_http_route_top_content portal sample_context signed_in)
      (portal_world viewed_tables) = (fst ranking_run, snd ranking_run)"
    by (simp add: ranking_run_def run_from_def)
  have small: "length (activity_events (fst (outside (portal_world viewed_tables)))) < 2 ^ 63"
    by (simp add: portal_start viewed_tables_def)
  have "lookup_argument signed_in ''portal_key'' = Some ''mi-portal''"
    by (simp add: lookup_argument_def signed_in_def)
  with ranking_exact [OF portal.database_server_axioms small run [unfolded c] portal_start(2) ranking_answered]
  show ?thesis unfolding c by auto
qed

section \<open>Whole requests\<close>

text \<open>
  C17. A refused request changes nothing. Whatever its path, method, headers and body: when a request
  is answered with a status from 400 to 499, every table is as it was before, the session check and a
  statement that found nothing to do included. (The confirmation of an account is the exception: it
  answers 400 also when the database failed to report what it did.)
\<close>

theorem refusal_changes_nothing:
  assumes "database_server P E db" and "body_ok body" and "endpoint_of meth url \<noteq> Confirm"
    and "run_state (http_dispatch E ctx (Some c) url meth body) w = (result, w')"
    and "trace w' = trace w @ es" and "client_error es"
  shows "db (outside w') = (db (outside w))\<lparr>clock := clock (db (outside w'))\<rparr>"
proof -
  have "stores db (http_dispatch E ctx (Some c) url meth body)
      (\<lambda>d result es d'. client_error es \<longrightarrow> d' = d\<lparr>clock := clock d'\<rparr>)"
    by (rule database_server.dispatch_refuses [OF assms(1) _ assms(2,3)]) simp
  then show ?thesis
    by (rule stores_run [OF _ assms(4)]) (use assms(5,6) in simp)
qed

text \<open>A logout with a token that has no session, and one with a session.\<close>

lemma dispatch_logout:
  "http_dispatch E ctx connection ''/auth/session'' ''DELETE'' body = portal_http_route_logout E ctx connection"
proof -
  have "endpoint_of ''DELETE'' ''/auth/session'' = Logout" by code_simp
  then show ?thesis by (simp add: dispatch_serve serve_def run_endpoint_def)
qed

definition stranger_run :: "mhd_result \<times> (store \<times> draw list) world" where
  "stranger_run = run_from empty_tables (http_dispatch portal sample_context signed_in ''/auth/session'' ''DELETE'' new_body)"

lemma stranger_refused: "client_error (trace (snd stranger_run))"
  by (simp add: stranger_run_def dispatch_logout client_error_def run_from_def run_portal cong: later_steps)

lemma refusal_changes_nothing_witness:
  "fst (outside (snd stranger_run)) = empty_tables\<lparr>clock := clock (fst (outside (snd stranger_run)))\<rparr>"
proof -
  obtain c where c: "signed_in = Some c" using present by blast
  have run: "run_state (http_dispatch portal sample_context signed_in ''/auth/session'' ''DELETE'' new_body)
      (portal_world empty_tables) = (fst stranger_run, snd stranger_run)"
    by (simp add: stranger_run_def run_from_def)
  have "endpoint_of ''DELETE'' ''/auth/session'' \<noteq> Confirm" by code_simp
  from refusal_changes_nothing [OF portal.database_server_axioms body_ok_new this run [unfolded c] portal_start(2)
      stranger_refused]
  show ?thesis unfolding portal_start(1) .
qed

text \<open>
  C16. The tables stay consistent. Every request, whatever it is answered with and also when the
  connection to the database breaks in the middle, changes the tables only as they may evolve (users,
  events and comments are added and never removed or rewritten, accounts get confirmed, tokens get
  consumed, sessions get revoked and never the other way round, new rows have new keys, time does not
  go back), and keeps every primary key, unique key, foreign key and check of the schema.
\<close>

theorem tables_stay_consistent:
  assumes "database_server P E db" and "body_ok body" and "store_ok P (db (outside w))"
    and "run_state (http_dispatch E ctx (Some c) url meth body) w = (result, w')"
  shows "evolves (db (outside w)) (db (outside w')) \<and> store_ok P (db (outside w'))"
proof -
  have "emits (http_dispatch E ctx (Some c) url meth body) (safe E (Some c))"
    by (rule emits_dispatch [OF _ assms(2)]) simp
  from database_server.run_events [OF assms(1) database_server.follows_dispatch [OF assms(1)] this assms(4)]
  obtain es where "list_all known_statement (sqls es)" "history P (db (outside w)) (sqls es) (db (outside w'))"
    by (auto simp: safe_def)
  then show ?thesis using assms(3) history_evolves history_keeps by blast
qed

lemma tables_stay_consistent_witness:
  "evolves portal_tables (fst (outside (snd (run_from portal_tables
      (http_dispatch portal sample_context signed_in ''/auth/session'' ''DELETE'' new_body)))))"
proof -
  obtain c where c: "signed_in = Some c" using present by blast
  let ?m = "http_dispatch portal sample_context signed_in ''/auth/session'' ''DELETE'' new_body"
  have run: "run_state ?m (portal_world portal_tables) =
      (fst (run_from portal_tables ?m), snd (run_from portal_tables ?m))"
    by (simp add: run_from_def)
  have ok: "store_ok portal_postgres (fst (outside (portal_world portal_tables)))"
    by (simp add: portal_start portal_tables_ok)
  from tables_stay_consistent [OF portal.database_server_axioms body_ok_new ok run [unfolded c]]
  show ?thesis unfolding portal_start(1) c by blast
qed

end
