(* ===== verification/Service.thy ===== *)
theory Service
  imports Server
begin

text \<open>
  Many requests at once. \<^verbatim>\<open>src/src/http/http.c\<close> starts libmicrohttpd with one internal polling thread,
  which calls the handler for whatever request has data: between two calls for one request there
  may be calls for others, all on the one database connection. Every request has its own
  \<open>con_cls\<close>; the lemmas show that this is enough to keep the requests apart.
\<close>

text \<open>
  The events of a request are a ghost: what its own calls added to the common trace. The world
  inside \<open>client_state\<close> is the one after the request's last call.
\<close>

record 'x client =
  client_connection :: "mhd_connection option"
  client_url :: string
  client_method :: string
  client_state :: "'x request_state"
  client_events :: "event list"

record 'x service =
  clients :: "'x client list"
  common :: "'x world"

inductive service_step ::
  "('x, 'j) ext \<Rightarrow> http_context \<Rightarrow> 'x service \<Rightarrow> 'x service \<Rightarrow> bool" for E ctx where
  arrive: "connection \<noteq> None \<Longrightarrow>
    service_step E ctx v (v\<lparr>clients := clients v @
      [\<lparr>client_connection = connection, client_url = url, client_method = meth,
        client_state = fresh_request (common v), client_events = []\<rparr>]\<rparr>)"
| serve_call: "i < length (clients v) \<Longrightarrow> c = clients v ! i \<Longrightarrow>
    request_step E ctx (client_connection c) (client_url c) (client_method c)
      ((client_state c)\<lparr>around := common v\<rparr>) s' \<Longrightarrow>
    trace (around s') = trace (common v) @ fs \<Longrightarrow>
    service_step E ctx v
      \<lparr>clients = (clients v)[i := c\<lparr>client_state := s', client_events := client_events c @ fs\<rparr>],
       common = around s'\<rparr>"

definition service_reachable ::
  "('x, 'j) ext \<Rightarrow> http_context \<Rightarrow> 'x world \<Rightarrow> 'x service \<Rightarrow> bool" where
  "service_reachable E ctx w v \<longleftrightarrow> (service_step E ctx)\<^sup>*\<^sup>* \<lparr>clients = [], common = w\<rparr> v"

lemma service_arrives:
  "service_reachable E ctx w \<lparr>clients = cs, common = u\<rparr> \<Longrightarrow> connection \<noteq> None \<Longrightarrow>
   service_reachable E ctx w \<lparr>clients = cs @
     [\<lparr>client_connection = connection, client_url = url, client_method = meth,
       client_state = fresh_request u, client_events = []\<rparr>], common = u\<rparr>"
  unfolding service_reachable_def
  using service_step.arrive [of connection E ctx "\<lparr>clients = cs, common = u\<rparr>" url meth]
  by (auto elim: rtranclp.rtrancl_into_rtrancl)

lemma service_serves:
  assumes "service_reachable E ctx w \<lparr>clients = cs, common = u\<rparr>" and "i < length cs"
    and "request_step E ctx (client_connection (cs ! i)) (client_url (cs ! i)) (client_method (cs ! i))
      ((client_state (cs ! i))\<lparr>around := u\<rparr>) s'"
    and "trace (around s') = trace u @ fs"
  shows "service_reachable E ctx w
    \<lparr>clients = cs[i := (cs ! i)\<lparr>client_state := s', client_events := client_events (cs ! i) @ fs\<rparr>],
     common = around s'\<rparr>"
  using assms service_step.serve_call [of i "\<lparr>clients = cs, common = u\<rparr>" "cs ! i" E ctx s' fs]
  unfolding service_reachable_def by (auto elim: rtranclp.rtrancl_into_rtrancl)

section \<open>The invariant\<close>

definition client_inv :: "('x, 'j) ext \<Rightarrow> 'x client \<Rightarrow> bool" where
  "client_inv E c \<longleftrightarrow> client_connection c \<noteq> None \<and>
     request_inv E (phase (client_state c)) (con_cls (client_state c)) (received (client_state c))
       (client_events c)"

text \<open>Every observation on the common trace is the sum of the observations on the clients.\<close>

definition accounted :: "'x client list \<Rightarrow> event list \<Rightarrow> bool" where
  "accounted cs es \<longleftrightarrow>
     (\<forall>k. held k es = sum_list (map (held k \<circ> client_events) cs)) \<and>
     length (responses es) = sum_list (map (length \<circ> responses \<circ> client_events) cs) \<and>
     dropped_references es = sum_list (map (dropped_references \<circ> client_events) cs) \<and>
     (stays_defined es \<longleftrightarrow> list_all (stays_defined \<circ> client_events) cs) \<and>
     set (sqls es) = (\<Union>c \<in> set cs. set (sqls (client_events c)))"

definition service_inv :: "('x, 'j) ext \<Rightarrow> 'x world \<Rightarrow> 'x service \<Rightarrow> bool" where
  "service_inv E w v \<longleftrightarrow> list_all (client_inv E) (clients v) \<and>
     (\<exists>es. trace (common v) = trace w @ es \<and> accounted (clients v) es)"

lemma sum_list_replaced:
  fixes f :: "'a \<Rightarrow> 'b::comm_monoid_add"
  assumes "i < length xs" and "f x = f (xs ! i) + d"
  shows "sum_list (map f (xs[i := x])) = sum_list (map f xs) + d"
  using assms by (subst (2) id_take_nth_drop [OF assms(1)]) (simp add: upd_conv_take_nth_drop ac_simps)

lemma list_all_replaced:
  assumes "i < length xs" and "P x \<longleftrightarrow> P (xs ! i) \<and> q"
  shows "list_all P (xs[i := x]) \<longleftrightarrow> list_all P xs \<and> q"
  using assms(2) by (subst (2) id_take_nth_drop [OF assms(1)])
    (auto simp: upd_conv_take_nth_drop [OF assms(1)])

lemma union_replaced:
  assumes "i < length xs" and "f x = f (xs ! i) \<union> d"
  shows "(\<Union>y \<in> set (xs[i := x]). f y) = (\<Union>y \<in> set xs. f y) \<union> d"
  using assms(2) by (subst (2) id_take_nth_drop [OF assms(1)])
    (auto simp: upd_conv_take_nth_drop [OF assms(1)])

lemma accounted_step:
  assumes "accounted cs es" and i: "i < length cs" and c: "client_events c = client_events (cs ! i) @ fs"
  shows "accounted (cs[i := c]) (es @ fs)"
  using assms(1) unfolding accounted_def
  by (simp add: sum_list_replaced [OF i] list_all_replaced [OF i] union_replaced [OF i] c)

lemma accounted_arrival:
  "accounted cs es \<Longrightarrow> client_events c = [] \<Longrightarrow> accounted (cs @ [c]) es"
  unfolding accounted_def by simp

lemma client_step:
  assumes inv: "client_inv E c"
    and step: "request_step E ctx (client_connection c) (client_url c) (client_method c)
      ((client_state c)\<lparr>around := w\<rparr>) s'"
    and fs: "trace (around s') = trace w @ fs"
  shows "client_inv E (c\<lparr>client_state := s', client_events := client_events c @ fs\<rparr>)"
proof -
  have "client_connection c \<noteq> None" using inv by (simp add: client_inv_def)
  from request_step_inv [OF this step, of "client_events c"] inv fs show ?thesis
    by (auto simp: client_inv_def)
qed

lemma service_inv_step:
  assumes "service_step E ctx v v'" and "service_inv E w v"
  shows "service_inv E w v'"
  using assms(1)
proof cases
  case (arrive connection url meth)
  have "request_inv E Fresh None [] []"
    by (simp add: request_inv_def request_blocks_def)
  with arrive assms(2) show ?thesis
    by (auto simp: service_inv_def client_inv_def fresh_request_def accounted_arrival)
next
  case (serve_call i c s' fs)
  let ?c = "c\<lparr>client_state := s', client_events := client_events c @ fs\<rparr>"
  obtain es where es: "trace (common v) = trace w @ es" "accounted (clients v) es"
    and all: "list_all (client_inv E) (clients v)"
    using assms(2) by (auto simp: service_inv_def)
  from all serve_call(2,3) have "client_inv E c" by (simp add: list_all_length)
  then have new: "client_inv E ?c" by (rule client_step) fact+
  have "list_all (client_inv E) ((clients v)[i := ?c])"
    using all new serve_call(2) by (simp add: list_all_replaced [where q = True] list_all_length nth_list_update)
  moreover have "accounted ((clients v)[i := ?c]) (es @ fs)"
    using es(2) serve_call(2) by (rule accounted_step) (simp add: serve_call(3))
  moreover have "trace (around s') = trace w @ es @ fs"
    using es(1) serve_call(5) by simp
  ultimately show ?thesis
    unfolding service_inv_def serve_call(1) by (intro conjI exI [of _ "es @ fs"]) simp_all
qed

lemma service_inv_reachable:
  assumes "service_reachable E ctx w v"
  shows "service_inv E w v"
  using assms unfolding service_reachable_def
proof (induction rule: rtranclp_induct)
  case base
  show ?case by (simp add: service_inv_def accounted_def)
next
  case (step v v')
  from step.hyps(2) step.IH show ?case by (rule service_inv_step)
qed

section \<open>What the service holds\<close>

definition service_blocks :: "'x service \<Rightarrow> int" where
  "service_blocks v = sum_list (map (\<lambda>c. request_blocks (con_cls (client_state c))) (clients v))"

lemma client_holds:
  "client_inv E c \<Longrightarrow> held k (client_events c) =
     (if k = Heap_Block then request_blocks (con_cls (client_state c))
      else if k = Json_Reference then int (dropped_references (client_events c)) else 0)"
  by (simp add: client_inv_def request_inv_def)

lemma service_holds:
  assumes "service_inv E w v"
  shows "\<exists>es. trace (common v) = trace w @ es \<and>
    (\<forall>k. held k es = (if k = Heap_Block then service_blocks v
       else if k = Json_Reference then int (dropped_references es) else 0)) \<and>
    length (responses es) \<le> length (clients v) \<and> list_all known_statement (sqls es) \<and>
    (generous E \<longrightarrow> dropped_references es = 0) \<and> (server_contract E \<longrightarrow> stays_defined es)"
proof -
  obtain es where es: "trace (common v) = trace w @ es" "accounted (clients v) es"
    and all: "list_all (client_inv E) (clients v)"
    using assms by (auto simp: service_inv_def)
  note sums = es(2) [unfolded accounted_def]
  have held: "sum_list (map (held k \<circ> client_events) cs) =
      (if k = Heap_Block then sum_list (map (\<lambda>c. request_blocks (con_cls (client_state c))) cs)
       else if k = Json_Reference
       then int (sum_list (map (dropped_references \<circ> client_events) cs)) else 0)"
    if "list_all (client_inv E) cs" for cs k
    using that by (induction cs) (auto simp: client_holds)
  have one: "sum_list (map (length \<circ> responses \<circ> client_events) cs) \<le> length cs"
    if "list_all (client_inv E) cs" for cs
    using that by (induction cs) (auto simp: client_inv_def request_inv_def)
  have none: "sum_list (map (dropped_references \<circ> client_events) cs) = 0"
    if "generous E" "list_all (client_inv E) cs" for cs
    using that(2) by (induction cs) (auto simp: client_inv_def request_inv_def that(1))
  have known: "list_all known_statement (sqls es)"
    using all sums by (auto simp: list_all_iff client_inv_def request_inv_def)
  have "stays_defined es" if "server_contract E"
    using all sums that by (auto simp: list_all_iff client_inv_def request_inv_def)
  with es sums held [OF all] one [OF all] none [OF _ all] known show ?thesis
    by (intro exI [of _ es]) (simp add: service_blocks_def)
qed

text \<open>Every client is answered at most once, and an answered one was.\<close>

lemma client_answered:
  assumes "client_inv E c"
  shows "length (responses (client_events c)) \<le> 1"
    and "generous E \<Longrightarrow> phase (client_state c) = Answered \<Longrightarrow> length (responses (client_events c)) = 1"
  using assms by (auto simp: client_inv_def request_inv_def)

lemma clients_answered:
  assumes "service_inv E w v"
  shows "list_all (\<lambda>c. length (responses (client_events c)) \<le> 1 \<and>
    (generous E \<and> phase (client_state c) = Answered \<longrightarrow> length (responses (client_events c)) = 1)) (clients v)"
proof -
  have "list_all (client_inv E) (clients v)" using assms by (simp add: service_inv_def)
  then show ?thesis
    by (rule list.pred_mono_strong) (simp add: client_answered [unfolded One_nat_def])
qed

text \<open>A closed request holds nothing, so a service whose requests are all closed holds nothing.\<close>

lemma closed_blocks:
  "client_inv E c \<Longrightarrow> phase (client_state c) = Closed \<Longrightarrow> request_blocks (con_cls (client_state c)) = 0"
  by (simp add: client_inv_def request_inv_def request_blocks_def)

lemma all_closed_blocks:
  assumes "service_inv E w v" and "list_all (\<lambda>c. phase (client_state c) = Closed) (clients v)"
  shows "service_blocks v = 0"
proof -
  have "sum_list (map (\<lambda>c. request_blocks (con_cls (client_state c))) cs) = 0"
    if "list_all (client_inv E) cs" "list_all (\<lambda>c. phase (client_state c) = Closed) cs" for cs
    using that by (induction cs) (auto simp: closed_blocks)
  with assms show ?thesis by (simp add: service_inv_def service_blocks_def)
qed

text \<open>A call for one request leaves the others as they are.\<close>

lemma others_untouched:
  assumes "service_step E ctx v v'"
  shows "\<exists>i. \<forall>j < length (clients v). j \<noteq> i \<longrightarrow> clients v' ! j = clients v ! j"
  using assms
proof cases
  case arrive
  then show ?thesis by (simp add: nth_append)
next
  case (serve_call i)
  then show ?thesis by (intro exI [of _ i]) simp
qed

end
