(* ===== verification/Validation_Test.thy ===== *)
theory Validation_Test
  imports Validation
begin

text \<open>
  \<^verbatim>\<open>src/tests/test_validation.c\<close>: the repository's test driver, run on the model. Every function of the
  driver returns 0, so the model of \<^verbatim>\<open>src/src/validation/validation.c\<close> passes the program's own tests.
\<close>

definition test_keys :: int where
  "test_keys =
     (if \<not> portal_validation_key (Some ''science-news:2026'') 160 then 1
      else if portal_validation_key (Some ''contains/slash'') 160 then 1
      else if portal_validation_key (Some []) 160 then 1
      else 0)"

definition test_anonymous_ids :: int where
  "test_anonymous_ids =
     (if \<not> portal_validation_anonymous_id (Some ''8de3c6d1-05bb-4b74-82bc-518f1f8b0871'') then 1
      else if portal_validation_anonymous_id (Some ''short'') then 1
      else if portal_validation_anonymous_id (Some ''invalid value'') then 1
      else 0)"

definition test_emails :: int where
  "test_emails =
     (if \<not> portal_validation_email (Some ''ana@example.com'') then 1
      else if portal_validation_email (Some ''missing-at.example.com'') then 1
      else if portal_validation_email (Some ''has space@example.com'') then 1
      else 0)"

definition test_event_types :: int where
  "test_event_types =
     (if \<not> portal_validation_event_type (Some ''component_click'') then 1
      else if portal_validation_event_type (Some ''unknown_event'') then 1
      else 0)"

text \<open>\<^term>\<open>None\<close>: a write outside one of the two buffers.\<close>

definition test_lowercase_copy :: "int option" where
  "test_lowercase_copy =
     (case portal_validation_lowercase_copy (Some (replicate 32 (CHR 0x00))) 32 (Some ''Ana@EXAMPLE.COM'') of
        None \<Rightarrow> None
      | Some (copied, target) \<Rightarrow>
          if \<not> copied then Some 1
          else if map_option c_str target \<noteq> Some ''ana@example.com'' then Some 1
          else (case portal_validation_lowercase_copy (Some (replicate 3 (CHR 0x00))) 3 (Some ''long'') of
              None \<Rightarrow> None
            | Some (copied, too_small) \<Rightarrow> if copied then Some 1 else Some 0))"

definition test_validation_main :: "int option" where
  "test_validation_main =
     (if test_keys \<noteq> 0 \<or> test_anonymous_ids \<noteq> 0 \<or> test_emails \<noteq> 0 \<or> test_event_types \<noteq> 0
      then Some 1
      else map_option (\<lambda>r. if r \<noteq> 0 then 1 else 0) test_lowercase_copy)"

lemma test_keys_pass: "test_keys = 0"
  by code_simp

lemma test_anonymous_ids_pass: "test_anonymous_ids = 0"
  by code_simp

lemma test_emails_pass: "test_emails = 0"
  by code_simp

lemma test_event_types_pass: "test_event_types = 0"
  by code_simp

lemma test_lowercase_copy_pass: "test_lowercase_copy = Some 0"
  by code_simp

lemma validation_tests_pass: "test_validation_main = Some 0"
  by (simp add: test_validation_main_def test_keys_pass test_anonymous_ids_pass test_emails_pass
      test_event_types_pass test_lowercase_copy_pass)

end
