(* ===== verification/Spec2Isabelle.thy ===== *)
theory Spec2Isabelle
  imports Route_Properties Component_Properties Content_Properties Service Validation_Test
begin

text \<open>
  A model of the portal activity API, the HTTP service under \<^verbatim>\<open>src/src/\<close> written in C17 on top of
  libmicrohttpd, json-c and libpq, and the theorems that make it correct.

  \<^bold>\<open>The program and its parts.\<close> \<^verbatim>\<open>main\<close> creates one application, runs it and destroys it. The
  application (\<^verbatim>\<open>app/app.c\<close>) owns three objects: the configuration read from the environment
  (\<^verbatim>\<open>config/config.c\<close>), the database handle (\<^verbatim>\<open>database/database.c\<close>) and the HTTP server
  (\<^verbatim>\<open>http/http.c\<close>), which borrows the other two. libmicrohttpd calls the server's access handler for
  every piece of a request; the handler collects the body (\<^verbatim>\<open>http/request.c\<close>), and at the end the
  dispatcher finds the route, which checks the session (\<^verbatim>\<open>http/authentication.c\<close>) and the input
  (\<^verbatim>\<open>validation/validation.c\<close>), sends a statement with parameters to PostgreSQL and queues a response
  (\<^verbatim>\<open>http/response.c\<close>). The routes are in \<^verbatim>\<open>http/routes/\<close>.

  \<^bold>\<open>How the code is modelled.\<close> A function of the source is a definition of the same name. Pure
  functions are HOL functions. A function with effects is a program of the state monad over
  \<open>world\<close>: the state of everything outside and the trace of what the program did. The libraries and
  the operating system are the record \<open>ext\<close> of arbitrary functions, the first argument of every
  such definition, so a theorem about \<open>emits m K\<close>, which says that every run of \<open>m\<close> appends events
  that satisfy \<open>K\<close>, holds for whatever the libraries do, failures included. A nullable pointer is an
  option; a function that takes the address of a pointer returns its new value; a string is the list
  of the characters before its terminator. Memory, connections, results, responses, the daemon and
  json-c references are counted in the trace, so leaks and double releases show. A write outside a
  buffer and the use of a null pointer are the event \<open>Undefined_Behaviour\<close>, a loop that does not end
  is the event \<open>Endless_Loop\<close>. A \<open>goto cleanup\<close> is the
  rest of the program after the branch that computes the result. The branches of the source are
  branches of the model, in its order.

  \<^bold>\<open>The theories.\<close>
  \<^item> \<open>Prelude\<close>: the functions of the C library the sources call, executable, and the shared lemmas.
  \<^item> \<open>Outside\<close>: \<open>ext\<close>, the events and the observations on traces, the calculus of \<open>emits\<close> and its
    collection \<open>emits_intros\<close>, and one program per library call.
  \<^item> \<open>Validation\<close> (\<^verbatim>\<open>validation/validation.c\<close>): locale \<open>charset_validator\<close>; which strings are
    accepted. \<open>Validation_Test\<close> runs \<^verbatim>\<open>src/tests/test_validation.c\<close> on it.
  \<^item> \<open>Config\<close> (\<^verbatim>\<open>config/config.c\<close>): record \<open>portal_config\<close>; the range of every setting.
  \<^item> \<open>Database\<close> (\<^verbatim>\<open>database/database.c\<close>): records \<open>portal_database\<close> and \<open>database_result\<close>; locale
    \<open>statement_runner\<close>, the contract of a statement that the routes rely on.
  \<^item> \<open>Response\<close> (\<^verbatim>\<open>http/response.c\<close>): locale \<open>responder\<close>; \<open>replies\<close> says what a client gets.
  \<^item> \<open>Statements\<close>: the SQL texts, one constant per literal, their table, and \<open>server_contract\<close>.
  \<^item> \<open>Authentication\<close> (\<^verbatim>\<open>http/authentication.c\<close>): \<open>auth_decision\<close> is its specification.
  \<^item> \<open>Request\<close> (\<^verbatim>\<open>http/request.c\<close>): record \<open>request_body\<close> with the invariant \<open>body_ok\<close>; locale
    \<open>chunk_buffer\<close>, in which an upload does not depend on how it is cut.
  \<^item> \<open>Contracts\<close>: locale \<open>handler\<close>, what every route keeps, and the rule for routes with a session.
  \<^item> \<open>Auth_Routes\<close>, \<open>Favorites\<close>, \<open>Activity\<close>, \<open>Analytics\<close> (\<^verbatim>\<open>http/routes/\<close>): each route, the
    specification of its behaviour (\<open>login_outcome\<close> and the others), the proof that the code meets
    it, and its interpretation of \<open>handler\<close>.
  \<^item> \<open>Server\<close> (\<^verbatim>\<open>http/http.c\<close>): the router, related to the table \<open>endpoint_of\<close>; the life of a request
    as the step relation \<open>request_step\<close> with the invariant \<open>request_inv\<close> and phases that never go
    back; the server object, with the locale \<open>owning_object\<close>.
  \<^item> \<open>Service\<close>: many requests whose calls interleave, as the one polling thread makes them.
  \<^item> \<open>Effects\<close>: locale \<open>effective_handler\<close>, an extension of \<open>handler\<close>: what a success status promises.
  \<^item> \<open>App\<close> (\<^verbatim>\<open>app/app.c\<close>, \<^verbatim>\<open>main.c\<close>): the process, with the wait for a signal and the \<open>_WIN32\<close> branch.
  \<^item> \<open>Reference\<close> and \<open>Execution\<close>: one concrete outside that meets the hypotheses below, and the rules
    by which the simplifier runs the model on it; the examples and the witnesses use them.
  \<^item> \<open>Store\<close> (\<^verbatim>\<open>src/db/init.sql\<close> and the statements of the C sources): the tables as the record \<open>store\<close>,
    and one function \<open>sql_...\<close> per statement, read off its text and the constraints of its tables.
  \<^item> \<open>Backed\<close>: locale \<open>database_server\<close>, an outside whose \<^verbatim>\<open>PQexecParams\<close> executes statements on a store or
    loses the answer; in it, every program of the model changes the tables exactly by the statements
    of its trace (\<open>follows\<close>, \<open>history\<close>).
  \<^item> \<open>Tables\<close> and \<open>Constraints\<close>: every statement lets the tables only evolve (\<open>evolves\<close>) and keeps the
    keys, references and checks of the schema (\<open>store_ok\<close>); a \<open>database_server\<close> meets \<open>server_contract\<close>.
  \<^item> \<open>Accounts\<close>, \<open>Records\<close>, \<open>Refusals\<close>: what the routes do to the tables, answer by answer.
  \<^item> \<open>Portal\<close>: a concrete outside with a store, the interpretation of \<open>database_server\<close>.
  \<^item> \<open>Component_Properties\<close>, \<open>Route_Properties\<close>, \<open>Store_Properties\<close>, \<open>Content_Properties\<close> and this theory:
    the properties, C1 to C40.

  \<^bold>\<open>Hypotheses on the outside.\<close> Few properties need one. \<open>generous\<close>: memory is there and libmicrohttpd
  takes responses. \<open>server_contract\<close>: a successful answer has the columns of its statement, and the
  two statements that always return a row do; the routes read the cells without testing them.
  \<open>result_table_ok\<close>: what libpq documents of its results. \<open>cooperative\<close>: the environment, the
  connection, the signals and the daemon work, for the exit code of success. \<open>database_server\<close>: a
  statement of the program is executed as \<open>Store\<close> says at one moment, on fresh identifiers, and its
  outcome is reported, or the answer is lost and the statement was executed or not; other clients of
  the database and administration of the tables are outside of it. What PostgreSQL computes (casts,
  \<open>lower\<close>, \<open>crypt\<close>, the collation, the text of a time) is arbitrary.

  \<^bold>\<open>Bounds and loops.\<close> \<open>size_t\<close> is 64 bits and \<open>int\<close> 32 bits, as on 64-bit Linux. There is no fuel: the
  loops over strings and rows are structural or have a measure; the doubling of the body's capacity is
  a partial function that would not end from zero, and C34 shows that it ends for every body
  and every chunk the limit of 1 MiB admits.

  \<^bold>\<open>Not modelled.\<close> The columns of the tables that no statement reads (\<^verbatim>\<open>created_at\<close>, \<^verbatim>\<open>updated_at\<close>,
  \<^verbatim>\<open>last_seen_at\<close>, \<^verbatim>\<open>received_at\<close>), the indexes and the actions on deleted users (no statement deletes
  one). The inside of libmicrohttpd, libpq and json-c; that the calls of the handler come from one
  thread and in the order of \<open>request_step\<close> is libmicrohttpd's documented behaviour. The prototypes of
  the public headers, the build files, scripts and documentation.
\<close>

section \<open>Requests\<close>


text \<open>Three requests on the concrete outside: opened and abandoned, answered, and uploading.\<close>

definition opened :: "unit request_state" where
  "opened = \<lparr>phase = Uploading, con_cls = Some new_body, received = [],
     around = \<lparr>outside = (), trace = [Acquired Heap_Block]\<rparr>\<rparr>"


definition answered :: "unit request_state" where
  "answered = opened\<lparr>phase := Answered, around := snd (run_state
     (http_access_handler sample sample_context visitor ''/health'' ''GET'' None 0 (Some new_body))
     (around opened))\<rparr>"

lemma opened_reachable: "request_reachable sample sample_context visitor url meth start_world opened"
proof -
  have "run_state (http_access_handler sample sample_context visitor url meth None 0
      (con_cls (fresh_request start_world))) (around (fresh_request start_world)) =
    ((MHD_YES, 0, Some new_body), \<lparr>outside = (), trace = [Acquired Heap_Block]\<rparr>)"
    by (simp add: fresh_request_def run_simps sample_run cong: later_steps)
  from request_step.open_request [OF _ this]
  have "request_step sample sample_context visitor url meth (fresh_request start_world) opened"
    by (simp add: fresh_request_def opened_def)
  then show ?thesis
    unfolding request_reachable_def by (rule r_into_rtranclp)
qed

lemma reachable_step:
  assumes "request_reachable E ctx connection url meth w s"
    and "request_step E ctx connection url meth s s'"
  shows "request_reachable E ctx connection url meth w s'"
  using assms unfolding request_reachable_def by (rule rtranclp.rtrancl_into_rtrancl)


lemma answered_reachable:
  "request_reachable sample sample_context visitor ''/health'' ''GET'' start_world answered"
proof -
  have "run_state (http_access_handler sample sample_context visitor ''/health'' ''GET'' None 0
      (con_cls opened)) (around opened) = ((MHD_YES, 0, con_cls opened), around answered)"
    by (simp add: answered_def opened_def new_body_def run_simps sample_run cong: later_steps)
  from request_step.finish [OF _ this]
  have "request_step sample sample_context visitor ''/health'' ''GET'' opened answered"
    by (simp add: answered_def opened_def)
  with opened_reachable show ?thesis by (rule reachable_step)
qed


text \<open>
  C2. Every request is answered once. With memory to spare, a request whose last handler call
  happened has exactly one response, and it is 413 when the upload passed 1 MiB; while the upload
  goes on it has none, unless it was refused for its size, and then it has the 413 already. A closed
  request has one at most.
\<close>

theorem answered_exactly_once:
  assumes "connection \<noteq> None" and "request_reachable E ctx connection url meth w s" and "generous E"
  shows "\<exists>es. trace (around s) = trace w @ es \<and>
    (case phase s of
       Fresh \<Rightarrow> responses es = []
     | Uploading \<Rightarrow>
         if response_queued (the (con_cls s)) then \<exists>body. responses es = [(413, body, MHD_YES)]
         else responses es = []
     | Answered \<Rightarrow> \<exists>status body. responses es = [(status, body, MHD_YES)] \<and>
         (1048576 < length (received s) \<longrightarrow> status = 413)
     | Closed \<Rightarrow> length (responses es) \<le> 1)"
  using reachable_inv [OF assms(1,2)] assms(3)
  by (fastforce simp: state_inv_def request_inv_def split: phase.split)

lemma answered_exactly_once_witness:
  "\<exists>es. trace (around answered) = trace start_world @ es \<and>
    (\<exists>status body. responses es = [(status, body, MHD_YES)])"
  using answered_exactly_once [OF present(2) answered_reachable sample_generous]
  by (auto simp: answered_def)

text \<open>
  C3. The handler sees the upload. While a request uploads, the body holds exactly the bytes received
  so far, at most 1 MiB of them; or it was refused, and then the upload passed 1 MiB or memory was
  short.
\<close>

theorem body_is_upload:
  assumes "connection \<noteq> None" and "request_reachable E ctx connection url meth w s"
    and "phase s = Uploading"
  shows "\<exists>b. con_cls s = Some b \<and>
    (if response_queued b then 1048576 < length (received s) \<or> \<not> generous E
     else body_content b = received s \<and> length (received s) \<le> 1048576)"
proof -
  obtain es where "request_inv E Uploading (con_cls s) (received s) es"
    using reachable_inv [OF assms(1,2)] assms(3) by (auto simp: state_inv_def)
  then obtain b where b: "con_cls s = Some b" "body_ok b"
    and content: "if response_queued b
      then generous E \<longrightarrow> (\<exists>body. responses es = [(413, body, MHD_YES)]) \<and> 1048576 < length (received s)
      else responses es = [] \<and> body_content b = received s"
    unfolding request_inv_def by auto
  have "length (body_content b) \<le> 1048576"
    using length_body_content [OF b(2)] body_length_le [OF b(2)] by simp
  with b content show ?thesis by (auto split: if_splits)
qed

definition uploading :: "unit request_state" where
  "uploading = opened\<lparr>received := ''hola'',
     con_cls := snd (snd (fst (run_state (http_access_handler sample sample_context visitor ''/activity''
       ''POST'' (Some ''hola'') 4 (Some new_body)) (around opened)))),
     around := snd (run_state (http_access_handler sample sample_context visitor ''/activity''
       ''POST'' (Some ''hola'') 4 (Some new_body)) (around opened))\<rparr>"

lemma uploading_reachable:
  "request_reachable sample sample_context visitor ''/activity'' ''POST'' start_world uploading"
proof -
  have "grow_capacity 4096 5 = Some 4096" by (simp add: grow_capacity_step)
  then have "run_state (http_access_handler sample sample_context visitor ''/activity'' ''POST''
      (Some ''hola'') (of_nat (length ''hola'')) (con_cls opened)) (around opened) =
    ((MHD_YES, 0, con_cls uploading), around uploading)"
    by (simp add: uploading_def opened_def new_body_def PORTAL_HTTP_MAX_BODY_SIZE_def fill_body_def
        c_memcpy_def c_store_def run_simps sample_run cong: later_steps del: upt_rec_numeral)
  from request_step.upload [OF _ _ _ this]
  have "request_step sample sample_context visitor ''/activity'' ''POST'' opened uploading"
    by (simp add: uploading_def opened_def)
  with opened_reachable show ?thesis by (rule reachable_step)
qed

lemma body_is_upload_witness:
  "\<exists>b. con_cls uploading = Some b \<and> body_content b = ''hola''"
proof -
  have "phase uploading = Uploading" "received uploading = ''hola''"
    by (simp_all add: uploading_def opened_def)
  with body_is_upload [OF present(2) uploading_reachable] sample_generous show ?thesis
    by (auto split: if_splits)
qed










section \<open>Routing\<close>

text \<open>
  C5. The router is a table. Dispatching a request runs the endpoint that the method and the path
  name in one table, after parsing the body where the endpoint takes one and a body is expected; a
  body that is not a JSON object is 400 whatever the path of such an endpoint is.
\<close>

theorem dispatch_follows_table:
  "http_dispatch E ctx connection url meth body = serve E ctx connection url meth body"
  by (rule dispatch_serve)

text \<open>
  C36. Content ids in paths. For every id of 1 to 300 characters, the paths built from it lead to the
  routes for likes and comments with this very id, slashes and all; a longer id is 400 and never
  copied into the buffer of 301 bytes.
\<close>

theorem content_paths:
  assumes "i \<noteq> []" and "CHR 0x00 \<notin> set i"
  shows "http_dispatch_content E ctx connection (''/content/'' @ i @ ''/like'') ''PUT'' json =
      (if length i \<le> 300 then portal_http_route_like E ctx connection ''PUT'' i json
       else portal_http_response_error E connection 400 (Some ''validation_error'') (Some ''Invalid content id.'')) \<and>
    http_dispatch_content E ctx connection (''/content/'' @ i @ ''/like'') ''DELETE'' json =
      (if length i \<le> 300 then portal_http_route_like E ctx connection ''DELETE'' i json
       else portal_http_response_error E connection 400 (Some ''validation_error'') (Some ''Invalid content id.'')) \<and>
    http_dispatch_content E ctx connection (''/content/'' @ i @ ''/comments'') ''POST'' json =
      (if length i \<le> 300 then portal_http_route_comment E ctx connection i json
       else portal_http_response_error E connection 400 (Some ''validation_error'') (Some ''Invalid content id.''))"
proof -
  have suffix: "strip_suffix p (i @ p) = Some i" for p
    using assms(1) by (simp add: strip_suffix_def)
  have path: "drop 9 (''/content/'' @ rest) = rest" for rest by simp
  have like: "content_endpoint meth (i @ ''/like'') = (if length i \<le> 300 then Like i else Long_Content_Id)"
    if "meth = ''PUT'' \<or> meth = ''DELETE''" for meth
    using that by (auto simp: content_endpoint_def suffix c_str_id [OF assms(2)])
  have comment: "content_endpoint ''POST'' (i @ ''/comments'') =
      (if length i \<le> 300 then Comment i else Long_Content_Id)"
    by (simp add: content_endpoint_def suffix c_str_id [OF assms(2)])
  show ?thesis
    unfolding dispatch_content_endpoint path by (simp add: like comment run_endpoint_def)
qed

lemma content_paths_witness:
  "http_dispatch_content sample sample_context visitor ''/content/nota-42/like'' ''PUT'' None =
     portal_http_route_like sample sample_context visitor ''PUT'' ''nota-42'' None"
  using content_paths [of "''nota-42''" sample sample_context visitor None] by simp

fun needs_session :: "endpoint \<Rightarrow> bool" where
  "needs_session Top_Content = True"
| "needs_session (Favorite_List _) = True"
| "needs_session (Favorite_Change _ _) = True"
| "needs_session Logout = True"
| "needs_session _ = False"

lemma protected_without_token:
  assumes "bearer_token connection = None" and "protected E ctx connection granted result es"
  shows "sqls es = [] \<and> replies E connection 401
    (error_body E ''unauthorized'' ''A valid Bearer token is required.'') result es"
  using assms by (auto simp: protected_def auth_decision_def split: if_splits)

text \<open>
  C6. No session, no data. On the routes that need a session (the favourites, the analytics and the
  logout) a request without a well-formed bearer token gets 401 and sends no statement at all,
  whatever its method, path and body are.
\<close>

theorem session_required:
  assumes "connection \<noteq> None" and "bearer_token connection = None"
    and "needs_session (endpoint_of meth url)"
  shows "emits (http_dispatch E ctx connection url meth body) (\<lambda>result es. sqls es = [] \<and>
    replies E connection 401 (error_body E ''unauthorized'' ''A valid Bearer token is required.'') result es)"
proof -
  note rules = emits_top_content emits_favorite_list emits_favorite_change emits_logout
  have "without_body (endpoint_of meth url)"
    using assms(3) by (cases "endpoint_of meth url") auto
  then show ?thesis
    using assms(3) unfolding dispatch_serve serve_def Let_def
    by (cases "endpoint_of meth url")
      (auto simp: run_endpoint_def intro!: rules [OF assms(1)] dest: protected_without_token [OF assms(2)])
qed

lemma session_required_witness:
  "emits (http_dispatch sample sample_context visitor ''/me/favorite-tags/tema'' ''PUT'' new_body)
    (\<lambda>result es. sqls es = [] \<and> responses es =
      [(401, ''error:unauthorized;message:A valid Bearer token is required.;'', MHD_YES)])"
proof -
  have "bearer_token visitor = None"
    by (simp add: bearer_token_def lookup_header_def visitor_def)
  moreover have "needs_session (endpoint_of ''PUT'' ''/me/favorite-tags/tema'')" by code_simp
  ultimately show ?thesis
    by (intro emits_mono [OF session_required [OF present(2)]])
      (auto simp: replies_def error_body_def prints_entries_generous sample_generous full_object_def sample_fields)
qed

text \<open>
  C7. Success means done. A request to an endpoint with a statement checks the session at most once,
  then sends at most one statement of its own, and it is answered with a status below 400 only when
  PostgreSQL reported that statement as done: no client is told that something was stored, removed
  or read when it was not.
\<close>

theorem success_means_done:
  assumes "connection \<noteq> None" and "body_ok body" and "has_statement (endpoint_of meth url)"
  shows "emits (http_dispatch E ctx connection url meth body) (\<lambda>result es.
    \<exists>checks work. sqls es = checks @ work \<and> length checks \<le> 1 \<and>
      list_all (\<lambda>(command, _). command = auth_query) checks \<and> recorded work (responses es))"
  using dispatch_acknowledged [OF assms] by (simp add: acknowledged_def)

text \<open>A session closed on the concrete outside: the check, the statement, and 204.\<close>

lemma success_means_done_witness:
  "emits (http_dispatch sample sample_context signed_in ''/auth/session'' ''DELETE'' new_body)
    (\<lambda>result es. \<exists>checks work. sqls es = checks @ work \<and> length checks \<le> 1 \<and>
      list_all (\<lambda>(command, _). command = auth_query) checks \<and> recorded work (responses es))"
proof -
  have "has_statement (endpoint_of ''DELETE'' ''/auth/session'')" by code_simp
  then show ?thesis
    by (rule success_means_done [OF present(1) body_ok_new])
qed

section \<open>The server and the process\<close>

text \<open>
  The server object. Creating, starting, stopping and destroying it, in this order and whether
  or not the start succeeded, releases the memory and the daemon, and sends nothing.
\<close>

theorem server_lifecycle:
  "emits (do {
      server \<leftarrow> portal_http_server_create E config database;
      (ok, server) \<leftarrow> portal_http_server_start E server;
      server \<leftarrow> portal_http_server_stop E server;
      portal_http_server_destroy E server })
    (\<lambda>server es. server = None \<and> quiet es \<and> (\<forall>k. held k es = 0))"
  by (rule server.lifecycle)


text \<open>
  C38. The process succeeds. When the environment names a database, the connection opens, the signal
  calls and the daemon's start succeed and memory is there, the exit code is the one for success.
\<close>

theorem process_succeeds:
  assumes "cooperative E"
  shows "emits (main E) (\<lambda>status es. status = EXIT_SUCCESS)"
  using assms by (rule emits_main_cooperative)

lemma process_succeeds_witness:
  "cooperative sample \<and> fst (run_state (main sample) start_world) = EXIT_SUCCESS"
proof -
  have "sample_environment ''DATABASE_URL'' = Some ''postgresql://localhost/portal''"
    by code_simp
  then have "cooperative sample"
    by (simp add: cooperative_def sample_generous sample_fields)
  moreover have "emits (main sample) (\<lambda>status es. status = EXIT_SUCCESS)"
    by (rule process_succeeds) fact
  then have "fst (run_state (main sample) start_world) = EXIT_SUCCESS"
    by (auto simp: emits_def)
  ultimately show ?thesis ..
qed

end
